(* ===== verification/Settling_Prelude.thy ===== *)
theory Settling_Prelude
  imports Main "HOL-Library.Char_ord" "HOL-Library.List_Lexorder"
begin

text \<open>
  Shared vocabulary of the development: fact collections, results with errors as values,
  decimal digit strings (JavaScript's \<open>BigInt(s)\<close>, \<open>toString\<close>, \<open>padStart\<close>,
  \<open>padEnd\<close>), and the lookup that every lifecycle table of the repository uses, with
  the locales that state its contract once. JavaScript strings are modelled as lists of
  (8-bit) characters, \<open>bigint\<close> as \<open>int\<close>.
\<close>

section \<open>Fact collections\<close>

named_theorems digit_simps \<open>digit strings and their values\<close>
named_theorems table_simps \<open>the rows of the lifecycle tables\<close>
named_theorems status_defs \<open>closed sets of statuses\<close>

section \<open>Results\<close>

text \<open>A fallible operation returns \<open>Inl\<close> of the error it throws or \<open>Inr\<close> of its value.\<close>

type_synonym ('e, 'a) result = "'e + 'a"

definition bind_result :: "('e, 'a) result \<Rightarrow> ('a \<Rightarrow> ('e, 'b) result) \<Rightarrow> ('e, 'b) result" where
  "bind_result r f = (case r of Inl e \<Rightarrow> Inl e | Inr x \<Rightarrow> f x)"

lemma bind_result_simps [simp]:
  "bind_result (Inl e) f = Inl e"
  "bind_result (Inr x) f = f x"
  by (simp_all add: bind_result_def)

lemma bind_result_Inr: "bind_result r f = Inr y \<longleftrightarrow> (\<exists>x. r = Inr x \<and> f x = Inr y)"
  by (cases r) auto

lemma bind_result_Inl: "bind_result r f = Inl e \<longleftrightarrow> r = Inl e \<or> (\<exists>x. r = Inr x \<and> f x = Inl e)"
  by (cases r) auto

section \<open>Integer division\<close>

text \<open>\<open>bigint\<close> division truncates towards zero; the divisors of the code are positive.\<close>

definition js_div :: "int \<Rightarrow> int \<Rightarrow> int" where
  "js_div a b = (if a \<ge> 0 then a div b else - ((- a) div b))"

section \<open>Decimal digit strings\<close>

definition is_digit :: "char \<Rightarrow> bool" where
  "is_digit c \<longleftrightarrow> CHR ''0'' \<le> c \<and> c \<le> CHR ''9''"

text \<open>On the bits of a character, for evaluation.\<close>

lemma is_digit_code [code]:
  "is_digit (Char b0 b1 b2 b3 b4 b5 b6 b7) \<longleftrightarrow> b4 \<and> b5 \<and> \<not> b6 \<and> \<not> b7 \<and> \<not> (b3 \<and> (b1 \<or> b2))"
  by (cases b0; cases b1; cases b2; cases b3; cases b4; cases b5; cases b6; cases b7)
    (simp_all add: is_digit_def)

definition digit_val :: "char \<Rightarrow> nat" where
  "digit_val c = of_char c - 48"

definition digit_char :: "nat \<Rightarrow> char" where
  "digit_char d = char_of (48 + d)"

text \<open>The value of a digit string, most significant digit first, as \<open>BigInt(s)\<close> reads it.\<close>

definition nat_of_digits :: "string \<Rightarrow> nat" where
  "nat_of_digits s = foldl (\<lambda>n c. 10 * n + digit_val c) 0 s"

text \<open>The decimal digits of a number without leading zeros, as \<open>toString\<close> prints them.\<close>

fun digits_of_nat :: "nat \<Rightarrow> string" where
  "digits_of_nat n =
     (if n < 10 then [digit_char n] else digits_of_nat (n div 10) @ [digit_char (n mod 10)])"

declare digits_of_nat.simps [simp del]

definition string_of_int :: "int \<Rightarrow> string" where
  "string_of_int i = (if i < 0 then CHR ''-'' # digits_of_nat (nat (- i)) else digits_of_nat (nat i))"

definition pad_start :: "nat \<Rightarrow> char \<Rightarrow> string \<Rightarrow> string" where
  "pad_start n c s = replicate (n - length s) c @ s"

definition pad_end :: "nat \<Rightarrow> char \<Rightarrow> string \<Rightarrow> string" where
  "pad_end n c s = s @ replicate (n - length s) c"

text \<open>\<open>s.slice(0, -k)\<close> and \<open>s.slice(-k)\<close> for \<open>k > 0\<close>.\<close>

definition slice_front :: "nat \<Rightarrow> string \<Rightarrow> string" where
  "slice_front k s = take (length s - k) s"

definition slice_back :: "nat \<Rightarrow> string \<Rightarrow> string" where
  "slice_back k s = drop (length s - k) s"

lemma slice_front_back: "slice_front k s @ slice_back k s = s"
  by (simp add: slice_front_def slice_back_def)

lemma of_char_digit_char [digit_simps]: "d < 10 \<Longrightarrow> of_char (digit_char d) = 48 + d"
  by (simp add: digit_char_def)

lemma digit_val_char [digit_simps]: "d < 10 \<Longrightarrow> digit_val (digit_char d) = d"
  by (simp add: digit_val_def of_char_digit_char)

lemma is_digit_of_char: "is_digit c \<longleftrightarrow> 48 \<le> (of_char c :: nat) \<and> (of_char c :: nat) \<le> 57"
  by (simp add: is_digit_def less_eq_char_def)

lemma is_digit_digit_char [digit_simps]: "d < 10 \<Longrightarrow> is_digit (digit_char d)"
  by (simp add: is_digit_of_char of_char_digit_char)

lemma digit_val_lt: "is_digit c \<Longrightarrow> digit_val c < 10"
  by (auto simp: is_digit_of_char digit_val_def)

lemma nat_of_digits_Nil [digit_simps]: "nat_of_digits [] = 0"
  by (simp add: nat_of_digits_def)

lemma nat_of_digits_snoc [digit_simps]: "nat_of_digits (s @ [c]) = 10 * nat_of_digits s + digit_val c"
  by (simp add: nat_of_digits_def)

lemma nat_of_digits_append:
  "nat_of_digits (s @ t) = nat_of_digits s * 10 ^ length t + nat_of_digits t"
proof (induction t rule: rev_induct)
  case Nil
  then show ?case by (simp add: digit_simps)
next
  case (snoc c t)
  have "nat_of_digits (s @ t @ [c]) = 10 * nat_of_digits (s @ t) + digit_val c"
    using nat_of_digits_snoc [of "s @ t" c] by simp
  with snoc.IH show ?case by (simp add: digit_simps algebra_simps)
qed

lemma nat_of_digits_zeros [digit_simps]: "nat_of_digits (replicate k (CHR ''0'')) = 0"
proof (induction k)
  case (Suc k)
  have "replicate (Suc k) (CHR ''0'') = replicate k (CHR ''0'') @ [CHR ''0'']"
    by (simp add: replicate_append_same)
  with Suc show ?case by (simp add: nat_of_digits_snoc digit_val_def)
qed (simp add: digit_simps)

lemma nat_of_digits_pad_start [digit_simps]:
  "nat_of_digits (pad_start n (CHR ''0'') s) = nat_of_digits s"
  by (simp add: pad_start_def nat_of_digits_append nat_of_digits_zeros)

lemma nat_of_digits_pad_end:
  "nat_of_digits (pad_end n (CHR ''0'') s) = nat_of_digits s * 10 ^ (n - length s)"
  by (simp add: pad_end_def nat_of_digits_append nat_of_digits_zeros)

lemma nat_of_digits_of_nat [digit_simps]: "nat_of_digits (digits_of_nat n) = n"
proof (induction n rule: digits_of_nat.induct)
  case (1 n)
  show ?case
  proof (cases "n < 10")
    case True
    then show ?thesis
      using nat_of_digits_snoc [of "[]" "digit_char n"]
      by (simp add: digits_of_nat.simps [of n] digit_simps)
  next
    case False
    then show ?thesis
      using "1.IH" by (simp add: digits_of_nat.simps [of n] digit_simps)
  qed
qed

lemma digits_of_nat_digits [digit_simps]: "list_all is_digit (digits_of_nat n)"
proof (induction n rule: digits_of_nat.induct)
  case (1 n)
  then show ?case
    by (cases "n < 10") (simp_all add: digits_of_nat.simps [of n] digit_simps)
qed

lemma digits_of_nat_nonempty [digit_simps]: "digits_of_nat n \<noteq> []"
  by (subst digits_of_nat.simps) simp

lemma digits_of_nat_inj: "digits_of_nat m = digits_of_nat n \<longleftrightarrow> m = n"
  by (metis nat_of_digits_of_nat)

lemma nat_of_digits_lt: "list_all is_digit s \<Longrightarrow> nat_of_digits s < 10 ^ length s"
proof (induction s rule: rev_induct)
  case Nil
  then show ?case by (simp add: digit_simps)
next
  case (snoc c s)
  then have "nat_of_digits s + 1 \<le> 10 ^ length s" "digit_val c < 10"
    by (simp_all add: digit_val_lt)
  then show ?case by (simp add: digit_simps)
qed

lemma is_digit_zero [simp]: "is_digit (CHR ''0'')"
  by (simp add: is_digit_def)

lemma is_digit_not [simp]:
  "\<not> is_digit (CHR ''-'')" "\<not> is_digit (CHR '','')" "\<not> is_digit (CHR ''.'')" "\<not> is_digit (CHR '':'')"
  "\<not> is_digit (CHR '' '')"
  by (simp_all add: is_digit_of_char)

lemma split_at_non_digit:
  "list_all is_digit w \<Longrightarrow> \<not> is_digit c \<Longrightarrow>
     takeWhile is_digit (w @ c # r) = w \<and> dropWhile is_digit (w @ c # r) = c # r"
  by (induction w) auto

lemma split_at_char:
  "c \<notin> set w \<Longrightarrow> takeWhile (\<lambda>x. x \<noteq> c) (w @ c # r) = w \<and> dropWhile (\<lambda>x. x \<noteq> c) (w @ c # r) = c # r"
  by (induction w) auto

lemma string_of_int_inj: "string_of_int i = string_of_int j \<longleftrightarrow> i = j"
proof
  assume eq: "string_of_int i = string_of_int j"
  have minus: "digits_of_nat n \<noteq> CHR ''-'' # s" for n s
    using digits_of_nat_digits [of n] by auto
  from eq show "i = j"
    by (auto simp: string_of_int_def digits_of_nat_inj minus minus [symmetric] split: if_splits)
qed simp

end
