(* ===== verification/Lifecycle.thy ===== *)
theory Lifecycle
  imports Settling_Prelude
begin

text \<open>
  Every aggregate of the repository has its lifecycle as a table of rows, each with the statuses
  it leaves from (\<open>from\<close>, empty for creation), its \<open>trigger\<close> and its destination, and
  evaluates a request by the same search
  \<open>t.trigger === trigger && (from === null ? t.from.length === 0 : t.from.includes(from))\<close>.
  The search is defined here once. The locale \<open>trigger_table\<close> is the contract of such a table
  (one row per trigger, no row out of a terminal status); \<open>lifecycle_table\<close> adds the fixed
  destination and the runs of the machine. Each component interprets them on its own table.
\<close>

section \<open>The search\<close>

definition row_accepts :: "('r \<Rightarrow> 's list) \<Rightarrow> 'r \<Rightarrow> 's option \<Rightarrow> bool" where
  "row_accepts src r from = (case from of None \<Rightarrow> src r = [] | Some s \<Rightarrow> s \<in> set (src r))"

definition find_row ::
    "('r \<Rightarrow> 't) \<Rightarrow> ('r \<Rightarrow> 's list) \<Rightarrow> 'r list \<Rightarrow> 's option \<Rightarrow> 't \<Rightarrow> 'r option" where
  "find_row trg src rows from t = List.find (\<lambda>r. trg r = t \<and> row_accepts src r from) rows"

definition candidate_rows ::
    "('r \<Rightarrow> 't) \<Rightarrow> ('r \<Rightarrow> 's list) \<Rightarrow> 'r list \<Rightarrow> 's option \<Rightarrow> 't \<Rightarrow> 'r list" where
  "candidate_rows trg src rows from t = filter (\<lambda>r. trg r = t \<and> row_accepts src r from) rows"

text \<open>A run applies triggers one after the other and stops at the first one the table refuses.\<close>

fun run_table ::
    "('r \<Rightarrow> 't) \<Rightarrow> ('r \<Rightarrow> 's list) \<Rightarrow> ('r \<Rightarrow> 's) \<Rightarrow> 'r list \<Rightarrow> 's \<Rightarrow> 't list \<Rightarrow> 's option" where
  "run_table trg src dst rows s [] = Some s"
| "run_table trg src dst rows s (t # ts) =
     (case find_row trg src rows (Some s) t of
        None \<Rightarrow> None
      | Some r \<Rightarrow> run_table trg src dst rows (dst r) ts)"

lemma find_row_Some:
  "find_row trg src rows from t = Some r \<Longrightarrow> r \<in> set rows \<and> trg r = t \<and> row_accepts src r from"
  by (auto simp: find_row_def find_Some_iff)

lemma find_row_None:
  "find_row trg src rows from t = None \<longleftrightarrow> (\<forall>r\<in>set rows. trg r = t \<longrightarrow> \<not> row_accepts src r from)"
  by (auto simp: find_row_def find_None_iff)

lemma find_row_hd:
  "find_row trg src rows from t =
     (case candidate_rows trg src rows from t of [] \<Rightarrow> None | r # _ \<Rightarrow> Some r)"
  by (induction rows) (auto simp: find_row_def candidate_rows_def)

section \<open>The contract of a table\<close>

locale trigger_table =
  fixes trg :: "'r \<Rightarrow> 't" and src :: "'r \<Rightarrow> 's list" and rows :: "'r list" and terminal :: "'s \<Rightarrow> bool"
  assumes one_row_per_trigger: "distinct (map trg rows)"
    and terminal_has_no_exit: "r \<in> set rows \<Longrightarrow> s \<in> set (src r) \<Longrightarrow> \<not> terminal s"
begin

lemma same_trigger_same_row: "r \<in> set rows \<Longrightarrow> r' \<in> set rows \<Longrightarrow> trg r = trg r' \<Longrightarrow> r = r'"
  using one_row_per_trigger by (auto simp: distinct_map inj_on_def)

text \<open>The search is exact: it finds a row if and only if the row is a legal one.\<close>

lemma find_row_iff:
  "find_row trg src rows from t = Some r \<longleftrightarrow> r \<in> set rows \<and> trg r = t \<and> row_accepts src r from"
proof
  assume "find_row trg src rows from t = Some r"
  then show "r \<in> set rows \<and> trg r = t \<and> row_accepts src r from"
    by (rule find_row_Some)
next
  assume r: "r \<in> set rows \<and> trg r = t \<and> row_accepts src r from"
  then obtain r' where r': "find_row trg src rows from t = Some r'"
    by (metis find_row_None option.exhaust)
  with r have "r' = r"
    by (metis find_row_Some same_trigger_same_row)
  with r' show "find_row trg src rows from t = Some r" by simp
qed

text \<open>No pair of a status and a trigger is ambiguous: there is never a second candidate.\<close>

lemma candidates_unambiguous:
  "candidate_rows trg src rows from t =
     (case find_row trg src rows from t of None \<Rightarrow> [] | Some r \<Rightarrow> [r])"
proof -
  have "distinct (map trg (candidate_rows trg src rows from t))"
    using one_row_per_trigger by (simp add: candidate_rows_def distinct_map_filter)
  moreover have "\<forall>r\<in>set (candidate_rows trg src rows from t). trg r = t"
    by (simp add: candidate_rows_def)
  ultimately have "length (candidate_rows trg src rows from t) \<le> 1"
    by (cases "candidate_rows trg src rows from t" rule: remdups_adj.cases) auto
  then show ?thesis
    by (cases "candidate_rows trg src rows from t")
      (auto simp: find_row_hd)
qed

lemma terminal_refuses: "terminal s \<Longrightarrow> find_row trg src rows (Some s) t = None"
  by (auto simp: find_row_None row_accepts_def dest: terminal_has_no_exit)

lemma creation_only_from_nothing:
  "find_row trg src rows None t = Some r \<Longrightarrow> find_row trg src rows (Some s) t = None"
  using find_row_None [of trg src rows "Some s" t] find_row_Some [of trg src rows None t r]
  by (auto simp: row_accepts_def dest: same_trigger_same_row)

end

locale lifecycle_table = trigger_table trg src rows terminal
  for trg :: "'r \<Rightarrow> 't" and src :: "'r \<Rightarrow> 's list" and rows :: "'r list" and terminal :: "'s \<Rightarrow> bool" +
  fixes dst :: "'r \<Rightarrow> 's"
begin

lemma terminal_run: "terminal s \<Longrightarrow> run_table trg src dst rows s ts = Some s' \<longleftrightarrow> ts = [] \<and> s' = s"
  by (cases ts) (auto simp: terminal_refuses)

text \<open>A set of statuses that every row keeps is kept by every run.\<close>

lemma run_closed:
  assumes "run_table trg src dst rows s ts = Some s'" and "P s"
    and "\<And>r s. r \<in> set rows \<Longrightarrow> s \<in> set (src r) \<Longrightarrow> P s \<Longrightarrow> P (dst r)"
  shows "P s'"
  using assms(1,2)
proof (induction ts arbitrary: s)
  case (Cons t ts)
  then obtain r where r: "find_row trg src rows (Some s) t = Some r"
    and run: "run_table trg src dst rows (dst r) ts = Some s'"
    by (auto split: option.splits)
  from r have "r \<in> set rows" "s \<in> set (src r)"
    by (auto dest: find_row_Some simp: row_accepts_def)
  with Cons.prems(2) have "P (dst r)" by (rule assms(3) [rotated 2])
  with run show ?case by (rule Cons.IH)
qed simp

lemma run_append:
  "run_table trg src dst rows s (ts @ us) =
     (case run_table trg src dst rows s ts of
        None \<Rightarrow> None | Some s' \<Rightarrow> run_table trg src dst rows s' us)"
  by (induction ts arbitrary: s) (auto split: option.splits)

end

end
