(* ===== verification/Settlement_Table.thy ===== *)
theory Settlement_Table
  imports Lifecycle
begin

text \<open>
  \<open>packages/domain/src/settlements/status.ts\<close> and \<open>transitions.ts\<close>: the seventeen statuses,
  the event vocabulary and the table T01-T30 row by row. The constructors are the source's string literals;
  triggers, guards, status events and companion events carry the prefixes \<open>T_\<close>, \<open>G_\<close>, \<open>E_\<close>
  and \<open>C_\<close>. A guard context is \<open>Partial<Record<Guard, boolean>>\<close>, a function to
  \<open>bool option\<close>. An absent \<open>companionChoice\<close> or \<open>deferredCompanions\<close> is the empty list,
  which is how every use of them reads it.
\<close>

section \<open>Statuses and events\<close>

datatype settlement_status =
    DRAFT | PREFLIGHTING | ACTION_REQUIRED | READY | QUOTED | AUTHORIZED
  | LIQUIDITY_RESERVING | LIQUIDITY_RESERVED | DRAWDOWN_REQUESTED | DRAWDOWN_CONFIRMED | PAYOUT_SUBMITTED | PAYOUT_CONFIRMED
  | RECONCILING | EXCEPTION | SETTLED | FAILED | CANCELLED

definition SETTLEMENT_STATUSES :: "settlement_status list" where
  "SETTLEMENT_STATUSES =
     [DRAFT, PREFLIGHTING, ACTION_REQUIRED, READY, QUOTED, AUTHORIZED, LIQUIDITY_RESERVING,
      LIQUIDITY_RESERVED, DRAWDOWN_REQUESTED, DRAWDOWN_CONFIRMED, PAYOUT_SUBMITTED,
      PAYOUT_CONFIRMED, RECONCILING, EXCEPTION, SETTLED, FAILED, CANCELLED]"

lemma SETTLEMENT_STATUSES_complete: "s \<in> set SETTLEMENT_STATUSES"
  by (cases s) (simp_all add: SETTLEMENT_STATUSES_def)

definition TERMINAL_STATUSES :: "settlement_status list" where
  "TERMINAL_STATUSES = [SETTLED, FAILED, CANCELLED]"

definition isTerminal :: "settlement_status \<Rightarrow> bool" where
  "isTerminal s = (s \<in> set TERMINAL_STATUSES)"

lemma isTerminal_simps [simp]: "isTerminal s \<longleftrightarrow> s = SETTLED \<or> s = FAILED \<or> s = CANCELLED"
  by (simp add: isTerminal_def TERMINAL_STATUSES_def)

datatype status_event =
    E_settlement_created | E_settlement_preflight_started | E_settlement_ready
  | E_settlement_action_required | E_settlement_quoted | E_settlement_authorized
  | E_settlement_liquidity_reservation_started | E_settlement_liquidity_reserved
  | E_settlement_drawdown_requested | E_settlement_drawdown_confirmed
  | E_settlement_payout_submitted | E_settlement_payout_confirmed
  | E_settlement_reconciliation_started | E_settlement_settled | E_settlement_exception_opened
  | E_settlement_exception_resolved | E_settlement_failed | E_settlement_cancelled
datatype companion_event =
    C_settlement_preflight_completed | C_settlement_cancellation_requested
  | C_settlement_replacement_created | C_quote_locked | C_quote_consumed | C_quote_expired
  | C_quote_voided | C_facility_reservation_created | C_facility_reservation_released
  | C_facility_reservation_expired | C_facility_drawdown_confirmed
  | C_facility_repayment_requested | C_settlement_reconciled | C_receipt_available
datatype customer_status = CS_READY | CS_SETTLING | CS_SETTLED | CS_ACTION_REQUIRED | CS_CANCELLED

section \<open>Triggers, guards and rows\<close>

datatype transition_id =
    T01 | T02 | T03 | T04 | T05 | T06 | T07 | T08 | T09 | T10
  | T11 | T12 | T13 | T14 | T15 | T16 | T17 | T18 | T19 | T20
  | T21 | T22 | T23 | T24 | T25 | T26 | T27 | T28 | T29 | T30

datatype trigger =
    T_create | T_run_preflight | T_preflight_passed | T_preflight_blocked
  | T_requirement_resolved | T_attach_quote | T_quote_expired | T_authorize
  | T_begin_reservation | T_reservation_succeeded | T_reservation_failed | T_request_drawdown
  | T_drawdown_confirmed | T_drawdown_failed | T_dispatch_payout | T_payout_credited
  | T_payout_rejected | T_payout_timeout | T_begin_reconciliation | T_reconciled_matched
  | T_reconciled_mismatch | T_resolve_resume | T_resolve_fail | T_resolve_cancel | T_cancel
  | T_request_cancellation | T_cancellation_honoured | T_reservation_expired
  | T_drawdown_timeout | T_reconciliation_stalled
datatype guard =
    G_workspace_active | G_environment_valid | G_beneficiary_amount_purpose_present
  | G_no_blocking_requirements | G_has_blocking_requirements | G_requirement_changed
  | G_quote_attachable | G_quote_expired_by_server_clock | G_quote_valid_for_authorization
  | G_beneficiary_verified | G_destination_version_verified | G_actor_may_authorize
  | G_preflight_still_passing | G_active_liquidity_facility | G_no_cancellation_pending
  | G_facility_active | G_sufficient_availability | G_active_reservation_exists
  | G_provider_event_verified | G_rail_selected | G_before_point_of_no_return
  | G_utr_present_and_well_formed | G_trusted_provider_event | G_rail_sla_elapsed
  | G_finality_conditions_met | G_non_zero_delta | G_resolution_attributed
  | G_no_value_delivered | G_actor_may_cancel | G_cancellation_pending | G_at_checkpoint
  | G_reservation_ttl_reached | G_drawdown_sla_elapsed | G_reconciliation_sla_elapsed
definition LATER_STAGE_GUARDS :: "guard list" where
  "LATER_STAGE_GUARDS =
     [G_active_liquidity_facility, G_facility_active, G_sufficient_availability,
      G_active_reservation_exists, G_provider_event_verified, G_rail_selected,
      G_utr_present_and_well_formed, G_trusted_provider_event, G_rail_sla_elapsed,
      G_finality_conditions_met, G_non_zero_delta, G_reservation_ttl_reached,
      G_drawdown_sla_elapsed, G_reconciliation_sla_elapsed]"

datatype stage = Stage_4 | Stage_5 | Stage_6

record deferred_companion =
  dc_ref :: string
  dc_aggregate :: string
  dc_owedBy :: stage

record transition =
  tr_id :: transition_id
  tr_from :: "settlement_status list"
  tr_trigger :: trigger
  tr_to :: "settlement_status option"
  tr_guards :: "guard list"
  tr_statusEvent :: "status_event option"
  tr_companionEvents :: "companion_event list"
  tr_companionChoice :: "companion_event list"
  tr_deferredCompanions :: "deferred_companion list"

definition deferred_R04 :: deferred_companion where
  "deferred_R04 = \<lparr>dc_ref = ''R04'', dc_aggregate = ''Reconciliation'', dc_owedBy = Stage_6\<rparr>"

section \<open>The table\<close>

definition row_T01 :: transition where
  "row_T01 =
     \<lparr>tr_id = T01,
      tr_from = [],
      tr_trigger = T_create,
      tr_to = Some DRAFT,
      tr_guards = [G_workspace_active, G_environment_valid],
      tr_statusEvent = Some E_settlement_created,
      tr_companionEvents = [],
      tr_companionChoice = [],
      tr_deferredCompanions = []\<rparr>"

definition row_T02 :: transition where
  "row_T02 =
     \<lparr>tr_id = T02,
      tr_from = [DRAFT],
      tr_trigger = T_run_preflight,
      tr_to = Some PREFLIGHTING,
      tr_guards = [G_beneficiary_amount_purpose_present],
      tr_statusEvent = Some E_settlement_preflight_started,
      tr_companionEvents = [],
      tr_companionChoice = [],
      tr_deferredCompanions = []\<rparr>"

definition row_T03 :: transition where
  "row_T03 =
     \<lparr>tr_id = T03,
      tr_from = [PREFLIGHTING],
      tr_trigger = T_preflight_passed,
      tr_to = Some READY,
      tr_guards = [G_no_blocking_requirements],
      tr_statusEvent = Some E_settlement_ready,
      tr_companionEvents = [C_settlement_preflight_completed],
      tr_companionChoice = [],
      tr_deferredCompanions = []\<rparr>"

definition row_T04 :: transition where
  "row_T04 =
     \<lparr>tr_id = T04,
      tr_from = [PREFLIGHTING],
      tr_trigger = T_preflight_blocked,
      tr_to = Some ACTION_REQUIRED,
      tr_guards = [G_has_blocking_requirements],
      tr_statusEvent = Some E_settlement_action_required,
      tr_companionEvents = [C_settlement_preflight_completed],
      tr_companionChoice = [],
      tr_deferredCompanions = []\<rparr>"

definition row_T05 :: transition where
  "row_T05 =
     \<lparr>tr_id = T05,
      tr_from = [ACTION_REQUIRED],
      tr_trigger = T_requirement_resolved,
      tr_to = Some PREFLIGHTING,
      tr_guards = [G_requirement_changed],
      tr_statusEvent = Some E_settlement_preflight_started,
      tr_companionEvents = [],
      tr_companionChoice = [],
      tr_deferredCompanions = []\<rparr>"

definition row_T06 :: transition where
  "row_T06 =
     \<lparr>tr_id = T06,
      tr_from = [READY],
      tr_trigger = T_attach_quote,
      tr_to = Some QUOTED,
      tr_guards = [G_quote_attachable],
      tr_statusEvent = Some E_settlement_quoted,
      tr_companionEvents = [C_quote_locked],
      tr_companionChoice = [],
      tr_deferredCompanions = []\<rparr>"

definition row_T07 :: transition where
  "row_T07 =
     \<lparr>tr_id = T07,
      tr_from = [QUOTED],
      tr_trigger = T_quote_expired,
      tr_to = Some READY,
      tr_guards = [G_quote_expired_by_server_clock],
      tr_statusEvent = Some E_settlement_ready,
      tr_companionEvents = [C_quote_expired],
      tr_companionChoice = [],
      tr_deferredCompanions = []\<rparr>"

definition row_T08 :: transition where
  "row_T08 =
     \<lparr>tr_id = T08,
      tr_from = [QUOTED],
      tr_trigger = T_authorize,
      tr_to = Some AUTHORIZED,
      tr_guards = [G_quote_valid_for_authorization, G_beneficiary_verified,
                  G_destination_version_verified, G_actor_may_authorize,
                  G_preflight_still_passing, G_active_liquidity_facility],
      tr_statusEvent = Some E_settlement_authorized,
      tr_companionEvents = [C_quote_consumed],
      tr_companionChoice = [],
      tr_deferredCompanions = []\<rparr>"

definition row_T09 :: transition where
  "row_T09 =
     \<lparr>tr_id = T09,
      tr_from = [AUTHORIZED],
      tr_trigger = T_begin_reservation,
      tr_to = Some LIQUIDITY_RESERVING,
      tr_guards = [G_facility_active, G_no_cancellation_pending],
      tr_statusEvent = Some E_settlement_liquidity_reservation_started,
      tr_companionEvents = [],
      tr_companionChoice = [],
      tr_deferredCompanions = []\<rparr>"

definition row_T10 :: transition where
  "row_T10 =
     \<lparr>tr_id = T10,
      tr_from = [LIQUIDITY_RESERVING],
      tr_trigger = T_reservation_succeeded,
      tr_to = Some LIQUIDITY_RESERVED,
      tr_guards = [G_sufficient_availability],
      tr_statusEvent = Some E_settlement_liquidity_reserved,
      tr_companionEvents = [C_facility_reservation_created],
      tr_companionChoice = [],
      tr_deferredCompanions = []\<rparr>"

definition row_T11 :: transition where
  "row_T11 =
     \<lparr>tr_id = T11,
      tr_from = [LIQUIDITY_RESERVING],
      tr_trigger = T_reservation_failed,
      tr_to = Some EXCEPTION,
      tr_guards = [],
      tr_statusEvent = Some E_settlement_exception_opened,
      tr_companionEvents = [],
      tr_companionChoice = [],
      tr_deferredCompanions = []\<rparr>"

definition row_T12 :: transition where
  "row_T12 =
     \<lparr>tr_id = T12,
      tr_from = [LIQUIDITY_RESERVED],
      tr_trigger = T_request_drawdown,
      tr_to = Some DRAWDOWN_REQUESTED,
      tr_guards = [G_active_reservation_exists, G_no_cancellation_pending],
      tr_statusEvent = Some E_settlement_drawdown_requested,
      tr_companionEvents = [],
      tr_companionChoice = [],
      tr_deferredCompanions = []\<rparr>"

definition row_T13 :: transition where
  "row_T13 =
     \<lparr>tr_id = T13,
      tr_from = [DRAWDOWN_REQUESTED],
      tr_trigger = T_drawdown_confirmed,
      tr_to = Some DRAWDOWN_CONFIRMED,
      tr_guards = [G_provider_event_verified],
      tr_statusEvent = Some E_settlement_drawdown_confirmed,
      tr_companionEvents = [C_facility_drawdown_confirmed],
      tr_companionChoice = [],
      tr_deferredCompanions = []\<rparr>"

definition row_T14 :: transition where
  "row_T14 =
     \<lparr>tr_id = T14,
      tr_from = [DRAWDOWN_REQUESTED],
      tr_trigger = T_drawdown_failed,
      tr_to = Some EXCEPTION,
      tr_guards = [G_provider_event_verified],
      tr_statusEvent = Some E_settlement_exception_opened,
      tr_companionEvents = [C_facility_reservation_released],
      tr_companionChoice = [],
      tr_deferredCompanions = []\<rparr>"

definition row_T15 :: transition where
  "row_T15 =
     \<lparr>tr_id = T15,
      tr_from = [DRAWDOWN_CONFIRMED],
      tr_trigger = T_dispatch_payout,
      tr_to = Some PAYOUT_SUBMITTED,
      tr_guards = [G_rail_selected, G_destination_version_verified,
                  G_no_cancellation_pending, G_before_point_of_no_return],
      tr_statusEvent = Some E_settlement_payout_submitted,
      tr_companionEvents = [],
      tr_companionChoice = [],
      tr_deferredCompanions = []\<rparr>"

definition row_T16 :: transition where
  "row_T16 =
     \<lparr>tr_id = T16,
      tr_from = [PAYOUT_SUBMITTED],
      tr_trigger = T_payout_credited,
      tr_to = Some PAYOUT_CONFIRMED,
      tr_guards = [G_trusted_provider_event, G_utr_present_and_well_formed],
      tr_statusEvent = Some E_settlement_payout_confirmed,
      tr_companionEvents = [],
      tr_companionChoice = [],
      tr_deferredCompanions = []\<rparr>"

definition row_T17 :: transition where
  "row_T17 =
     \<lparr>tr_id = T17,
      tr_from = [PAYOUT_SUBMITTED],
      tr_trigger = T_payout_rejected,
      tr_to = Some EXCEPTION,
      tr_guards = [G_trusted_provider_event],
      tr_statusEvent = Some E_settlement_exception_opened,
      tr_companionEvents = [],
      tr_companionChoice = [],
      tr_deferredCompanions = []\<rparr>"

definition row_T18 :: transition where
  "row_T18 =
     \<lparr>tr_id = T18,
      tr_from = [PAYOUT_SUBMITTED],
      tr_trigger = T_payout_timeout,
      tr_to = Some EXCEPTION,
      tr_guards = [G_rail_sla_elapsed],
      tr_statusEvent = Some E_settlement_exception_opened,
      tr_companionEvents = [],
      tr_companionChoice = [],
      tr_deferredCompanions = []\<rparr>"

definition row_T19 :: transition where
  "row_T19 =
     \<lparr>tr_id = T19,
      tr_from = [PAYOUT_CONFIRMED],
      tr_trigger = T_begin_reconciliation,
      tr_to = Some RECONCILING,
      tr_guards = [],
      tr_statusEvent = Some E_settlement_reconciliation_started,
      tr_companionEvents = [],
      tr_companionChoice = [],
      tr_deferredCompanions = []\<rparr>"

definition row_T20 :: transition where
  "row_T20 =
     \<lparr>tr_id = T20,
      tr_from = [RECONCILING],
      tr_trigger = T_reconciled_matched,
      tr_to = Some SETTLED,
      tr_guards = [G_finality_conditions_met],
      tr_statusEvent = Some E_settlement_settled,
      tr_companionEvents = [C_settlement_reconciled, C_receipt_available],
      tr_companionChoice = [],
      tr_deferredCompanions = []\<rparr>"

definition row_T21 :: transition where
  "row_T21 =
     \<lparr>tr_id = T21,
      tr_from = [RECONCILING],
      tr_trigger = T_reconciled_mismatch,
      tr_to = Some EXCEPTION,
      tr_guards = [G_non_zero_delta],
      tr_statusEvent = Some E_settlement_exception_opened,
      tr_companionEvents = [C_settlement_reconciled],
      tr_companionChoice = [],
      tr_deferredCompanions = []\<rparr>"

definition row_T22 :: transition where
  "row_T22 =
     \<lparr>tr_id = T22,
      tr_from = [EXCEPTION],
      tr_trigger = T_resolve_resume,
      tr_to = None,
      tr_guards = [G_resolution_attributed],
      tr_statusEvent = Some E_settlement_exception_resolved,
      tr_companionEvents = [],
      tr_companionChoice = [],
      tr_deferredCompanions = []\<rparr>"

definition row_T23 :: transition where
  "row_T23 =
     \<lparr>tr_id = T23,
      tr_from = [EXCEPTION],
      tr_trigger = T_resolve_fail,
      tr_to = Some FAILED,
      tr_guards = [G_resolution_attributed, G_no_value_delivered],
      tr_statusEvent = Some E_settlement_failed,
      tr_companionEvents = [],
      tr_companionChoice = [C_facility_reservation_released, C_facility_repayment_requested],
      tr_deferredCompanions = []\<rparr>"

definition row_T24 :: transition where
  "row_T24 =
     \<lparr>tr_id = T24,
      tr_from = [EXCEPTION],
      tr_trigger = T_resolve_cancel,
      tr_to = Some CANCELLED,
      tr_guards = [G_resolution_attributed, G_before_point_of_no_return],
      tr_statusEvent = Some E_settlement_cancelled,
      tr_companionEvents = [],
      tr_companionChoice = [C_facility_reservation_released, C_facility_repayment_requested],
      tr_deferredCompanions = []\<rparr>"

definition row_T25 :: transition where
  "row_T25 =
     \<lparr>tr_id = T25,
      tr_from = [DRAFT, READY, QUOTED, ACTION_REQUIRED],
      tr_trigger = T_cancel,
      tr_to = Some CANCELLED,
      tr_guards = [G_actor_may_cancel],
      tr_statusEvent = Some E_settlement_cancelled,
      tr_companionEvents = [],
      tr_companionChoice = [C_quote_expired],
      tr_deferredCompanions = []\<rparr>"

definition row_T26 :: transition where
  "row_T26 =
     \<lparr>tr_id = T26,
      tr_from = [AUTHORIZED, LIQUIDITY_RESERVING, LIQUIDITY_RESERVED,
                DRAWDOWN_REQUESTED, DRAWDOWN_CONFIRMED],
      tr_trigger = T_request_cancellation,
      tr_to = None,
      tr_guards = [G_before_point_of_no_return, G_actor_may_cancel],
      tr_statusEvent = None,
      tr_companionEvents = [C_settlement_cancellation_requested],
      tr_companionChoice = [],
      tr_deferredCompanions = []\<rparr>"

definition row_T27 :: transition where
  "row_T27 =
     \<lparr>tr_id = T27,
      tr_from = [AUTHORIZED, LIQUIDITY_RESERVED, DRAWDOWN_CONFIRMED],
      tr_trigger = T_cancellation_honoured,
      tr_to = Some CANCELLED,
      tr_guards = [G_cancellation_pending, G_at_checkpoint, G_before_point_of_no_return],
      tr_statusEvent = Some E_settlement_cancelled,
      tr_companionEvents = [],
      tr_companionChoice = [C_facility_reservation_released, C_facility_repayment_requested],
      tr_deferredCompanions = []\<rparr>"

definition row_T28 :: transition where
  "row_T28 =
     \<lparr>tr_id = T28,
      tr_from = [LIQUIDITY_RESERVED],
      tr_trigger = T_reservation_expired,
      tr_to = Some EXCEPTION,
      tr_guards = [G_reservation_ttl_reached],
      tr_statusEvent = Some E_settlement_exception_opened,
      tr_companionEvents = [C_facility_reservation_expired],
      tr_companionChoice = [],
      tr_deferredCompanions = []\<rparr>"

definition row_T29 :: transition where
  "row_T29 =
     \<lparr>tr_id = T29,
      tr_from = [DRAWDOWN_REQUESTED],
      tr_trigger = T_drawdown_timeout,
      tr_to = Some EXCEPTION,
      tr_guards = [G_drawdown_sla_elapsed],
      tr_statusEvent = Some E_settlement_exception_opened,
      tr_companionEvents = [],
      tr_companionChoice = [],
      tr_deferredCompanions = []\<rparr>"

definition row_T30 :: transition where
  "row_T30 =
     \<lparr>tr_id = T30,
      tr_from = [RECONCILING],
      tr_trigger = T_reconciliation_stalled,
      tr_to = Some EXCEPTION,
      tr_guards = [G_reconciliation_sla_elapsed],
      tr_statusEvent = Some E_settlement_exception_opened,
      tr_companionEvents = [],
      tr_companionChoice = [],
      tr_deferredCompanions = [deferred_R04]\<rparr>"

definition TRANSITIONS :: "transition list" where
  "TRANSITIONS =
     [row_T01, row_T02, row_T03, row_T04, row_T05, row_T06, row_T07, row_T08, row_T09,
      row_T10, row_T11, row_T12, row_T13, row_T14, row_T15, row_T16, row_T17, row_T18,
      row_T19, row_T20, row_T21, row_T22, row_T23, row_T24, row_T25, row_T26, row_T27,
      row_T28, row_T29, row_T30]"

lemmas row_defs = row_T01_def row_T02_def row_T03_def row_T04_def row_T05_def row_T06_def
      row_T07_def row_T08_def row_T09_def row_T10_def row_T11_def row_T12_def
      row_T13_def row_T14_def row_T15_def row_T16_def row_T17_def row_T18_def
      row_T19_def row_T20_def row_T21_def row_T22_def row_T23_def row_T24_def
      row_T25_def row_T26_def row_T27_def row_T28_def row_T29_def row_T30_def

lemma TRANSITIONS_rows [table_simps]: "r \<in> set TRANSITIONS \<longleftrightarrow>
    r \<in> {row_T01, row_T02, row_T03, row_T04, row_T05, row_T06, row_T07, row_T08, row_T09,
      row_T10, row_T11, row_T12, row_T13, row_T14, row_T15, row_T16, row_T17, row_T18,
      row_T19, row_T20, row_T21, row_T22, row_T23, row_T24, row_T25, row_T26, row_T27,
      row_T28, row_T29, row_T30}"
  by (simp add: TRANSITIONS_def)

definition deferredCompanions :: "(transition_id \<times> deferred_companion) list" where
  "deferredCompanions = concat (map (\<lambda>t. map (Pair (tr_id t)) (tr_deferredCompanions t)) TRANSITIONS)"

definition deferredCompanionsFor :: "stage \<Rightarrow> (transition_id \<times> deferred_companion) list" where
  "deferredCompanionsFor st = filter (\<lambda>(_, d). dc_owedBy d = st) deferredCompanions"

definition legalPairs :: "(settlement_status option \<times> trigger) list" where
  "legalPairs = concat (map (\<lambda>t.
     (if tr_from t = [] then [(None, tr_trigger t)] else [])
       @ map (\<lambda>s. (Some s, tr_trigger t)) (tr_from t)) TRANSITIONS)"

definition transitionById :: "transition_id \<Rightarrow> transition option" where
  "transitionById i = List.find (\<lambda>t. tr_id t = i) TRANSITIONS"

section \<open>The table is a trigger table\<close>

lemma TRANSITIONS_distinct_triggers: "distinct (map tr_trigger TRANSITIONS)"
  by (simp add: TRANSITIONS_def row_defs)

lemma TRANSITIONS_terminal: "r \<in> set TRANSITIONS \<Longrightarrow> s \<in> set (tr_from r) \<Longrightarrow> \<not> isTerminal s"
  by (auto simp: table_simps row_defs)

interpretation settlement: trigger_table tr_trigger tr_from TRANSITIONS isTerminal
  by unfold_locales (rule TRANSITIONS_distinct_triggers, erule (1) TRANSITIONS_terminal)

lemmas settlement_search = settlement.candidates_unambiguous settlement.find_row_iff

end
