(* ===== verification/Settlement_Machine.thy ===== *)
theory Settlement_Machine
  imports Settlement_Table
begin

text \<open>
  \<open>evaluateTransition\<close> of \<open>packages/domain/src/settlements/transitions.ts\<close>, the only decision
  procedure of the settlement machine, and what it guarantees: exactness with respect to the table,
  terminal statuses that absorb, guards that are never defaulted, the gates of the lifecycle.
\<close>

section \<open>Evaluation\<close>

type_synonym guard_context = "guard \<Rightarrow> bool option"

record transition_request =
  rq_from :: "settlement_status option"
  rq_trigger :: trigger
  rq_guards :: guard_context
  rq_exceptionEnteredFrom :: "settlement_status option"

record transition_ok =
  ok_transition :: transition
  ok_to :: "settlement_status option"
  ok_statusEvent :: "status_event option"
  ok_requiredCompanions :: "companion_event list"
  ok_permittedCompanions :: "companion_event list"

datatype transition_refusal =
    Invalid_Transition "settlement_status option" trigger
  | Guard_Failed transition_id "guard list"
  | Guard_Unanswered transition_id "guard list"
  | Resume_Target_Unknown transition_id

definition accepted :: "transition \<Rightarrow> settlement_status option \<Rightarrow> transition_ok" where
  "accepted t to =
     \<lparr>ok_transition = t, ok_to = to, ok_statusEvent = tr_statusEvent t,
      ok_requiredCompanions = tr_companionEvents t,
      ok_permittedCompanions = tr_companionEvents t @ tr_companionChoice t\<rparr>"

definition evaluateTransition :: "transition_request \<Rightarrow> (transition_refusal, transition_ok) result" where
  "evaluateTransition request =
     (case candidate_rows tr_trigger tr_from TRANSITIONS (rq_from request) (rq_trigger request) of
        [t] \<Rightarrow>
          (let unanswered = filter (\<lambda>g. rq_guards request g = None) (tr_guards t);
               failed = filter (\<lambda>g. rq_guards request g = Some False) (tr_guards t)
           in if unanswered \<noteq> [] then Inl (Guard_Unanswered (tr_id t) unanswered)
              else if failed \<noteq> [] then Inl (Guard_Failed (tr_id t) failed)
              else if tr_id t = T22 then
                (case rq_exceptionEnteredFrom request of
                   None \<Rightarrow> Inl (Resume_Target_Unknown (tr_id t))
                 | Some s \<Rightarrow> Inr (accepted t (Some s)))
              else Inr (accepted t (tr_to t)))
      | _ \<Rightarrow> Inl (Invalid_Transition (rq_from request) (rq_trigger request)))"

text \<open>Since triggers are unique, a trigger names its row; \<open>row_of\<close> is that row.\<close>

primrec row_of :: "trigger \<Rightarrow> transition" where
  "row_of T_create = row_T01"
| "row_of T_run_preflight = row_T02"
| "row_of T_preflight_passed = row_T03"
| "row_of T_preflight_blocked = row_T04"
| "row_of T_requirement_resolved = row_T05"
| "row_of T_attach_quote = row_T06"
| "row_of T_quote_expired = row_T07"
| "row_of T_authorize = row_T08"
| "row_of T_begin_reservation = row_T09"
| "row_of T_reservation_succeeded = row_T10"
| "row_of T_reservation_failed = row_T11"
| "row_of T_request_drawdown = row_T12"
| "row_of T_drawdown_confirmed = row_T13"
| "row_of T_drawdown_failed = row_T14"
| "row_of T_dispatch_payout = row_T15"
| "row_of T_payout_credited = row_T16"
| "row_of T_payout_rejected = row_T17"
| "row_of T_payout_timeout = row_T18"
| "row_of T_begin_reconciliation = row_T19"
| "row_of T_reconciled_matched = row_T20"
| "row_of T_reconciled_mismatch = row_T21"
| "row_of T_resolve_resume = row_T22"
| "row_of T_resolve_fail = row_T23"
| "row_of T_resolve_cancel = row_T24"
| "row_of T_cancel = row_T25"
| "row_of T_request_cancellation = row_T26"
| "row_of T_cancellation_honoured = row_T27"
| "row_of T_reservation_expired = row_T28"
| "row_of T_drawdown_timeout = row_T29"
| "row_of T_reconciliation_stalled = row_T30"

lemma row_of_in_table: "row_of tr \<in> set TRANSITIONS"
  by (cases tr) (simp_all add: table_simps)

lemma tr_trigger_row_of [simp]: "tr_trigger (row_of tr) = tr"
  by (cases tr) (simp_all add: row_defs)

lemma find_row_row_of:
  "find_row tr_trigger tr_from TRANSITIONS from tr =
     (if row_accepts tr_from (row_of tr) from then Some (row_of tr) else None)"
proof -
  have "t = row_of tr" if "t \<in> set TRANSITIONS" "tr_trigger t = tr" for t
    using settlement.same_trigger_same_row [OF that(1) row_of_in_table [of tr]] that(2) by simp
  then show ?thesis
    using settlement.find_row_iff [of "from" tr "row_of tr"] row_of_in_table
    by (auto simp: find_row_None)
qed

text \<open>Evaluation, with the search replaced by the row of the trigger.\<close>

lemma evaluateTransition_row:
  "evaluateTransition rq =
     (let t = row_of (rq_trigger rq);
          unanswered = filter (\<lambda>g. rq_guards rq g = None) (tr_guards t);
          failed = filter (\<lambda>g. rq_guards rq g = Some False) (tr_guards t)
      in if \<not> row_accepts tr_from t (rq_from rq) then Inl (Invalid_Transition (rq_from rq) (rq_trigger rq))
         else if unanswered \<noteq> [] then Inl (Guard_Unanswered (tr_id t) unanswered)
         else if failed \<noteq> [] then Inl (Guard_Failed (tr_id t) failed)
         else if tr_id t = T22 then
           (case rq_exceptionEnteredFrom rq of
              None \<Rightarrow> Inl (Resume_Target_Unknown (tr_id t))
            | Some s \<Rightarrow> Inr (accepted t (Some s)))
         else Inr (accepted t (tr_to t)))"
  by (auto simp: evaluateTransition_def settlement.candidates_unambiguous find_row_row_of Let_def)

lemma guards_all_true:
  "filter (\<lambda>g. c g = None) gs = [] \<and> filter (\<lambda>g. c g = Some False) gs = [] \<longleftrightarrow>
     (\<forall>g\<in>set gs. c g = Some True)"
  by (auto simp: filter_empty_conv) (metis (full_types) not_None_eq)

lemma evaluateTransition_Inr:
  "evaluateTransition rq = Inr ok \<longleftrightarrow>
     row_accepts tr_from (row_of (rq_trigger rq)) (rq_from rq) \<and>
     (\<forall>g\<in>set (tr_guards (row_of (rq_trigger rq))). rq_guards rq g = Some True) \<and>
     (if rq_trigger rq = T_resolve_resume
      then \<exists>s. rq_exceptionEnteredFrom rq = Some s \<and> ok = accepted row_T22 (Some s)
      else ok = accepted (row_of (rq_trigger rq)) (tr_to (row_of (rq_trigger rq))))"
proof -
  have id: "tr_id (row_of tr) = T22 \<longleftrightarrow> tr = T_resolve_resume" for tr
    by (cases tr) (simp_all add: row_defs)
  let ?t = "row_of (rq_trigger rq)"
  let ?u = "filter (\<lambda>g. rq_guards rq g = None) (tr_guards ?t)"
    and ?f = "filter (\<lambda>g. rq_guards rq g = Some False) (tr_guards ?t)"
  have all: "(\<forall>g\<in>set (tr_guards ?t). rq_guards rq g = Some True) \<longleftrightarrow> ?u = [] \<and> ?f = []"
    by (simp only: guards_all_true)
  define u f where "u = ?u" and "f = ?f"
  show ?thesis
    unfolding evaluateTransition_row Let_def all id u_def [symmetric] f_def [symmetric]
    by (cases "rq_trigger rq = T_resolve_resume"; cases "rq_exceptionEnteredFrom rq"; cases u; cases f)
      auto
qed

lemma accepted_simps [simp]:
  "ok_transition (accepted t to) = t" "ok_to (accepted t to) = to"
  "ok_statusEvent (accepted t to) = tr_statusEvent t"
  "ok_requiredCompanions (accepted t to) = tr_companionEvents t"
  "ok_permittedCompanions (accepted t to) = tr_companionEvents t @ tr_companionChoice t"
  by (simp_all add: accepted_def)

lemma legal_pair_row: "(from, tr) \<in> set legalPairs \<longleftrightarrow> row_accepts tr_from (row_of tr) from"
proof -
  have "(from, tr) \<in> set legalPairs \<longleftrightarrow> (\<exists>t\<in>set TRANSITIONS. tr_trigger t = tr \<and> row_accepts tr_from t from)"
    by (cases "from") (auto simp: legalPairs_def row_accepts_def)
  also have "\<dots> \<longleftrightarrow> row_accepts tr_from (row_of tr) from"
    by (metis find_row_None find_row_row_of row_of_in_table tr_trigger_row_of option.simps(3))
  finally show ?thesis .
qed

section \<open>Properties of the machine\<close>

text \<open>
  The evaluation is exact: a request is accepted if and only if the table has a row for its
  trigger that leaves from its status, every guard of the row is answered true, and a resume names
  where to resume; the result carries that row, its destination and its events.
\<close>

theorem evaluateTransition_exact:
  "evaluateTransition rq = Inr ok \<longleftrightarrow>
     (\<exists>t\<in>set TRANSITIONS. tr_trigger t = rq_trigger rq \<and>
        (case rq_from rq of None \<Rightarrow> tr_from t = [] | Some s \<Rightarrow> s \<in> set (tr_from t)) \<and>
        list_all (\<lambda>g. rq_guards rq g = Some True) (tr_guards t) \<and>
        (if tr_id t = T22 then \<exists>s. rq_exceptionEnteredFrom rq = Some s \<and> ok = accepted t (Some s)
         else ok = accepted t (tr_to t)))"
proof -
  have id: "tr_id (row_of tr) = T22 \<longleftrightarrow> tr = T_resolve_resume" for tr
    by (cases tr) (simp_all add: row_defs)
  have row: "t \<in> set TRANSITIONS \<and> tr_trigger t = tr \<longleftrightarrow> t = row_of tr" for t tr
    using settlement.same_trigger_same_row [OF _ row_of_in_table [of tr], of t] row_of_in_table
    by auto
  have ex: "(\<exists>t\<in>set TRANSITIONS. tr_trigger t = rq_trigger rq \<and> P t) \<longleftrightarrow> P (row_of (rq_trigger rq))" for P
    by (metis row)
  then show ?thesis
    by (auto simp: ex evaluateTransition_Inr row_accepts_def id list_all_iff)
qed

text \<open>
  A terminal settlement never moves again: whatever the trigger and the guard answers, the
  request is refused as an invalid transition.
\<close>

theorem terminal_absorbs:
  assumes "rq_from rq = Some s" "isTerminal s"
  shows "evaluateTransition rq = Inl (Invalid_Transition (Some s) (rq_trigger rq))"
  using settlement.terminal_refuses [OF assms(2)] assms(1)
  by (simp add: evaluateTransition_def settlement.candidates_unambiguous del: isTerminal_simps)

theorem terminal_absorbs_witness:
  "evaluateTransition \<lparr>rq_from = Some SETTLED, rq_trigger = T_resolve_resume,
      rq_guards = (\<lambda>_. Some True), rq_exceptionEnteredFrom = Some DRAFT\<rparr> =
    Inl (Invalid_Transition (Some SETTLED) T_resolve_resume)"
  by (rule terminal_absorbs [where s = SETTLED, THEN trans]) simp_all

text \<open>
  A guard nobody answered is never read as an answer: the request is refused with exactly the
  unanswered guards of the row if there are any, and otherwise with exactly the guards answered
  false.
\<close>

theorem guards_are_never_defaulted:
  assumes "row_accepts tr_from (row_of (rq_trigger rq)) (rq_from rq)"
  shows "(evaluateTransition rq = Inl (Guard_Unanswered i gs) \<longleftrightarrow>
      i = tr_id (row_of (rq_trigger rq)) \<and> gs \<noteq> [] \<and>
      gs = filter (\<lambda>g. rq_guards rq g = None) (tr_guards (row_of (rq_trigger rq)))) \<and>
    (evaluateTransition rq = Inl (Guard_Failed i gs) \<longleftrightarrow>
      i = tr_id (row_of (rq_trigger rq)) \<and> gs \<noteq> [] \<and>
      list_all (\<lambda>g. rq_guards rq g \<noteq> None) (tr_guards (row_of (rq_trigger rq))) \<and>
      gs = filter (\<lambda>g. rq_guards rq g = Some False) (tr_guards (row_of (rq_trigger rq))))"
proof -
  have "list_all (\<lambda>g. rq_guards rq g \<noteq> None) gs' \<longleftrightarrow> filter (\<lambda>g. rq_guards rq g = None) gs' = []" for gs'
    by (induction gs') auto
  then show ?thesis
    using assms by (auto simp: evaluateTransition_row Let_def split: option.splits)
qed

theorem guards_are_never_defaulted_witness:
  "evaluateTransition \<lparr>rq_from = Some DRAFT, rq_trigger = T_run_preflight,
      rq_guards = (\<lambda>_. None), rq_exceptionEnteredFrom = None\<rparr> =
    Inl (Guard_Unanswered T02 [G_beneficiary_amount_purpose_present])"
proof -
  let ?rq = "\<lparr>rq_from = Some DRAFT, rq_trigger = T_run_preflight,
      rq_guards = (\<lambda>_. None), rq_exceptionEnteredFrom = None\<rparr>"
  have "row_accepts tr_from (row_of (rq_trigger ?rq)) (rq_from ?rq)"
    by (simp add: row_accepts_def row_T02_def)
  from guards_are_never_defaulted [OF this, of T02 "[G_beneficiary_amount_purpose_present]"]
  show ?thesis by (simp add: row_T02_def)
qed

text \<open>
  The three gates of the machine: payout is dispatched only from a confirmed drawdown before
  the point of no return and with no cancellation pending; a settlement is settled only from
  reconciliation with every finality condition met; it is failed only out of an exception and only
  when no value was delivered.
\<close>

theorem gates:
  assumes "evaluateTransition rq = Inr ok" "rq_trigger rq \<noteq> T_resolve_resume"
  shows "(ok_to ok = Some PAYOUT_SUBMITTED \<longrightarrow>
      rq_from rq = Some DRAWDOWN_CONFIRMED \<and> rq_guards rq G_before_point_of_no_return = Some True \<and>
      rq_guards rq G_no_cancellation_pending = Some True \<and>
      rq_guards rq G_destination_version_verified = Some True) \<and>
    (ok_to ok = Some SETTLED \<longrightarrow>
      rq_from rq = Some RECONCILING \<and> rq_guards rq G_finality_conditions_met = Some True) \<and>
    (ok_to ok = Some FAILED \<longrightarrow>
      rq_from rq = Some EXCEPTION \<and> rq_guards rq G_no_value_delivered = Some True)"
proof -
  from assms have row: "row_accepts tr_from (row_of (rq_trigger rq)) (rq_from rq)"
    and gs: "\<forall>g\<in>set (tr_guards (row_of (rq_trigger rq))). rq_guards rq g = Some True"
    and to: "ok_to ok = tr_to (row_of (rq_trigger rq))"
    by (auto simp: evaluateTransition_Inr)
  show ?thesis
    using row gs unfolding to
    by (cases "rq_trigger rq") (auto simp: row_defs row_accepts_def split: option.splits)
qed

theorem gates_witness:
  "let rq = \<lparr>rq_from = Some RECONCILING, rq_trigger = T_reconciled_matched,
      rq_guards = (\<lambda>_. Some True), rq_exceptionEnteredFrom = None\<rparr>
   in evaluateTransition rq = Inr (accepted row_T20 (Some SETTLED)) \<and>
      rq_from rq = Some RECONCILING \<and> rq_guards rq G_finality_conditions_met = Some True"
proof -
  let ?rq = "\<lparr>rq_from = Some RECONCILING, rq_trigger = T_reconciled_matched,
      rq_guards = (\<lambda>_. Some True), rq_exceptionEnteredFrom = None\<rparr>"
  have ev: "evaluateTransition ?rq = Inr (accepted row_T20 (Some SETTLED))"
    by (simp add: evaluateTransition_Inr row_accepts_def row_T20_def)
  from ev gates [OF ev] show ?thesis by (simp add: Let_def)
qed

text \<open>
  The published list of legal pairs is the machine: a pair is in it exactly when some guard
  context makes the machine accept it.
\<close>

theorem legalPairs_exact:
  "(from, tr) \<in> set legalPairs \<longleftrightarrow>
     (\<exists>rq ok. rq_from rq = from \<and> rq_trigger rq = tr \<and> evaluateTransition rq = Inr ok)"
proof -
  have "(from, tr) \<in> set legalPairs \<longleftrightarrow> row_accepts tr_from (row_of tr) from"
    by (rule legal_pair_row)
  also have "\<dots> \<longleftrightarrow> (\<exists>rq ok. rq_from rq = from \<and> rq_trigger rq = tr \<and> evaluateTransition rq = Inr ok)"
  proof
    assume acc: "row_accepts tr_from (row_of tr) from"
    let ?rq = "\<lparr>rq_from = from, rq_trigger = tr, rq_guards = (\<lambda>_. Some True),
      rq_exceptionEnteredFrom = Some DRAFT\<rparr>"
    have "\<exists>ok. evaluateTransition ?rq = Inr ok"
      using acc by (auto simp: evaluateTransition_Inr)
    then show "\<exists>rq ok. rq_from rq = from \<and> rq_trigger rq = tr \<and> evaluateTransition rq = Inr ok"
      by (intro exI [of _ ?rq]) simp
  qed (auto simp: evaluateTransition_Inr)
  finally show ?thesis .
qed

end
