(* ===== verification/Settlement_Outcomes.thy ===== *)
theory Settlement_Outcomes
  imports Settlement_Machine
begin

text \<open>
  What a customer is told: \<open>settlements/exceptions.ts\<close> (the closed exception taxonomy),
  \<open>projection.ts\<close> (seventeen statuses to five customer statuses, and the cancel button) and
  \<open>resolution.ts\<close> (the reasons of the two unsuccessful ends), with the requirement type of
  \<open>preflight/requirement.ts\<close>. A look-up the source guards with an unreachable \<open>throw\<close> is
  \<open>the\<close> of the search, with a lemma that the search never fails.
\<close>

section \<open>Requirements\<close>

datatype requirement_severity = Blocking | Advisory

datatype requirement_action =
    Verify_Beneficiary string string
  | Edit_Beneficiary string string
  | Add_Payout_Destination string
  | Upload_Document string
  | Select_Purpose
  | Contact_Support string
  | Set_Up_Liquidity_Facility

record requirement =
  req_code :: string
  req_severity :: requirement_severity
  req_title :: string
  req_detail :: string
  req_action :: requirement_action

section \<open>Exceptions\<close>

datatype exception_phase =
  Phase_reservation | Phase_funding | Phase_payout | Phase_reconciliation | Phase_finality

datatype exception_code =
    LIQUIDITY_UNAVAILABLE | FACILITY_SUSPENDED | DRAWDOWN_FAILED | DRAWDOWN_STATUS_UNKNOWN
  | PAYOUT_REJECTED_DESTINATION | PAYOUT_REJECTED_COMPLIANCE | PAYOUT_REJECTED_PROVIDER
  | PAYOUT_STATUS_UNKNOWN | RECONCILIATION_MISMATCH | FINALITY_EVIDENCE_MISSING

datatype customer_copy = Requirement_Copy requirement | Delay_Note string

record exception_definition =
  xd_code :: exception_code
  xd_phase :: exception_phase
  xd_customerActionable :: bool
  xd_resolutionPath :: string
  xd_customerCopy :: customer_copy

definition def_LIQUIDITY_UNAVAILABLE :: exception_definition where
  "def_LIQUIDITY_UNAVAILABLE =
     \<lparr>xd_code = LIQUIDITY_UNAVAILABLE, xd_phase = Phase_reservation,
      xd_customerActionable = False,
      xd_resolutionPath = ''Ops: raise limit, wait for headroom, or fail'',
      xd_customerCopy = Delay_Note
        (''Your settlement is queued while we free up funding capacity. We will send '' @
         ''it as soon as capacity is available.'')\<rparr>"

definition def_FACILITY_SUSPENDED :: exception_definition where
  "def_FACILITY_SUSPENDED =
     \<lparr>xd_code = FACILITY_SUSPENDED, xd_phase = Phase_reservation,
      xd_customerActionable = False,
      xd_resolutionPath = ''Ops: facility-level decision'',
      xd_customerCopy = Delay_Note
        (''Your settlement is paused while we review your funding facility. Our team '' @
         ''is on it.'')\<rparr>"

definition def_DRAWDOWN_FAILED :: exception_definition where
  "def_DRAWDOWN_FAILED =
     \<lparr>xd_code = DRAWDOWN_FAILED, xd_phase = Phase_funding,
      xd_customerActionable = False,
      xd_resolutionPath = ''Ops: retry via provider or fail'',
      xd_customerCopy = Delay_Note
        (''We could not draw the funds for this settlement on the first attempt. Our '' @
         ''team is working on it.'')\<rparr>"

definition def_DRAWDOWN_STATUS_UNKNOWN :: exception_definition where
  "def_DRAWDOWN_STATUS_UNKNOWN =
     \<lparr>xd_code = DRAWDOWN_STATUS_UNKNOWN, xd_phase = Phase_funding,
      xd_customerActionable = False,
      xd_resolutionPath = ''Ops: authoritative status pull'',
      xd_customerCopy = Delay_Note
        (''We are confirming the funding step with our banking partner before we send '' @
         ''the payout.'')\<rparr>"

definition def_PAYOUT_REJECTED_DESTINATION :: exception_definition where
  "def_PAYOUT_REJECTED_DESTINATION =
     \<lparr>xd_code = PAYOUT_REJECTED_DESTINATION, xd_phase = Phase_payout,
      xd_customerActionable = True,
      xd_resolutionPath = ''Correct the beneficiary, then create a replacement settlement'',
      xd_customerCopy = Requirement_Copy
        \<lparr>req_code = ''payout_destination_rejected'',
         req_severity = Blocking,
         req_title = ''The bank could not accept these payout details'',
         req_detail =
           ''No funds left your facility. Correct the payout details, then create a '' @
           ''replacement settlement to the corrected destination.'',
         req_action = Edit_Beneficiary '''' ''payout_destination''\<rparr>\<rparr>"

definition def_PAYOUT_REJECTED_COMPLIANCE :: exception_definition where
  "def_PAYOUT_REJECTED_COMPLIANCE =
     \<lparr>xd_code = PAYOUT_REJECTED_COMPLIANCE, xd_phase = Phase_payout,
      xd_customerActionable = True,
      xd_resolutionPath = ''Supply the named documentation, or ops decision'',
      xd_customerCopy = Requirement_Copy
        \<lparr>req_code = ''payout_documentation_required'',
         req_severity = Blocking,
         req_title = ''The bank needs documentation for this settlement'',
         req_detail =
           ''No funds left your facility. Send us the paperwork for this payment and we '' @
           ''will resubmit it for you.'',
         req_action = Upload_Document ''compliance_evidence''\<rparr>\<rparr>"

definition def_PAYOUT_REJECTED_PROVIDER :: exception_definition where
  "def_PAYOUT_REJECTED_PROVIDER =
     \<lparr>xd_code = PAYOUT_REJECTED_PROVIDER, xd_phase = Phase_payout,
      xd_customerActionable = False,
      xd_resolutionPath = ''Ops: replacement settlement or fail'',
      xd_customerCopy = Delay_Note
        (''Our payout partner declined this transfer. Our team is arranging another route.'')\<rparr>"

definition def_PAYOUT_STATUS_UNKNOWN :: exception_definition where
  "def_PAYOUT_STATUS_UNKNOWN =
     \<lparr>xd_code = PAYOUT_STATUS_UNKNOWN, xd_phase = Phase_payout,
      xd_customerActionable = False,
      xd_resolutionPath = ''Ops: authoritative status pull (INV-24)'',
      xd_customerCopy = Delay_Note
        (''We are confirming the final status of this payout with the bank before we '' @
         ''mark it settled.'')\<rparr>"

definition def_RECONCILIATION_MISMATCH :: exception_definition where
  "def_RECONCILIATION_MISMATCH =
     \<lparr>xd_code = RECONCILIATION_MISMATCH, xd_phase = Phase_reconciliation,
      xd_customerActionable = False,
      xd_resolutionPath = ''Ops decision; policy is D-14'',
      xd_customerCopy = Delay_Note
        (''The amounts we hold and the bank holds do not yet agree, so we are '' @
         ''checking before confirming.'')\<rparr>"

definition def_FINALITY_EVIDENCE_MISSING :: exception_definition where
  "def_FINALITY_EVIDENCE_MISSING =
     \<lparr>xd_code = FINALITY_EVIDENCE_MISSING, xd_phase = Phase_finality,
      xd_customerActionable = False,
      xd_resolutionPath = ''Ops: obtain the missing condition, or escalate'',
      xd_customerCopy = Delay_Note
        (''We are waiting on final confirmation from the bank before we mark this settled.'')\<rparr>"

definition EXCEPTION_TAXONOMY :: "exception_definition list" where
  "EXCEPTION_TAXONOMY =
     [def_LIQUIDITY_UNAVAILABLE,
      def_FACILITY_SUSPENDED,
      def_DRAWDOWN_FAILED,
      def_DRAWDOWN_STATUS_UNKNOWN,
      def_PAYOUT_REJECTED_DESTINATION,
      def_PAYOUT_REJECTED_COMPLIANCE,
      def_PAYOUT_REJECTED_PROVIDER,
      def_PAYOUT_STATUS_UNKNOWN,
      def_RECONCILIATION_MISMATCH,
      def_FINALITY_EVIDENCE_MISSING]"

lemmas exception_rows = EXCEPTION_TAXONOMY_def def_LIQUIDITY_UNAVAILABLE_def
  def_FACILITY_SUSPENDED_def
  def_DRAWDOWN_FAILED_def
  def_DRAWDOWN_STATUS_UNKNOWN_def
  def_PAYOUT_REJECTED_DESTINATION_def
  def_PAYOUT_REJECTED_COMPLIANCE_def
  def_PAYOUT_REJECTED_PROVIDER_def
  def_PAYOUT_STATUS_UNKNOWN_def
  def_RECONCILIATION_MISMATCH_def
  def_FINALITY_EVIDENCE_MISSING_def

definition exceptionDefinition :: "exception_code \<Rightarrow> exception_definition" where
  "exceptionDefinition code = the (List.find (\<lambda>e. xd_code e = code) EXCEPTION_TAXONOMY)"

definition isCustomerActionable :: "exception_code \<Rightarrow> bool" where
  "isCustomerActionable code = xd_customerActionable (exceptionDefinition code)"

definition exceptionRequirement :: "exception_code \<Rightarrow> string \<Rightarrow> requirement option" where
  "exceptionRequirement code beneficiaryId =
     (case xd_customerCopy (exceptionDefinition code) of
        Delay_Note _ \<Rightarrow> None
      | Requirement_Copy r \<Rightarrow>
          (case req_action r of
             Edit_Beneficiary _ field \<Rightarrow> Some (r\<lparr>req_action := Edit_Beneficiary beneficiaryId field\<rparr>)
           | _ \<Rightarrow> Some r))"

definition exceptionDelayNote :: "exception_code \<Rightarrow> string option" where
  "exceptionDelayNote code =
     (case xd_customerCopy (exceptionDefinition code) of
        Delay_Note d \<Rightarrow> Some d
      | Requirement_Copy _ \<Rightarrow> None)"

definition TRIGGER_EXCEPTION_CODES :: "trigger \<Rightarrow> exception_code option" where
  "TRIGGER_EXCEPTION_CODES =
     [T_drawdown_failed \<mapsto> DRAWDOWN_FAILED,
      T_drawdown_timeout \<mapsto> DRAWDOWN_STATUS_UNKNOWN,
      T_payout_timeout \<mapsto> PAYOUT_STATUS_UNKNOWN,
      T_reconciled_mismatch \<mapsto> RECONCILIATION_MISMATCH,
      T_reconciliation_stalled \<mapsto> FINALITY_EVIDENCE_MISSING,
      T_reservation_expired \<mapsto> LIQUIDITY_UNAVAILABLE]"

lemma exceptionDefinition_found:
  "List.find (\<lambda>e. xd_code e = code) EXCEPTION_TAXONOMY = Some (exceptionDefinition code)"
  by (cases code) (simp_all add: exceptionDefinition_def exception_rows)

lemma isCustomerActionable_iff [simp]:
  "isCustomerActionable code \<longleftrightarrow> code = PAYOUT_REJECTED_DESTINATION \<or> code = PAYOUT_REJECTED_COMPLIANCE"
  by (cases code) (simp_all add: isCustomerActionable_def exceptionDefinition_def exception_rows)

section \<open>Resolutions\<close>

datatype resolution_code =
    R_cancelled_by_customer | R_cancelled_before_authorization | R_cancellation_honoured
  | R_destination_rejected | R_compliance_rejected | R_provider_rejected
  | R_funding_failed | R_expired_unfunded | R_operator_failed

record resolution_definition =
  rd_code :: resolution_code
  rd_terminal :: settlement_status
  rd_message :: string

definition RESOLUTIONS :: "resolution_definition list" where
  "RESOLUTIONS =
     [\<lparr>rd_code = R_cancelled_by_customer, rd_terminal = CANCELLED,
       rd_message = ''You cancelled this settlement. No funds were sent.''\<rparr>,
      \<lparr>rd_code = R_cancelled_before_authorization, rd_terminal = CANCELLED,
       rd_message = ''This settlement was cancelled before it was authorized. No funds were sent.''\<rparr>,
      \<lparr>rd_code = R_cancellation_honoured, rd_terminal = CANCELLED,
       rd_message = ''We stopped this settlement at the last safe point after you asked us to. '' @
                     ''No funds were sent and your facility was released.''\<rparr>,
      \<lparr>rd_code = R_destination_rejected, rd_terminal = FAILED,
       rd_message = ''The bank could not accept the payout details, so this settlement was not '' @
                     ''completed. No funds were sent.''\<rparr>,
      \<lparr>rd_code = R_compliance_rejected, rd_terminal = FAILED,
       rd_message = ''This settlement could not be completed because the required documentation '' @
                     ''was not accepted. No funds were sent.''\<rparr>,
      \<lparr>rd_code = R_provider_rejected, rd_terminal = FAILED,
       rd_message = ''Our payout partner declined this transfer and we could not complete it. No '' @
                     ''funds were sent.''\<rparr>,
      \<lparr>rd_code = R_funding_failed, rd_terminal = FAILED,
       rd_message = ''We could not fund this settlement, so it was not completed. No funds were sent.''\<rparr>,
      \<lparr>rd_code = R_expired_unfunded, rd_terminal = FAILED,
       rd_message = ''This settlement expired before it could be funded. No funds were sent.''\<rparr>,
      \<lparr>rd_code = R_operator_failed, rd_terminal = FAILED,
       rd_message = ''We were not able to complete this settlement. No funds were sent.''\<rparr>]"

definition resolutionDefinition :: "resolution_code \<Rightarrow> resolution_definition" where
  "resolutionDefinition code = the (List.find (\<lambda>r. rd_code r = code) RESOLUTIONS)"

definition resolutionMatchesTerminal :: "resolution_code \<Rightarrow> settlement_status \<Rightarrow> bool" where
  "resolutionMatchesTerminal code t = (rd_terminal (resolutionDefinition code) = t)"

lemma resolutionDefinition_found:
  "List.find (\<lambda>r. rd_code r = code) RESOLUTIONS = Some (resolutionDefinition code)"
  by (cases code) (simp_all add: resolutionDefinition_def RESOLUTIONS_def)

lemma resolution_terminal_cases:
  "rd_terminal (resolutionDefinition code) = FAILED \<or> rd_terminal (resolutionDefinition code) = CANCELLED"
  by (cases code) (simp_all add: resolutionDefinition_def RESOLUTIONS_def)

section \<open>Projection\<close>

record customer_projection =
  cp_customerStatus :: "customer_status option"
  cp_listed :: bool
  cp_delayed :: bool

definition projectCustomerStatus :: "settlement_status \<Rightarrow> exception_code option \<Rightarrow> customer_projection" where
  "projectCustomerStatus status openExceptionCode =
     (case status of
        DRAFT \<Rightarrow> \<lparr>cp_customerStatus = None, cp_listed = False, cp_delayed = False\<rparr>
      | PREFLIGHTING \<Rightarrow> \<lparr>cp_customerStatus = Some CS_READY, cp_listed = True, cp_delayed = False\<rparr>
      | READY \<Rightarrow> \<lparr>cp_customerStatus = Some CS_READY, cp_listed = True, cp_delayed = False\<rparr>
      | QUOTED \<Rightarrow> \<lparr>cp_customerStatus = Some CS_READY, cp_listed = True, cp_delayed = False\<rparr>
      | ACTION_REQUIRED \<Rightarrow>
          \<lparr>cp_customerStatus = Some CS_ACTION_REQUIRED, cp_listed = True, cp_delayed = False\<rparr>
      | AUTHORIZED \<Rightarrow> \<lparr>cp_customerStatus = Some CS_SETTLING, cp_listed = True, cp_delayed = False\<rparr>
      | LIQUIDITY_RESERVING \<Rightarrow>
          \<lparr>cp_customerStatus = Some CS_SETTLING, cp_listed = True, cp_delayed = False\<rparr>
      | LIQUIDITY_RESERVED \<Rightarrow>
          \<lparr>cp_customerStatus = Some CS_SETTLING, cp_listed = True, cp_delayed = False\<rparr>
      | DRAWDOWN_REQUESTED \<Rightarrow>
          \<lparr>cp_customerStatus = Some CS_SETTLING, cp_listed = True, cp_delayed = False\<rparr>
      | DRAWDOWN_CONFIRMED \<Rightarrow>
          \<lparr>cp_customerStatus = Some CS_SETTLING, cp_listed = True, cp_delayed = False\<rparr>
      | PAYOUT_SUBMITTED \<Rightarrow>
          \<lparr>cp_customerStatus = Some CS_SETTLING, cp_listed = True, cp_delayed = False\<rparr>
      | PAYOUT_CONFIRMED \<Rightarrow>
          \<lparr>cp_customerStatus = Some CS_SETTLING, cp_listed = True, cp_delayed = False\<rparr>
      | RECONCILING \<Rightarrow> \<lparr>cp_customerStatus = Some CS_SETTLING, cp_listed = True, cp_delayed = False\<rparr>
      | EXCEPTION \<Rightarrow>
          (let actionable = (case openExceptionCode of None \<Rightarrow> False | Some c \<Rightarrow> isCustomerActionable c)
           in if actionable
              then \<lparr>cp_customerStatus = Some CS_ACTION_REQUIRED, cp_listed = True, cp_delayed = False\<rparr>
              else \<lparr>cp_customerStatus = Some CS_SETTLING, cp_listed = True, cp_delayed = True\<rparr>)
      | SETTLED \<Rightarrow> \<lparr>cp_customerStatus = Some CS_SETTLED, cp_listed = True, cp_delayed = False\<rparr>
      | FAILED \<Rightarrow> \<lparr>cp_customerStatus = Some CS_CANCELLED, cp_listed = True, cp_delayed = False\<rparr>
      | CANCELLED \<Rightarrow> \<lparr>cp_customerStatus = Some CS_CANCELLED, cp_listed = True, cp_delayed = False\<rparr>)"

definition customerStatusColumn :: "settlement_status \<Rightarrow> exception_code option \<Rightarrow> customer_status option" where
  "customerStatusColumn status openExceptionCode =
     cp_customerStatus (projectCustomerStatus status openExceptionCode)"

datatype affordance = Aff_cancel | Aff_request_cancellation | Aff_requested | Aff_none

definition cancellationAffordance ::
    "settlement_status \<Rightarrow> int option \<Rightarrow> int option \<Rightarrow> affordance" where
  "cancellationAffordance status pointOfNoReturnAt cancellationRequestedAt =
     (if pointOfNoReturnAt \<noteq> None then Aff_none
      else if cancellationRequestedAt \<noteq> None then Aff_requested
      else if status \<in> {DRAFT, READY, QUOTED, ACTION_REQUIRED} then Aff_cancel
      else if status \<in> {AUTHORIZED, LIQUIDITY_RESERVING, LIQUIDITY_RESERVED, DRAWDOWN_REQUESTED,
                         DRAWDOWN_CONFIRMED} then Aff_request_cancellation
      else Aff_none)"

section \<open>Properties\<close>

text \<open>
  The taxonomy is closed and its copy fits its classification: every code has its own entry,
  and a customer is shown a requirement, bound to the beneficiary of the settlement, exactly for
  the actionable codes and a delay note for the others.
\<close>

theorem taxonomy_copy:
  "xd_code (exceptionDefinition code) = code \<and>
   (exceptionRequirement code b \<noteq> None) = isCustomerActionable code \<and>
   (exceptionDelayNote code = None) = isCustomerActionable code \<and>
   (case exceptionRequirement code b of
      None \<Rightarrow> \<not> isCustomerActionable code
    | Some r \<Rightarrow> (case req_action r of Edit_Beneficiary b' field \<Rightarrow> b' = b | _ \<Rightarrow> isCustomerActionable code))"
  by (cases code)
    (auto simp: exceptionDefinition_def exception_rows exceptionRequirement_def exceptionDelayNote_def
      isCustomerActionable_def)

text \<open>
  The projection: only a draft is unlisted; the customer sees settled exactly for SETTLED and
  cancelled exactly for FAILED and CANCELLED; the customer is asked to act only by preflight or by
  an open exception the customer can resolve; a delay is shown exactly for the other exceptions.
\<close>

theorem projection_meaning:
  "(cp_listed (projectCustomerStatus s e) \<longleftrightarrow> s \<noteq> DRAFT) \<and>
   (customerStatusColumn s e = None \<longleftrightarrow> s = DRAFT) \<and>
   (customerStatusColumn s e = Some CS_SETTLED \<longleftrightarrow> s = SETTLED) \<and>
   (customerStatusColumn s e = Some CS_CANCELLED \<longleftrightarrow> s = FAILED \<or> s = CANCELLED) \<and>
   (customerStatusColumn s e = Some CS_ACTION_REQUIRED \<longleftrightarrow>
      s = ACTION_REQUIRED \<or> s = EXCEPTION \<and> (\<exists>c. e = Some c \<and> isCustomerActionable c)) \<and>
   (cp_delayed (projectCustomerStatus s e) \<longleftrightarrow>
      s = EXCEPTION \<and> \<not> (\<exists>c. e = Some c \<and> isCustomerActionable c))"
  by (cases s; cases e) (simp_all add: projectCustomerStatus_def customerStatusColumn_def Let_def)

text \<open>
  The cancel button never offers what the machine refuses, and never hides what it accepts:
  before the point of no return and with no request pending, it offers an immediate cancellation
  exactly where T25 leaves from, a cancellation request exactly where T26 does, nothing elsewhere.
\<close>

theorem affordance_matches_machine:
  "(cancellationAffordance s None None = Aff_cancel \<longleftrightarrow> (Some s, T_cancel) \<in> set legalPairs) \<and>
   (cancellationAffordance s None None = Aff_request_cancellation \<longleftrightarrow>
      (Some s, T_request_cancellation) \<in> set legalPairs) \<and>
   cancellationAffordance s (Some t) r = Aff_none"
proof -
  have "(Some s, tr) \<in> set legalPairs \<longleftrightarrow> s \<in> set (tr_from (row_of tr))" for tr
    using legal_pair_row [of "Some s" tr] by (simp add: row_accepts_def)
  then show ?thesis
    by (cases s) (simp_all add: cancellationAffordance_def row_T25_def row_T26_def)
qed

text \<open>
  The trigger-to-code table covers exactly the triggers into EXCEPTION whose code is fixed:
  besides \<open>reservation_failed\<close>, the code of \<open>payout_rejected\<close> is left to the caller too.
\<close>

theorem trigger_codes_cover:
  "(TRIGGER_EXCEPTION_CODES tr = None \<and> tr_to (row_of tr) = Some EXCEPTION) \<longleftrightarrow>
     tr = T_reservation_failed \<or> tr = T_payout_rejected"
  by (cases tr) (simp_all add: TRIGGER_EXCEPTION_CODES_def row_defs)

text \<open>
  A resolution reason fits exactly one of the two unsuccessful terminal statuses.
\<close>

theorem resolution_terminal_unique:
  "rd_code (resolutionDefinition code) = code \<and>
   ({s. resolutionMatchesTerminal code s} = {FAILED} \<or> {s. resolutionMatchesTerminal code s} = {CANCELLED})"
  by (cases code)
    (auto simp: resolutionDefinition_def resolutionMatchesTerminal_def RESOLUTIONS_def)

end
