(* ===== verification/Idempotency.thy ===== *)
theory Idempotency
  imports Settling_Prelude
begin

text \<open>
  The keys the platform presents to providers all have the form
  \<open>prefix:version:identifier:number\<close>, where the number of the attempt is the part after the last
  colon. The locale \<open>attempt_key\<close> is the contract of such a key scheme: refused below one, and
  of that form from one on. Its lemmas say that a key names its identifier and its attempt; the
  payout and repayment components interpret it.
\<close>

lemma last_colon_split:
  assumes "list_all is_digit ds" "list_all is_digit es"
    and "s @ CHR '':'' # ds = t @ CHR '':'' # es"
  shows "s = t \<and> ds = es"
proof -
  have "takeWhile is_digit (rev (u @ CHR '':'' # v)) = rev v \<and>
      dropWhile is_digit (rev (u @ CHR '':'' # v)) = CHR '':'' # rev u"
    if "list_all is_digit v" for u v
  proof -
    have "list_all is_digit (rev v)" using that by (simp add: list_all_iff)
    then show ?thesis using split_at_non_digit [of "rev v" "CHR '':''"] by simp
  qed
  from this [OF assms(1), of s] this [OF assms(2), of t] assms(3) show ?thesis
    by (metis list.inject rev_rev_ident)
qed

lemma string_of_pos_digits: "1 \<le> n \<Longrightarrow> list_all is_digit (string_of_int n)"
  by (simp add: string_of_int_def digits_of_nat_digits)

datatype range_error = Range_Error

definition versioned_key :: "string \<Rightarrow> string \<Rightarrow> int \<Rightarrow> (range_error, string) result" where
  "versioned_key prefix i n =
     (if n < 1 then Inl Range_Error else Inr (prefix @ i @ '':'' @ string_of_int n))"

locale attempt_key =
  fixes key :: "string \<Rightarrow> int \<Rightarrow> (range_error, string) result" and prefix :: string
  assumes key_form: "key i n = versioned_key prefix i n"
begin

lemma key_refused: "(\<exists>k. key i n = Inr k) \<longleftrightarrow> 1 \<le> n"
  by (simp add: key_form versioned_key_def)

text \<open>Two submissions present the same key only if they are the same attempt of the same thing.\<close>

lemma key_names_attempt:
  assumes "key i n = Inr k" "key j m = Inr k"
  shows "i = j \<and> n = m"
proof -
  from assms have pos: "1 \<le> n" "1 \<le> m"
    and k: "prefix @ i @ '':'' @ string_of_int n = prefix @ j @ '':'' @ string_of_int m"
    by (auto simp: key_form versioned_key_def split: if_splits)
  then have "i @ CHR '':'' # string_of_int n = j @ CHR '':'' # string_of_int m" by simp
  then show ?thesis
    using last_colon_split [OF string_of_pos_digits [OF pos(1)] string_of_pos_digits [OF pos(2)]]
    by (simp add: string_of_int_inj)
qed

lemma key_next_differs: "key i n = Inr k \<Longrightarrow> key i (n + 1) \<noteq> Inr k"
  by (metis key_names_attempt add_cancel_right_right zero_neq_one)

end

end
