(* ===== verification/Money.thy ===== *)
theory Money
  imports Settling_Prelude
begin

text \<open>
  \<open>packages/money/src/index.ts\<close>: amounts of minor units in one of eight currencies, their
  arithmetic, the decimal parser, the display formats and the JSON form. A \<open>throw\<close> of
  \<open>MoneyError\<close> is \<open>Inl\<close> of its code. \<open>CurrencyCode\<close> is a union of literals in the source and
  a datatype here, so the run-time check of \<open>money\<close> for a code outside the union (reachable only
  through a cast) has no case. Strings are UTF-8 byte strings; \<open>trim\<close> removes the ASCII white
  space.
\<close>

section \<open>Currencies\<close>

datatype currency_code = INR | USD | EUR | GBP | AED | SGD | USDT | USDC

definition CURRENCIES :: "(currency_code \<times> nat) list" where
  "CURRENCIES =
     [(INR, 2), (USD, 2), (EUR, 2), (GBP, 2), (AED, 2), (SGD, 2), (USDT, 6), (USDC, 6)]"

definition scaleOf :: "currency_code \<Rightarrow> nat" where
  "scaleOf c = the (map_of CURRENCIES c)"

primrec code_string :: "currency_code \<Rightarrow> string" where
  "code_string INR = ''INR''"
| "code_string USD = ''USD''"
| "code_string EUR = ''EUR''"
| "code_string GBP = ''GBP''"
| "code_string AED = ''AED''"
| "code_string SGD = ''SGD''"
| "code_string USDT = ''USDT''"
| "code_string USDC = ''USDC''"

definition code_of_string :: "string \<Rightarrow> currency_code option" where
  "code_of_string v = List.find (\<lambda>c. code_string c = v) (map fst CURRENCIES)"

definition isCurrencyCode :: "string \<Rightarrow> bool" where
  "isCurrencyCode v = (v \<in> set (map (code_string \<circ> fst) CURRENCIES))"

lemma scaleOf_simps [simp]:
  "scaleOf INR = 2" "scaleOf USD = 2" "scaleOf EUR = 2" "scaleOf GBP = 2" "scaleOf AED = 2"
  "scaleOf SGD = 2" "scaleOf USDT = 6" "scaleOf USDC = 6"
  by (simp_all add: scaleOf_def CURRENCIES_def)

lemma scaleOf_pos: "0 < scaleOf c"
  by (cases c) simp_all

lemma scaleOf_le_6: "scaleOf c \<le> 6"
  by (cases c) simp_all

lemma code_of_code_string [simp]: "code_of_string (code_string c) = Some c"
  by (cases c) (simp_all add: code_of_string_def CURRENCIES_def)

lemma isCurrencyCode_iff: "isCurrencyCode v \<longleftrightarrow> code_of_string v \<noteq> None"
  by (auto simp: isCurrencyCode_def code_of_string_def find_None_iff)

lemma code_string_inj: "code_string c = code_string d \<longleftrightarrow> c = d"
  by (metis code_of_code_string option.inject)

section \<open>Amounts\<close>

record money =
  currency :: currency_code
  minorUnits :: int

record exact_amount =
  exact_currency :: currency_code
  exact_amount :: string
  exact_scale :: nat

datatype money_error = Currency_Mismatch | Not_An_Integer | Unknown_Currency | Negative

definition money :: "currency_code \<Rightarrow> int \<Rightarrow> money" where
  "money c n = \<lparr>currency = c, minorUnits = n\<rparr>"

lemma money_simps [simp]: "currency (money c n) = c" "minorUnits (money c n) = n"
  by (simp_all add: money_def)

lemma money_eta [simp]: "money (currency m) (minorUnits m) = m"
  by (simp add: money_def)

lemma money_eq_iff: "(m :: money) = m' \<longleftrightarrow> currency m = currency m' \<and> minorUnits m = minorUnits m'"
  by auto

definition add :: "money \<Rightarrow> money \<Rightarrow> (money_error, money) result" where
  "add a b = (if currency a \<noteq> currency b then Inl Currency_Mismatch
              else Inr (money (currency a) (minorUnits a + minorUnits b)))"

definition subtract :: "money \<Rightarrow> money \<Rightarrow> (money_error, money) result" where
  "subtract a b = (if currency a \<noteq> currency b then Inl Currency_Mismatch
                   else Inr (money (currency a) (minorUnits a - minorUnits b)))"

text \<open>\<open>items.reduce((acc, m) => add(acc, m), money(currency, 0n))\<close>\<close>

fun sum_from :: "money \<Rightarrow> money list \<Rightarrow> (money_error, money) result" where
  "sum_from acc [] = Inr acc"
| "sum_from acc (m # ms) = bind_result (add acc m) (\<lambda>acc'. sum_from acc' ms)"

definition sum_money :: "currency_code \<Rightarrow> money list \<Rightarrow> (money_error, money) result" where
  "sum_money c items = sum_from (money c 0) items"

definition compare_money :: "money \<Rightarrow> money \<Rightarrow> (money_error, int) result" where
  "compare_money a b =
     (if currency a \<noteq> currency b then Inl Currency_Mismatch
      else Inr (if minorUnits a < minorUnits b then - 1
                else if minorUnits a > minorUnits b then 1 else 0))"

definition isZero :: "money \<Rightarrow> bool" where "isZero m = (minorUnits m = 0)"
definition isNegative :: "money \<Rightarrow> bool" where "isNegative m = (minorUnits m < 0)"

lemma sum_from_Inr:
  "sum_from acc ms = Inr t \<longleftrightarrow>
     (\<forall>m\<in>set ms. currency m = currency acc) \<and>
     t = money (currency acc) (minorUnits acc + sum_list (map minorUnits ms))"
  by (induction ms arbitrary: acc) (auto simp: add_def algebra_simps)

section \<open>Parsing a decimal string\<close>

definition is_white :: "char \<Rightarrow> bool" where
  "is_white c \<longleftrightarrow> (of_char c :: nat) \<in> {9, 10, 11, 12, 13, 32}"

lemma is_white_code [code]:
  "is_white (Char b0 b1 b2 b3 b4 b5 b6 b7) \<longleftrightarrow> \<not> b4 \<and> \<not> b6 \<and> \<not> b7 \<and>
     (if b5 then \<not> b0 \<and> \<not> b1 \<and> \<not> b2 \<and> \<not> b3 else b3 \<and> (b0 \<or> b1 \<or> b2) \<and> \<not> (b1 \<and> b2))"
  by (cases b0; cases b1; cases b2; cases b3; cases b4; cases b5; cases b6; cases b7)
    (simp_all add: is_white_def)

definition trim :: "string \<Rightarrow> string" where
  "trim s = rev (dropWhile is_white (rev (dropWhile is_white s)))"

text \<open>The groups of \<open>/^(-?)(\d+)(?:\.(\d*))?$/\<close>; a missing fraction is the empty string.\<close>

definition match_unsigned :: "string \<Rightarrow> (string \<times> string) option" where
  "match_unsigned s =
     (let whole = takeWhile is_digit s; rest = dropWhile is_digit s in
      if whole = [] then None
      else case rest of
        [] \<Rightarrow> Some (whole, [])
      | c # frac \<Rightarrow> if c = CHR ''.'' \<and> list_all is_digit frac then Some (whole, frac) else None)"

definition match_decimal :: "string \<Rightarrow> (bool \<times> string \<times> string) option" where
  "match_decimal s =
     (case s of
        c # r \<Rightarrow> if c = CHR ''-'' then map_option (Pair True) (match_unsigned r)
                else map_option (Pair False) (match_unsigned s)
      | [] \<Rightarrow> None)"

definition moneyFromDecimalString :: "currency_code \<Rightarrow> string \<Rightarrow> (money_error, money) result" where
  "moneyFromDecimalString c decimal =
     (case match_decimal (trim decimal) of
        None \<Rightarrow> Inl Not_An_Integer
      | Some (neg, whole, frac) \<Rightarrow>
          if length frac > scaleOf c then Inl Not_An_Integer
          else let n = int (nat_of_digits (whole @ pad_end (scaleOf c) (CHR ''0'') frac))
               in Inr (money c (if neg then - n else n)))"

section \<open>Display\<close>

datatype number_format = International | Indian

text \<open>
  \<open>s.replace(/\B(?=(\d{n})+(?!\d))/g, ',')\<close> on a string of digits: a comma before every digit
  but the first at which a positive multiple of \<open>n\<close> digits is left.
\<close>

fun group_digits :: "nat \<Rightarrow> string \<Rightarrow> string" where
  "group_digits n [] = []"
| "group_digits n (c # cs) =
     (if cs \<noteq> [] \<and> length cs mod n = 0 then c # CHR '','' # group_digits n cs
      else c # group_digits n cs)"

definition rupee :: string where
  "rupee = [CHR 0xE2, CHR 0x82, CHR 0xB9]"

definition group_whole :: "number_format \<Rightarrow> string \<Rightarrow> string" where
  "group_whole fmt whole =
     (if fmt = Indian \<and> length whole > 3
      then group_digits 2 (slice_front 3 whole) @ [CHR '',''] @ slice_back 3 whole
      else group_digits 3 whole)"

definition formatMoney :: "money \<Rightarrow> number_format \<Rightarrow> bool \<Rightarrow> string" where
  "formatMoney m fmt symbol =
     (let scale = scaleOf (currency m);
          neg = minorUnits m < 0;
          digits = pad_start (scale + 1) (CHR ''0'')
                     (string_of_int (if neg then - minorUnits m else minorUnits m));
          whole = take (length digits - scale) digits;
          frac = (if scale > 0 then drop (length digits - scale) digits else []);
          grouped = group_whole fmt whole;
          body = (if frac \<noteq> [] then grouped @ [CHR ''.''] @ frac else grouped);
          prefix = (if symbol \<and> currency m = INR then rupee else []);
          suffix = (if symbol \<and> currency m \<noteq> INR then CHR '' '' # code_string (currency m) else [])
      in (if neg then [CHR ''-''] else []) @ prefix @ body @ suffix)"

section \<open>JSON\<close>

record money_json =
  json_currency :: string
  json_minor_units :: string
  json_scale :: nat
  json_display :: string

definition toJson :: "money \<Rightarrow> number_format \<Rightarrow> money_json" where
  "toJson m fmt =
     \<lparr>json_currency = code_string (currency m),
      json_minor_units = string_of_int (minorUnits m),
      json_scale = scaleOf (currency m),
      json_display = formatMoney m fmt True\<rparr>"

text \<open>\<open>/^-?\d+$/\<close> and \<open>BigInt\<close> on a string that matches it.\<close>

definition is_integer_string :: "string \<Rightarrow> bool" where
  "is_integer_string s =
     (case s of
        [] \<Rightarrow> False
      | c # r \<Rightarrow> if c = CHR ''-'' then r \<noteq> [] \<and> list_all is_digit r else list_all is_digit s)"

definition bigint_of_string :: "string \<Rightarrow> int" where
  "bigint_of_string s =
     (case s of
        [] \<Rightarrow> 0
      | c # r \<Rightarrow> if c = CHR ''-'' then - int (nat_of_digits r) else int (nat_of_digits s))"

definition fromJson :: "string \<Rightarrow> string \<Rightarrow> (money_error, money) result" where
  "fromJson cur minor_units =
     (case code_of_string cur of
        None \<Rightarrow> Inl Unknown_Currency
      | Some c \<Rightarrow>
          if \<not> is_integer_string minor_units then Inl Not_An_Integer
          else Inr (money c (bigint_of_string minor_units)))"

section \<open>Round trips\<close>

lemma digits_of_nat_Cons: "\<exists>c s. digits_of_nat n = c # s \<and> is_digit c \<and> list_all is_digit s \<and> c \<noteq> CHR ''-''"
proof -
  obtain c s where cs: "digits_of_nat n = c # s"
    by (metis digits_of_nat_nonempty neq_Nil_conv)
  with digits_of_nat_digits [of n] have "is_digit c" "list_all is_digit s" by simp_all
  with cs show ?thesis by (auto simp: is_digit_of_char)
qed

lemma is_integer_string_of_int: "is_integer_string (string_of_int i)"
  using digits_of_nat_Cons [of "nat i"] digits_of_nat_digits [of "nat (- i)"]
  by (auto simp: is_integer_string_def string_of_int_def digit_simps)

lemma bigint_of_string_of_int [simp]: "bigint_of_string (string_of_int i) = i"
proof (cases "i < 0")
  case True
  then show ?thesis
    by (simp add: bigint_of_string_def string_of_int_def digit_simps)
next
  case False
  obtain c s where "digits_of_nat (nat i) = c # s" "c \<noteq> CHR ''-''"
    using digits_of_nat_Cons [of "nat i"] by blast
  with False show ?thesis
    using nat_of_digits_of_nat [of "nat i"] by (simp add: bigint_of_string_def string_of_int_def)
qed

text \<open>Grouping only inserts commas, whatever the grouping is.\<close>

definition strip_commas :: "string \<Rightarrow> string" where
  "strip_commas s = filter (\<lambda>c. c \<noteq> CHR '','') s"

lemma strip_commas_append [simp]: "strip_commas (s @ t) = strip_commas s @ strip_commas t"
  by (simp add: strip_commas_def)

lemma strip_commas_comma [simp]:
  "strip_commas [] = []" "strip_commas (CHR '','' # s) = strip_commas s"
  by (simp_all add: strip_commas_def)

lemma strip_commas_digits: "list_all is_digit s \<Longrightarrow> strip_commas s = s"
  by (auto simp: strip_commas_def filter_id_conv list_all_iff is_digit_of_char)

lemma strip_commas_group: "list_all is_digit s \<Longrightarrow> strip_commas (group_digits n s) = s"
  by (induction n s rule: group_digits.induct) (auto simp: strip_commas_def is_digit_of_char)

lemma list_all_slices:
  "list_all P s \<Longrightarrow> list_all P (take n s)" "list_all P s \<Longrightarrow> list_all P (drop n s)"
  "list_all P s \<Longrightarrow> list_all P (slice_front n s)" "list_all P s \<Longrightarrow> list_all P (slice_back n s)"
  by (auto simp: list_all_iff slice_front_def slice_back_def dest: in_set_takeD in_set_dropD)

lemma strip_commas_group_whole: "list_all is_digit s \<Longrightarrow> strip_commas (group_whole fmt s) = s"
  by (simp add: group_whole_def strip_commas_group strip_commas_digits list_all_slices
      slice_front_back)

lemma trim_no_white:
  assumes "s \<noteq> []" "\<not> is_white (hd s)" "\<not> is_white (last s)"
  shows "trim s = s"
proof -
  have "dropWhile is_white s = s"
    using assms by (cases s) auto
  moreover have "dropWhile is_white (rev s) = rev s"
    using assms by (cases "rev s") (auto simp: last_rev [symmetric] hd_rev)
  ultimately show ?thesis by (simp add: trim_def)
qed

lemma is_digit_not_white: "is_digit c \<Longrightarrow> \<not> is_white c"
  by (auto simp: is_digit_of_char is_white_def)

lemma match_unsigned_parts:
  assumes "list_all is_digit whole" "whole \<noteq> []" "list_all is_digit frac"
  shows "match_unsigned (whole @ CHR ''.'' # frac) = Some (whole, frac)"
  using assms split_at_non_digit [of whole "CHR ''.''" frac] by (simp add: match_unsigned_def)

text \<open>A signed decimal with exactly as many decimals as the currency has is read exactly.\<close>

lemma moneyFromDecimalString_exact:
  assumes "list_all is_digit whole" "whole \<noteq> []" "list_all is_digit frac"
    and "length frac = scaleOf c"
  shows "moneyFromDecimalString c ((if neg then [CHR ''-''] else []) @ whole @ [CHR ''.''] @ frac)
    = Inr (money c ((if neg then - 1 else 1) * int (nat_of_digits (whole @ frac))))"
proof -
  let ?s = "(if neg then [CHR ''-''] else []) @ whole @ [CHR ''.''] @ frac"
  obtain d ds where w: "whole = d # ds" "is_digit d"
    using assms(1,2) by (cases whole) auto
  have frac: "frac \<noteq> []" using assms(4) scaleOf_pos [of c] by auto
  with assms(3) have "is_digit (last frac)" by (auto simp: list_all_iff)
  with frac have "\<not> is_white (last ?s)" by (simp add: is_digit_not_white)
  moreover have "\<not> is_white (hd ?s)"
    using w by (simp add: is_digit_not_white) (simp add: is_white_def)
  ultimately have "trim ?s = ?s" by (intro trim_no_white) simp_all
  moreover have "match_decimal ?s = Some (neg, whole, frac)"
    using match_unsigned_parts [OF assms(1-3)] w
    by (auto simp: match_decimal_def is_digit_of_char)
  ultimately show ?thesis
    using assms(4) by (simp add: moneyFromDecimalString_def Let_def pad_end_def)
qed

text \<open>
  The display form loses nothing: without its commas, it parses back to the amount it shows,
  in both groupings, for every amount and currency.
\<close>

theorem display_parses_back:
  "moneyFromDecimalString (currency m) (strip_commas (formatMoney m fmt False)) = Inr m"
proof -
  let ?scale = "scaleOf (currency m)"
  define digits where "digits = pad_start (?scale + 1) (CHR ''0'') (digits_of_nat (nat \<bar>minorUnits m\<bar>))"
  define whole where "whole = take (length digits - ?scale) digits"
  define frac where "frac = drop (length digits - ?scale) digits"
  have digits: "list_all is_digit digits"
    using digits_of_nat_digits [of "nat \<bar>minorUnits m\<bar>"]
    by (auto simp: digits_def pad_start_def list_all_iff)
  have len: "length digits \<ge> ?scale + 1" by (simp add: digits_def pad_start_def)
  then have parts: "list_all is_digit whole" "whole \<noteq> []" "list_all is_digit frac"
      "length frac = ?scale"
    using digits by (auto simp: whole_def frac_def list_all_slices)
  then have "frac \<noteq> []" using scaleOf_pos [of "currency m"] by auto
  have "string_of_int (if minorUnits m < 0 then - minorUnits m else minorUnits m) =
      digits_of_nat (nat \<bar>minorUnits m\<bar>)"
    by (simp add: string_of_int_def)
  then have "formatMoney m fmt False =
      (if minorUnits m < 0 then [CHR ''-''] else []) @ group_whole fmt whole @ [CHR ''.''] @ frac"
    using \<open>frac \<noteq> []\<close> scaleOf_pos [of "currency m"]
    by (simp add: formatMoney_def Let_def digits_def whole_def frac_def)
  then have "strip_commas (formatMoney m fmt False) =
      (if minorUnits m < 0 then [CHR ''-''] else []) @ whole @ [CHR ''.''] @ frac"
    using parts by (simp add: strip_commas_group_whole strip_commas_digits) (simp add: strip_commas_def
      strip_commas_digits [unfolded strip_commas_def])
  moreover have "nat_of_digits (whole @ frac) = nat \<bar>minorUnits m\<bar>"
    by (simp add: whole_def frac_def digits_def digit_simps)
  ultimately show ?thesis
    using moneyFromDecimalString_exact [OF parts, of "minorUnits m < 0"]
    by (simp add: money_eq_iff)
qed

text \<open>
  The wire form is a faithful encoding: reading the JSON of an amount gives the amount back.
\<close>

theorem fromJson_toJson:
  "fromJson (json_currency (toJson m fmt)) (json_minor_units (toJson m fmt)) = Inr m"
  by (simp add: fromJson_def toJson_def is_integer_string_of_int)

text \<open>
  A sum of amounts is refused exactly when an item is in another currency, and is the exact
  integer total otherwise.
\<close>

theorem sum_money_exact:
  "sum_money c items = Inr t \<longleftrightarrow>
     list_all (\<lambda>m. currency m = c) items \<and> currency t = c \<and>
     minorUnits t = sum_list (map minorUnits items)"
  by (auto simp: sum_money_def sum_from_Inr money_eq_iff list_all_iff)

end
