(* ===== verification/Facility_Ledger.thy ===== *)
theory Facility_Ledger
  imports Money
begin

text \<open>
  \<open>packages/domain/src/liquidity/facility.ts\<close>: the position of a liquidity facility, its
  availability, the double-entry ledger and the projection of the position from it. A \<open>throw\<close> is
  \<open>Inl\<close> of its code.
\<close>

section \<open>The position\<close>

datatype facility_status = F_ACTIVE | F_SUSPENDED | F_CLOSED

definition facilityAcceptsNewExposure :: "facility_status \<Rightarrow> bool" where
  "facilityAcceptsNewExposure status = (status = F_ACTIVE)"

record facility_position =
  pos_currency :: currency_code
  pos_limit :: money
  pos_drawn :: money
  pos_reserved :: money

datatype liquidity_error = Negative_Availability | Entry_Currency_Mismatch | Money_Error money_error

definition lift_money :: "(money_error, 'a) result \<Rightarrow> (liquidity_error, 'a) result" where
  "lift_money r = (case r of Inl e \<Rightarrow> Inl (Money_Error e) | Inr x \<Rightarrow> Inr x)"

definition availableToSettle :: "facility_position \<Rightarrow> (liquidity_error, money) result" where
  "availableToSettle position =
     bind_result (lift_money (subtract (pos_limit position) (pos_drawn position))) (\<lambda>undrawn.
     bind_result (lift_money (subtract undrawn (pos_reserved position))) (\<lambda>available.
     if minorUnits available < 0 then Inl Negative_Availability else Inr available))"

datatype reserve_verdict =
    Reserve_Ok | Facility_Not_Active | Insufficient_Availability | Reserve_Currency_Mismatch

definition canReserve ::
    "facility_position \<Rightarrow> facility_status \<Rightarrow> money \<Rightarrow> (liquidity_error, reserve_verdict) result" where
  "canReserve position status amount =
     (if \<not> facilityAcceptsNewExposure status then Inr Facility_Not_Active
      else if currency amount \<noteq> pos_currency position then Inr Reserve_Currency_Mismatch
      else bind_result (availableToSettle position) (\<lambda>available.
           bind_result (lift_money (compare_money available amount)) (\<lambda>c.
           Inr (if c < 0 then Insufficient_Availability else Reserve_Ok))))"

section \<open>The ledger\<close>

datatype ledger_account = Acc_available | Acc_reserved | Acc_drawn

datatype ledger_direction = Debit | Credit

datatype ledger_movement =
    reservation_created | reservation_released | reservation_expired | reservation_consumed
  | repayment_confirmed | limit_changed

record ledger_entry =
  le_id :: string
  le_facilityId :: string
  le_transferId :: string
  le_movement :: ledger_movement
  le_account :: ledger_account
  le_direction :: ledger_direction
  le_currency :: currency_code
  le_minorUnits :: int

definition signed_amount :: "ledger_entry \<Rightarrow> int" where
  "signed_amount e = (if le_direction e = Debit then le_minorUnits e else - le_minorUnits e)"

fun project_entries ::
    "currency_code \<Rightarrow> int \<Rightarrow> int \<Rightarrow> ledger_entry list \<Rightarrow> (liquidity_error, int \<times> int) result" where
  "project_entries c drawn reserved [] = Inr (drawn, reserved)"
| "project_entries c drawn reserved (e # es) =
     (if le_currency e \<noteq> c then Inl Entry_Currency_Mismatch
      else (case le_account e of
              Acc_reserved \<Rightarrow> project_entries c drawn (reserved + signed_amount e) es
            | Acc_drawn \<Rightarrow> project_entries c (drawn + signed_amount e) reserved es
            | Acc_available \<Rightarrow> project_entries c drawn reserved es))"

definition projectPosition ::
    "currency_code \<Rightarrow> money \<Rightarrow> ledger_entry list \<Rightarrow> (liquidity_error, facility_position) result" where
  "projectPosition c limit entries =
     bind_result (project_entries c 0 0 entries) (\<lambda>(drawn, reserved).
     Inr \<lparr>pos_currency = c, pos_limit = limit, pos_drawn = money c drawn, pos_reserved = money c reserved\<rparr>)"

record ledger_pair =
  lp_movement :: ledger_movement
  lp_from :: ledger_account
  lp_to :: ledger_account

text \<open>\<open>limit_changed\<close> is excluded from the table by its type; it has no pair.\<close>

definition MOVEMENT_PAIRS :: "ledger_movement \<Rightarrow> ledger_pair option" where
  "MOVEMENT_PAIRS m =
     (case m of
        reservation_created \<Rightarrow>
          Some \<lparr>lp_movement = reservation_created, lp_from = Acc_available, lp_to = Acc_reserved\<rparr>
      | reservation_released \<Rightarrow>
          Some \<lparr>lp_movement = reservation_released, lp_from = Acc_reserved, lp_to = Acc_available\<rparr>
      | reservation_expired \<Rightarrow>
          Some \<lparr>lp_movement = reservation_expired, lp_from = Acc_reserved, lp_to = Acc_available\<rparr>
      | reservation_consumed \<Rightarrow>
          Some \<lparr>lp_movement = reservation_consumed, lp_from = Acc_reserved, lp_to = Acc_drawn\<rparr>
      | repayment_confirmed \<Rightarrow>
          Some \<lparr>lp_movement = repayment_confirmed, lp_from = Acc_drawn, lp_to = Acc_available\<rparr>
      | limit_changed \<Rightarrow> None)"

definition ledgerPairFor :: "ledger_movement \<Rightarrow> (ledger_account \<times> ledger_account) option" where
  "ledgerPairFor movement = map_option (\<lambda>pair. (lp_to pair, lp_from pair)) (MOVEMENT_PAIRS movement)"

section \<open>The projection as sums\<close>

text \<open>The balance of an account: debits minus credits.\<close>

definition balance :: "ledger_account \<Rightarrow> ledger_entry list \<Rightarrow> int" where
  "balance a es = sum_list (map signed_amount (filter (\<lambda>e. le_account e = a) es))"

lemma balance_simps [simp]:
  "balance a [] = 0"
  "balance a (e # es) = (if le_account e = a then signed_amount e else 0) + balance a es"
  "balance a (es @ fs) = balance a es + balance a fs"
  by (simp_all add: balance_def)

lemma project_entries_Inr:
  "project_entries c d r es = Inr q \<longleftrightarrow>
     list_all (\<lambda>e. le_currency e = c) es \<and> q = (d + balance Acc_drawn es, r + balance Acc_reserved es)"
  by (induction es arbitrary: d r) (auto split: ledger_account.splits)

lemma projectPosition_Inr:
  "projectPosition c limit es = Inr p \<longleftrightarrow>
     list_all (\<lambda>e. le_currency e = c) es \<and>
     p = \<lparr>pos_currency = c, pos_limit = limit, pos_drawn = money c (balance Acc_drawn es),
          pos_reserved = money c (balance Acc_reserved es)\<rparr>"
  by (auto simp: projectPosition_def bind_result_Inr project_entries_Inr)

section \<open>Movements\<close>

text \<open>The pair of entries of a movement, as the ledger holds it.\<close>

definition movement_entries ::
    "ledger_movement \<Rightarrow> string \<Rightarrow> string \<Rightarrow> string \<Rightarrow> string \<Rightarrow> currency_code \<Rightarrow> int \<Rightarrow> ledger_entry list" where
  "movement_entries m f tid i1 i2 c n =
     (case ledgerPairFor m of
        None \<Rightarrow> []
      | Some (debit, credit) \<Rightarrow>
          [\<lparr>le_id = i1, le_facilityId = f, le_transferId = tid, le_movement = m,
            le_account = debit, le_direction = Debit, le_currency = c, le_minorUnits = n\<rparr>,
           \<lparr>le_id = i2, le_facilityId = f, le_transferId = tid, le_movement = m,
            le_account = credit, le_direction = Credit, le_currency = c, le_minorUnits = n\<rparr>])"

definition moved :: "ledger_movement \<Rightarrow> ledger_account \<Rightarrow> int \<Rightarrow> int" where
  "moved m a n =
     (case ledgerPairFor m of
        None \<Rightarrow> 0
      | Some (debit, credit) \<Rightarrow> (if a = debit then n else 0) - (if a = credit then n else 0))"

lemma balance_movement [simp]: "balance a (movement_entries m f tid i1 i2 c n) = moved m a n"
  by (cases m)
    (simp_all add: movement_entries_def moved_def ledgerPairFor_def MOVEMENT_PAIRS_def signed_amount_def)

lemma moved_balanced: "moved m Acc_available n + moved m Acc_reserved n + moved m Acc_drawn n = 0"
  by (cases m) (simp_all add: moved_def ledgerPairFor_def MOVEMENT_PAIRS_def)

lemma moved_simps [simp]:
  "moved reservation_created Acc_reserved n = n" "moved reservation_created Acc_drawn n = 0"
  "moved reservation_released Acc_reserved n = - n" "moved reservation_released Acc_drawn n = 0"
  "moved reservation_expired Acc_reserved n = - n" "moved reservation_expired Acc_drawn n = 0"
  "moved reservation_consumed Acc_reserved n = - n" "moved reservation_consumed Acc_drawn n = n"
  "moved repayment_confirmed Acc_reserved n = 0" "moved repayment_confirmed Acc_drawn n = - n"
  by (simp_all add: moved_def ledgerPairFor_def MOVEMENT_PAIRS_def)

section \<open>Properties\<close>

text \<open>
  The projection is the ledger: it is refused exactly when an entry is in another currency, and
  otherwise drawn and reserved are the debit balances of their accounts; the order of the entries
  does not matter because each is a sum.
\<close>

theorem projection_is_balances:
  "projectPosition c limit es = Inr p \<longleftrightarrow>
     list_all (\<lambda>e. le_currency e = c) es \<and> pos_currency p = c \<and> pos_limit p = limit \<and>
     pos_drawn p = money c (balance Acc_drawn es) \<and>
     pos_reserved p = money c (balance Acc_reserved es)"
  by (auto simp: projectPosition_Inr)

text \<open>
  Every movement is balanced, and what each does to the projected position is its documented
  effect: a reservation raises reserved, a release or an expiry lowers it, a consumption moves it
  to drawn, a confirmed repayment lowers drawn.
\<close>

theorem movement_effect:
  "balance Acc_available (es @ movement_entries m f tid i1 i2 c n)
      + balance Acc_reserved (es @ movement_entries m f tid i1 i2 c n)
      + balance Acc_drawn (es @ movement_entries m f tid i1 i2 c n)
    = balance Acc_available es + balance Acc_reserved es + balance Acc_drawn es \<and>
   balance Acc_reserved (es @ movement_entries m f tid i1 i2 c n) = balance Acc_reserved es +
     (case m of reservation_created \<Rightarrow> n | reservation_released \<Rightarrow> - n | reservation_expired \<Rightarrow> - n
      | reservation_consumed \<Rightarrow> - n | repayment_confirmed \<Rightarrow> 0 | limit_changed \<Rightarrow> 0) \<and>
   balance Acc_drawn (es @ movement_entries m f tid i1 i2 c n) = balance Acc_drawn es +
     (case m of reservation_created \<Rightarrow> 0 | reservation_released \<Rightarrow> 0 | reservation_expired \<Rightarrow> 0
      | reservation_consumed \<Rightarrow> n | repayment_confirmed \<Rightarrow> - n | limit_changed \<Rightarrow> 0)"
  using moved_balanced [of m n]
  by (cases m) (simp_all add: moved_def ledgerPairFor_def MOVEMENT_PAIRS_def)

text \<open>A position whose three amounts are in its own currency.\<close>

definition coherent :: "facility_position \<Rightarrow> bool" where
  "coherent p \<longleftrightarrow> currency (pos_limit p) = pos_currency p \<and> currency (pos_drawn p) = pos_currency p \<and>
     currency (pos_reserved p) = pos_currency p"

lemma availableToSettle_Inr:
  "coherent p \<Longrightarrow> availableToSettle p = Inr a \<longleftrightarrow>
     a = money (pos_currency p) (minorUnits (pos_limit p) - minorUnits (pos_drawn p) - minorUnits (pos_reserved p)) \<and>
     0 \<le> minorUnits (pos_limit p) - minorUnits (pos_drawn p) - minorUnits (pos_reserved p)"
  by (auto simp: availableToSettle_def coherent_def subtract_def lift_money_def)

text \<open>
  A reservation is granted exactly when the facility is active, the amount is in its currency
  and does not exceed what is available, the exact remainder included; and granting it keeps the
  availability of the facility non-negative.
\<close>

theorem canReserve_exact:
  assumes "coherent p" "availableToSettle p = Inr a"
  shows "(canReserve p status amount = Inr Reserve_Ok \<longleftrightarrow>
      status = F_ACTIVE \<and> currency amount = pos_currency p \<and> minorUnits amount \<le> minorUnits a) \<and>
    ((\<exists>a'. availableToSettle (p\<lparr>pos_reserved := money (pos_currency p)
            (minorUnits (pos_reserved p) + minorUnits amount)\<rparr>) = Inr a') \<longleftrightarrow>
      minorUnits amount \<le> minorUnits a)"
proof -
  from assms have a: "a = money (pos_currency p)
      (minorUnits (pos_limit p) - minorUnits (pos_drawn p) - minorUnits (pos_reserved p))"
    by (simp add: availableToSettle_Inr)
  have "canReserve p status amount = Inr Reserve_Ok \<longleftrightarrow>
      status = F_ACTIVE \<and> currency amount = pos_currency p \<and> minorUnits amount \<le> minorUnits a"
    using assms(2)
    by (auto simp: canReserve_def facilityAcceptsNewExposure_def compare_money_def lift_money_def a)
  moreover have "coherent (p\<lparr>pos_reserved := money (pos_currency p) (minorUnits (pos_reserved p) + minorUnits amount)\<rparr>)"
    using assms(1) by (simp add: coherent_def)
  ultimately show ?thesis by (auto simp: availableToSettle_Inr a)
qed

definition sample_position :: facility_position where
  "sample_position =
     \<lparr>pos_currency = USDT, pos_limit = money USDT 1000, pos_drawn = money USDT 300,
      pos_reserved = money USDT 200\<rparr>"

theorem canReserve_exact_witness:
  "availableToSettle sample_position = Inr (money USDT 500) \<and>
   canReserve sample_position F_ACTIVE (money USDT 500) = Inr Reserve_Ok \<and>
   canReserve sample_position F_ACTIVE (money USDT 501) \<noteq> Inr Reserve_Ok"
proof -
  have p: "coherent sample_position" by (simp add: coherent_def sample_position_def)
  then have a: "availableToSettle sample_position = Inr (money USDT 500)"
    by (simp add: availableToSettle_Inr) (simp add: sample_position_def)
  with canReserve_exact [OF p a] show ?thesis by (simp add: sample_position_def)
qed

end
