(* ===== verification/Funding_Machines.thy ===== *)
theory Funding_Machines
  imports Lifecycle Idempotency Facility_Ledger Settlement_Table
begin

text \<open>
  The three lifecycles of the funding leg, from \<open>packages/domain/src/liquidity/\<close>:
  \<open>reservation.ts\<close> (V01-V04), \<open>drawdown.ts\<close> (W01-W06) and \<open>repayment.ts\<close> (Y01-Y08). The \<open>guard\<close>
  column of the tables is prose that no code reads and is left out. Constructors carry the letter of
  their table; \<open>Number.isInteger\<close> holds of every \<open>int\<close>.
\<close>

section \<open>Reservations\<close>

datatype reservation_status = V_ACTIVE | V_CONSUMED | V_RELEASED | V_EXPIRED

definition TERMINAL_RESERVATION_STATUSES :: "reservation_status list" where
  "TERMINAL_RESERVATION_STATUSES = [V_CONSUMED, V_RELEASED, V_EXPIRED]"

definition isReservationTerminal :: "reservation_status \<Rightarrow> bool" where
  "isReservationTerminal s = (s \<in> set TERMINAL_RESERVATION_STATUSES)"

datatype reservation_trigger = V_reserve | V_consume | V_release | V_expire

datatype reservation_transition_id = V01 | V02 | V03 | V04

record reservation_transition =
  vt_id :: reservation_transition_id
  vt_from :: "reservation_status list"
  vt_trigger :: reservation_trigger
  vt_to :: reservation_status
  vt_movement :: ledger_movement

definition RESERVATION_TRANSITIONS :: "reservation_transition list" where
  "RESERVATION_TRANSITIONS =
     [\<lparr>vt_id = V01, vt_from = [], vt_trigger = V_reserve, vt_to = V_ACTIVE,
       vt_movement = reservation_created\<rparr>,
      \<lparr>vt_id = V02, vt_from = [V_ACTIVE], vt_trigger = V_consume, vt_to = V_CONSUMED,
       vt_movement = reservation_consumed\<rparr>,
      \<lparr>vt_id = V03, vt_from = [V_ACTIVE], vt_trigger = V_release, vt_to = V_RELEASED,
       vt_movement = reservation_released\<rparr>,
      \<lparr>vt_id = V04, vt_from = [V_ACTIVE], vt_trigger = V_expire, vt_to = V_EXPIRED,
       vt_movement = reservation_expired\<rparr>]"

datatype reservation_refusal = V_Invalid_Transition | Consumed_Cannot_Be_Released

record reservation_ok =
  vo_id :: reservation_transition_id
  vo_to :: reservation_status
  vo_movement :: ledger_movement

definition evaluateReservationTransition ::
    "reservation_status option \<Rightarrow> reservation_trigger \<Rightarrow> (reservation_refusal, reservation_ok) result" where
  "evaluateReservationTransition from t =
     (if from = Some V_CONSUMED \<and> (t = V_release \<or> t = V_expire) then Inl Consumed_Cannot_Be_Released
      else case find_row vt_trigger vt_from RESERVATION_TRANSITIONS from t of
             None \<Rightarrow> Inl V_Invalid_Transition
           | Some r \<Rightarrow> Inr \<lparr>vo_id = vt_id r, vo_to = vt_to r, vo_movement = vt_movement r\<rparr>)"

definition releaseIsNoop :: "reservation_status \<Rightarrow> bool" where
  "releaseIsNoop status = (status = V_RELEASED \<or> status = V_EXPIRED)"

datatype release_reason = settlement_cancelled | settlement_failed | drawdown_failed | ttl_expired

interpretation reservation:
  lifecycle_table vt_trigger vt_from RESERVATION_TRANSITIONS isReservationTerminal vt_to
  by unfold_locales
    (auto simp: RESERVATION_TRANSITIONS_def isReservationTerminal_def TERMINAL_RESERVATION_STATUSES_def)

lemma evaluateReservation_value:
  "evaluateReservationTransition from t =
     (case (from, t) of
        (None, V_reserve) \<Rightarrow> Inr \<lparr>vo_id = V01, vo_to = V_ACTIVE, vo_movement = reservation_created\<rparr>
      | (Some V_ACTIVE, V_consume) \<Rightarrow>
          Inr \<lparr>vo_id = V02, vo_to = V_CONSUMED, vo_movement = reservation_consumed\<rparr>
      | (Some V_ACTIVE, V_release) \<Rightarrow>
          Inr \<lparr>vo_id = V03, vo_to = V_RELEASED, vo_movement = reservation_released\<rparr>
      | (Some V_ACTIVE, V_expire) \<Rightarrow>
          Inr \<lparr>vo_id = V04, vo_to = V_EXPIRED, vo_movement = reservation_expired\<rparr>
      | (Some V_CONSUMED, V_release) \<Rightarrow> Inl Consumed_Cannot_Be_Released
      | (Some V_CONSUMED, V_expire) \<Rightarrow> Inl Consumed_Cannot_Be_Released
      | _ \<Rightarrow> Inl V_Invalid_Transition)"
  by (cases "from"; cases t)
    (auto simp: evaluateReservationTransition_def find_row_def row_accepts_def RESERVATION_TRANSITIONS_def
      split: reservation_status.split)

text \<open>A history of a reservation, with the ledger movements its transitions post.\<close>

fun run_reservation ::
    "reservation_status option \<Rightarrow> reservation_trigger list \<Rightarrow>
     (reservation_status option \<times> ledger_movement list) option" where
  "run_reservation s [] = Some (s, [])"
| "run_reservation s (t # ts) =
     (case evaluateReservationTransition s t of
        Inl _ \<Rightarrow> None
      | Inr ok \<Rightarrow> map_option (\<lambda>(s', ms). (s', vo_movement ok # ms)) (run_reservation (Some (vo_to ok)) ts))"

definition held_in :: "reservation_status option \<Rightarrow> ledger_account \<Rightarrow> int \<Rightarrow> int" where
  "held_in s a n =
     (if s = Some V_ACTIVE \<and> a = Acc_reserved \<or> s = Some V_CONSUMED \<and> a = Acc_drawn then n else 0)"

lemma run_reservation_held:
  assumes "run_reservation s ts = Some (s', ms)" "a \<noteq> Acc_available"
  shows "sum_list (map (\<lambda>m. moved m a n) ms) = held_in s' a n - held_in s a n"
  using assms(1)
proof (induction ts arbitrary: s ms)
  case (Cons t ts)
  then obtain ok ms' where ok: "evaluateReservationTransition s t = Inr ok"
    and ms: "run_reservation (Some (vo_to ok)) ts = Some (s', ms')" "ms = vo_movement ok # ms'"
    by (auto split: sum.splits)
  from ok assms(2) have "moved (vo_movement ok) a n = held_in (Some (vo_to ok)) a n - held_in s a n"
    by (cases a)
      (auto simp: evaluateReservation_value held_in_def
        split: option.splits reservation_status.splits reservation_trigger.splits)
  with Cons.IH [OF ms(1)] ms(2) show ?case by simp
qed simp

section \<open>Drawdowns\<close>

datatype drawdown_status = W_REQUESTED | W_CONFIRMED | W_FAILED | W_UNKNOWN

definition TERMINAL_DRAWDOWN_STATUSES :: "drawdown_status list" where
  "TERMINAL_DRAWDOWN_STATUSES = [W_CONFIRMED, W_FAILED]"

definition isDrawdownTerminal :: "drawdown_status \<Rightarrow> bool" where
  "isDrawdownTerminal s = (s \<in> set TERMINAL_DRAWDOWN_STATUSES)"

datatype drawdown_trigger =
    W_request | W_confirmed | W_failed | W_sla_elapsed | W_pull_resolved_confirmed
  | W_pull_resolved_failed

record drawdown_transition =
  wt_id :: string
  wt_from :: "drawdown_status list"
  wt_trigger :: drawdown_trigger
  wt_to :: drawdown_status
  wt_settlementTransition :: "transition_id option"

definition DRAWDOWN_TRANSITIONS :: "drawdown_transition list" where
  "DRAWDOWN_TRANSITIONS =
     [\<lparr>wt_id = ''W01'', wt_from = [], wt_trigger = W_request, wt_to = W_REQUESTED,
       wt_settlementTransition = Some T12\<rparr>,
      \<lparr>wt_id = ''W02'', wt_from = [W_REQUESTED], wt_trigger = W_confirmed, wt_to = W_CONFIRMED,
       wt_settlementTransition = Some T13\<rparr>,
      \<lparr>wt_id = ''W03'', wt_from = [W_REQUESTED], wt_trigger = W_failed, wt_to = W_FAILED,
       wt_settlementTransition = Some T14\<rparr>,
      \<lparr>wt_id = ''W04'', wt_from = [W_REQUESTED], wt_trigger = W_sla_elapsed, wt_to = W_UNKNOWN,
       wt_settlementTransition = Some T29\<rparr>,
      \<lparr>wt_id = ''W05'', wt_from = [W_UNKNOWN], wt_trigger = W_pull_resolved_confirmed, wt_to = W_CONFIRMED,
       wt_settlementTransition = None\<rparr>,
      \<lparr>wt_id = ''W06'', wt_from = [W_UNKNOWN], wt_trigger = W_pull_resolved_failed, wt_to = W_FAILED,
       wt_settlementTransition = None\<rparr>]"

datatype drawdown_refusal = W_Invalid_Transition

definition evaluateDrawdownTransition ::
    "drawdown_status option \<Rightarrow> drawdown_trigger \<Rightarrow> (drawdown_refusal, string \<times> drawdown_status) result" where
  "evaluateDrawdownTransition from t =
     (case find_row wt_trigger wt_from DRAWDOWN_TRANSITIONS from t of
        None \<Rightarrow> Inl W_Invalid_Transition
      | Some r \<Rightarrow> Inr (wt_id r, wt_to r))"

definition drawdownFingerprint :: "string \<Rightarrow> string" where
  "drawdownFingerprint drawdownId = ''drawdown:'' @ ''v1'' @ '':'' @ drawdownId"

interpretation drawdown:
  lifecycle_table wt_trigger wt_from DRAWDOWN_TRANSITIONS isDrawdownTerminal wt_to
  by unfold_locales
    (auto simp: DRAWDOWN_TRANSITIONS_def isDrawdownTerminal_def TERMINAL_DRAWDOWN_STATUSES_def)

lemma evaluateDrawdown_value:
  "evaluateDrawdownTransition from t =
     (case (from, t) of
        (None, W_request) \<Rightarrow> Inr (''W01'', W_REQUESTED)
      | (Some W_REQUESTED, W_confirmed) \<Rightarrow> Inr (''W02'', W_CONFIRMED)
      | (Some W_REQUESTED, W_failed) \<Rightarrow> Inr (''W03'', W_FAILED)
      | (Some W_REQUESTED, W_sla_elapsed) \<Rightarrow> Inr (''W04'', W_UNKNOWN)
      | (Some W_UNKNOWN, W_pull_resolved_confirmed) \<Rightarrow> Inr (''W05'', W_CONFIRMED)
      | (Some W_UNKNOWN, W_pull_resolved_failed) \<Rightarrow> Inr (''W06'', W_FAILED)
      | _ \<Rightarrow> Inl W_Invalid_Transition)"
  by (cases "from"; cases t)
    (auto simp: evaluateDrawdownTransition_def find_row_def row_accepts_def DRAWDOWN_TRANSITIONS_def
      split: drawdown_status.split)

section \<open>Repayments\<close>

datatype repayment_status = Y_REQUESTED | Y_SUBMITTED | Y_CONFIRMED | Y_FAILED | Y_UNKNOWN

definition TERMINAL_REPAYMENT_STATUSES :: "repayment_status list" where
  "TERMINAL_REPAYMENT_STATUSES = [Y_CONFIRMED]"

definition isRepaymentTerminal :: "repayment_status \<Rightarrow> bool" where
  "isRepaymentTerminal s = (s \<in> set TERMINAL_REPAYMENT_STATUSES)"

definition IN_FLIGHT_REPAYMENT_STATUSES :: "repayment_status list" where
  "IN_FLIGHT_REPAYMENT_STATUSES = [Y_REQUESTED, Y_SUBMITTED, Y_UNKNOWN]"

definition isRepaymentInFlight :: "repayment_status \<Rightarrow> bool" where
  "isRepaymentInFlight s = (s \<in> set IN_FLIGHT_REPAYMENT_STATUSES)"

datatype repayment_source = CANCELLATION_AFTER_DRAWDOWN | SETTLEMENT_RETURN | MANUAL | SCHEDULED

datatype repayment_trigger =
    Y_request | Y_submit | Y_confirmed | Y_rejected | Y_sla_elapsed | Y_pull_resolved_confirmed
  | Y_pull_resolved_failed | Y_re_request

datatype repayment_transition_id = Y01 | Y02 | Y03 | Y04 | Y05 | Y06 | Y07 | Y08

record repayment_transition =
  yt_id :: repayment_transition_id
  yt_from :: "repayment_status list"
  yt_trigger :: repayment_trigger
  yt_to :: repayment_status
  yt_restoresCapacity :: bool
  yt_requiresNewFingerprint :: bool

definition REPAYMENT_TRANSITIONS :: "repayment_transition list" where
  "REPAYMENT_TRANSITIONS =
     [\<lparr>yt_id = Y01, yt_from = [], yt_trigger = Y_request, yt_to = Y_REQUESTED,
       yt_restoresCapacity = False, yt_requiresNewFingerprint = False\<rparr>,
      \<lparr>yt_id = Y02, yt_from = [Y_REQUESTED], yt_trigger = Y_submit, yt_to = Y_SUBMITTED,
       yt_restoresCapacity = False, yt_requiresNewFingerprint = False\<rparr>,
      \<lparr>yt_id = Y03, yt_from = [Y_SUBMITTED], yt_trigger = Y_confirmed, yt_to = Y_CONFIRMED,
       yt_restoresCapacity = True, yt_requiresNewFingerprint = False\<rparr>,
      \<lparr>yt_id = Y04, yt_from = [Y_SUBMITTED], yt_trigger = Y_rejected, yt_to = Y_FAILED,
       yt_restoresCapacity = False, yt_requiresNewFingerprint = False\<rparr>,
      \<lparr>yt_id = Y05, yt_from = [Y_SUBMITTED], yt_trigger = Y_sla_elapsed, yt_to = Y_UNKNOWN,
       yt_restoresCapacity = False, yt_requiresNewFingerprint = False\<rparr>,
      \<lparr>yt_id = Y06, yt_from = [Y_UNKNOWN], yt_trigger = Y_pull_resolved_confirmed, yt_to = Y_CONFIRMED,
       yt_restoresCapacity = True, yt_requiresNewFingerprint = False\<rparr>,
      \<lparr>yt_id = Y07, yt_from = [Y_UNKNOWN], yt_trigger = Y_pull_resolved_failed, yt_to = Y_FAILED,
       yt_restoresCapacity = False, yt_requiresNewFingerprint = False\<rparr>,
      \<lparr>yt_id = Y08, yt_from = [Y_FAILED], yt_trigger = Y_re_request, yt_to = Y_REQUESTED,
       yt_restoresCapacity = False, yt_requiresNewFingerprint = True\<rparr>]"

datatype repayment_refusal = Y_Invalid_Transition

record repayment_ok =
  yo_id :: repayment_transition_id
  yo_to :: repayment_status
  yo_restoresCapacity :: bool
  yo_requiresNewFingerprint :: bool

definition evaluateRepaymentTransition ::
    "repayment_status option \<Rightarrow> repayment_trigger \<Rightarrow> (repayment_refusal, repayment_ok) result" where
  "evaluateRepaymentTransition from t =
     (case find_row yt_trigger yt_from REPAYMENT_TRANSITIONS from t of
        None \<Rightarrow> Inl Y_Invalid_Transition
      | Some r \<Rightarrow> Inr \<lparr>yo_id = yt_id r, yo_to = yt_to r, yo_restoresCapacity = yt_restoresCapacity r,
                       yo_requiresNewFingerprint = yt_requiresNewFingerprint r\<rparr>)"

definition capacityRestoringTransitions :: "repayment_transition_id list" where
  "capacityRestoringTransitions = map yt_id (filter yt_restoresCapacity REPAYMENT_TRANSITIONS)"

definition repaymentFingerprint :: "string \<Rightarrow> int \<Rightarrow> (range_error, string) result" where
  "repaymentFingerprint repaymentId attempt =
     (if attempt < 1 then Inl Range_Error
      else Inr (''repay:'' @ ''v1'' @ '':'' @ repaymentId @ '':'' @ string_of_int attempt))"

interpretation repayment:
  lifecycle_table yt_trigger yt_from REPAYMENT_TRANSITIONS isRepaymentTerminal yt_to
  by unfold_locales
    (auto simp: REPAYMENT_TRANSITIONS_def isRepaymentTerminal_def TERMINAL_REPAYMENT_STATUSES_def)

interpretation repayment_key: attempt_key repaymentFingerprint "''repay:v1:''"
  by unfold_locales (simp add: repaymentFingerprint_def versioned_key_def)

lemma evaluateRepayment_value:
  "evaluateRepaymentTransition from t =
     (case (from, t) of
        (None, Y_request) \<Rightarrow> Inr \<lparr>yo_id = Y01, yo_to = Y_REQUESTED, yo_restoresCapacity = False,
                                yo_requiresNewFingerprint = False\<rparr>
      | (Some Y_REQUESTED, Y_submit) \<Rightarrow> Inr \<lparr>yo_id = Y02, yo_to = Y_SUBMITTED,
          yo_restoresCapacity = False, yo_requiresNewFingerprint = False\<rparr>
      | (Some Y_SUBMITTED, Y_confirmed) \<Rightarrow> Inr \<lparr>yo_id = Y03, yo_to = Y_CONFIRMED,
          yo_restoresCapacity = True, yo_requiresNewFingerprint = False\<rparr>
      | (Some Y_SUBMITTED, Y_rejected) \<Rightarrow> Inr \<lparr>yo_id = Y04, yo_to = Y_FAILED,
          yo_restoresCapacity = False, yo_requiresNewFingerprint = False\<rparr>
      | (Some Y_SUBMITTED, Y_sla_elapsed) \<Rightarrow> Inr \<lparr>yo_id = Y05, yo_to = Y_UNKNOWN,
          yo_restoresCapacity = False, yo_requiresNewFingerprint = False\<rparr>
      | (Some Y_UNKNOWN, Y_pull_resolved_confirmed) \<Rightarrow> Inr \<lparr>yo_id = Y06, yo_to = Y_CONFIRMED,
          yo_restoresCapacity = True, yo_requiresNewFingerprint = False\<rparr>
      | (Some Y_UNKNOWN, Y_pull_resolved_failed) \<Rightarrow> Inr \<lparr>yo_id = Y07, yo_to = Y_FAILED,
          yo_restoresCapacity = False, yo_requiresNewFingerprint = False\<rparr>
      | (Some Y_FAILED, Y_re_request) \<Rightarrow> Inr \<lparr>yo_id = Y08, yo_to = Y_REQUESTED,
          yo_restoresCapacity = False, yo_requiresNewFingerprint = True\<rparr>
      | _ \<Rightarrow> Inl Y_Invalid_Transition)"
  by (cases "from"; cases t)
    (auto simp: evaluateRepaymentTransition_def find_row_def row_accepts_def REPAYMENT_TRANSITIONS_def
      split: repayment_status.split)

text \<open>A history of a repayment, with the amounts by which its transitions restore capacity.\<close>

fun run_repayment ::
    "repayment_status option \<Rightarrow> repayment_trigger list \<Rightarrow> (repayment_status option \<times> nat) option" where
  "run_repayment s [] = Some (s, 0)"
| "run_repayment s (t # ts) =
     (case evaluateRepaymentTransition s t of
        Inl _ \<Rightarrow> None
      | Inr ok \<Rightarrow> map_option (\<lambda>(s', k). (s', k + (if yo_restoresCapacity ok then 1 else 0)))
                    (run_repayment (Some (yo_to ok)) ts))"

lemma run_repayment_restores:
  "run_repayment s ts = Some (s', k) \<Longrightarrow>
     k + (if s = Some Y_CONFIRMED then 1 else 0) = (if s' = Some Y_CONFIRMED then 1 else 0)"
proof (induction ts arbitrary: s k)
  case (Cons t ts)
  then obtain ok k' where ok: "evaluateRepaymentTransition s t = Inr ok"
    and k: "run_repayment (Some (yo_to ok)) ts = Some (s', k')"
      "k = k' + (if yo_restoresCapacity ok then 1 else 0)"
    by (auto split: sum.splits)
  from ok have "s \<noteq> Some Y_CONFIRMED \<and> (yo_restoresCapacity ok \<longleftrightarrow> yo_to ok = Y_CONFIRMED)"
    by (auto simp: evaluateRepayment_value
        split: option.splits repayment_status.splits repayment_trigger.splits)
  with Cons.IH [OF k(1)] k(2) show ?case by (auto split: if_splits)
qed auto

section \<open>Properties\<close>

text \<open>
  The ledger image of a reservation: after any history the table allows, what its movements
  leave in reserved is its amount exactly while it is active, and what they leave in drawn is its
  amount exactly once it is consumed. A released or expired reservation leaves nothing behind, and
  nothing is ever released that was consumed.
\<close>

theorem reservation_ledger_image:
  assumes "run_reservation None ts = Some (s, ms)"
  shows "sum_list (map (\<lambda>m. moved m Acc_reserved n) ms) = (if s = Some V_ACTIVE then n else 0) \<and>
    sum_list (map (\<lambda>m. moved m Acc_drawn n) ms) = (if s = Some V_CONSUMED then n else 0)"
  using run_reservation_held [OF assms, of Acc_reserved n] run_reservation_held [OF assms, of Acc_drawn n]
  by (simp add: held_in_def)

theorem reservation_ledger_image_witness:
  "run_reservation None [V_reserve, V_consume] =
     Some (Some V_CONSUMED, [reservation_created, reservation_consumed]) \<and>
   sum_list (map (\<lambda>m. moved m Acc_drawn 700) [reservation_created, reservation_consumed]) = 700"
proof -
  have run: "run_reservation None [V_reserve, V_consume] =
      Some (Some V_CONSUMED, [reservation_created, reservation_consumed])"
    by (simp add: evaluateReservation_value)
  from run reservation_ledger_image [OF run, of 700] show ?thesis by simp
qed

text \<open>
  A release asked of a reservation is either applied (it was active), a repeat of one that
  already happened, or the named refusal for value that has become drawn.
\<close>

theorem release_trichotomy:
  "(evaluateReservationTransition (Some s) V_release =
      Inr \<lparr>vo_id = V03, vo_to = V_RELEASED, vo_movement = reservation_released\<rparr> \<longleftrightarrow>
      \<not> isReservationTerminal s) \<and>
   (evaluateReservationTransition (Some s) V_release = Inl V_Invalid_Transition \<longleftrightarrow> releaseIsNoop s) \<and>
   (evaluateReservationTransition (Some s) V_release = Inl Consumed_Cannot_Be_Released \<longleftrightarrow> s = V_CONSUMED)"
  by (cases s)
    (simp_all add: evaluateReservation_value releaseIsNoop_def isReservationTerminal_def
      TERMINAL_RESERVATION_STATUSES_def)

text \<open>
  A drawdown is requested once and ends once: no trigger leads back to requested, an unknown
  outcome is resolved only by an authoritative pull, and a confirmed or failed drawdown accepts
  nothing.
\<close>

theorem drawdown_ends_once:
  assumes "evaluateDrawdownTransition (Some s) t = Inr (i, s')"
  shows "s' \<noteq> W_REQUESTED \<and> \<not> isDrawdownTerminal s \<and>
    (s = W_UNKNOWN \<longleftrightarrow> t = W_pull_resolved_confirmed \<or> t = W_pull_resolved_failed) \<and>
    (isDrawdownTerminal s' \<longleftrightarrow> t \<noteq> W_sla_elapsed)"
  using assms
  by (auto simp: evaluateDrawdown_value isDrawdownTerminal_def TERMINAL_DRAWDOWN_STATUSES_def
      split: drawdown_status.splits drawdown_trigger.splits)

theorem drawdown_ends_once_witness:
  "evaluateDrawdownTransition (Some W_UNKNOWN) W_pull_resolved_confirmed = Inr (''W05'', W_CONFIRMED) \<and>
   isDrawdownTerminal W_CONFIRMED \<and> \<not> isDrawdownTerminal W_UNKNOWN"
proof -
  have "evaluateDrawdownTransition (Some W_UNKNOWN) W_pull_resolved_confirmed = Inr (''W05'', W_CONFIRMED)"
    by (simp add: evaluateDrawdown_value)
  from this drawdown_ends_once [OF this] show ?thesis by simp
qed

text \<open>
  A repayment restores capacity exactly once, and exactly when it is confirmed: over any
  history, re-requests included, the restoring transitions number one if the repayment ends
  confirmed and none otherwise.
\<close>

theorem capacity_restored_once:
  assumes "run_repayment None ts = Some (s, k)"
  shows "k = (if s = Some Y_CONFIRMED then 1 else 0) \<and> capacityRestoringTransitions = [Y03, Y06]"
  using run_repayment_restores [OF assms]
  by (simp add: capacityRestoringTransitions_def REPAYMENT_TRANSITIONS_def)

theorem capacity_restored_once_witness:
  "run_repayment None
     [Y_request, Y_submit, Y_rejected, Y_re_request, Y_submit, Y_sla_elapsed, Y_pull_resolved_confirmed] =
   Some (Some Y_CONFIRMED, 1)"
proof -
  let ?ts = "[Y_request, Y_submit, Y_rejected, Y_re_request, Y_submit, Y_sla_elapsed, Y_pull_resolved_confirmed]"
  obtain k where k: "run_repayment None ?ts = Some (Some Y_CONFIRMED, k)"
    by (simp add: evaluateRepayment_value)
  with capacity_restored_once [OF k] show ?thesis by simp
qed

text \<open>
  The keys presented to the funding provider identify what they are for: a drawdown
  fingerprint its drawdown, a repayment fingerprint its repayment and its attempt.
\<close>

theorem funding_keys_identify:
  assumes "repaymentFingerprint i n = Inr k" "repaymentFingerprint j m = Inr l"
  shows "(k = l \<longleftrightarrow> i = j \<and> n = m) \<and> (drawdownFingerprint i = drawdownFingerprint j \<longleftrightarrow> i = j) \<and>
    drawdownFingerprint i \<noteq> k"
proof -
  have "drawdownFingerprint i \<noteq> k"
    using assms(1) by (auto simp: drawdownFingerprint_def repaymentFingerprint_def split: if_splits)
  then show ?thesis
    using repayment_key.key_names_attempt assms
    by (auto simp: drawdownFingerprint_def)
qed

theorem funding_keys_identify_witness:
  "repaymentFingerprint ''rpm_a'' 1 \<noteq> repaymentFingerprint ''rpm_a'' 2"
proof -
  have "repaymentFingerprint ''rpm_a'' 1 = Inr (''repay:v1:rpm_a:'' @ string_of_int 1)"
      "repaymentFingerprint ''rpm_a'' 2 = Inr (''repay:v1:rpm_a:'' @ string_of_int 2)"
    by (simp_all add: repaymentFingerprint_def)
  from this funding_keys_identify [OF this] show ?thesis by simp
qed

end
