(* ===== verification/Payout_Attempt.thy ===== *)
theory Payout_Attempt
  imports Lifecycle Idempotency
begin

text \<open>
  \<open>packages/domain/src/settlements/payout-attempt.ts\<close>: the lifecycle P01-P08 of a payout attempt,
  the idempotency key presented to the payout provider, and the decision which attempt number a
  dispatch uses. The \<open>note\<close> column of the table is prose and is left out.
\<close>

section \<open>The lifecycle\<close>

datatype payout_attempt_status =
  P_SUBMITTED | P_ACCEPTED | P_CREDITED | P_REJECTED | P_RETURNED | P_UNKNOWN

definition TERMINAL_PAYOUT_ATTEMPT_STATUSES :: "payout_attempt_status list" where
  "TERMINAL_PAYOUT_ATTEMPT_STATUSES = [P_CREDITED, P_REJECTED, P_RETURNED]"

definition isPayoutAttemptTerminal :: "payout_attempt_status \<Rightarrow> bool" where
  "isPayoutAttemptTerminal s = (s \<in> set TERMINAL_PAYOUT_ATTEMPT_STATUSES)"

definition isPayoutAttemptInFlight :: "payout_attempt_status \<Rightarrow> bool" where
  "isPayoutAttemptInFlight s = (\<not> isPayoutAttemptTerminal s)"

datatype payout_trigger =
    P_dispatch | P_accepted | P_credited | P_rejected | P_sla_elapsed | P_pull_resolved_credited
  | P_pull_resolved_rejected | P_returned

datatype payout_transition_id = P01 | P02 | P03 | P04 | P05 | P06 | P07 | P08

record payout_transition =
  pt_id :: payout_transition_id
  pt_from :: "payout_attempt_status list"
  pt_trigger :: payout_trigger
  pt_to :: payout_attempt_status

definition PAYOUT_TRANSITIONS :: "payout_transition list" where
  "PAYOUT_TRANSITIONS =
     [\<lparr>pt_id = P01, pt_from = [], pt_trigger = P_dispatch, pt_to = P_SUBMITTED\<rparr>,
      \<lparr>pt_id = P02, pt_from = [P_SUBMITTED], pt_trigger = P_accepted, pt_to = P_ACCEPTED\<rparr>,
      \<lparr>pt_id = P03, pt_from = [P_SUBMITTED, P_ACCEPTED], pt_trigger = P_credited, pt_to = P_CREDITED\<rparr>,
      \<lparr>pt_id = P04, pt_from = [P_SUBMITTED, P_ACCEPTED], pt_trigger = P_rejected, pt_to = P_REJECTED\<rparr>,
      \<lparr>pt_id = P05, pt_from = [P_SUBMITTED, P_ACCEPTED], pt_trigger = P_sla_elapsed, pt_to = P_UNKNOWN\<rparr>,
      \<lparr>pt_id = P06, pt_from = [P_UNKNOWN], pt_trigger = P_pull_resolved_credited, pt_to = P_CREDITED\<rparr>,
      \<lparr>pt_id = P07, pt_from = [P_UNKNOWN], pt_trigger = P_pull_resolved_rejected, pt_to = P_REJECTED\<rparr>,
      \<lparr>pt_id = P08, pt_from = [P_CREDITED], pt_trigger = P_returned, pt_to = P_RETURNED\<rparr>]"

datatype payout_refusal = P_Invalid_Transition

definition evaluatePayoutTransition ::
    "payout_attempt_status option \<Rightarrow> payout_trigger \<Rightarrow>
     (payout_refusal, payout_transition_id \<times> payout_attempt_status) result" where
  "evaluatePayoutTransition from t =
     (case find_row pt_trigger pt_from PAYOUT_TRANSITIONS from t of
        None \<Rightarrow> Inl P_Invalid_Transition
      | Some r \<Rightarrow> Inr (pt_id r, pt_to r))"

text \<open>
  A credited attempt is terminal for the allocation of attempts but has the exit P08; the statuses
  with no exit at all are these two.
\<close>

definition attempt_closed :: "payout_attempt_status \<Rightarrow> bool" where
  "attempt_closed s = (s = P_REJECTED \<or> s = P_RETURNED)"

interpretation payout: lifecycle_table pt_trigger pt_from PAYOUT_TRANSITIONS attempt_closed pt_to
  by unfold_locales (auto simp: PAYOUT_TRANSITIONS_def attempt_closed_def)

lemma evaluatePayout_Inr:
  "evaluatePayoutTransition from t = Inr (i, s') \<longleftrightarrow>
     (\<exists>r\<in>set PAYOUT_TRANSITIONS. pt_trigger r = t \<and> row_accepts pt_from r from \<and> i = pt_id r \<and> s' = pt_to r)"
proof -
  have "evaluatePayoutTransition from t = Inr (i, s') \<longleftrightarrow>
      (\<exists>r. find_row pt_trigger pt_from PAYOUT_TRANSITIONS from t = Some r \<and> i = pt_id r \<and> s' = pt_to r)"
    by (auto simp: evaluatePayoutTransition_def split: option.splits)
  then show ?thesis by (auto simp: payout.find_row_iff)
qed

lemma rejected_is_final: "evaluatePayoutTransition (Some P_REJECTED) t = Inl P_Invalid_Transition"
  using payout.terminal_refuses [of P_REJECTED t]
  by (simp add: evaluatePayoutTransition_def attempt_closed_def)

section \<open>The idempotency key\<close>

definition payoutIdempotencyKey :: "string \<Rightarrow> int \<Rightarrow> (range_error, string) result" where
  "payoutIdempotencyKey settlementId attemptNumber =
     (if attemptNumber < 1 then Inl Range_Error
      else Inr (''payout:'' @ ''v1'' @ '':'' @ settlementId @ '':'' @ string_of_int attemptNumber))"

interpretation payout_key: attempt_key payoutIdempotencyKey "''payout:v1:''"
  by unfold_locales (simp add: payoutIdempotencyKey_def versioned_key_def)

section \<open>Allocation\<close>

record attempt_summary =
  as_attemptNumber :: int
  as_status :: payout_attempt_status

datatype allocation =
    First_Attempt
  | Reuse_In_Flight int
  | Next_Attempt int

datatype allocation_refusal =
    In_Flight_Attempt_Exists int
  | Status_Unknown int
  | Already_Credited int
  | Returned_Needs_Replacement int

definition terminalAttemptPermitsAnother :: "payout_attempt_status \<Rightarrow> bool" where
  "terminalAttemptPermitsAnother s = (s = P_REJECTED)"

text \<open>\<open>xs.reduce((a, b) => (a.attemptNumber >= b.attemptNumber ? a : b))\<close> on a non-empty list.\<close>

definition latest_attempt :: "attempt_summary \<Rightarrow> attempt_summary list \<Rightarrow> attempt_summary" where
  "latest_attempt a as = foldl (\<lambda>a b. if as_attemptNumber a \<ge> as_attemptNumber b then a else b) a as"

definition allocateAttemptNumber :: "attempt_summary list \<Rightarrow> (allocation_refusal, allocation) result" where
  "allocateAttemptNumber attempts =
     (case attempts of
        [] \<Rightarrow> Inr First_Attempt
      | first # others \<Rightarrow>
          (case filter (\<lambda>a. isPayoutAttemptInFlight (as_status a)) attempts of
             a # as \<Rightarrow>
               (let attempt = latest_attempt a as
                in if as_status attempt = P_UNKNOWN then Inl (Status_Unknown (as_attemptNumber attempt))
                   else Inr (Reuse_In_Flight (as_attemptNumber attempt)))
           | [] \<Rightarrow>
               (let latest = latest_attempt first others; status = as_status latest
                in if status = P_CREDITED then Inl (Already_Credited (as_attemptNumber latest))
                   else if status = P_RETURNED then Inl (Returned_Needs_Replacement (as_attemptNumber latest))
                   else if \<not> terminalAttemptPermitsAnother status
                     then Inl (In_Flight_Attempt_Exists (as_attemptNumber latest))
                   else Inr (Next_Attempt (as_attemptNumber latest + 1)))))"

text \<open>The attempt number an allocation hands to the dispatch.\<close>

fun allocated_number :: "allocation \<Rightarrow> int" where
  "allocated_number First_Attempt = 1"
| "allocated_number (Reuse_In_Flight n) = n"
| "allocated_number (Next_Attempt n) = n"

lemma latest_attempt_in: "latest_attempt a as \<in> set (a # as)"
  unfolding latest_attempt_def by (induction as arbitrary: a) auto

lemma latest_attempt_max: "x \<in> set (a # as) \<Longrightarrow> as_attemptNumber x \<le> as_attemptNumber (latest_attempt a as)"
proof (induction as arbitrary: a x)
  case (Cons b as)
  let ?c = "if as_attemptNumber a \<ge> as_attemptNumber b then a else b"
  have step: "latest_attempt a (b # as) = latest_attempt ?c as"
    by (simp add: latest_attempt_def)
  have "as_attemptNumber ?c \<le> as_attemptNumber (latest_attempt ?c as)"
    by (rule Cons.IH) simp
  then show ?case
    using Cons.prems Cons.IH [of x ?c] unfolding step by (auto split: if_splits)
qed (simp add: latest_attempt_def)

lemma isPayoutAttemptTerminal_simps [simp]:
  "isPayoutAttemptTerminal s \<longleftrightarrow> s = P_CREDITED \<or> s = P_REJECTED \<or> s = P_RETURNED"
  by (simp add: isPayoutAttemptTerminal_def TERMINAL_PAYOUT_ATTEMPT_STATUSES_def)

lemma allocate_next:
  assumes "allocateAttemptNumber as = Inr (Next_Attempt n)"
  shows "as \<noteq> [] \<and> list_all (\<lambda>a. isPayoutAttemptTerminal (as_status a)) as \<and>
    list_all (\<lambda>a. as_attemptNumber a < n) as \<and>
    (\<exists>a\<in>set as. as_attemptNumber a = n - 1 \<and> as_status a = P_REJECTED)"
proof -
  obtain a bs where as: "as = a # bs"
    using assms by (cases as) (auto simp: allocateAttemptNumber_def)
  have none: "filter (\<lambda>a. isPayoutAttemptInFlight (as_status a)) as = []"
    using assms by (auto simp: allocateAttemptNumber_def as Let_def split: list.splits if_splits)
  then have n: "n = as_attemptNumber (latest_attempt a bs) + 1"
    and rejected: "as_status (latest_attempt a bs) = P_REJECTED"
    using assms
    by (auto simp: allocateAttemptNumber_def as Let_def terminalAttemptPermitsAnother_def split: if_splits)
  have "list_all (\<lambda>a. isPayoutAttemptTerminal (as_status a)) as"
    using none by (simp add: filter_empty_conv isPayoutAttemptInFlight_def list_all_iff)
  moreover have "list_all (\<lambda>x. as_attemptNumber x < n) as"
    using latest_attempt_max [of _ a bs] by (fastforce simp: as n list_all_iff)
  ultimately show ?thesis
    using latest_attempt_in [of a bs] rejected by (auto simp: as n)
qed

lemma next_attempt_when:
  assumes "allocateAttemptNumber as = Inr al"
  shows "(al = First_Attempt \<and> as = []) \<or>
    (\<exists>n. al = Reuse_In_Flight n \<and>
       (\<exists>a\<in>set as. as_attemptNumber a = n \<and> (as_status a = P_SUBMITTED \<or> as_status a = P_ACCEPTED))) \<or>
    (\<exists>n. al = Next_Attempt n \<and> list_all (\<lambda>a. isPayoutAttemptTerminal (as_status a)) as \<and>
       list_all (\<lambda>a. as_attemptNumber a < n) as \<and>
       (\<exists>a\<in>set as. as_attemptNumber a = n - 1 \<and> as_status a = P_REJECTED))"
proof (cases al)
  case First_Attempt
  then show ?thesis
    using assms by (auto simp: allocateAttemptNumber_def Let_def split: list.splits if_splits)
next
  case (Reuse_In_Flight n)
  then obtain a bs where f: "filter (\<lambda>a. isPayoutAttemptInFlight (as_status a)) as = a # bs"
    and n: "n = as_attemptNumber (latest_attempt a bs)" "as_status (latest_attempt a bs) \<noteq> P_UNKNOWN"
    using assms by (auto simp: allocateAttemptNumber_def Let_def split: list.splits if_splits)
  have "latest_attempt a bs \<in> set (filter (\<lambda>a. isPayoutAttemptInFlight (as_status a)) as)"
    unfolding f by (rule latest_attempt_in)
  then have "latest_attempt a bs \<in> set as \<and>
      (as_status (latest_attempt a bs) = P_SUBMITTED \<or> as_status (latest_attempt a bs) = P_ACCEPTED)"
    using n(2) by (cases "as_status (latest_attempt a bs)") (auto simp: isPayoutAttemptInFlight_def)
  then show ?thesis using Reuse_In_Flight n(1) by blast
next
  case (Next_Attempt n)
  then show ?thesis using allocate_next [of as n] assms by blast
qed

section \<open>Properties\<close>

text \<open>
  The payout key identifies the attempt: it exists exactly for positive attempt numbers, and
  two presentations carry the same key exactly when they are the same attempt of the same
  settlement, so no second attempt can be mistaken by the provider for a retry of the first.
\<close>

theorem payout_key_identifies:
  "((\<exists>k. payoutIdempotencyKey s n = Inr k) \<longleftrightarrow> 1 \<le> n) \<and>
   ((\<exists>k. payoutIdempotencyKey s n = Inr k \<and> payoutIdempotencyKey t m = Inr k) \<longleftrightarrow>
      1 \<le> n \<and> s = t \<and> n = m)"
  using payout_key.key_refused [of s n] payout_key.key_names_attempt by blast

text \<open>
  A new attempt is never allocated while money may be moving: a next attempt is allocated only
  when every attempt has an authoritative end, the latest was rejected by the rail, and then with a
  number no attempt of the settlement has had.
\<close>

theorem next_attempt_is_safe:
  assumes "allocateAttemptNumber as = Inr al"
  shows "(al = First_Attempt \<and> as = []) \<or>
    (\<exists>n. al = Reuse_In_Flight n \<and>
       (\<exists>a\<in>set as. as_attemptNumber a = n \<and> (as_status a = P_SUBMITTED \<or> as_status a = P_ACCEPTED))) \<or>
    (\<exists>n. al = Next_Attempt n \<and> list_all (\<lambda>a. isPayoutAttemptTerminal (as_status a)) as \<and>
       list_all (\<lambda>a. as_attemptNumber a < n) as \<and>
       (\<exists>a\<in>set as. as_attemptNumber a = n - 1 \<and> as_status a = P_REJECTED))"
  using assms by (rule next_attempt_when)

theorem next_attempt_is_safe_witness:
  "allocateAttemptNumber [\<lparr>as_attemptNumber = 1, as_status = P_REJECTED\<rparr>] = Inr (Next_Attempt 2) \<and>
   list_all (\<lambda>a. as_attemptNumber a < 2) [\<lparr>as_attemptNumber = 1, as_status = P_REJECTED\<rparr>]"
proof -
  let ?as = "[\<lparr>as_attemptNumber = 1, as_status = P_REJECTED\<rparr>]"
  have al: "allocateAttemptNumber ?as = Inr (Next_Attempt 2)"
    by (simp add: allocateAttemptNumber_def isPayoutAttemptInFlight_def latest_attempt_def
        terminalAttemptPermitsAnother_def)
  from al next_attempt_is_safe [OF al] show ?thesis by simp
qed

section \<open>Histories of attempts\<close>

text \<open>
  The attempts of one settlement, oldest first, change in two ways: a dispatch appends the attempt
  it was allocated (a reused number appends nothing), and a report moves one attempt by its table.
\<close>

inductive payout_step :: "attempt_summary list \<Rightarrow> attempt_summary list \<Rightarrow> bool" where
  dispatch_first: "allocateAttemptNumber as = Inr First_Attempt \<Longrightarrow>
    payout_step as (as @ [\<lparr>as_attemptNumber = 1, as_status = P_SUBMITTED\<rparr>])"
| dispatch_next: "allocateAttemptNumber as = Inr (Next_Attempt n) \<Longrightarrow>
    payout_step as (as @ [\<lparr>as_attemptNumber = n, as_status = P_SUBMITTED\<rparr>])"
| report: "i < length as \<Longrightarrow> evaluatePayoutTransition (Some (as_status (as ! i))) t = Inr (r, s') \<Longrightarrow>
    payout_step as (as[i := (as ! i)\<lparr>as_status := s'\<rparr>])"

inductive_cases payout_stepE [consumes 1, case_names dispatch_first dispatch_next report]:
  "payout_step as bs"

definition attempts_in_order :: "attempt_summary list \<Rightarrow> bool" where
  "attempts_in_order as \<longleftrightarrow>
     list_all (\<lambda>a. as_status a = P_REJECTED) (butlast as) \<and>
     map as_attemptNumber as = map int [1..<Suc (length as)]"

lemma payout_step_in_order:
  assumes "payout_step as bs" "attempts_in_order as"
  shows "attempts_in_order bs"
  using assms(1)
proof (cases rule: payout_stepE)
  case dispatch_first
  then have "as = []" using next_attempt_when [of as First_Attempt] by simp
  with dispatch_first show ?thesis by (simp add: attempts_in_order_def)
next
  case (dispatch_next n)
  then have all: "list_all (\<lambda>a. isPayoutAttemptTerminal (as_status a)) as"
      "list_all (\<lambda>a. as_attemptNumber a < n) as"
    and ex: "\<exists>a\<in>set as. as_attemptNumber a = n - 1 \<and> as_status a = P_REJECTED" and "as \<noteq> []"
    using allocate_next by blast+
  from \<open>as \<noteq> []\<close> obtain xs l where as: "as = xs @ [l]" by (cases as rule: rev_cases) auto
  with assms(2) have xs: "list_all (\<lambda>a. as_status a = P_REJECTED) xs"
    and nums: "map as_attemptNumber xs = map int [1..<Suc (length xs)]"
      "as_attemptNumber l = int (Suc (length xs))"
    by (simp_all add: attempts_in_order_def)
  have below: "as_attemptNumber x < as_attemptNumber l" if "x \<in> set xs" for x
  proof -
    from that have "as_attemptNumber x \<in> set (map as_attemptNumber xs)" by simp
    then show ?thesis unfolding nums by auto
  qed
  from ex obtain a where a: "a \<in> set as" "as_attemptNumber a = n - 1" "as_status a = P_REJECTED" by blast
  have "as_attemptNumber l < n" using all(2) by (simp add: as)
  with a below have "a = l" by (fastforce simp: as)
  with a have l: "as_status l = P_REJECTED" "n = int (Suc (Suc (length xs)))"
    using nums(2) by simp_all
  with xs nums dispatch_next(1) show ?thesis by (simp add: attempts_in_order_def as butlast_append)
next
  case (report i t r s')
  have "\<not> i < length as - 1"
  proof
    assume i: "i < length as - 1"
    with assms(2) have "as_status (butlast as ! i) = P_REJECTED"
      by (simp add: attempts_in_order_def list_all_length)
    with i have "as_status (as ! i) = P_REJECTED" by (simp add: nth_butlast)
    with report(3) show False by (simp add: rejected_is_final)
  qed
  with report(2) have "i = length as - 1" by simp
  then have "butlast bs = butlast as"
    unfolding report(1) by (simp add: butlast_list_update)
  moreover have "map as_attemptNumber bs = map as_attemptNumber as"
    using report(2) unfolding report(1)
    by (simp add: map_update list_update_same_conv)
  ultimately show ?thesis
    using assms(2) by (simp add: attempts_in_order_def report(1))
qed

lemma payout_history_in_order: "payout_step\<^sup>*\<^sup>* [] as \<Longrightarrow> attempts_in_order as"
  by (induction rule: rtranclp_induct) (simp add: attempts_in_order_def, blast intro: payout_step_in_order)

text \<open>
  No history pays twice: however dispatches, reports and pulls interleave, at most one attempt
  of a settlement is anything but rejected, and the attempts are numbered one after the other, so
  their keys are pairwise different.
\<close>

theorem no_double_payment:
  assumes "payout_step\<^sup>*\<^sup>* [] as"
  shows "length (filter (\<lambda>a. as_status a \<noteq> P_REJECTED) as) \<le> 1 \<and>
    map as_attemptNumber as = map int [1..<Suc (length as)]"
proof -
  from assms have inv: "attempts_in_order as" by (rule payout_history_in_order)
  have "filter (\<lambda>a. as_status a \<noteq> P_REJECTED) (butlast as) = []"
    using inv by (simp add: attempts_in_order_def filter_empty_conv list_all_iff)
  then have "length (filter (\<lambda>a. as_status a \<noteq> P_REJECTED) as) \<le> 1"
    by (cases as rule: rev_cases) auto
  with inv show ?thesis by (simp add: attempts_in_order_def)
qed

theorem no_double_payment_witness:
  "payout_step\<^sup>*\<^sup>* [] [\<lparr>as_attemptNumber = 1, as_status = P_REJECTED\<rparr>] \<and>
   length (filter (\<lambda>a. as_status a \<noteq> P_REJECTED) [\<lparr>as_attemptNumber = 1, as_status = P_REJECTED\<rparr>]) \<le> 1"
proof -
  have "payout_step [] [\<lparr>as_attemptNumber = 1, as_status = P_SUBMITTED\<rparr>]"
    using payout_step.dispatch_first [of "[]"] by (simp add: allocateAttemptNumber_def)
  moreover have "payout_step [\<lparr>as_attemptNumber = 1, as_status = P_SUBMITTED\<rparr>]
      [\<lparr>as_attemptNumber = 1, as_status = P_REJECTED\<rparr>]"
    using payout_step.report [of 0 "[\<lparr>as_attemptNumber = 1, as_status = P_SUBMITTED\<rparr>]" P_rejected P04 P_REJECTED]
    by (simp add: evaluatePayout_Inr PAYOUT_TRANSITIONS_def row_accepts_def)
  ultimately have run: "payout_step\<^sup>*\<^sup>* [] [\<lparr>as_attemptNumber = 1, as_status = P_REJECTED\<rparr>]"
    by (meson converse_rtranclp_into_rtranclp r_into_rtranclp)
  from run no_double_payment [OF run] show ?thesis by simp
qed

end
