(* ===== verification/Fx.thy ===== *)
theory Fx
  imports Money
begin

text \<open>
  \<open>packages/money/src/fx.ts\<close>: the exact rate, the two conversions between a funding amount and
  the INR the recipient gets, the disclosed residual and the fee total. All arithmetic is on
  \<open>bigint\<close>, whose division truncates towards zero; the code divides only non-negative operands
  by positive ones, where \<open>div\<close> is the same function.
\<close>

section \<open>Rates\<close>

definition FX_RATE_SCALE :: nat where "FX_RATE_SCALE = 10"
definition EXACT_AMOUNT_SCALE :: nat where "EXACT_AMOUNT_SCALE = 12"

record fx_rate =
  fx_pair :: string
  rateScaled :: int
  fx_scale :: nat
  quotedAt :: int
  fx_source :: string

definition fxRate :: "string \<Rightarrow> int \<Rightarrow> int \<Rightarrow> string \<Rightarrow> (money_error, fx_rate) result" where
  "fxRate p r at src =
     (if r \<le> 0 then Inl Negative
      else Inr \<lparr>fx_pair = p, rateScaled = r, fx_scale = FX_RATE_SCALE, quotedAt = at, fx_source = src\<rparr>)"

text \<open>The groups of \<open>/^(\d+)(?:\.(\d{1,10}))?$/\<close>.\<close>

definition match_rate :: "string \<Rightarrow> (string \<times> string) option" where
  "match_rate s =
     (let whole = takeWhile is_digit s; rest = dropWhile is_digit s in
      if whole = [] then None
      else case rest of
        [] \<Rightarrow> Some (whole, [])
      | c # frac \<Rightarrow>
          if c = CHR ''.'' \<and> list_all is_digit frac \<and> 1 \<le> length frac \<and> length frac \<le> 10
          then Some (whole, frac) else None)"

definition fxRateFromDecimalString ::
    "string \<Rightarrow> string \<Rightarrow> int \<Rightarrow> string \<Rightarrow> (money_error, fx_rate) result" where
  "fxRateFromDecimalString p decimal at src =
     (case match_rate (trim decimal) of
        None \<Rightarrow> Inl Not_An_Integer
      | Some (whole, frac) \<Rightarrow>
          fxRate p (int (nat_of_digits (whole @ pad_end FX_RATE_SCALE (CHR ''0'') frac))) at src)"

definition scaled_string :: "nat \<Rightarrow> int \<Rightarrow> string" where
  "scaled_string k n =
     (let s = pad_start (k + 1) (CHR ''0'') (string_of_int n)
      in slice_front k s @ [CHR ''.''] @ slice_back k s)"

definition formatFxRate :: "fx_rate \<Rightarrow> string" where
  "formatFxRate rate = scaled_string FX_RATE_SCALE (rateScaled rate)"

definition fundingCurrencyOf :: "fx_rate \<Rightarrow> (money_error, currency_code) result" where
  "fundingCurrencyOf rate =
     (case code_of_string (takeWhile (\<lambda>c. c \<noteq> CHR ''/'') (fx_pair rate)) of
        None \<Rightarrow> Inl Unknown_Currency
      | Some c \<Rightarrow> Inr c)"

definition ends_with :: "string \<Rightarrow> string \<Rightarrow> bool" where
  "ends_with s e = (length e \<le> length s \<and> drop (length s - length e) s = e)"

definition assertInrRight :: "fx_rate \<Rightarrow> (money_error, unit) result" where
  "assertInrRight rate = (if ends_with (fx_pair rate) ''/INR'' then Inr () else Inl Currency_Mismatch)"

section \<open>Division\<close>

definition ceilDiv :: "int \<Rightarrow> int \<Rightarrow> (money_error, int) result" where
  "ceilDiv a b =
     (if b \<le> 0 then Inl Not_An_Integer
      else Inr (if a \<ge> 0 then (a + b - 1) div b else - ((- a) div b)))"

definition floorDiv :: "int \<Rightarrow> int \<Rightarrow> (money_error, int) result" where
  "floorDiv a b =
     (if b \<le> 0 then Inl Not_An_Integer
      else if a \<ge> 0 then Inr (a div b)
      else bind_result (ceilDiv (- a) b) (\<lambda>q. Inr (- q)))"

lemma div_eq_bounds: "0 < b \<Longrightarrow> a div b = q \<longleftrightarrow> q * b \<le> a \<and> a < (q + 1) * b" for a b q :: int
proof
  assume b: "0 < b" and q: "a div b = q"
  from q have "a = q * b + a mod b" by (metis div_mult_mod_eq)
  with b show "q * b \<le> a \<and> a < (q + 1) * b"
    using pos_mod_sign [OF b, of a] pos_mod_bound [OF b, of a] by (simp add: algebra_simps)
next
  assume "0 < b" and "q * b \<le> a \<and> a < (q + 1) * b"
  then show "a div b = q"
    by (intro int_div_pos_eq [where r = "a - q * b"]) (auto simp: algebra_simps)
qed

text \<open>Both divisions are exact: the quotient is the one integer the mathematical bounds allow.\<close>

lemma ceilDiv_Inr: "ceilDiv a b = Inr q \<longleftrightarrow> 0 < b \<and> a \<le> q * b \<and> (q - 1) * b < a"
proof (cases "0 < b")
  case True
  have "(a + b - 1) div b = q \<longleftrightarrow> a \<le> q * b \<and> (q - 1) * b < a"
    using div_eq_bounds [OF True, of "a + b - 1" q] by (auto simp: algebra_simps)
  moreover have "- ((- a) div b) = q \<longleftrightarrow> a \<le> q * b \<and> (q - 1) * b < a"
    using div_eq_bounds [OF True, of "- a" "- q"] by (auto simp: algebra_simps)
  ultimately show ?thesis using True by (simp add: ceilDiv_def)
qed (simp add: ceilDiv_def)

lemma floorDiv_Inr: "floorDiv a b = Inr q \<longleftrightarrow> 0 < b \<and> q * b \<le> a \<and> a < (q + 1) * b"
proof (cases "0 \<le> a \<or> b \<le> 0")
  case True
  then show ?thesis using div_eq_bounds [of b a q] by (auto simp: floorDiv_def)
next
  case False
  then have "floorDiv a b = Inr q \<longleftrightarrow> ceilDiv (- a) b = Inr (- q)"
    by (auto simp: floorDiv_def bind_result_Inr)
  then show ?thesis using ceilDiv_Inr [of "- a" b "- q"] by (auto simp: algebra_simps)
qed

lemma ceil_le_iff:
  fixes n q d m :: int
  assumes "0 < d" "n \<le> q * d" "(q - 1) * d < n"
  shows "q \<le> m \<longleftrightarrow> n \<le> m * d"
proof
  assume "q \<le> m"
  with assms(1) have "q * d \<le> m * d" by (intro mult_right_mono) simp_all
  with assms(2) show "n \<le> m * d" by simp
next
  assume "n \<le> m * d"
  with assms(3) have "(q - 1) * d < m * d" by simp
  with assms(1) show "q \<le> m" by simp
qed

lemma floor_ge_iff:
  fixes n q d m :: int
  assumes "0 < d" "q * d \<le> n" "n < (q + 1) * d"
  shows "m \<le> q \<longleftrightarrow> m * d \<le> n"
proof
  assume "m \<le> q"
  with assms(1) have "m * d \<le> q * d" by (intro mult_right_mono) simp_all
  with assms(2) show "m * d \<le> n" by simp
next
  assume "m * d \<le> n"
  with assms(3) have "m * d < (q + 1) * d" by simp
  with assms(1) show "m \<le> q" by simp
qed

lemma ceilDiv_total: "0 < b \<Longrightarrow> \<exists>q. ceilDiv a b = Inr q"
  by (simp add: ceilDiv_def)

lemma floorDiv_total: "0 < b \<Longrightarrow> \<exists>q. floorDiv a b = Inr q"
  by (simp add: floorDiv_def ceilDiv_def)

section \<open>Residuals\<close>

definition remainderAsExactAmount ::
    "currency_code \<Rightarrow> int \<Rightarrow> int \<Rightarrow> int \<Rightarrow> (money_error, exact_amount) result" where
  "remainderAsExactAmount c remainderNum remainderDen minorUnitsPerMajor =
     (let scaled = remainderNum * 10 ^ EXACT_AMOUNT_SCALE;
          den = remainderDen * minorUnitsPerMajor;
          doubled = 2 * scaled + den
      in bind_result (floorDiv doubled (2 * den)) (\<lambda>units.
         Inr \<lparr>exact_currency = c, exact_amount = scaled_string EXACT_AMOUNT_SCALE units,
              exact_scale = EXACT_AMOUNT_SCALE\<rparr>))"

definition ZERO_RESIDUAL :: "currency_code \<Rightarrow> exact_amount" where
  "ZERO_RESIDUAL c =
     \<lparr>exact_currency = c, exact_amount = ''0.'' @ replicate EXACT_AMOUNT_SCALE (CHR ''0''),
      exact_scale = EXACT_AMOUNT_SCALE\<rparr>"

section \<open>The two conversions\<close>

record recipient_first_conversion =
  rf_recipientAmount :: money
  rf_fundingAmount :: money
  rf_roundingResidual :: exact_amount
  rf_rate :: fx_rate

definition residual_of ::
    "currency_code \<Rightarrow> int \<Rightarrow> int \<Rightarrow> int \<Rightarrow> (money_error, exact_amount) result" where
  "residual_of c num den perMajor =
     (if num = 0 then Inr (ZERO_RESIDUAL c) else remainderAsExactAmount c num den perMajor)"

definition fundingForRecipient ::
    "money \<Rightarrow> fx_rate \<Rightarrow> (money_error, recipient_first_conversion) result" where
  "fundingForRecipient recipientAmount rate =
     bind_result (assertInrRight rate) (\<lambda>_.
     if currency recipientAmount \<noteq> INR then Inl Currency_Mismatch
     else if minorUnits recipientAmount < 0 then Inl Negative
     else bind_result (fundingCurrencyOf rate) (\<lambda>c.
     let numerator = minorUnits recipientAmount * 10 ^ scaleOf c * 10 ^ FX_RATE_SCALE;
         denominator = rateScaled rate * 10 ^ scaleOf INR
     in bind_result (ceilDiv numerator denominator) (\<lambda>chargedMinor.
        let remainderNum = chargedMinor * denominator - numerator
        in bind_result (residual_of c remainderNum denominator (10 ^ scaleOf c)) (\<lambda>residual.
        Inr \<lparr>rf_recipientAmount = recipientAmount,
             rf_fundingAmount = money c chargedMinor,
             rf_roundingResidual = residual,
             rf_rate = rate\<rparr>))))"

definition verifyRecipientFirst :: "recipient_first_conversion \<Rightarrow> bool" where
  "verifyRecipientFirst conv =
     (let numerator = minorUnits (rf_recipientAmount conv)
            * 10 ^ scaleOf (currency (rf_fundingAmount conv)) * 10 ^ FX_RATE_SCALE;
          denominator = rateScaled (rf_rate conv) * 10 ^ scaleOf INR;
          charged = minorUnits (rf_fundingAmount conv)
      in charged * denominator \<ge> numerator \<and> (charged - 1) * denominator < numerator)"

record source_first_conversion =
  sf_fundingAmount :: money
  sf_recipientAmount :: money
  sf_roundingResidual :: exact_amount
  sf_rate :: fx_rate

definition recipientForFunding ::
    "money \<Rightarrow> fx_rate \<Rightarrow> (money_error, source_first_conversion) result" where
  "recipientForFunding fundingAmount rate =
     bind_result (assertInrRight rate) (\<lambda>_.
     bind_result (fundingCurrencyOf rate) (\<lambda>c.
     if currency fundingAmount \<noteq> c then Inl Currency_Mismatch
     else if minorUnits fundingAmount < 0 then Inl Negative
     else
       let numerator = minorUnits fundingAmount * rateScaled rate * 10 ^ scaleOf INR;
           denominator = 10 ^ scaleOf c * 10 ^ FX_RATE_SCALE
       in bind_result (floorDiv numerator denominator) (\<lambda>recipientMinor.
          let remainderNum = numerator - recipientMinor * denominator
          in bind_result (residual_of INR remainderNum denominator (10 ^ scaleOf INR)) (\<lambda>residual.
          Inr \<lparr>sf_fundingAmount = fundingAmount,
               sf_recipientAmount = money INR recipientMinor,
               sf_roundingResidual = residual,
               sf_rate = rate\<rparr>))))"

definition verifySourceFirst :: "source_first_conversion \<Rightarrow> bool" where
  "verifySourceFirst conv =
     (let numerator = minorUnits (sf_fundingAmount conv) * rateScaled (sf_rate conv) * 10 ^ scaleOf INR;
          denominator = 10 ^ scaleOf (currency (sf_fundingAmount conv)) * 10 ^ FX_RATE_SCALE;
          recipient = minorUnits (sf_recipientAmount conv)
      in recipient * denominator \<le> numerator \<and> (recipient + 1) * denominator > numerator)"

section \<open>Fees\<close>

record fee_component =
  fee_code :: string
  fee_label :: string
  fee_amount :: money

fun total_from :: "currency_code \<Rightarrow> int \<Rightarrow> fee_component list \<Rightarrow> (money_error, money) result" where
  "total_from c acc [] = Inr (money c acc)"
| "total_from c acc (fee # fees) =
     (if currency (fee_amount fee) \<noteq> c then Inl Currency_Mismatch
      else total_from c (acc + minorUnits (fee_amount fee)) fees)"

definition totalFees :: "currency_code \<Rightarrow> fee_component list \<Rightarrow> (money_error, money) result" where
  "totalFees c fees = total_from c 0 fees"

lemma total_from_Inr:
  "total_from c n fees = Inr t \<longleftrightarrow>
     (\<forall>f\<in>set fees. currency (fee_amount f) = c) \<and>
     t = money c (n + sum_list (map (minorUnits \<circ> fee_amount) fees))"
  by (induction fees arbitrary: n) auto

lemma totalFees_Inr:
  "totalFees c fees = Inr t \<longleftrightarrow>
     (\<forall>f\<in>set fees. currency (fee_amount f) = c) \<and>
     t = money c (sum_list (map (minorUnits \<circ> fee_amount) fees))"
  by (simp add: totalFees_def total_from_Inr)

section \<open>The residual is within half of a unit of the twelfth decimal\<close>

text \<open>The value of \<open>whole.frac\<close> in units of its last decimal.\<close>

definition scaled_value :: "string \<Rightarrow> nat" where
  "scaled_value s = nat_of_digits (filter (\<lambda>c. c \<noteq> CHR ''.'') s)"

lemma filter_digits: "list_all is_digit s \<Longrightarrow> filter (\<lambda>c. c \<noteq> CHR ''.'') s = s"
  by (auto simp: filter_id_conv list_all_iff is_digit_of_char)

lemma pad_start_digits: "list_all is_digit s \<Longrightarrow> list_all is_digit (pad_start n (CHR ''0'') s)"
  by (auto simp: pad_start_def list_all_iff)

lemma scaled_value_string: "0 \<le> n \<Longrightarrow> scaled_value (scaled_string k n) = nat n"
  using pad_start_digits [OF digits_of_nat_digits, of "k + 1" "nat n"]
  by (simp add: scaled_value_def scaled_string_def Let_def filter_digits list_all_slices
      slice_front_back string_of_int_def digit_simps)

lemma scaled_value_zero: "scaled_value (exact_amount (ZERO_RESIDUAL c)) = 0"
proof -
  have "filter (\<lambda>x. x \<noteq> CHR ''.'') (exact_amount (ZERO_RESIDUAL c)) = replicate (Suc EXACT_AMOUNT_SCALE) (CHR ''0'')"
    by (simp add: ZERO_RESIDUAL_def)
  then show ?thesis unfolding scaled_value_def by (simp only: nat_of_digits_zeros)
qed

lemma residual_of_bounds:
  assumes "residual_of c num den perMajor = Inr e" "0 \<le> num" "0 < den" "0 < perMajor"
  shows "\<bar>2 * (int (scaled_value (exact_amount e)) * (den * perMajor) - num * 10 ^ EXACT_AMOUNT_SCALE)\<bar>
    \<le> den * perMajor"
proof (cases "num = 0")
  case True
  with assms show ?thesis by (auto simp: residual_of_def scaled_value_zero)
next
  case False
  let ?d = "den * perMajor" and ?s = "num * 10 ^ EXACT_AMOUNT_SCALE"
  from False assms(1) obtain u where u: "floorDiv (2 * ?s + ?d) (2 * ?d) = Inr u"
    and e: "exact_amount e = scaled_string EXACT_AMOUNT_SCALE u"
    by (auto simp: residual_of_def remainderAsExactAmount_def Let_def bind_result_Inr)
  from u have bounds: "u * (2 * ?d) \<le> 2 * ?s + ?d" "2 * ?s + ?d < (u + 1) * (2 * ?d)"
    by (simp_all add: floorDiv_Inr)
  have pos: "0 < ?d" "0 \<le> ?s" using assms by simp_all
  have "0 < (u + 1) * (2 * ?d)" using bounds(2) pos by linarith
  then have "0 \<le> u" using pos by (simp add: zero_less_mult_iff)
  then have "int (scaled_value (exact_amount e)) = u" by (simp add: e scaled_value_string)
  with bounds show ?thesis by (simp add: algebra_simps)
qed

section \<open>Well-formed rates\<close>

text \<open>A rate the code can have built: a positive rate of a listed currency against INR.\<close>

definition inr_rate :: "currency_code \<Rightarrow> fx_rate \<Rightarrow> bool" where
  "inr_rate c rate = (fx_pair rate = code_string c @ ''/INR'' \<and> 0 < rateScaled rate)"

lemma inr_rate_currency [simp]: "inr_rate c rate \<Longrightarrow> fundingCurrencyOf rate = Inr c"
proof -
  assume "inr_rate c rate"
  then have "takeWhile (\<lambda>c. c \<noteq> CHR ''/'') (fx_pair rate) = code_string c"
    by (cases c) (simp_all add: inr_rate_def)
  then show ?thesis by (simp add: fundingCurrencyOf_def)
qed

lemma inr_rate_right [simp]: "inr_rate c rate \<Longrightarrow> assertInrRight rate = Inr ()"
  by (simp add: assertInrRight_def ends_with_def inr_rate_def)

lemma residual_of_total:
  assumes "0 < den" "0 < perMajor"
  shows "\<exists>e. residual_of c num den perMajor = Inr e"
proof -
  from assms obtain u
    where "floorDiv (2 * (num * 10 ^ EXACT_AMOUNT_SCALE) + den * perMajor) (2 * (den * perMajor)) = Inr u"
    using floorDiv_total [of "2 * (den * perMajor)"] by auto
  then show ?thesis
    by (simp add: residual_of_def remainderAsExactAmount_def Let_def)
qed

lemma fundingForRecipient_Inr:
  assumes "inr_rate c rate" "currency r = INR" "0 \<le> minorUnits r"
  shows "\<exists>conv. fundingForRecipient r rate = Inr conv"
proof -
  let ?num = "minorUnits r * 10 ^ scaleOf c * 10 ^ FX_RATE_SCALE"
    and ?den = "rateScaled rate * 10 ^ scaleOf INR"
  have den: "0 < ?den" using assms(1) by (simp add: inr_rate_def)
  then obtain q where q: "ceilDiv ?num ?den = Inr q" using ceilDiv_total by blast
  obtain e where "residual_of c (q * ?den - ?num) ?den (10 ^ scaleOf c) = Inr e"
    using residual_of_total [OF den] by (metis zero_less_numeral zero_less_power)
  with q assms show ?thesis by (simp add: fundingForRecipient_def Let_def del: scaleOf_simps)
qed

lemma fundingForRecipient_parts:
  assumes "fundingForRecipient r rate = Inr conv"
  shows "rf_recipientAmount conv = r" "rf_rate conv = rate" "verifyRecipientFirst conv"
    "fundingCurrencyOf rate = Inr (currency (rf_fundingAmount conv))"
  using assms
  by (auto simp: fundingForRecipient_def verifyRecipientFirst_def Let_def bind_result_Inr ceilDiv_Inr
      split: if_splits)

lemma recipientForFunding_Inr:
  assumes "inr_rate c rate" "currency f = c" "0 \<le> minorUnits f"
  shows "\<exists>conv. recipientForFunding f rate = Inr conv"
proof -
  let ?num = "minorUnits f * rateScaled rate * 10 ^ scaleOf INR"
    and ?den = "10 ^ scaleOf c * 10 ^ FX_RATE_SCALE :: int"
  have den: "0 < ?den" by simp
  then obtain q where q: "floorDiv ?num ?den = Inr q" using floorDiv_total by blast
  obtain e where "residual_of INR (?num - q * ?den) ?den (10 ^ scaleOf INR) = Inr e"
    using residual_of_total [OF den] by (metis zero_less_numeral zero_less_power)
  with q assms show ?thesis by (simp add: recipientForFunding_def Let_def del: scaleOf_simps)
qed

lemma recipientForFunding_parts:
  assumes "recipientForFunding f rate = Inr conv"
  shows "sf_fundingAmount conv = f" "sf_rate conv = rate" "verifySourceFirst conv"
    "currency (sf_recipientAmount conv) = INR"
  using assms
  by (auto simp: recipientForFunding_def verifySourceFirst_def Let_def bind_result_Inr floorDiv_Inr
      split: if_splits)

text \<open>What the amounts of the two conversions decide, as inequalities between integers.\<close>

lemma fundingForRecipient_charged:
  assumes "fundingForRecipient r rate = Inr conv" "0 < rateScaled rate"
    and "fundingCurrencyOf rate = Inr c"
  shows "minorUnits (rf_fundingAmount conv) \<le> m \<longleftrightarrow>
    minorUnits r * 10 ^ scaleOf c * 10 ^ FX_RATE_SCALE \<le> m * (rateScaled rate * 10 ^ scaleOf INR)"
proof -
  let ?n = "minorUnits r * 10 ^ scaleOf c * 10 ^ FX_RATE_SCALE"
    and ?d = "rateScaled rate * 10 ^ scaleOf INR" and ?q = "minorUnits (rf_fundingAmount conv)"
  have "?n \<le> ?q * ?d" "(?q - 1) * ?d < ?n" and d: "0 < ?d"
    using fundingForRecipient_parts [OF assms(1)] assms(2,3)
    by (simp_all add: verifyRecipientFirst_def Let_def)
  then show ?thesis by (intro ceil_le_iff)
qed

lemma recipientForFunding_delivered:
  assumes "recipientForFunding f rate = Inr conv"
  shows "m \<le> minorUnits (sf_recipientAmount conv) \<longleftrightarrow>
    m * (10 ^ scaleOf (currency f) * 10 ^ FX_RATE_SCALE) \<le> minorUnits f * rateScaled rate * 10 ^ scaleOf INR"
proof -
  let ?n = "minorUnits f * rateScaled rate * 10 ^ scaleOf INR"
    and ?d = "10 ^ scaleOf (currency f) * 10 ^ FX_RATE_SCALE :: int"
    and ?q = "minorUnits (sf_recipientAmount conv)"
  have "?q * ?d \<le> ?n" "?n < (?q + 1) * ?d" and d: "0 < ?d"
    using recipientForFunding_parts [OF assms] by (simp_all add: verifySourceFirst_def Let_def)
  then show ?thesis by (intro floor_ge_iff)
qed

lemma fundingForRecipient_residual:
  assumes "fundingForRecipient r rate = Inr conv" "0 < rateScaled rate"
    and "fundingCurrencyOf rate = Inr c"
  defines "den \<equiv> rateScaled rate * 10 ^ scaleOf INR"
  shows "\<bar>2 * (int (scaled_value (exact_amount (rf_roundingResidual conv))) * (den * 10 ^ scaleOf c)
      - (minorUnits (rf_fundingAmount conv) * den - minorUnits r * 10 ^ scaleOf c * 10 ^ FX_RATE_SCALE)
        * 10 ^ EXACT_AMOUNT_SCALE)\<bar> \<le> den * 10 ^ scaleOf c"
proof -
  let ?num = "minorUnits (rf_fundingAmount conv) * den - minorUnits r * 10 ^ scaleOf c * 10 ^ FX_RATE_SCALE"
  have "residual_of c ?num den (10 ^ scaleOf c) = Inr (rf_roundingResidual conv)"
    using assms(1,3) unfolding den_def
    by (auto simp: fundingForRecipient_def Let_def bind_result_Inr simp del: scaleOf_simps split: if_splits)
  moreover have "0 \<le> ?num"
    using fundingForRecipient_charged [OF assms(1-3), of "minorUnits (rf_fundingAmount conv)"]
    by (simp add: den_def)
  moreover have "0 < den" using assms(2) by (simp add: den_def)
  ultimately show ?thesis by (intro residual_of_bounds) simp_all
qed

section \<open>Parsing a printed rate\<close>

lemma match_rate_parts:
  assumes "list_all is_digit whole" "whole \<noteq> []" "list_all is_digit frac" "length frac = FX_RATE_SCALE"
  shows "match_rate (whole @ CHR ''.'' # frac) = Some (whole, frac)"
  using assms split_at_non_digit [of whole "CHR ''.''" frac] by (simp add: match_rate_def FX_RATE_SCALE_def)

lemma match_rate_scaled_string:
  assumes "0 \<le> n"
  shows "\<exists>whole frac. match_rate (trim (scaled_string FX_RATE_SCALE n)) = Some (whole, frac) \<and>
    length frac = FX_RATE_SCALE \<and> int (nat_of_digits (whole @ frac)) = n"
proof -
  define s where "s = pad_start (FX_RATE_SCALE + 1) (CHR ''0'') (digits_of_nat (nat n))"
  define whole frac where "whole = slice_front FX_RATE_SCALE s" and "frac = slice_back FX_RATE_SCALE s"
  have digits: "list_all is_digit s"
    by (simp add: s_def pad_start_digits digits_of_nat_digits)
  have len: "length s \<ge> FX_RATE_SCALE + 1" by (simp add: s_def pad_start_def)
  with digits have parts: "list_all is_digit whole" "whole \<noteq> []" "list_all is_digit frac"
      "length frac = FX_RATE_SCALE"
    by (auto simp: whole_def frac_def list_all_slices) (auto simp: slice_front_def slice_back_def)
  then obtain d ds where w: "whole = d # ds" "is_digit d" by (cases whole) auto
  have frac: "frac \<noteq> []" using parts(4) by (auto simp: FX_RATE_SCALE_def)
  with parts(3) have "is_digit (last frac)" by (auto simp: list_all_iff)
  with w frac have "trim (whole @ CHR ''.'' # frac) = whole @ CHR ''.'' # frac"
    by (intro trim_no_white) (simp_all add: is_digit_not_white)
  moreover have "scaled_string FX_RATE_SCALE n = whole @ CHR ''.'' # frac"
    using assms by (simp add: scaled_string_def Let_def whole_def frac_def s_def string_of_int_def)
  moreover have "whole @ frac = s" by (simp add: whole_def frac_def slice_front_back)
  then have "int (nat_of_digits (whole @ frac)) = n"
    using assms by (simp add: s_def digit_simps)
  ultimately show ?thesis using match_rate_parts [OF parts] parts(4) by auto
qed

section \<open>Properties\<close>

text \<open>
  C33. Recipient-first conversion: for every rate and every amount it is total, it never changes the
  amount the recipient gets, the amount charged is the least integer that covers it, and the
  disclosed residual is within half a unit of its twelfth decimal of the exact remainder.
\<close>

theorem recipient_first_least_cover:
  assumes "inr_rate c rate" "0 \<le> n"
  shows "\<exists>conv. fundingForRecipient (money INR n) rate = Inr conv \<and>
    rf_recipientAmount conv = money INR n \<and> currency (rf_fundingAmount conv) = c \<and>
    verifyRecipientFirst conv \<and>
    (\<forall>m. minorUnits (rf_fundingAmount conv) \<le> m \<longleftrightarrow>
      n * 10 ^ scaleOf c * 10 ^ FX_RATE_SCALE \<le> m * (rateScaled rate * 10 ^ scaleOf INR)) \<and>
    (let den = rateScaled rate * 10 ^ scaleOf INR * 10 ^ scaleOf c;
         exact = (minorUnits (rf_fundingAmount conv) * (rateScaled rate * 10 ^ scaleOf INR)
           - n * 10 ^ scaleOf c * 10 ^ FX_RATE_SCALE) * 10 ^ EXACT_AMOUNT_SCALE
     in \<bar>2 * (int (scaled_value (exact_amount (rf_roundingResidual conv))) * den - exact)\<bar> \<le> den)"
proof -
  from assms obtain conv where conv: "fundingForRecipient (money INR n) rate = Inr conv"
    using fundingForRecipient_Inr [of c rate "money INR n"] by auto
  have rate: "0 < rateScaled rate" "fundingCurrencyOf rate = Inr c"
    using assms(1) by (simp_all add: inr_rate_def)
  have "currency (rf_fundingAmount conv) = c"
    using fundingForRecipient_parts(4) [OF conv] rate by simp
  then show ?thesis
    using conv fundingForRecipient_parts [OF conv] fundingForRecipient_charged [OF conv rate]
      fundingForRecipient_residual [OF conv rate]
    unfolding Let_def money_simps by (intro exI [of _ conv] conjI) simp_all
qed

text \<open>
  The two conversions are a Galois connection: the charge for a recipient amount is affordable
  with a funding amount exactly when converting that funding delivers the recipient amount. So
  neither direction of rounding ever promises more than the other side covers.
\<close>

theorem conversions_galois:
  assumes "inr_rate c rate" "fundingForRecipient r rate = Inr rf" "recipientForFunding f rate = Inr sf"
  shows "minorUnits (rf_fundingAmount rf) \<le> minorUnits f \<longleftrightarrow>
    minorUnits r \<le> minorUnits (sf_recipientAmount sf)"
proof -
  have "0 < rateScaled rate" and c: "fundingCurrencyOf rate = Inr c"
    using assms(1) by (simp_all add: inr_rate_def)
  moreover from c assms(3) have "currency f = c"
    by (auto simp: recipientForFunding_def bind_result_Inr split: if_splits)
  ultimately show ?thesis
    using fundingForRecipient_charged [OF assms(2), of c] recipientForFunding_delivered [OF assms(3)]
    by (simp add: mult.assoc)
qed

text \<open>
  A rate that the code has built prints to a string that parses back to the same rate, with no
  digit lost at scale ten.
\<close>

theorem rate_print_parse:
  assumes "fxRate p r at src = Inr rate"
  shows "fxRateFromDecimalString p (formatFxRate rate) at src = Inr rate"
proof -
  from assms have r: "rateScaled rate = r" "0 < r" by (auto simp: fxRate_def split: if_splits)
  then obtain whole frac where "match_rate (trim (formatFxRate rate)) = Some (whole, frac)"
    and "length frac = FX_RATE_SCALE" "int (nat_of_digits (whole @ frac)) = r"
    using match_rate_scaled_string [of r] by (auto simp: formatFxRate_def)
  then show ?thesis using assms by (simp add: fxRateFromDecimalString_def pad_end_def)
qed

text \<open>
  The fee total is refused exactly when a fee is in another currency, and is the exact sum
  otherwise.
\<close>

theorem totalFees_exact:
  "totalFees c fees = Inr t \<longleftrightarrow>
     list_all (\<lambda>f. currency (fee_amount f) = c) fees \<and> currency t = c \<and>
     minorUnits t = sum_list (map (minorUnits \<circ> fee_amount) fees)"
  by (auto simp: totalFees_Inr money_eq_iff list_all_iff)

section \<open>The worked example of the documentation\<close>

text \<open>Five million rupees at \<open>USDT/INR 88.4210000000\<close>.\<close>

definition documented_rate :: fx_rate where
  "documented_rate =
     \<lparr>fx_pair = ''USDT/INR'', rateScaled = 884210000000, fx_scale = FX_RATE_SCALE,
      quotedAt = 0, fx_source = ''example''\<rparr>"

lemma documented_rate_inr: "inr_rate USDT documented_rate"
  by (simp add: inr_rate_def documented_rate_def)

lemma documented_values [simp]:
  "rateScaled documented_rate = 884210000000" "FX_RATE_SCALE = 10"
  by (simp_all add: documented_rate_def FX_RATE_SCALE_def)

lemma documented_conversion:
  "\<exists>rf. fundingForRecipient (money INR 500000000) documented_rate = Inr rf \<and>
     rf_fundingAmount rf = money USDT 56547652707"
proof -
  obtain rf where rf: "fundingForRecipient (money INR 500000000) documented_rate = Inr rf"
    using fundingForRecipient_Inr [OF documented_rate_inr, of "money INR 500000000"] by auto
  have "currency (rf_fundingAmount rf) = USDT"
    using fundingForRecipient_parts(4) [OF rf] documented_rate_inr by simp
  moreover have "minorUnits (rf_fundingAmount rf) \<le> 56547652707"
      "\<not> minorUnits (rf_fundingAmount rf) \<le> 56547652706"
    using fundingForRecipient_charged [OF rf, of USDT] documented_rate_inr by simp_all
  ultimately show ?thesis using rf by (intro exI [of _ rf]) (simp add: money_eq_iff)
qed

theorem recipient_first_least_cover_witness:
  "\<exists>conv. fundingForRecipient (money INR 500000000) documented_rate = Inr conv \<and>
     rf_recipientAmount conv = money INR 500000000 \<and>
     rf_fundingAmount conv = money USDT 56547652707 \<and> verifyRecipientFirst conv"
  using recipient_first_least_cover [OF documented_rate_inr, of 500000000] documented_conversion
  by auto

theorem conversions_galois_witness:
  "\<exists>rf sf. fundingForRecipient (money INR 500000000) documented_rate = Inr rf \<and>
     recipientForFunding (money USDT 56547652707) documented_rate = Inr sf \<and>
     minorUnits (rf_fundingAmount rf) \<le> 56547652707 \<and> 500000000 \<le> minorUnits (sf_recipientAmount sf)"
proof -
  obtain rf where rf: "fundingForRecipient (money INR 500000000) documented_rate = Inr rf"
    "rf_fundingAmount rf = money USDT 56547652707"
    using documented_conversion by blast
  obtain sf where sf: "recipientForFunding (money USDT 56547652707) documented_rate = Inr sf"
    using recipientForFunding_Inr [OF documented_rate_inr, of "money USDT 56547652707"] by auto
  show ?thesis
    using conversions_galois [OF documented_rate_inr rf(1) sf] rf sf by auto
qed

theorem rate_print_parse_witness:
  "fxRateFromDecimalString ''USDT/INR'' (formatFxRate documented_rate) 0 ''example'' = Inr documented_rate"
  by (rule rate_print_parse [where r = 884210000000]) (simp add: fxRate_def documented_rate_def)

end
