(* ===== verification/Quotes.thy ===== *)
theory Quotes
  imports Lifecycle Fx
begin

text \<open>
  \<open>packages/domain/src/quotes/quote.ts\<close> (the lifecycle Q01-Q05 and the usability checks) and
  \<open>pricing.ts\<close> (the validated pricing configuration, the fees and the pricing of a quote). The
  \<open>guard\<close> column of the table is prose and is left out. A \<open>Date\<close> is its number of milliseconds.
  \<open>source\<close> is a closed union, so the check for an unknown source has no case.
\<close>

section \<open>The lifecycle\<close>

datatype quote_status = Q_ACTIVE | Q_LOCKED | Q_CONSUMED | Q_EXPIRED | Q_VOID

datatype quote_trigger = Q_create | Q_lock | Q_consume | Q_expire | Q_void

datatype quote_transition_id = Q01 | Q02 | Q03 | Q04 | Q05

record quote_transition =
  qt_id :: quote_transition_id
  qt_from :: "quote_status list"
  qt_trigger :: quote_trigger
  qt_to :: quote_status

definition QUOTE_TRANSITIONS :: "quote_transition list" where
  "QUOTE_TRANSITIONS =
     [\<lparr>qt_id = Q01, qt_from = [], qt_trigger = Q_create, qt_to = Q_ACTIVE\<rparr>,
      \<lparr>qt_id = Q02, qt_from = [Q_ACTIVE], qt_trigger = Q_lock, qt_to = Q_LOCKED\<rparr>,
      \<lparr>qt_id = Q03, qt_from = [Q_LOCKED], qt_trigger = Q_consume, qt_to = Q_CONSUMED\<rparr>,
      \<lparr>qt_id = Q04, qt_from = [Q_ACTIVE, Q_LOCKED], qt_trigger = Q_expire, qt_to = Q_EXPIRED\<rparr>,
      \<lparr>qt_id = Q05, qt_from = [Q_ACTIVE, Q_LOCKED], qt_trigger = Q_void, qt_to = Q_VOID\<rparr>]"

datatype quote_refusal = Invalid_Quote_Transition "quote_status option" quote_trigger

definition evaluateQuoteTransition ::
    "quote_status option \<Rightarrow> quote_trigger \<Rightarrow> (quote_refusal, quote_transition \<times> quote_status) result" where
  "evaluateQuoteTransition from t =
     (case candidate_rows qt_trigger qt_from QUOTE_TRANSITIONS from t of
        [r] \<Rightarrow> Inr (r, qt_to r)
      | _ \<Rightarrow> Inl (Invalid_Quote_Transition from t))"

definition TERMINAL_QUOTE_STATUSES :: "quote_status list" where
  "TERMINAL_QUOTE_STATUSES = [Q_CONSUMED, Q_EXPIRED, Q_VOID]"

definition isQuoteTerminal :: "quote_status \<Rightarrow> bool" where
  "isQuoteTerminal s = (s \<in> set TERMINAL_QUOTE_STATUSES)"

interpretation quote: lifecycle_table qt_trigger qt_from QUOTE_TRANSITIONS isQuoteTerminal qt_to
  by unfold_locales (auto simp: QUOTE_TRANSITIONS_def isQuoteTerminal_def TERMINAL_QUOTE_STATUSES_def)

lemma evaluateQuote_Inr:
  "evaluateQuoteTransition from t = Inr (r, s) \<longleftrightarrow>
     r \<in> set QUOTE_TRANSITIONS \<and> qt_trigger r = t \<and> row_accepts qt_from r from \<and> s = qt_to r"
  using quote.find_row_iff [of "from" t r]
  by (auto simp: evaluateQuoteTransition_def quote.candidates_unambiguous split: option.splits)

section \<open>The aggregate and its checks\<close>

datatype environment = Sandbox | Live

datatype quote_direction = RECIPIENT_FIRST | SOURCE_FIRST

record quote_t =
  q_id :: string
  q_workspaceId :: string
  q_environment :: environment
  q_direction :: quote_direction
  q_recipientAmount :: money
  q_fundingAmount :: money
  q_fxRate :: fx_rate
  q_feeComponents :: "fee_component list"
  q_roundingResidual :: exact_amount
  q_estimatedDelivery :: string
  q_status :: quote_status
  q_expiresAt :: int
  q_createdAt :: int
  q_lockedAt :: "int option"
  q_consumedBySettlementId :: "string option"
  q_pricingVersion :: string

datatype quote_problem =
    Quote_Not_Found | Quote_Expired | Quote_Consumed | Quote_Void | Quote_Wrong_Workspace
  | Quote_Wrong_Environment | Quote_Amount_Mismatch | Quote_Currency_Mismatch

record quote_settlement =
  qs_workspaceId :: string
  qs_environment :: environment
  qs_recipientAmount :: money
  qs_fundingCurrency :: string

definition checkQuoteAttachable :: "quote_t \<Rightarrow> quote_settlement \<Rightarrow> int \<Rightarrow> quote_problem list" where
  "checkQuoteAttachable q s now =
     (if q_workspaceId q \<noteq> qs_workspaceId s then [Quote_Wrong_Workspace] else []) @
     (if q_environment q \<noteq> qs_environment s then [Quote_Wrong_Environment] else []) @
     (if q_status q = Q_CONSUMED then [Quote_Consumed] else []) @
     (if q_status q = Q_VOID then [Quote_Void] else []) @
     (if q_status q = Q_EXPIRED \<or> now > q_expiresAt q then [Quote_Expired] else []) @
     (if minorUnits (q_recipientAmount q) \<noteq> minorUnits (qs_recipientAmount s) \<or>
         currency (q_recipientAmount q) \<noteq> currency (qs_recipientAmount s)
      then [Quote_Amount_Mismatch] else []) @
     (if code_string (currency (q_fundingAmount q)) \<noteq> qs_fundingCurrency s
      then [Quote_Currency_Mismatch] else [])"

definition checkQuoteAuthorizable :: "quote_t \<Rightarrow> quote_settlement \<Rightarrow> int \<Rightarrow> quote_problem list" where
  "checkQuoteAuthorizable q s now = checkQuoteAttachable q s now"

definition isQuoteExpiredAt :: "quote_t \<Rightarrow> int \<Rightarrow> bool" where
  "isQuoteExpiredAt q now = (now > q_expiresAt q)"

section \<open>Pricing configuration\<close>

datatype pricing_source = Sandbox_Fixture | Treasury_Approved | Provider_Contract

datatype fee_rule =
    Flat string string string
  | Basis_Points string string int

primrec rule_code :: "fee_rule \<Rightarrow> string" where
  "rule_code (Flat code label n) = code"
| "rule_code (Basis_Points code label bps) = code"

record pricing_config =
  pc_version :: string
  pc_source :: pricing_source
  pc_description :: string
  pc_validitySeconds :: int
  pc_feeRules :: "fee_rule list"
  pc_estimatedDelivery :: string

datatype pricing_defect =
    Missing_Field string
  | Description_Does_Not_Disclose_Status
  | Validity_Out_Of_Range
  | Duplicate_Fee_Code string
  | Fee_Rule_Invalid string

text \<open>\<open>/needle/i.test(s)\<close> for an ASCII needle.\<close>

definition lower :: "char \<Rightarrow> char" where
  "lower c = (let n = of_char c :: nat in if 65 \<le> n \<and> n \<le> 90 then char_of (n + 32) else c)"

fun contains_ci :: "string \<Rightarrow> string \<Rightarrow> bool" where
  "contains_ci needle [] = (needle = [])"
| "contains_ci needle (c # s) =
     (map lower (take (length needle) (c # s)) = map lower needle \<or> contains_ci needle s)"

definition rule_defects :: "fee_rule \<Rightarrow> pricing_defect list" where
  "rule_defects rule =
     (case rule of
        Flat code label n \<Rightarrow> if n = [] \<or> \<not> list_all is_digit n then [Fee_Rule_Invalid code] else []
      | Basis_Points code label bps \<Rightarrow>
          if bps < 0 \<or> bps > 10000 then [Fee_Rule_Invalid code] else [])"

fun fee_rule_defects :: "string list \<Rightarrow> fee_rule list \<Rightarrow> pricing_defect list" where
  "fee_rule_defects seen [] = []"
| "fee_rule_defects seen (rule # rules) =
     (if rule_code rule \<in> set seen then [Duplicate_Fee_Code (rule_code rule)] else []) @
     rule_defects rule @
     fee_rule_defects (rule_code rule # seen) rules"

definition validatePricingConfig :: "pricing_config \<Rightarrow> pricing_defect list" where
  "validatePricingConfig config =
     (if pc_version config = [] then [Missing_Field ''version''] else []) @
     (if pc_description config = [] then [Missing_Field ''description''] else []) @
     (if pc_estimatedDelivery config = [] then [Missing_Field ''estimatedDelivery''] else []) @
     (if pc_source config = Sandbox_Fixture \<and>
         \<not> contains_ci ''NOT A COMMERCIAL COMMITMENT'' (pc_description config)
      then [Description_Does_Not_Disclose_Status] else []) @
     (if pc_validitySeconds config < 10 \<or> pc_validitySeconds config > 86400
      then [Validity_Out_Of_Range] else []) @
     fee_rule_defects [] (pc_feeRules config)"

section \<open>Fees and pricing\<close>

text \<open>\<open>BigInt(rule.minorUnits)\<close> is modelled for the digit strings that the validation admits.\<close>

definition compute_fee :: "money \<Rightarrow> fee_rule \<Rightarrow> fee_component" where
  "compute_fee fundingAmount rule =
     (case rule of
        Flat code label n \<Rightarrow>
          \<lparr>fee_code = code, fee_label = label,
           fee_amount = money (currency fundingAmount) (int (nat_of_digits n))\<rparr>
      | Basis_Points code label bps \<Rightarrow>
          \<lparr>fee_code = code, fee_label = label,
           fee_amount = money (currency fundingAmount)
             (js_div (minorUnits fundingAmount * bps + 9999) 10000)\<rparr>)"






section \<open>The sandbox configuration\<close>

definition SANDBOX_PRICING :: pricing_config where
  "SANDBOX_PRICING =
     \<lparr>pc_version = ''sandbox-pricing-1'',
      pc_source = Sandbox_Fixture,
      pc_description =
        ''DETERMINISTIC SANDBOX PRICING '' @ [CHR 0xE2, CHR 0x80, CHR 0x94] @
        '' NOT A COMMERCIAL COMMITMENT. The fee rules and '' @
        ''validity window below are invented so the quote lifecycle and settlement machine '' @
        ''can be exercised end to end. They are not INRSettle pricing and not any provider'' @
        [CHR 0xE2, CHR 0x80, CHR 0x99] @ ''s '' @
        ''pricing. Decisions D-08 (who bears FX movement between lock and execution, and the '' @
        ''quote validity window) and D-09 (the fee model and its disclosure) are OPEN and can '' @
        ''only be closed with real commercial and provider evidence.'',
      pc_validitySeconds = 120,
      pc_feeRules =
        [Flat ''network'' ''Network fee'' ''250000'', Basis_Points ''service'' ''Service fee'' 35],
      pc_estimatedDelivery = ''under 30 minutes''\<rparr>"

definition SANDBOX_RATES :: "(string \<times> string) list" where
  "SANDBOX_RATES =
     [(''USDT/INR'', ''88.4210000000''),
      (''USDC/INR'', ''88.3900000000''),
      (''USD/INR'', ''83.5100000000''),
      (''EUR/INR'', ''90.1200000000''),
      (''GBP/INR'', ''105.6700000000''),
      (''AED/INR'', ''22.7400000000''),
      (''SGD/INR'', ''61.8800000000'')]"

definition sandboxRateFor :: "currency_code \<Rightarrow> string option" where
  "sandboxRateFor fundingCurrency = map_of SANDBOX_RATES (code_string fundingCurrency @ ''/INR'')"

section \<open>Fee arithmetic\<close>

lemma compute_fee_currency [simp]: "currency (fee_amount (compute_fee m rule)) = currency m"
  by (cases rule) (simp_all add: compute_fee_def)

text \<open>A basis-point fee is the exact ceiling of its share.\<close>

lemma compute_fee_bps:
  assumes "0 \<le> minorUnits m" "0 \<le> bps"
  shows "minorUnits m * bps \<le> minorUnits (fee_amount (compute_fee m (Basis_Points c l bps))) * 10000 \<and>
    (minorUnits (fee_amount (compute_fee m (Basis_Points c l bps))) - 1) * 10000 < minorUnits m * bps"
proof -
  have "ceilDiv (minorUnits m * bps) 10000 = Inr ((minorUnits m * bps + 9999) div 10000)"
    using assms by (simp add: ceilDiv_def)
  moreover have "0 \<le> minorUnits m * bps + 9999" using assms by simp
  ultimately show ?thesis
    by (simp add: ceilDiv_Inr compute_fee_def js_div_def)
qed



lemma fee_code_compute [simp]: "fee_code (compute_fee m rule) = rule_code rule"
  by (cases rule) (simp_all add: compute_fee_def)





lemma contains_ci_infix: "contains_ci needle (pre @ needle @ post)"
proof (induction pre)
  case Nil
  have "take (length needle) (needle @ post) = needle" by simp
  then show ?case by (cases "needle @ post") auto
qed simp

lemma SANDBOX_PRICING_valid: "validatePricingConfig SANDBOX_PRICING = []"
proof -
  have "pc_description SANDBOX_PRICING =
      (''DETERMINISTIC SANDBOX PRICING '' @ [CHR 0xE2, CHR 0x80, CHR 0x94] @ '' '') @
      ''NOT A COMMERCIAL COMMITMENT'' @ drop 61 (pc_description SANDBOX_PRICING)"
    by (simp add: SANDBOX_PRICING_def)
  then have "contains_ci ''NOT A COMMERCIAL COMMITMENT'' (pc_description SANDBOX_PRICING)"
    by (metis contains_ci_infix)
  then show ?thesis
    by (simp add: validatePricingConfig_def) (simp add: SANDBOX_PRICING_def rule_defects_def is_digit_of_char)
qed

section \<open>Properties\<close>

text \<open>
  A quote can be attached or authorized exactly when it belongs to the workspace and the
  environment, is active or locked, has not reached its expiry on the clock given, and prices
  exactly the settlement's amount in its funding currency.
\<close>

theorem quote_usable_iff:
  "checkQuoteAuthorizable q s now = [] \<longleftrightarrow>
     q_workspaceId q = qs_workspaceId s \<and> q_environment q = qs_environment s \<and>
     (q_status q = Q_ACTIVE \<or> q_status q = Q_LOCKED) \<and> now \<le> q_expiresAt q \<and>
     q_recipientAmount q = qs_recipientAmount s \<and>
     code_string (currency (q_fundingAmount q)) = qs_fundingCurrency s"
  by (cases "q_status q")
    (auto simp: checkQuoteAuthorizable_def checkQuoteAttachable_def money_eq_iff)

text \<open>
  A quote is consumed at most once in its life: consuming is possible only from locked, and
  after a quote is consumed, expired or void every trigger is refused.
\<close>

theorem quote_consumed_once:
  "run_table qt_trigger qt_from qt_to QUOTE_TRANSITIONS s (ts @ Q_consume # us) = Some s' \<longleftrightarrow>
     us = [] \<and> s' = Q_CONSUMED \<and> run_table qt_trigger qt_from qt_to QUOTE_TRANSITIONS s ts = Some Q_LOCKED"
proof -
  have consume: "find_row qt_trigger qt_from QUOTE_TRANSITIONS (Some q) Q_consume =
      (if q = Q_LOCKED then Some \<lparr>qt_id = Q03, qt_from = [Q_LOCKED], qt_trigger = Q_consume, qt_to = Q_CONSUMED\<rparr>
       else None)" for q
    by (simp add: find_row_def row_accepts_def QUOTE_TRANSITIONS_def)
  have "run_table qt_trigger qt_from qt_to QUOTE_TRANSITIONS Q_CONSUMED us = Some s' \<longleftrightarrow>
      us = [] \<and> s' = Q_CONSUMED"
    by (rule quote.terminal_run) (simp add: isQuoteTerminal_def TERMINAL_QUOTE_STATUSES_def)
  then show ?thesis
    by (auto simp: quote.run_append consume split: option.splits)
qed




text \<open>
  A basis-point fee is never under-charged and never over-charged by a whole minor unit: it is
  the least integer that is at least its share of the funding amount.
\<close>

theorem basis_point_fee_is_ceiling:
  assumes "0 \<le> minorUnits m" "0 \<le> bps"
  shows "minorUnits (fee_amount (compute_fee m (Basis_Points c l bps))) \<le> n \<longleftrightarrow>
    minorUnits m * bps \<le> n * 10000"
  using compute_fee_bps [OF assms, of c l]
  by (intro ceil_le_iff) simp_all

theorem basis_point_fee_is_ceiling_witness:
  "minorUnits (fee_amount (compute_fee (money USDT 56547652707) (Basis_Points ''service'' ''Service fee'' 35))) \<le> 197916785 \<and>
   \<not> minorUnits (fee_amount (compute_fee (money USDT 56547652707) (Basis_Points ''service'' ''Service fee'' 35))) \<le> 197916784"
  using basis_point_fee_is_ceiling [of "money USDT 56547652707" 35 "''service''" "''Service fee''"] by simp

text \<open>
  The sandbox configuration is valid, discloses itself, and its rate book gives a well-formed
  INR rate for every funding currency but INR itself.
\<close>

theorem sandbox_configuration_usable:
  "validatePricingConfig SANDBOX_PRICING = [] \<and>
   (case sandboxRateFor c of
      None \<Rightarrow> c = INR
    | Some d \<Rightarrow> c \<noteq> INR \<and>
        (\<exists>rate. fxRateFromDecimalString (code_string c @ ''/INR'') d at src = Inr rate \<and> inr_rate c rate))"
  using SANDBOX_PRICING_valid
  by (cases c)
    (simp_all add: sandboxRateFor_def SANDBOX_RATES_def fxRateFromDecimalString_def trim_def is_white_def
      match_rate_def is_digit_of_char pad_end_def nat_of_digits_def digit_val_def fxRate_def inr_rate_def)

end
