(* ===== verification/Reconciliation.thy ===== *)
theory Reconciliation
  imports Lifecycle Money
begin

text \<open>
  \<open>packages/domain/src/reconciliation/reconciliation.ts\<close> (the lifecycle R01-R07 and the comparison
  with zero tolerance) and \<open>finality.ts\<close> (the evaluator that alone may declare a settlement
  final). The \<open>guard\<close> column of the table is prose and is left out. Statuses that the evidence
  carries as strings stay strings.
\<close>

section \<open>The lifecycle\<close>

datatype reconciliation_status = R_PENDING | R_MATCHED | R_MISMATCH | R_MANUAL_REVIEW

datatype reconciliation_trigger =
    R_begin | R_observed_matching | R_observed_differing | R_observation_overdue | R_escalate
  | R_resolve_matched | R_resolve_unresolvable

datatype reconciliation_transition_id = R01 | R02 | R03 | R04 | R05 | R06 | R07

record reconciliation_transition =
  ct_id :: reconciliation_transition_id
  ct_from :: "reconciliation_status list"
  ct_trigger :: reconciliation_trigger
  ct_to :: reconciliation_status
  ct_requiresAttribution :: bool
  ct_requiresCompensationDecision :: bool

definition RECONCILIATION_TRANSITIONS :: "reconciliation_transition list" where
  "RECONCILIATION_TRANSITIONS =
     [\<lparr>ct_id = R01, ct_from = [], ct_trigger = R_begin, ct_to = R_PENDING,
       ct_requiresAttribution = False, ct_requiresCompensationDecision = False\<rparr>,
      \<lparr>ct_id = R02, ct_from = [R_PENDING], ct_trigger = R_observed_matching, ct_to = R_MATCHED,
       ct_requiresAttribution = False, ct_requiresCompensationDecision = False\<rparr>,
      \<lparr>ct_id = R03, ct_from = [R_PENDING], ct_trigger = R_observed_differing, ct_to = R_MISMATCH,
       ct_requiresAttribution = False, ct_requiresCompensationDecision = False\<rparr>,
      \<lparr>ct_id = R04, ct_from = [R_PENDING], ct_trigger = R_observation_overdue, ct_to = R_MANUAL_REVIEW,
       ct_requiresAttribution = False, ct_requiresCompensationDecision = False\<rparr>,
      \<lparr>ct_id = R05, ct_from = [R_MISMATCH], ct_trigger = R_escalate, ct_to = R_MANUAL_REVIEW,
       ct_requiresAttribution = False, ct_requiresCompensationDecision = False\<rparr>,
      \<lparr>ct_id = R06, ct_from = [R_MANUAL_REVIEW], ct_trigger = R_resolve_matched, ct_to = R_MATCHED,
       ct_requiresAttribution = True, ct_requiresCompensationDecision = True\<rparr>,
      \<lparr>ct_id = R07, ct_from = [R_MANUAL_REVIEW], ct_trigger = R_resolve_unresolvable, ct_to = R_MISMATCH,
       ct_requiresAttribution = True, ct_requiresCompensationDecision = False\<rparr>]"

datatype reconciliation_refusal =
  R_Invalid_Transition "reconciliation_status option" reconciliation_trigger

definition evaluateReconciliationTransition ::
    "reconciliation_status option \<Rightarrow> reconciliation_trigger \<Rightarrow>
     (reconciliation_refusal, reconciliation_transition \<times> reconciliation_status) result" where
  "evaluateReconciliationTransition from t =
     (case find_row ct_trigger ct_from RECONCILIATION_TRANSITIONS from t of
        None \<Rightarrow> Inl (R_Invalid_Transition from t)
      | Some r \<Rightarrow> Inr (r, ct_to r))"

interpretation reconciliation:
  lifecycle_table ct_trigger ct_from RECONCILIATION_TRANSITIONS "\<lambda>s. s = R_MATCHED" ct_to
  by unfold_locales (auto simp: RECONCILIATION_TRANSITIONS_def)

lemma evaluateReconciliation_Inr:
  "evaluateReconciliationTransition from t = Inr (r, s) \<longleftrightarrow>
     r \<in> set RECONCILIATION_TRANSITIONS \<and> ct_trigger r = t \<and> row_accepts ct_from r from \<and> s = ct_to r"
proof -
  have "evaluateReconciliationTransition from t = Inr (r, s) \<longleftrightarrow>
      find_row ct_trigger ct_from RECONCILIATION_TRANSITIONS from t = Some r \<and> s = ct_to r"
    by (auto simp: evaluateReconciliationTransition_def split: option.splits)
  then show ?thesis by (simp add: reconciliation.find_row_iff)
qed

section \<open>The comparison\<close>

datatype observation_source = Trusted_Provider_Event | Authoritative_Status_Pull

record observation =
  obs_source :: observation_source
  obs_observedAmount :: "money option"
  obs_observedAt :: string

datatype mismatch_reason = Short | Over | Obs_Currency_Mismatch | No_Amount_Observed

datatype comparison_verdict =
    Matched money
  | Mismatch money mismatch_reason

primrec verdict_trigger :: "comparison_verdict \<Rightarrow> reconciliation_trigger" where
  "verdict_trigger (Matched d) = R_observed_matching"
| "verdict_trigger (Mismatch d why) = R_observed_differing"

definition compareObservation :: "money \<Rightarrow> observation \<Rightarrow> comparison_verdict" where
  "compareObservation expected ob =
     (let zero = money (currency expected) 0 in
      case obs_observedAmount ob of
        None \<Rightarrow> Mismatch zero No_Amount_Observed
      | Some observed \<Rightarrow>
          if currency observed \<noteq> currency expected then Mismatch zero Obs_Currency_Mismatch
          else let deltaMinor = minorUnits observed - minorUnits expected;
                   delta = money (currency expected) deltaMinor
               in if deltaMinor = 0 then Matched delta
                  else Mismatch delta (if deltaMinor < 0 then Short else Over))"

definition satisfiesF5 :: "reconciliation_status \<Rightarrow> int \<Rightarrow> bool" where
  "satisfiesF5 status deltaMinor = (status = R_MATCHED \<and> deltaMinor = 0)"

section \<open>Finality\<close>

datatype finality_condition = F1 | F2 | F3 | F4 | F5 | F6 | X1 | X2

record finality_evidence =
  fe_authorizedAt :: "string option"
  fe_authorizedBy :: "string option"
  fe_actorHeldCapability :: bool
  fe_drawdownStatus :: "string option"
  fe_facilityStatus :: "string option"
  fe_confirmationSource :: "observation_source option"
  fe_attemptStatus :: "string option"
  fe_utr :: "string option"
  fe_utrWellFormed :: bool
  fe_reconciliationStatus :: "string option"
  fe_deltaMinor :: "int option"
  fe_openExceptionCode :: "string option"
  fe_authorizedTermsHash :: "string option"
  fe_authorizedDestination :: "string option"
  fe_executedTermsHash :: "string option"
  fe_executedDestination :: "string option"

record condition_verdict =
  cv_condition :: finality_condition
  cv_met :: bool
  cv_because :: string

definition source_string :: "observation_source \<Rightarrow> string" where
  "source_string s =
     (case s of Trusted_Provider_Event \<Rightarrow> ''trusted_provider_event''
      | Authoritative_Status_Pull \<Rightarrow> ''authoritative_status_pull'')"

definition or_else :: "string option \<Rightarrow> string \<Rightarrow> string" where
  "or_else v d = (case v of None \<Rightarrow> d | Some x \<Rightarrow> x)"

definition verdict :: "finality_condition \<Rightarrow> bool \<Rightarrow> string \<Rightarrow> condition_verdict" where
  "verdict c met because = \<lparr>cv_condition = c, cv_met = met, cv_because = because\<rparr>"

definition f1 :: "finality_evidence \<Rightarrow> condition_verdict" where
  "f1 e =
     (case (fe_authorizedAt e, fe_authorizedBy e) of
        (Some at, Some by_) \<Rightarrow>
          if \<not> fe_actorHeldCapability e
          then verdict F1 False (''authorized by '' @ by_ @ '', who did not hold settlement:authorize at '' @ at)
          else verdict F1 True (''authorized at '' @ at @ '' by '' @ by_ @
                 '', who held settlement:authorize at the time'')
      | _ \<Rightarrow> verdict F1 False ''no AUTHORIZED transition is recorded on this settlement'')"

definition f2 :: "finality_evidence \<Rightarrow> condition_verdict" where
  "f2 e =
     (if fe_drawdownStatus e \<noteq> Some ''CONFIRMED''
      then verdict F2 False (''the drawdown is '' @ or_else (fe_drawdownStatus e) ''absent'' @ '', not CONFIRMED'')
      else if fe_facilityStatus e \<noteq> Some ''ACTIVE''
      then verdict F2 False
             (''the funding facility is '' @ or_else (fe_facilityStatus e) ''absent'' @ '', not ACTIVE'')
      else verdict F2 True ''a confirmed drawdown against an ACTIVE liquidity facility'')"

definition f3 :: "finality_evidence \<Rightarrow> condition_verdict" where
  "f3 e =
     (if fe_attemptStatus e \<noteq> Some ''CREDITED'' \<and> fe_attemptStatus e \<noteq> Some ''RETURNED''
      then verdict F3 False
             (''the payout attempt is '' @ or_else (fe_attemptStatus e) ''absent'' @
              ''; no terminal credit confirmation'')
      else case fe_confirmationSource e of
             None \<Rightarrow> verdict F3 False ''the credit confirmation did not arrive over a trusted channel''
           | Some src \<Rightarrow> verdict F3 True (''terminal credit confirmed via '' @ source_string src))"

definition f4 :: "finality_evidence \<Rightarrow> condition_verdict" where
  "f4 e =
     (case fe_utr e of
        None \<Rightarrow> verdict F4 False ''no UTR is recorded for the credited payout''
      | Some u \<Rightarrow>
          if u = [] then verdict F4 False ''no UTR is recorded for the credited payout''
          else if \<not> fe_utrWellFormed e
            then verdict F4 False (''the recorded UTR '' @ u @ '' is not well-formed'')
          else verdict F4 True (''UTR '' @ u @ '' is present and well-formed''))"

definition f5 :: "finality_evidence \<Rightarrow> condition_verdict" where
  "f5 e =
     (case fe_reconciliationStatus e of
        None \<Rightarrow> verdict F5 False ''no reconciliation exists for this settlement''
      | Some st \<Rightarrow>
          if st \<noteq> ''MATCHED'' then verdict F5 False (''reconciliation is '' @ st @ '', not MATCHED'')
          else if fe_deltaMinor e \<noteq> Some 0
            then verdict F5 False
                   (''reconciliation is MATCHED but carries a delta of '' @
                    (case fe_deltaMinor e of None \<Rightarrow> ''unknown'' | Some d \<Rightarrow> string_of_int d) @ '' minor units'')
          else verdict F5 True ''reconciliation is MATCHED with a delta of exactly zero'')"

definition f6 :: "finality_evidence \<Rightarrow> condition_verdict" where
  "f6 e =
     (case fe_openExceptionCode e of
        Some c \<Rightarrow> verdict F6 False (''exception '' @ c @ '' is open'')
      | None \<Rightarrow> verdict F6 True ''no blocking exception is open'')"

definition x1 :: "finality_evidence \<Rightarrow> condition_verdict" where
  "x1 e =
     (case fe_authorizedTermsHash e of
        None \<Rightarrow> verdict X1 False ''no authorized terms hash was frozen at authorization''
      | Some h \<Rightarrow>
          if fe_executedTermsHash e \<noteq> Some h
          then verdict X1 False (''executed against terms '' @ or_else (fe_executedTermsHash e) ''none'' @
                 '', authorized against '' @ h)
          else verdict X1 True (''executed against the authorized terms '' @ h))"

definition x2 :: "finality_evidence \<Rightarrow> condition_verdict" where
  "x2 e =
     (case fe_authorizedDestination e of
        None \<Rightarrow> verdict X2 False ''no destination version was frozen at authorization''
      | Some d \<Rightarrow>
          if fe_executedDestination e \<noteq> Some d
          then verdict X2 False (''paid destination version '' @ or_else (fe_executedDestination e) ''none'' @
                 '', authorized '' @ d)
          else verdict X2 True (''paid the destination version '' @ d @ '' frozen at authorization''))"

record finality_verdict =
  fv_final :: bool
  fv_conditions :: "condition_verdict list"
  fv_missing :: "finality_condition list"

definition evaluateFinality :: "finality_evidence \<Rightarrow> finality_verdict" where
  "evaluateFinality e =
     (let conditions = [f1 e, f2 e, f3 e, f4 e, f5 e, f6 e, x1 e, x2 e];
          missing = map cv_condition (filter (\<lambda>c. \<not> cv_met c) conditions)
      in \<lparr>fv_final = (missing = []), fv_conditions = conditions, fv_missing = missing\<rparr>)"

section \<open>What each condition asks\<close>

lemmas condition_defs = f1_def f2_def f3_def f4_def f5_def f6_def x1_def x2_def verdict_def

lemma condition_names [simp]:
  "cv_condition (f1 e) = F1" "cv_condition (f2 e) = F2" "cv_condition (f3 e) = F3"
  "cv_condition (f4 e) = F4" "cv_condition (f5 e) = F5" "cv_condition (f6 e) = F6"
  "cv_condition (x1 e) = X1" "cv_condition (x2 e) = X2"
  by (simp_all add: condition_defs split: option.split)

lemma condition_met:
  "cv_met (f1 e) \<longleftrightarrow> fe_authorizedAt e \<noteq> None \<and> fe_authorizedBy e \<noteq> None \<and> fe_actorHeldCapability e"
  "cv_met (f2 e) \<longleftrightarrow> fe_drawdownStatus e = Some ''CONFIRMED'' \<and> fe_facilityStatus e = Some ''ACTIVE''"
  "cv_met (f3 e) \<longleftrightarrow> fe_attemptStatus e \<in> {Some ''CREDITED'', Some ''RETURNED''} \<and> fe_confirmationSource e \<noteq> None"
  "cv_met (f4 e) \<longleftrightarrow> fe_utr e \<notin> {None, Some []} \<and> fe_utrWellFormed e"
  "cv_met (f5 e) \<longleftrightarrow> fe_reconciliationStatus e = Some ''MATCHED'' \<and> fe_deltaMinor e = Some 0"
  "cv_met (f6 e) \<longleftrightarrow> fe_openExceptionCode e = None"
  "cv_met (x1 e) \<longleftrightarrow> fe_authorizedTermsHash e \<noteq> None \<and> fe_executedTermsHash e = fe_authorizedTermsHash e"
  "cv_met (x2 e) \<longleftrightarrow> fe_authorizedDestination e \<noteq> None \<and> fe_executedDestination e = fe_authorizedDestination e"
  by (auto simp: condition_defs split: option.splits)

lemma filter_not_empty: "filter (\<lambda>c. \<not> P c) xs = [] \<longleftrightarrow> list_all P xs"
  by (simp add: filter_empty_conv list_all_iff)

lemma final_all_met:
  "fv_final (evaluateFinality e) \<longleftrightarrow> list_all cv_met [f1 e, f2 e, f3 e, f4 e, f5 e, f6 e, x1 e, x2 e]"
  by (simp only: evaluateFinality_def Let_def finality_verdict.simps map_is_Nil_conv filter_not_empty)

lemma missing_iff:
  "c \<in> set (fv_missing (evaluateFinality e)) \<longleftrightarrow>
     (\<exists>v\<in>set [f1 e, f2 e, f3 e, f4 e, f5 e, f6 e, x1 e, x2 e]. \<not> cv_met v \<and> cv_condition v = c)"
  unfolding evaluateFinality_def Let_def finality_verdict.simps set_map set_filter by blast

section \<open>Properties\<close>

lemma compare_Some:
  "obs_observedAmount ob = Some m \<Longrightarrow> compareObservation expected ob =
     (if currency m \<noteq> currency expected then Mismatch (money (currency expected) 0) Obs_Currency_Mismatch
      else if minorUnits m = minorUnits expected then Matched (money (currency expected) 0)
      else Mismatch (money (currency expected) (minorUnits m - minorUnits expected))
             (if minorUnits m < minorUnits expected then Short else Over))"
  by (simp add: compareObservation_def Let_def)

lemma compare_None:
  "obs_observedAmount ob = None \<Longrightarrow>
     compareObservation expected ob = Mismatch (money (currency expected) 0) No_Amount_Observed"
  by (simp add: compareObservation_def Let_def)

lemma compare_Matched:
  "compareObservation expected ob = Matched d \<longleftrightarrow>
     obs_observedAmount ob = Some expected \<and> d = money (currency expected) 0"
  by (cases "obs_observedAmount ob") (auto simp: compare_None compare_Some money_eq_iff)

lemma compare_Short:
  "compareObservation expected ob = Mismatch d Short \<longleftrightarrow>
      (\<exists>m. obs_observedAmount ob = Some m \<and> currency m = currency expected \<and>
        minorUnits m < minorUnits expected \<and> d = money (currency expected) (minorUnits m - minorUnits expected))"
  by (cases "obs_observedAmount ob") (auto simp: compare_None compare_Some)

lemma compare_trigger:
  "verdict_trigger (compareObservation expected ob) =
     (if obs_observedAmount ob = Some expected then R_observed_matching else R_observed_differing)"
proof (cases "obs_observedAmount ob = Some expected")
  case True
  then have "compareObservation expected ob = Matched (money (currency expected) 0)"
    by (simp add: compare_Matched)
  with True show ?thesis by simp
next
  case False
  then obtain d why where "compareObservation expected ob = Mismatch d why"
    using compare_Matched by (metis comparison_verdict.exhaust)
  with False show ?thesis by simp
qed

text \<open>
  The tolerance is zero: an observation matches exactly when it states the expected amount in
  the expected currency; every other observation, a silent one included, is a mismatch whose delta
  carries its sign, and only a match takes a pending reconciliation to matched.
\<close>

theorem comparison_is_exact:
  "((\<exists>d. compareObservation expected ob = Matched d) \<longleftrightarrow> obs_observedAmount ob = Some expected) \<and>
   (compareObservation expected ob = Matched d \<longleftrightarrow>
      obs_observedAmount ob = Some expected \<and> d = money (currency expected) 0) \<and>
   (compareObservation expected ob = Mismatch d Short \<longleftrightarrow>
      (\<exists>m. obs_observedAmount ob = Some m \<and> currency m = currency expected \<and>
        minorUnits m < minorUnits expected \<and> d = money (currency expected) (minorUnits m - minorUnits expected))) \<and>
   map_sum id snd (evaluateReconciliationTransition (Some R_PENDING)
      (verdict_trigger (compareObservation expected ob))) =
     Inr (if obs_observedAmount ob = Some expected then R_MATCHED else R_MISMATCH)"
proof -
  have pending: "map_sum id snd (evaluateReconciliationTransition (Some R_PENDING) R_observed_matching) = Inr R_MATCHED"
      "map_sum id snd (evaluateReconciliationTransition (Some R_PENDING) R_observed_differing) = Inr R_MISMATCH"
    by (simp_all add: evaluateReconciliationTransition_def find_row_def row_accepts_def
        RECONCILIATION_TRANSITIONS_def)
  show ?thesis
    by (simp add: compare_Matched compare_Short compare_trigger pending)
qed

text \<open>
  C34. Finality is exactly the conjunction of its eight conditions, and a verdict names precisely
  the conditions that fail, in order.
\<close>

theorem finality_iff_conditions:
  "(fv_final (evaluateFinality e) \<longleftrightarrow>
      fe_authorizedAt e \<noteq> None \<and> fe_authorizedBy e \<noteq> None \<and> fe_actorHeldCapability e \<and>
      fe_drawdownStatus e = Some ''CONFIRMED'' \<and> fe_facilityStatus e = Some ''ACTIVE'' \<and>
      fe_attemptStatus e \<in> {Some ''CREDITED'', Some ''RETURNED''} \<and> fe_confirmationSource e \<noteq> None \<and>
      fe_utr e \<notin> {None, Some []} \<and> fe_utrWellFormed e \<and>
      fe_reconciliationStatus e = Some ''MATCHED'' \<and> fe_deltaMinor e = Some 0 \<and>
      fe_openExceptionCode e = None \<and>
      fe_authorizedTermsHash e \<noteq> None \<and> fe_executedTermsHash e = fe_authorizedTermsHash e \<and>
      fe_authorizedDestination e \<noteq> None \<and> fe_executedDestination e = fe_authorizedDestination e) \<and>
   map cv_condition (fv_conditions (evaluateFinality e)) = [F1, F2, F3, F4, F5, F6, X1, X2] \<and>
   fv_missing (evaluateFinality e) =
     map cv_condition (filter (\<lambda>c. \<not> cv_met c) (fv_conditions (evaluateFinality e)))"
proof -
  have "map cv_condition (fv_conditions (evaluateFinality e)) = [F1, F2, F3, F4, F5, F6, X1, X2]"
    by (simp only: evaluateFinality_def Let_def finality_verdict.simps list.map condition_names)
  moreover have "fv_missing (evaluateFinality e) =
      map cv_condition (filter (\<lambda>c. \<not> cv_met c) (fv_conditions (evaluateFinality e)))"
    by (simp only: evaluateFinality_def Let_def finality_verdict.simps)
  ultimately show ?thesis
    by (simp only: final_all_met list.pred_inject condition_met conj_assoc simp_thms)
qed

text \<open>
  C36. Finality and reconciliation agree: the evaluator accepts a reconciliation exactly when the
  reconciliation component says it satisfies F5. In particular a review that ends matched over a
  difference does not settle.
\<close>

primrec reconciliation_status_string :: "reconciliation_status \<Rightarrow> string" where
  "reconciliation_status_string R_PENDING = ''PENDING''"
| "reconciliation_status_string R_MATCHED = ''MATCHED''"
| "reconciliation_status_string R_MISMATCH = ''MISMATCH''"
| "reconciliation_status_string R_MANUAL_REVIEW = ''MANUAL_REVIEW''"

text \<open>
  Condition F5 of finality and the predicate the reconciliation component offers for it are the
  same condition, for every status and delta of a reconciliation.
\<close>

theorem finality_agrees_with_reconciliation:
  "F5 \<notin> set (fv_missing (evaluateFinality
      (e\<lparr>fe_reconciliationStatus := Some (reconciliation_status_string st), fe_deltaMinor := Some d\<rparr>))) \<longleftrightarrow>
   satisfiesF5 st d"
  by (cases st) (simp_all add: missing_iff condition_met satisfiesF5_def)

end
