(* ===== verification/Settlement_Return.thy ===== *)
theory Settlement_Return
  imports Reconciliation
begin

text \<open>
  \<open>packages/domain/src/reconciliation/settlement-return.ts\<close>: the lifecycle N01-N07 of a returned
  credit, the cap on what can be returned, the deduplication key, and the triage of an arrival.
  The \<open>guard\<close> column and the \<open>detail\<close> of a refusal are prose and are left out.
\<close>

section \<open>The lifecycle\<close>

datatype return_status = N_OBSERVED | N_CONFIRMED | N_REPAID | N_REJECTED | N_MANUAL_REVIEW

datatype return_trigger =
  N_open | N_upheld | N_not_upheld | N_escalate | N_repaid | N_resolve_upheld | N_resolve_not_upheld

datatype return_transition_id = N01 | N02 | N03 | N04 | N05 | N06 | N07

record return_transition =
  nt_id :: return_transition_id
  nt_from :: "return_status list"
  nt_trigger :: return_trigger
  nt_to :: return_status
  nt_checksCap :: bool
  nt_requestsRepayment :: bool
  nt_requiresAttribution :: bool
  nt_customerEvent :: "string option"

definition RETURN_TRANSITIONS :: "return_transition list" where
  "RETURN_TRANSITIONS =
     [\<lparr>nt_id = N01, nt_from = [], nt_trigger = N_open, nt_to = N_OBSERVED,
       nt_checksCap = False, nt_requestsRepayment = False, nt_requiresAttribution = False,
       nt_customerEvent = Some ''settlement.return_observed''\<rparr>,
      \<lparr>nt_id = N02, nt_from = [N_OBSERVED], nt_trigger = N_upheld, nt_to = N_CONFIRMED,
       nt_checksCap = True, nt_requestsRepayment = True, nt_requiresAttribution = False,
       nt_customerEvent = Some ''settlement.return_confirmed''\<rparr>,
      \<lparr>nt_id = N03, nt_from = [N_OBSERVED], nt_trigger = N_not_upheld, nt_to = N_REJECTED,
       nt_checksCap = False, nt_requestsRepayment = False, nt_requiresAttribution = False,
       nt_customerEvent = Some ''settlement.return_rejected''\<rparr>,
      \<lparr>nt_id = N04, nt_from = [N_OBSERVED, N_CONFIRMED], nt_trigger = N_escalate, nt_to = N_MANUAL_REVIEW,
       nt_checksCap = False, nt_requestsRepayment = False, nt_requiresAttribution = False,
       nt_customerEvent = None\<rparr>,
      \<lparr>nt_id = N05, nt_from = [N_CONFIRMED], nt_trigger = N_repaid, nt_to = N_REPAID,
       nt_checksCap = False, nt_requestsRepayment = False, nt_requiresAttribution = False,
       nt_customerEvent = Some ''settlement.return_repaid''\<rparr>,
      \<lparr>nt_id = N06, nt_from = [N_MANUAL_REVIEW], nt_trigger = N_resolve_upheld, nt_to = N_CONFIRMED,
       nt_checksCap = True, nt_requestsRepayment = True, nt_requiresAttribution = True,
       nt_customerEvent = Some ''settlement.return_confirmed''\<rparr>,
      \<lparr>nt_id = N07, nt_from = [N_MANUAL_REVIEW], nt_trigger = N_resolve_not_upheld, nt_to = N_REJECTED,
       nt_checksCap = False, nt_requestsRepayment = False, nt_requiresAttribution = True,
       nt_customerEvent = Some ''settlement.return_rejected''\<rparr>]"

datatype return_refusal = N_Invalid_Transition "return_status option" return_trigger

definition evaluateReturnTransition ::
    "return_status option \<Rightarrow> return_trigger \<Rightarrow>
     (return_refusal, return_transition \<times> return_status) result" where
  "evaluateReturnTransition from t =
     (case find_row nt_trigger nt_from RETURN_TRANSITIONS from t of
        None \<Rightarrow> Inl (N_Invalid_Transition from t)
      | Some r \<Rightarrow> Inr (r, nt_to r))"

interpretation settlement_return:
  lifecycle_table nt_trigger nt_from RETURN_TRANSITIONS "\<lambda>s. s = N_REPAID \<or> s = N_REJECTED" nt_to
  by unfold_locales (auto simp: RETURN_TRANSITIONS_def)

lemma evaluateReturn_Inr:
  "evaluateReturnTransition from t = Inr (r, s) \<longleftrightarrow>
     r \<in> set RETURN_TRANSITIONS \<and> nt_trigger r = t \<and> row_accepts nt_from r from \<and> s = nt_to r"
proof -
  have "evaluateReturnTransition from t = Inr (r, s) \<longleftrightarrow>
      find_row nt_trigger nt_from RETURN_TRANSITIONS from t = Some r \<and> s = nt_to r"
    by (auto simp: evaluateReturnTransition_def split: option.splits)
  then show ?thesis by (simp add: settlement_return.find_row_iff)
qed

section \<open>The cap\<close>

definition CAP_COUNTING_STATUSES :: "return_status list" where
  "CAP_COUNTING_STATUSES = [N_CONFIRMED, N_REPAID]"

definition countsTowardCap :: "return_status \<Rightarrow> bool" where
  "countsTowardCap s = (s \<in> set CAP_COUNTING_STATUSES)"

datatype cap_refusal =
  Delivered_Amount_Unknown | Cap_Currency_Mismatch | Exceeds_Delivered | Not_Positive

record cap_ok =
  cap_newTotalMinor :: int
  cap_headroomMinor :: int

definition checkReturnCap ::
    "int option \<Rightarrow> string \<Rightarrow> int \<Rightarrow> money \<Rightarrow> (cap_refusal, cap_ok) result" where
  "checkReturnCap deliveredMinor deliveredCurrency confirmedSoFarMinor amount =
     (if minorUnits amount \<le> 0 then Inl Not_Positive
      else case deliveredMinor of
             None \<Rightarrow> Inl Delivered_Amount_Unknown
           | Some delivered \<Rightarrow>
               if deliveredCurrency \<noteq> code_string (currency amount) then Inl Cap_Currency_Mismatch
               else let newTotalMinor = confirmedSoFarMinor + minorUnits amount
                    in if newTotalMinor > delivered then Inl Exceeds_Delivered
                       else Inr \<lparr>cap_newTotalMinor = newTotalMinor,
                                 cap_headroomMinor = delivered - newTotalMinor\<rparr>)"

section \<open>Opening\<close>

datatype return_reason =
    BENEFICIARY_ACCOUNT_CLOSED | BENEFICIARY_ACCOUNT_INVALID | BENEFICIARY_NAME_MISMATCH
  | BENEFICIARY_ACCOUNT_BLOCKED | REFUSED_BY_BENEFICIARY | COMPLIANCE_AT_BENEFICIARY_BANK
  | RAIL_REVERSAL | RETURN_REASON_UNMAPPED

definition UNMAPPED_RETURN_REASON :: return_reason where
  "UNMAPPED_RETURN_REASON = RETURN_REASON_UNMAPPED"

definition returnDedupeKey :: "string \<Rightarrow> string \<Rightarrow> string" where
  "returnDedupeKey payoutAttemptId providerReturnReference =
     payoutAttemptId @ '':'' @ providerReturnReference"

datatype arrival_triage =
    Normal int
  | Anomaly int int string

definition triageReturnArrival :: "int \<Rightarrow> int \<Rightarrow> int option \<Rightarrow> arrival_triage" where
  "triageReturnArrival creditedAt returnObservedAt windowSeconds =
     (let elapsedSeconds = max 0 ((returnObservedAt - creditedAt) div 1000) in
      case windowSeconds of
        None \<Rightarrow> Normal elapsedSeconds
      | Some w \<Rightarrow>
          if elapsedSeconds \<le> w then Normal elapsedSeconds
          else Anomaly elapsedSeconds w
            (''the return was observed '' @ string_of_int elapsedSeconds @
             ''s after the credit, past the rail'' @ [CHR 0x27] @ ''s '' @ string_of_int w @
             ''s observation window '' @ [CHR 0xE2, CHR 0x80, CHR 0x94] @
             '' the provider'' @ [CHR 0x27] @ ''s own reporting is in question''))"

definition verdictOnOpening :: "return_reason \<Rightarrow> arrival_triage \<Rightarrow> bool \<times> string list" where
  "verdictOnOpening reasonCode triage =
     (let reasons =
        (if reasonCode = UNMAPPED_RETURN_REASON
         then [''the provider return reason is not in the mapping table (INV-43)''] else []) @
        (case triage of Normal _ \<Rightarrow> [] | Anomaly _ _ why \<Rightarrow> [why])
      in (reasons \<noteq> [], reasons))"

section \<open>Properties\<close>

text \<open>
  The cap is exact and cannot be stepped over: a confirmation is admitted exactly when its
  amount is positive, a delivered amount is known in the same currency, and the new total does not
  exceed it; the headroom it reports is what is then left.
\<close>

theorem return_cap_exact:
  "checkReturnCap delivered cur soFar amount = Inr ok \<longleftrightarrow>
     0 < minorUnits amount \<and>
     (\<exists>d. delivered = Some d \<and> cur = code_string (currency amount) \<and> soFar + minorUnits amount \<le> d \<and>
        ok = \<lparr>cap_newTotalMinor = soFar + minorUnits amount,
              cap_headroomMinor = d - (soFar + minorUnits amount)\<rparr>)"
  by (auto simp: checkReturnCap_def Let_def split: option.split)





text \<open>
  Every way into confirmed checks the cap and requests a repayment, a review included; what
  is rejected or repaid stays so; and a decision out of review is always attributed.
\<close>

theorem return_confirmation_gates:
  assumes "evaluateReturnTransition from t = Inr (r, s)"
  shows "(s = N_CONFIRMED \<longleftrightarrow> nt_checksCap r) \<and> (nt_checksCap r \<longleftrightarrow> nt_requestsRepayment r) \<and>
    (nt_requiresAttribution r \<longleftrightarrow> from = Some N_MANUAL_REVIEW) \<and>
    from \<noteq> Some N_REPAID \<and> from \<noteq> Some N_REJECTED \<and>
    (nt_customerEvent r = None \<longleftrightarrow> s = N_MANUAL_REVIEW)"
  using assms
  by (auto simp: evaluateReturn_Inr RETURN_TRANSITIONS_def row_accepts_def split: option.splits)

theorem return_confirmation_gates_witness:
  "\<exists>r. evaluateReturnTransition (Some N_MANUAL_REVIEW) N_resolve_upheld = Inr (r, N_CONFIRMED) \<and>
     nt_checksCap r \<and> nt_requestsRepayment r \<and> nt_requiresAttribution r"
proof -
  obtain r where r: "evaluateReturnTransition (Some N_MANUAL_REVIEW) N_resolve_upheld = Inr (r, N_CONFIRMED)"
    by (simp add: evaluateReturnTransition_def find_row_def row_accepts_def RETURN_TRANSITIONS_def)
  from r return_confirmation_gates [OF r] show ?thesis by auto
qed

text \<open>
  Opening never drops a return: it is escalated exactly when its reason is unmapped or it
  arrived outside the rail's window, the window being inclusive and a missing window never an
  anomaly.
\<close>

theorem opening_escalation:
  "fst (verdictOnOpening reason (triageReturnArrival credited observed window)) \<longleftrightarrow>
     reason = RETURN_REASON_UNMAPPED \<or>
     (\<exists>w. window = Some w \<and> w < max 0 ((observed - credited) div 1000))"
  by (cases window)
    (auto simp: verdictOnOpening_def triageReturnArrival_def Let_def UNMAPPED_RETURN_REASON_def)

end
