(* ===== verification/Ids.thy ===== *)
theory Ids
  imports Settling_Prelude
begin

text \<open>
  \<open>packages/ids/src/index.ts\<close>: prefixed external identifiers. \<open>randomBytes\<close> is a parameter, a
  sequence of batches of bytes; the loop of \<open>body\<close> draws batches until it has twelve characters, so
  it takes fuel, and the lemmas say how much is enough.
\<close>

section \<open>Prefixes\<close>

datatype id_kind =
    K_workspace | K_user | K_membership | K_apiKey | K_session | K_event | K_audit
  | K_outbox | K_beneficiary | K_payoutDestination | K_destinationVersion
  | K_destinationVerification | K_providerEvent | K_preflightRun | K_quote | K_settlement
  | K_payoutAttempt | K_settlementException | K_liquidityFacility
  | K_liquidityReservation | K_drawdown | K_repayment | K_ledgerEntry | K_ledgerTransfer
  | K_reconciliation | K_settlementReturn | K_returnObservation | K_settlementReceipt
  | K_returnNotice | K_receiptComposite | K_finalityEvaluation | K_batch | K_batchRow
  | K_apiRequest | K_idempotencyClaim | K_webhookEndpoint | K_webhookDelivery
  | K_webhookAttempt | K_internalOperator | K_internalSession | K_operatorAction

primrec ID_PREFIXES :: "id_kind \<Rightarrow> string" where
  "ID_PREFIXES K_workspace = ''ws''"
| "ID_PREFIXES K_user = ''usr''"
| "ID_PREFIXES K_membership = ''mem''"
| "ID_PREFIXES K_apiKey = ''key''"
| "ID_PREFIXES K_session = ''ses''"
| "ID_PREFIXES K_event = ''evt''"
| "ID_PREFIXES K_audit = ''aud''"
| "ID_PREFIXES K_outbox = ''obx''"
| "ID_PREFIXES K_beneficiary = ''ben''"
| "ID_PREFIXES K_payoutDestination = ''dst''"
| "ID_PREFIXES K_destinationVersion = ''dvr''"
| "ID_PREFIXES K_destinationVerification = ''dvf''"
| "ID_PREFIXES K_providerEvent = ''pev''"
| "ID_PREFIXES K_preflightRun = ''pfr''"
| "ID_PREFIXES K_quote = ''qt''"
| "ID_PREFIXES K_settlement = ''stl''"
| "ID_PREFIXES K_payoutAttempt = ''pay''"
| "ID_PREFIXES K_settlementException = ''exc''"
| "ID_PREFIXES K_liquidityFacility = ''fac''"
| "ID_PREFIXES K_liquidityReservation = ''rsv''"
| "ID_PREFIXES K_drawdown = ''drw''"
| "ID_PREFIXES K_repayment = ''rpy''"
| "ID_PREFIXES K_ledgerEntry = ''led''"
| "ID_PREFIXES K_ledgerTransfer = ''ltr''"
| "ID_PREFIXES K_reconciliation = ''rcn''"
| "ID_PREFIXES K_settlementReturn = ''ret''"
| "ID_PREFIXES K_returnObservation = ''rob''"
| "ID_PREFIXES K_settlementReceipt = ''rcp''"
| "ID_PREFIXES K_returnNotice = ''rnt''"
| "ID_PREFIXES K_receiptComposite = ''cmp''"
| "ID_PREFIXES K_finalityEvaluation = ''fev''"
| "ID_PREFIXES K_batch = ''bat''"
| "ID_PREFIXES K_batchRow = ''brw''"
| "ID_PREFIXES K_apiRequest = ''req''"
| "ID_PREFIXES K_idempotencyClaim = ''idc''"
| "ID_PREFIXES K_webhookEndpoint = ''whe''"
| "ID_PREFIXES K_webhookDelivery = ''whd''"
| "ID_PREFIXES K_webhookAttempt = ''wha''"
| "ID_PREFIXES K_internalOperator = ''opr''"
| "ID_PREFIXES K_internalSession = ''ops''"
| "ID_PREFIXES K_operatorAction = ''oac''"

section \<open>Bodies\<close>

definition ALPHABET :: string where
  "ALPHABET = ''123456789ABCDEFGHJKLMNPQRSTUVWXYZabcdefghijkmnopqrstuvwxyz''"

definition BODY_LENGTH :: nat where "BODY_LENGTH = 12"

definition body_limit :: nat where "body_limit = 256 - 256 mod length ALPHABET"

text \<open>The inner loop: bytes at or above the limit are skipped, and a full body stops it.\<close>

fun fill_body :: "string \<Rightarrow> nat list \<Rightarrow> string" where
  "fill_body out [] = out"
| "fill_body out (byte # bytes) =
     (if byte \<ge> body_limit then fill_body out bytes
      else let out' = out @ [ALPHABET ! (byte mod length ALPHABET)]
           in if length out' = BODY_LENGTH then out' else fill_body out' bytes)"

fun body_loop :: "nat \<Rightarrow> (nat \<Rightarrow> nat list) \<Rightarrow> nat \<Rightarrow> string \<Rightarrow> string option" where
  "body_loop 0 batches k out = None"
| "body_loop (Suc fuel) batches k out =
     (if length out < BODY_LENGTH then body_loop fuel batches (Suc k) (fill_body out (batches k))
      else Some out)"

definition body :: "nat \<Rightarrow> (nat \<Rightarrow> nat list) \<Rightarrow> string option" where
  "body fuel batches = body_loop fuel batches 0 []"

definition make_id :: "id_kind \<Rightarrow> string \<Rightarrow> string" where
  "make_id kind b = ID_PREFIXES kind @ ''_'' @ b"

definition newId :: "nat \<Rightarrow> (nat \<Rightarrow> nat list) \<Rightarrow> id_kind \<Rightarrow> string option" where
  "newId fuel batches kind = map_option (make_id kind) (body fuel batches)"

definition is_body :: "string \<Rightarrow> bool" where
  "is_body b \<longleftrightarrow> length b = BODY_LENGTH \<and> list_all (\<lambda>c. c \<in> set ALPHABET) b"

definition isId :: "id_kind \<Rightarrow> string \<Rightarrow> bool" where
  "isId kind v =
     (let p = ID_PREFIXES kind @ ''_''
      in take (length p) v = p \<and> is_body (drop (length p) v))"

section \<open>What the loop yields\<close>

lemma ALPHABET_length: "length ALPHABET = 58"
  by (simp add: ALPHABET_def)

lemma body_limit_value: "body_limit = 232"
  by (simp add: body_limit_def ALPHABET_length)

text \<open>The accepted bytes of a list, in order.\<close>

definition accepted_bytes :: "nat list \<Rightarrow> nat list" where
  "accepted_bytes bs = filter (\<lambda>b. b < body_limit) bs"

lemma fill_body_accepted:
  "length out < BODY_LENGTH \<Longrightarrow>
     fill_body out bs = take BODY_LENGTH (out @ map (\<lambda>b. ALPHABET ! (b mod length ALPHABET)) (accepted_bytes bs))"
proof (induction out bs rule: fill_body.induct)
  case (2 out byte bytes)
  show ?case
  proof (cases "byte \<ge> body_limit")
    case True
    then show ?thesis using 2 by (simp add: accepted_bytes_def)
  next
    case False
    let ?out = "out @ [ALPHABET ! (byte mod length ALPHABET)]"
    show ?thesis
    proof (cases "length ?out = BODY_LENGTH")
      case True
      then have "BODY_LENGTH - length out = Suc 0" by simp
      with True False show ?thesis by (simp add: accepted_bytes_def Let_def)
    next
      case not_full: False
      with "2.prems" have "length ?out < BODY_LENGTH" by simp
      with False not_full "2.IH"(2) [OF False refl not_full] show ?thesis
        by (simp add: accepted_bytes_def Let_def)
    qed
  qed
qed (simp add: accepted_bytes_def)

lemma accepted_bytes_append [simp]: "accepted_bytes (bs @ cs) = accepted_bytes bs @ accepted_bytes cs"
  by (simp add: accepted_bytes_def)

definition drawn_bytes :: "(nat \<Rightarrow> nat list) \<Rightarrow> nat \<Rightarrow> nat list" where
  "drawn_bytes batches n = concat (map batches [0..<n])"

definition body_after :: "(nat \<Rightarrow> nat list) \<Rightarrow> nat \<Rightarrow> string" where
  "body_after batches n =
     take BODY_LENGTH (map (\<lambda>b. ALPHABET ! (b mod length ALPHABET)) (accepted_bytes (drawn_bytes batches n)))"

lemma body_after_Suc:
  "length (body_after batches n) < BODY_LENGTH \<Longrightarrow>
     fill_body (body_after batches n) (batches n) = body_after batches (Suc n)"
  by (simp add: fill_body_accepted body_after_def drawn_bytes_def)

lemma body_loop_after:
  "body_loop fuel batches n (body_after batches n) = Some b \<Longrightarrow>
     (\<exists>k\<ge>n. b = body_after batches k \<and> length b = BODY_LENGTH)"
proof (induction fuel arbitrary: n)
  case (Suc fuel)
  show ?case
  proof (cases "length (body_after batches n) < BODY_LENGTH")
    case True
    with Suc.prems have "body_loop fuel batches (Suc n) (body_after batches (Suc n)) = Some b"
      by (simp add: body_after_Suc)
    from Suc.IH [OF this] show ?thesis using Suc_leD by blast
  next
    case False
    with Suc.prems have b: "b = body_after batches n" by simp
    moreover have "length (body_after batches n) \<le> BODY_LENGTH" by (simp add: body_after_def)
    ultimately have "length b = BODY_LENGTH" using False by simp
    with b show ?thesis by blast
  qed
qed simp

lemma body_loop_enough:
  "BODY_LENGTH \<le> length (accepted_bytes (drawn_bytes batches m)) \<Longrightarrow> n \<le> m \<Longrightarrow> m - n < fuel \<Longrightarrow>
     \<exists>b. body_loop fuel batches n (body_after batches n) = Some b"
proof (induction fuel arbitrary: n)
  case (Suc fuel)
  show ?case
  proof (cases "length (body_after batches n) < BODY_LENGTH")
    case True
    with Suc.prems(1) have "n \<noteq> m" by (auto simp: body_after_def)
    with Suc.prems have "n < m" by simp
    with Suc.prems Suc.IH [of "Suc n"] True show ?thesis by (simp add: body_after_Suc)
  qed simp
qed simp

lemma body_after_in_alphabet: "list_all (\<lambda>c. c \<in> set ALPHABET) (body_after batches n)"
proof -
  have "ALPHABET ! (b mod length ALPHABET) \<in> set ALPHABET" for b
    by (intro nth_mem) (simp add: ALPHABET_length)
  then show ?thesis
    by (auto simp: body_after_def list_all_iff dest!: in_set_takeD)
qed

lemma ID_PREFIXES_inj: "ID_PREFIXES k = ID_PREFIXES k' \<longleftrightarrow> k = k'"
  by (cases k; cases k') simp_all

lemma ID_PREFIXES_no_underscore: "CHR ''_'' \<notin> set (ID_PREFIXES k)"
  by (cases k) simp_all

lemma make_id_inj: "make_id k b = make_id k' b' \<longleftrightarrow> k = k' \<and> b = b'"
proof
  assume eq: "make_id k b = make_id k' b'"
  have split: "takeWhile (\<lambda>c. c \<noteq> CHR ''_'') (make_id j x) = ID_PREFIXES j \<and>
      dropWhile (\<lambda>c. c \<noteq> CHR ''_'') (make_id j x) = CHR ''_'' # x" for j x
    using split_at_char [OF ID_PREFIXES_no_underscore [of j], of x] by (simp add: make_id_def)
  from split [of k b] split [of k' b'] show "k = k' \<and> b = b'"
    unfolding eq ID_PREFIXES_inj [symmetric] by simp
qed simp

section \<open>Properties\<close>

text \<open>
  Identifiers are well formed: whatever the random bytes, an identifier that is returned is
  accepted by \<open>isId\<close> for its own kind and for no other; and one is returned as soon as the batches
  drawn hold twelve acceptable bytes.
\<close>

theorem ids_well_formed:
  assumes "BODY_LENGTH \<le> length (accepted_bytes (drawn_bytes batches n))" "n < fuel"
  shows "\<exists>b. newId fuel batches kind = Some (make_id kind b) \<and>
    isId kind (make_id kind b) \<and> (isId kind' (make_id kind b) \<longleftrightarrow> kind' = kind)"
proof -
  have "body_after batches 0 = []" by (simp add: body_after_def drawn_bytes_def accepted_bytes_def)
  with body_loop_enough [OF assms(1), of 0 fuel] assms(2) obtain b
    where b: "body fuel batches = Some b" by (auto simp: body_def)
  then obtain k where k: "b = body_after batches k" "length b = BODY_LENGTH"
    using body_loop_after [of fuel batches 0 b] \<open>body_after batches 0 = []\<close> by (auto simp: body_def)
  with body_after_in_alphabet have "is_body b" by (simp add: is_body_def)
  then have own: "isId kind (make_id kind b)" by (simp add: isId_def make_id_def)
  have "kind' = kind" if "isId kind' (make_id kind b)"
  proof -
    let ?p = "ID_PREFIXES kind' @ ''_''"
    have "make_id kind b = make_id kind' (drop (length ?p) (make_id kind b))"
      using that append_take_drop_id [of "length ?p" "make_id kind b"]
      by (simp add: isId_def Let_def make_id_def [of kind'])
    then show ?thesis by (simp only: make_id_inj)
  qed
  with b own show ?thesis by (intro exI [of _ b]) (auto simp: newId_def)
qed

theorem ids_well_formed_witness:
  "\<exists>b. newId 2 (\<lambda>_. replicate 12 0) K_settlement = Some (make_id K_settlement b) \<and>
     isId K_settlement (make_id K_settlement b)"
proof -
  have "accepted_bytes (drawn_bytes (\<lambda>_. replicate 12 0) 1) = replicate 12 0"
    by (simp add: accepted_bytes_def drawn_bytes_def body_limit_value)
  then have "BODY_LENGTH \<le> length (accepted_bytes (drawn_bytes (\<lambda>_. replicate 12 0) 1))"
    by (simp add: BODY_LENGTH_def)
  from ids_well_formed [OF this, of 2 K_settlement K_settlement] show ?thesis by auto
qed

text \<open>
  The rejection limit makes the draw uniform: every character of the alphabet is the image of
  exactly four of the accepted byte values.
\<close>

theorem body_uniform:
  assumes "i < length ALPHABET"
  shows "card {b. b < body_limit \<and> b mod length ALPHABET = i} = 4"
proof -
  have "{b. b < body_limit \<and> b mod length ALPHABET = i} = (\<lambda>k. i + 58 * k) ` {0..<4}"
  proof (intro set_eqI iffI)
    fix b
    assume b: "b \<in> {b. b < body_limit \<and> b mod length ALPHABET = i}"
    then have "b = i + 58 * (b div 58)" "b div 58 < 4"
      by (auto simp: ALPHABET_length body_limit_value)
    then show "b \<in> (\<lambda>k. i + 58 * k) ` {0..<4}" by auto
  next
    fix b
    assume "b \<in> (\<lambda>k. i + 58 * k) ` {0..<4}"
    with assms show "b \<in> {b. b < body_limit \<and> b mod length ALPHABET = i}"
      by (auto simp: ALPHABET_length body_limit_value)
  qed
  moreover have "inj_on (\<lambda>k::nat. i + 58 * k) {0..<4}" by (simp add: inj_on_def)
  ultimately show ?thesis by (simp add: card_image)
qed

theorem body_uniform_witness:
  "card {b. b < body_limit \<and> b mod length ALPHABET = 57} = 4"
  by (rule body_uniform) (simp add: ALPHABET_length)

end
