(* ===== verification/Json.thy ===== *)
theory Json
  imports Settling_Prelude
begin

text \<open>
  The JSON values the platform stores and hashes. An object is the list of its entries in insertion
  order, which is the order \<open>JSON.stringify\<close> writes them in; the numbers the code puts into these
  values are integers.
\<close>

datatype json =
    JNull
  | JBool bool
  | JNum int
  | JStr string
  | JArr "json list"
  | JObj "(string \<times> json) list"

definition json_opt :: "('a \<Rightarrow> json) \<Rightarrow> 'a option \<Rightarrow> json" where
  "json_opt f v = (case v of None \<Rightarrow> JNull | Some x \<Rightarrow> f x)"

end
