(* ===== verification/Store.thy ===== *)
theory Store
  imports Settlement_Outcomes Funding_Machines Quotes Ids Json
begin

text \<open>
  The database as the services use it: the tables of \<open>packages/db/src/schema/settlements.ts\<close> and
  \<open>liquidity.ts\<close>, and what the migrations \<open>0005_settlements.sql\<close> and \<open>0006_liquidity.sql\<close> enforce on
  them (keys, checks, row-level security, the protecting triggers, the checks deferred to commit).
  A transaction is a function from a database to an exception or a value and the database after it;
  \<open>with_tenant\<close> is \<open>withTenant\<close> of \<open>packages/db/src/client.ts\<close>: an exception rolls everything back, and a
  commit needs the deferred checks. Transactions are modelled one after the other, which is what
  the row locks the services take make of them. Transactions never interleave. Foreign keys to tables outside the model
  (workspaces, beneficiaries, destinations) are not modelled.
\<close>

section \<open>Transactions\<close>

datatype exn =
    Duplicate_Key
  | Check_Violation
  | Out_Of_Range
  | Foreign_Key_Violation
  | Restrict_Violation
  | Row_Security
  | Deferred_Violation
  | JS_Range_Error
  | JS_Type_Error
  | JS_Error
  | JS_Liquidity_Error liquidity_error

record tenant_scope =
  ts_workspace :: string
  ts_environment :: environment

record principal =
  pr_type :: string
  pr_id :: string

section \<open>Rows\<close>

record settlement_row =
  stl_id :: string
  stl_scope :: tenant_scope
  stl_beneficiaryId :: string
  stl_destinationId :: "string option"
  stl_destinationVersionId :: "string option"
  stl_recipientAmountMinor :: int
  stl_recipientAmountCurrency :: currency_code
  stl_fundingCurrency :: string
  stl_purposeCode :: "string option"
  stl_quoteId :: "string option"
  stl_authorizedTerms :: "json option"
  stl_authorizedTermsHash :: "string option"
  stl_status :: settlement_status
  stl_customerStatus :: "customer_status option"
  stl_exceptionEnteredFrom :: "settlement_status option"
  stl_openExceptionCode :: "exception_code option"
  stl_externalReference :: "string option"
  stl_idempotencyKey :: "string option"
  stl_replacesSettlementId :: "string option"
  stl_authorizedAt :: "int option"
  stl_authorizedBy :: "string option"
  stl_cancellationRequestedAt :: "int option"
  stl_cancellationRequestedBy :: "string option"
  stl_pointOfNoReturnAt :: "int option"
  stl_settledAt :: "int option"
  stl_reservationId :: "string option"
  stl_drawdownId :: "string option"
  stl_payoutAttemptId :: "string option"
  stl_receiptId :: "string option"
  stl_createdAt :: int
  stl_updatedAt :: int
  stl_createdBy :: string
  stl_version :: int

record facility_row =
  fac_id :: string
  fac_scope :: tenant_scope
  fac_providerId :: string
  fac_currency :: currency_code
  fac_limitMinor :: int
  fac_status :: facility_status
  fac_drawnMinor :: int
  fac_reservedMinor :: int
  fac_createdAt :: int
  fac_updatedAt :: int
  fac_version :: int

record reservation_row =
  rsv_id :: string
  rsv_scope :: tenant_scope
  rsv_facilityId :: string
  rsv_settlementId :: string
  rsv_amountMinor :: int
  rsv_amountCurrency :: currency_code
  rsv_status :: reservation_status
  rsv_expiresAt :: int
  rsv_createdAt :: int
  rsv_releasedAt :: "int option"
  rsv_releasedReason :: "release_reason option"
  rsv_consumedAt :: "int option"

record drawdown_row =
  drw_id :: string
  drw_scope :: tenant_scope
  drw_facilityId :: string
  drw_settlementId :: string
  drw_reservationId :: string
  drw_amountMinor :: int
  drw_amountCurrency :: currency_code
  drw_status :: drawdown_status
  drw_requestFingerprint :: string
  drw_providerReference :: "string option"
  drw_requestedAt :: int
  drw_requestedBy :: string
  drw_confirmedAt :: "int option"
  drw_failedAt :: "int option"

record repayment_row =
  rpy_id :: string
  rpy_scope :: tenant_scope
  rpy_facilityId :: string
  rpy_amountMinor :: int
  rpy_amountCurrency :: currency_code
  rpy_source :: repayment_source
  rpy_settlementId :: "string option"
  rpy_returnId :: "string option"
  rpy_status :: repayment_status
  rpy_attempt :: int
  rpy_requestFingerprint :: string
  rpy_providerReference :: "string option"
  rpy_requestedAt :: int
  rpy_submittedAt :: "int option"
  rpy_confirmedAt :: "int option"
  rpy_failedAt :: "int option"

record ledger_row = ledger_entry +
  led_scope :: tenant_scope
  led_subjectType :: string
  led_subjectId :: string
  led_createdAt :: int
  led_createdBy :: string

text \<open>
  Event types are strings in the source; here they are the two closed vocabularies of the
  settlement machine and the types outside them. An event records the transaction that wrote it.
\<close>

datatype event_type = Ev_status status_event | Ev_companion companion_event | Ev_other string

record event_row =
  evt_id :: string
  evt_scope :: tenant_scope
  evt_type :: event_type
  evt_subjectType :: string
  evt_subjectId :: string
  evt_actor :: principal
  evt_payload :: json
  evt_createdAt :: int
  evt_txid :: nat

record outbox_row =
  obx_id :: string
  obx_eventId :: string
  obx_scope :: tenant_scope

record audit_row =
  aud_id :: string
  aud_scope :: tenant_scope
  aud_actor :: principal
  aud_action :: string
  aud_subjectType :: string
  aud_subjectId :: string
  aud_before :: json
  aud_after :: json
  aud_reason :: "string option"
  aud_createdAt :: int

text \<open>
  The database inside a transaction: the tables, the clock of the transaction (\<open>now()\<close>) and of the
  process (\<open>new Date()\<close>), the bound tenant scope, the supply of identifier bodies (one sequence for
  each transaction), and the row events whose deferred checks are pending.
\<close>

record db =
  db_now :: int
  db_clock :: int
  db_scope :: tenant_scope
  db_txid :: nat
  db_bodies :: "nat \<Rightarrow> nat \<Rightarrow> string"
  db_next :: nat
  db_settlements :: "settlement_row list"
  db_facilities :: "facility_row list"
  db_reservations :: "reservation_row list"
  db_drawdowns :: "drawdown_row list"
  db_repayments :: "repayment_row list"
  db_ledger :: "ledger_row list"
  db_events :: "event_row list"
  db_outbox :: "outbox_row list"
  db_audit :: "audit_row list"
  db_pendingPairing :: "(string \<times> bool) list"
  db_pendingTransfers :: "string list"

type_synonym 'a tx = "db \<Rightarrow> (exn, 'a \<times> db) result"

definition ret :: "'a \<Rightarrow> 'a tx" where
  "ret x db = Inr (x, db)"

definition throw :: "exn \<Rightarrow> 'a tx" where
  "throw e db = Inl e"

definition bind_tx :: "'a tx \<Rightarrow> ('a \<Rightarrow> 'b tx) \<Rightarrow> 'b tx" where
  "bind_tx m f db = (case m db of Inl e \<Rightarrow> Inl e | Inr (x, db') \<Rightarrow> f x db')"

definition get_db :: "(db \<Rightarrow> 'a) \<Rightarrow> 'a tx" where
  "get_db f db = Inr (f db, db)"

lemma ret_Inr [simp]: "ret x db = Inr (y, db') \<longleftrightarrow> y = x \<and> db' = db"
  by (auto simp: ret_def)

lemma throw_Inr [simp]: "throw e db \<noteq> Inr r"
  by (simp add: throw_def)

lemma get_db_Inr [simp]: "get_db f db = Inr (y, db') \<longleftrightarrow> y = f db \<and> db' = db"
  by (auto simp: get_db_def)

lemma bind_tx_Inr:
  "bind_tx m f db = Inr (y, db'') \<longleftrightarrow> (\<exists>x db'. m db = Inr (x, db') \<and> f x db' = Inr (y, db''))"
  by (auto simp: bind_tx_def split: sum.splits prod.splits)

lemma bind_txE:
  assumes "bind_tx m f db = Inr (y, db'')"
  obtains x db' where "m db = Inr (x, db')" "f x db' = Inr (y, db'')"
  using assms by (auto simp: bind_tx_Inr)

lemma bind_tx_run [simp]: "m db = Inr (x, db') \<Longrightarrow> bind_tx m f db = f x db'"
  by (simp add: bind_tx_def)

lemma bind_tx_fail [simp]: "m db = Inl e \<Longrightarrow> bind_tx m f db = Inl e"
  by (simp add: bind_tx_def)

section \<open>Tables\<close>

text \<open>
  A table is a field of the database. An insert is refused by the first constraint the row violates,
  the primary key last; an update applies a patch to the rows of the bound scope a condition selects,
  each through the protecting trigger and then the constraints.
\<close>

fun first_violation :: "(bool \<times> exn) list \<Rightarrow> exn option" where
  "first_violation [] = None"
| "first_violation ((violated, e) # vs) = (if violated then Some e else first_violation vs)"

fun update_rows :: "('r \<Rightarrow> bool) \<Rightarrow> ('r \<Rightarrow> (exn, 'r) result) \<Rightarrow> 'r list \<Rightarrow> (exn, 'r list) result" where
  "update_rows p f [] = Inr []"
| "update_rows p f (r # rs) =
     bind_result (if p r then f r else Inr r) (\<lambda>r'.
     bind_result (update_rows p f rs) (\<lambda>rs'. Inr (r' # rs')))"

definition guarded :: "('r \<Rightarrow> 'r \<Rightarrow> (exn, 'r) result) \<Rightarrow> ('r \<Rightarrow> exn option) \<Rightarrow> ('r \<Rightarrow> 'r) \<Rightarrow> 'r \<Rightarrow> (exn, 'r) result" where
  "guarded protect violation patch old =
     bind_result (protect old (patch old)) (\<lambda>new.
     case violation new of Some e \<Rightarrow> Inl e | None \<Rightarrow> Inr new)"

definition insert_row ::
    "(db \<Rightarrow> 'r list) \<Rightarrow> ('r list \<Rightarrow> db \<Rightarrow> db) \<Rightarrow> ('r \<Rightarrow> string) \<Rightarrow> (db \<Rightarrow> 'r \<Rightarrow> exn option) \<Rightarrow> 'r \<Rightarrow> unit tx" where
  "insert_row get put rid violation r db =
     (case violation db r of
        Some e \<Rightarrow> Inl e
      | None \<Rightarrow> if rid r \<in> rid ` set (get db) then Inl Duplicate_Key else Inr ((), put (get db @ [r]) db))"

definition update_table ::
    "(db \<Rightarrow> 'r list) \<Rightarrow> ('r list \<Rightarrow> db \<Rightarrow> db) \<Rightarrow> ('r \<Rightarrow> tenant_scope) \<Rightarrow> ('r \<Rightarrow> bool) \<Rightarrow>
     (db \<Rightarrow> 'r \<Rightarrow> (exn, 'r) result) \<Rightarrow> unit tx" where
  "update_table get put scope_of p f db =
     bind_result (update_rows (\<lambda>r. scope_of r = db_scope db \<and> p r) (f db) (get db)) (\<lambda>rs. Inr ((), put rs db))"

definition find_visible :: "(db \<Rightarrow> 'r list) \<Rightarrow> ('r \<Rightarrow> tenant_scope) \<Rightarrow> ('r \<Rightarrow> bool) \<Rightarrow> db \<Rightarrow> 'r list" where
  "find_visible get scope_of p db = filter (\<lambda>r. scope_of r = db_scope db \<and> p r) (get db)"

lemma first_violation_None [simp]:
  "first_violation vs = None \<longleftrightarrow> list_all (\<lambda>v. \<not> fst v) vs"
  by (induction vs rule: first_violation.induct) auto

declare first_violation.simps [simp del]

lemma guarded_Inr:
  "guarded protect violation patch old = Inr new \<longleftrightarrow>
     protect old (patch old) = Inr new \<and> violation new = None"
  by (auto simp: guarded_def bind_result_Inr split: option.splits)

lemma insert_row_Inr:
  "insert_row get put rid violation r db = Inr (u, db') \<longleftrightarrow>
     violation db r = None \<and> rid r \<notin> rid ` set (get db) \<and> db' = put (get db @ [r]) db"
  by (auto simp: insert_row_def split: option.splits if_splits)

lemma update_rows_none: "(\<forall>r\<in>set rows. \<not> p r) \<Longrightarrow> update_rows p f rows = Inr rows"
  by (induction rows) auto

lemma update_rows_cases:
  assumes "update_rows p f rows = Inr rows'" "distinct (map rid rows)" "\<forall>r. p r \<longrightarrow> rid r = i"
  obtains (unchanged) "rows' = rows" "\<forall>r\<in>set rows. \<not> p r"
    | (changed) xs r ys r' where "rows = xs @ r # ys" "rows' = xs @ r' # ys" "p r" "f r = Inr r'"
  using assms(1,2)
proof (induction rows arbitrary: rows' thesis)
  case Nil
  then show ?case by simp
next
  case (Cons r rows)
  show ?case
  proof (cases "p r")
    case True
    then have "\<forall>x\<in>set rows. \<not> p x"
      using Cons.prems(4) assms(3) by (metis distinct.simps(2) image_eqI list.set_map list.simps(9))
    then have "update_rows p f rows = Inr rows" by (rule update_rows_none)
    with True Cons.prems(3) obtain r' where "f r = Inr r'" "rows' = r' # rows"
      by (auto simp: bind_result_Inr)
    with True show ?thesis using Cons.prems(2) [of "[]" r rows r'] by simp
  next
    case False
    with Cons.prems(3) obtain rs where rs: "update_rows p f rows = Inr rs" "rows' = r # rs"
      by (auto simp: bind_result_Inr)
    from Cons.IH [OF _ _ rs(1)] Cons.prems(4) False rs(2) Cons.prems(1,2) show ?thesis
      by (metis (no_types, lifting) append_Cons distinct.simps(2) list.simps(9) set_ConsD)
  qed
qed

definition keyed :: "(db \<Rightarrow> 'r list) \<Rightarrow> ('r \<Rightarrow> string) \<Rightarrow> db \<Rightarrow> bool" where
  "keyed get rid db \<longleftrightarrow> distinct (map rid (get db))"

lemma filter_unique_key:
  "distinct (map k xs) \<Longrightarrow> x \<in> set xs \<Longrightarrow> P x \<Longrightarrow> k x = i \<Longrightarrow> filter (\<lambda>y. P y \<and> k y = i) xs = [x]"
  by (induction xs) (auto simp: filter_empty_conv rev_image_eqI)

text \<open>The contract of a table: reading after writing, and a key that names its row.\<close>

locale table =
  fixes get :: "db \<Rightarrow> 'r list" and put :: "'r list \<Rightarrow> db \<Rightarrow> db" and rid :: "'r \<Rightarrow> string"
    and scope_of :: "'r \<Rightarrow> tenant_scope"
  assumes get_put [simp]: "get (put rs db) = rs"
    and put_get [simp]: "put (get db) db = db"
    and scope_put [simp]: "db_scope (put rs db) = db_scope db"
begin

lemma insert_keyed:
  "insert_row get put rid violation r db = Inr (u, db') \<Longrightarrow> keyed get rid db \<Longrightarrow> keyed get rid db'"
  by (auto simp: insert_row_Inr keyed_def)

lemma update_unmatched:
  "find_visible get scope_of p db = [] \<Longrightarrow> update_table get put scope_of p f db = Inr ((), db)"
  by (simp add: update_table_def find_visible_def filter_empty_conv update_rows_none)

lemma update_cases:
  assumes "update_table get put scope_of p f db = Inr (u, db')" "keyed get rid db"
    and "\<forall>r. p r \<longrightarrow> rid r = i"
  obtains (unchanged) "db' = db" "find_visible get scope_of p db = []"
    | (changed) xs r ys r' where "get db = xs @ r # ys" "db' = put (xs @ r' # ys) db"
        "scope_of r = db_scope db" "p r" "f db r = Inr r'"
proof -
  let ?q = "\<lambda>r. scope_of r = db_scope db \<and> p r"
  from assms(1) obtain rows' where upd: "update_rows ?q (f db) (get db) = Inr rows'"
    and db': "db' = put rows' db"
    by (auto simp: update_table_def bind_result_Inr)
  have ids: "distinct (map rid (get db))" "\<forall>r. ?q r \<longrightarrow> rid r = i"
    using assms(2,3) by (auto simp: keyed_def)
  show ?thesis
  proof (cases rule: update_rows_cases [OF upd ids])
    case 1
    then show ?thesis using db' by (intro that(1)) (auto simp: find_visible_def filter_empty_conv)
  next
    case (2 xs r ys r')
    then show ?thesis using db' by (intro that(2) [of xs r ys r']) auto
  qed
qed

lemma changed_keyed:
  "keyed get rid db \<Longrightarrow> get db = xs @ r # ys \<Longrightarrow> rid r' = rid r \<Longrightarrow>
     keyed get rid (put (xs @ r' # ys) db)"
  by (simp add: keyed_def)

lemma find_by_key:
  "keyed get rid db \<Longrightarrow> r \<in> set (get db) \<Longrightarrow> scope_of r = db_scope db \<Longrightarrow> rid r = i \<Longrightarrow>
     find_visible get scope_of (\<lambda>r. rid r = i) db = [r]"
  by (simp add: keyed_def find_visible_def filter_unique_key)

end

end
