(* ===== verification/Store_Tables.thy ===== *)
theory Store_Tables
  imports Store
begin

text \<open>
  What the migrations enforce on each table: row-level security, the ranges of the integer columns,
  the checks, the unique indexes, the foreign keys inside the model and the protecting triggers of
  \<open>0005_settlements.sql\<close>, \<open>0006_liquidity.sql\<close> and \<open>0009\<close> (the repayment index); and the identifiers,
  events and audit rows the services write (\<open>packages/app/src/events.ts\<close>). The outbox columns the
  delivery worker maintains are left out. Each table is an interpretation of the locale \<open>table\<close>.
\<close>

section \<open>Ranges and references\<close>

definition in_bigint :: "int \<Rightarrow> bool" where
  "in_bigint n \<longleftrightarrow> - (2 ^ 63) \<le> n \<and> n < 2 ^ 63"

definition in_integer :: "int \<Rightarrow> bool" where
  "in_integer n \<longleftrightarrow> - (2 ^ 31) \<le> n \<and> n < 2 ^ 31"

definition references_facility :: "db \<Rightarrow> string \<Rightarrow> tenant_scope \<Rightarrow> currency_code \<Rightarrow> bool" where
  "references_facility db f scope c \<longleftrightarrow>
     list_ex (\<lambda>fac. fac_id fac = f \<and> fac_scope fac = scope \<and> fac_currency fac = c) (db_facilities db)"

definition references_settlement :: "db \<Rightarrow> string \<Rightarrow> bool" where
  "references_settlement db i \<longleftrightarrow> list_ex (\<lambda>s. stl_id s = i) (db_settlements db)"

definition refused_if :: "bool \<Rightarrow> 'r \<Rightarrow> (exn, 'r) result" where
  "refused_if c r = (if c then Inl Restrict_Violation else Inr r)"

lemma refused_if_Inr [simp]: "refused_if c r = Inr r' \<longleftrightarrow> \<not> c \<and> r' = r"
  by (auto simp: refused_if_def)

section \<open>Settlements\<close>

definition RESUMABLE_STATUSES :: "settlement_status list" where
  "RESUMABLE_STATUSES = [LIQUIDITY_RESERVING, LIQUIDITY_RESERVED, DRAWDOWN_REQUESTED, PAYOUT_SUBMITTED, RECONCILING]"

definition settlement_violation :: "db \<Rightarrow> settlement_row \<Rightarrow> exn option" where
  "settlement_violation db r =
     (let others = filter (\<lambda>r'. stl_id r' \<noteq> stl_id r) (db_settlements db) in
      first_violation
       [(stl_scope r \<noteq> db_scope db, Row_Security),
        (\<not> in_bigint (stl_recipientAmountMinor r) \<or> \<not> in_integer (stl_version r), Out_Of_Range),
        (stl_recipientAmountMinor r \<le> 0, Check_Violation),
        (stl_recipientAmountCurrency r \<noteq> INR, Check_Violation),
        (case stl_exceptionEnteredFrom r of None \<Rightarrow> False | Some s \<Rightarrow> s \<notin> set RESUMABLE_STATUSES, Check_Violation),
        (stl_idempotencyKey r \<noteq> None \<and>
          list_ex (\<lambda>r'. stl_scope r' = stl_scope r \<and> stl_idempotencyKey r' = stl_idempotencyKey r) others,
         Duplicate_Key),
        (stl_externalReference r \<noteq> None \<and>
          list_ex (\<lambda>r'. ts_workspace (stl_scope r') = ts_workspace (stl_scope r) \<and>
            stl_externalReference r' = stl_externalReference r) others,
         Duplicate_Key),
        (stl_quoteId r \<noteq> None \<and> list_ex (\<lambda>r'. stl_quoteId r' = stl_quoteId r) others, Duplicate_Key),
        (case stl_replacesSettlementId r of None \<Rightarrow> False | Some i \<Rightarrow> \<not> references_settlement db i \<and> i \<noteq> stl_id r,
         Foreign_Key_Violation)])"

definition instruction_changed :: "settlement_row \<Rightarrow> settlement_row \<Rightarrow> bool" where
  "instruction_changed old new \<longleftrightarrow>
     stl_beneficiaryId new \<noteq> stl_beneficiaryId old \<or>
     stl_destinationId new \<noteq> stl_destinationId old \<or>
     stl_destinationVersionId new \<noteq> stl_destinationVersionId old \<or>
     stl_recipientAmountMinor new \<noteq> stl_recipientAmountMinor old \<or>
     stl_recipientAmountCurrency new \<noteq> stl_recipientAmountCurrency old \<or>
     stl_purposeCode new \<noteq> stl_purposeCode old \<or>
     stl_fundingCurrency new \<noteq> stl_fundingCurrency old \<or>
     stl_quoteId new \<noteq> stl_quoteId old \<or>
     stl_authorizedTerms new \<noteq> stl_authorizedTerms old \<or>
     stl_authorizedTermsHash new \<noteq> stl_authorizedTermsHash old \<or>
     stl_authorizedAt new \<noteq> stl_authorizedAt old \<or>
     stl_authorizedBy new \<noteq> stl_authorizedBy old"

definition protect_settlement_row :: "int \<Rightarrow> settlement_row \<Rightarrow> settlement_row \<Rightarrow> (exn, settlement_row) result" where
  "protect_settlement_row now old new =
     bind_result (refused_if (stl_status old = SETTLED \<or> stl_status old = FAILED \<or> stl_status old = CANCELLED) new) (\<lambda>new.
     bind_result (refused_if (stl_authorizedAt old \<noteq> None \<and> instruction_changed old new) new) (\<lambda>new.
     bind_result (refused_if (stl_pointOfNoReturnAt old \<noteq> None \<and>
       stl_pointOfNoReturnAt new \<noteq> stl_pointOfNoReturnAt old) new) (\<lambda>new.
     bind_result (refused_if (stl_status new = EXCEPTION \<and> stl_status old \<noteq> EXCEPTION \<and>
       stl_exceptionEnteredFrom new \<noteq> Some (stl_status old)) new) (\<lambda>new.
     bind_result (refused_if (stl_status old = EXCEPTION \<and>
       stl_exceptionEnteredFrom new \<noteq> stl_exceptionEnteredFrom old) new) (\<lambda>new.
     bind_result (refused_if (stl_status old = EXCEPTION \<and> stl_status new \<noteq> EXCEPTION \<and>
       stl_status new \<noteq> FAILED \<and> stl_status new \<noteq> CANCELLED \<and>
       Some (stl_status new) \<noteq> stl_exceptionEnteredFrom old) new) (\<lambda>new.
     bind_result (refused_if (stl_pointOfNoReturnAt old \<noteq> None \<and> stl_status old = EXCEPTION \<and>
       stl_status new \<noteq> EXCEPTION \<and> stl_status new \<noteq> FAILED \<and> stl_status new \<noteq> CANCELLED \<and>
       stl_status new \<noteq> PAYOUT_SUBMITTED \<and> stl_status new \<noteq> PAYOUT_CONFIRMED \<and>
       stl_status new \<noteq> RECONCILING) new) (\<lambda>new.
     bind_result (refused_if (stl_replacesSettlementId new \<noteq> stl_replacesSettlementId old) new) (\<lambda>new.
     Inr (if stl_status new \<noteq> stl_status old
          then new\<lparr>stl_version := stl_version old + 1, stl_updatedAt := now\<rparr> else new)))))))))"

definition put_settlements :: "settlement_row list \<Rightarrow> db \<Rightarrow> db" where
  "put_settlements rs db = db\<lparr>db_settlements := rs\<rparr>"

interpretation settlements: table db_settlements put_settlements stl_id stl_scope
  by unfold_locales (simp_all add: put_settlements_def)

text \<open>
  The pairing trigger runs for every inserted or updated row, at commit; what it needs is queued:
  the settlement and whether its status is new.
\<close>

definition queue_pairing :: "string \<Rightarrow> bool \<Rightarrow> unit tx" where
  "queue_pairing i changed db = Inr ((), db\<lparr>db_pendingPairing := db_pendingPairing db @ [(i, changed)]\<rparr>)"

definition insert_settlement :: "settlement_row \<Rightarrow> unit tx" where
  "insert_settlement r =
     bind_tx (insert_row db_settlements put_settlements stl_id settlement_violation r) (\<lambda>_.
     queue_pairing (stl_id r) True)"

definition update_settlements :: "(settlement_row \<Rightarrow> bool) \<Rightarrow> (settlement_row \<Rightarrow> settlement_row) \<Rightarrow> unit tx" where
  "update_settlements p patch db =
     bind_tx (update_table db_settlements put_settlements stl_scope p
       (\<lambda>db. guarded (protect_settlement_row (db_now db)) (settlement_violation db) patch)) (\<lambda>_ db'.
     Inr ((), db'\<lparr>db_pendingPairing := db_pendingPairing db' @
       map (\<lambda>(old, new). (stl_id new, stl_status new \<noteq> stl_status old))
         (filter (\<lambda>(old, new). stl_scope old = db_scope db \<and> p old)
           (zip (db_settlements db) (db_settlements db')))\<rparr>)) db"

section \<open>Facilities\<close>

definition facility_violation :: "db \<Rightarrow> facility_row \<Rightarrow> exn option" where
  "facility_violation db r =
     first_violation
      [(fac_scope r \<noteq> db_scope db, Row_Security),
       (\<not> in_bigint (fac_limitMinor r) \<or> \<not> in_bigint (fac_drawnMinor r) \<or>
        \<not> in_bigint (fac_reservedMinor r) \<or> \<not> in_integer (fac_version r), Out_Of_Range),
       (fac_limitMinor r < 0, Check_Violation),
       (fac_drawnMinor r < 0, Check_Violation),
       (fac_reservedMinor r < 0, Check_Violation),
       (fac_limitMinor r - fac_drawnMinor r - fac_reservedMinor r < 0, Check_Violation)]"

definition protect_facility_row :: "int \<Rightarrow> facility_row \<Rightarrow> facility_row \<Rightarrow> (exn, facility_row) result" where
  "protect_facility_row now old new =
     bind_result (refused_if (fac_currency new \<noteq> fac_currency old) new) (\<lambda>new.
     bind_result (refused_if (fac_status old = F_CLOSED \<and> fac_status new \<noteq> F_CLOSED) new) (\<lambda>new.
     bind_result (refused_if (fac_status new = F_CLOSED \<and>
       (fac_drawnMinor new \<noteq> 0 \<or> fac_reservedMinor new \<noteq> 0)) new) (\<lambda>new.
     Inr (if fac_drawnMinor new \<noteq> fac_drawnMinor old \<or> fac_reservedMinor new \<noteq> fac_reservedMinor old \<or>
            fac_limitMinor new \<noteq> fac_limitMinor old \<or> fac_status new \<noteq> fac_status old
          then new\<lparr>fac_version := fac_version old + 1, fac_updatedAt := now\<rparr> else new))))"

definition put_facilities :: "facility_row list \<Rightarrow> db \<Rightarrow> db" where
  "put_facilities rs db = db\<lparr>db_facilities := rs\<rparr>"

interpretation facilities: table db_facilities put_facilities fac_id fac_scope
  by unfold_locales (simp_all add: put_facilities_def)

definition insert_facility :: "facility_row \<Rightarrow> unit tx" where
  "insert_facility = insert_row db_facilities put_facilities fac_id facility_violation"

definition update_facilities :: "(facility_row \<Rightarrow> bool) \<Rightarrow> (facility_row \<Rightarrow> facility_row) \<Rightarrow> unit tx" where
  "update_facilities p patch = update_table db_facilities put_facilities fac_scope p
     (\<lambda>db. guarded (protect_facility_row (db_now db)) (facility_violation db) patch)"

section \<open>Reservations\<close>

definition reservation_violation :: "db \<Rightarrow> reservation_row \<Rightarrow> exn option" where
  "reservation_violation db r =
     first_violation
      [(rsv_scope r \<noteq> db_scope db, Row_Security),
       (\<not> in_bigint (rsv_amountMinor r), Out_Of_Range),
       (rsv_amountMinor r \<le> 0, Check_Violation),
       ((rsv_status r = V_RELEASED \<or> rsv_status r = V_EXPIRED) \<and>
        (rsv_releasedAt r = None \<or> rsv_releasedReason r = None), Check_Violation),
       (rsv_status r = V_CONSUMED \<and> rsv_consumedAt r = None, Check_Violation),
       (rsv_status r = V_ACTIVE \<and>
        list_ex (\<lambda>r'. rsv_settlementId r' = rsv_settlementId r \<and> rsv_status r' = V_ACTIVE)
          (filter (\<lambda>r'. rsv_id r' \<noteq> rsv_id r) (db_reservations db)), Duplicate_Key),
       (\<not> references_settlement db (rsv_settlementId r), Foreign_Key_Violation),
       (\<not> references_facility db (rsv_facilityId r) (rsv_scope r) (rsv_amountCurrency r), Foreign_Key_Violation)]"

definition protect_reservation_row :: "reservation_row \<Rightarrow> reservation_row \<Rightarrow> (exn, reservation_row) result" where
  "protect_reservation_row old new =
     bind_result (refused_if (rsv_facilityId new \<noteq> rsv_facilityId old \<or>
       rsv_settlementId new \<noteq> rsv_settlementId old \<or> rsv_amountMinor new \<noteq> rsv_amountMinor old \<or>
       rsv_amountCurrency new \<noteq> rsv_amountCurrency old \<or> rsv_createdAt new \<noteq> rsv_createdAt old) new) (\<lambda>new.
     bind_result (refused_if (rsv_status old = V_CONSUMED \<and> rsv_status new \<noteq> V_CONSUMED) new) (\<lambda>new.
     refused_if ((rsv_status old = V_RELEASED \<or> rsv_status old = V_EXPIRED) \<and>
       rsv_status new \<noteq> rsv_status old) new))"

definition put_reservations :: "reservation_row list \<Rightarrow> db \<Rightarrow> db" where
  "put_reservations rs db = db\<lparr>db_reservations := rs\<rparr>"

interpretation reservations: table db_reservations put_reservations rsv_id rsv_scope
  by unfold_locales (simp_all add: put_reservations_def)

definition insert_reservation :: "reservation_row \<Rightarrow> unit tx" where
  "insert_reservation = insert_row db_reservations put_reservations rsv_id reservation_violation"

definition update_reservations :: "(reservation_row \<Rightarrow> bool) \<Rightarrow> (reservation_row \<Rightarrow> reservation_row) \<Rightarrow> unit tx" where
  "update_reservations p patch = update_table db_reservations put_reservations rsv_scope p
     (\<lambda>db. guarded protect_reservation_row (reservation_violation db) patch)"

section \<open>Repayments\<close>

definition repayment_attributed :: "repayment_row \<Rightarrow> bool" where
  "repayment_attributed r =
     (case rpy_source r of
        CANCELLATION_AFTER_DRAWDOWN \<Rightarrow> rpy_settlementId r \<noteq> None
      | SETTLEMENT_RETURN \<Rightarrow> rpy_returnId r \<noteq> None
      | MANUAL \<Rightarrow> True
      | SCHEDULED \<Rightarrow> True)"

definition return_cause :: "repayment_row \<Rightarrow> string" where
  "return_cause r = (case rpy_returnId r of None \<Rightarrow> [] | Some i \<Rightarrow> i)"

definition repayment_violation :: "db \<Rightarrow> repayment_row \<Rightarrow> exn option" where
  "repayment_violation db r =
     (let others = filter (\<lambda>r'. rpy_id r' \<noteq> rpy_id r) (db_repayments db) in
      first_violation
       [(rpy_scope r \<noteq> db_scope db, Row_Security),
        (\<not> in_bigint (rpy_amountMinor r) \<or> \<not> in_integer (rpy_attempt r), Out_Of_Range),
        (rpy_amountMinor r \<le> 0, Check_Violation),
        (rpy_attempt r < 1, Check_Violation),
        (\<not> repayment_attributed r, Check_Violation),
        (rpy_status r = Y_CONFIRMED \<and> rpy_confirmedAt r = None, Check_Violation),
        (list_ex (\<lambda>r'. rpy_requestFingerprint r' = rpy_requestFingerprint r) others, Duplicate_Key),
        (rpy_settlementId r \<noteq> None \<and> rpy_status r \<noteq> Y_FAILED \<and>
          list_ex (\<lambda>r'. rpy_settlementId r' = rpy_settlementId r \<and> return_cause r' = return_cause r \<and>
            rpy_status r' \<noteq> Y_FAILED) others, Duplicate_Key),
        (case rpy_settlementId r of None \<Rightarrow> False | Some i \<Rightarrow> \<not> references_settlement db i, Foreign_Key_Violation),
        (\<not> references_facility db (rpy_facilityId r) (rpy_scope r) (rpy_amountCurrency r), Foreign_Key_Violation)])"

definition protect_repayment_row :: "repayment_row \<Rightarrow> repayment_row \<Rightarrow> (exn, repayment_row) result" where
  "protect_repayment_row old new =
     bind_result (refused_if (rpy_facilityId new \<noteq> rpy_facilityId old \<or>
       rpy_amountMinor new \<noteq> rpy_amountMinor old \<or> rpy_source new \<noteq> rpy_source old) new) (\<lambda>new.
     bind_result (refused_if (rpy_status old = Y_CONFIRMED \<and> rpy_status new \<noteq> Y_CONFIRMED) new) (\<lambda>new.
     refused_if (if rpy_status old = Y_FAILED \<and> rpy_status new = Y_REQUESTED
       then rpy_attempt new \<le> rpy_attempt old \<or> rpy_requestFingerprint new = rpy_requestFingerprint old
       else rpy_requestFingerprint new \<noteq> rpy_requestFingerprint old) new))"

definition put_repayments :: "repayment_row list \<Rightarrow> db \<Rightarrow> db" where
  "put_repayments rs db = db\<lparr>db_repayments := rs\<rparr>"

interpretation repayments: table db_repayments put_repayments rpy_id rpy_scope
  by unfold_locales (simp_all add: put_repayments_def)

definition insert_repayment :: "repayment_row \<Rightarrow> unit tx" where
  "insert_repayment = insert_row db_repayments put_repayments rpy_id repayment_violation"

definition update_repayments :: "(repayment_row \<Rightarrow> bool) \<Rightarrow> (repayment_row \<Rightarrow> repayment_row) \<Rightarrow> unit tx" where
  "update_repayments p patch = update_table db_repayments put_repayments rpy_scope p
     (\<lambda>db. guarded protect_repayment_row (repayment_violation db) patch)"

section \<open>Drawdowns\<close>

definition drawdown_violation :: "db \<Rightarrow> drawdown_row \<Rightarrow> exn option" where
  "drawdown_violation db r =
     (let others = filter (\<lambda>r'. drw_id r' \<noteq> drw_id r) (db_drawdowns db) in
      first_violation
       [(drw_scope r \<noteq> db_scope db, Row_Security),
        (\<not> in_bigint (drw_amountMinor r), Out_Of_Range),
        (drw_amountMinor r \<le> 0, Check_Violation),
        (list_ex (\<lambda>r'. drw_requestFingerprint r' = drw_requestFingerprint r) others, Duplicate_Key),
        (\<not> isDrawdownTerminal (drw_status r) \<and>
          list_ex (\<lambda>r'. drw_settlementId r' = drw_settlementId r \<and> \<not> isDrawdownTerminal (drw_status r')) others,
         Duplicate_Key),
        (\<not> references_settlement db (drw_settlementId r), Foreign_Key_Violation),
        (\<not> list_ex (\<lambda>v. rsv_id v = drw_reservationId r) (db_reservations db), Foreign_Key_Violation),
        (\<not> references_facility db (drw_facilityId r) (drw_scope r) (drw_amountCurrency r), Foreign_Key_Violation)])"

definition protect_drawdown_row :: "drawdown_row \<Rightarrow> drawdown_row \<Rightarrow> (exn, drawdown_row) result" where
  "protect_drawdown_row old new =
     bind_result (refused_if (drw_facilityId new \<noteq> drw_facilityId old \<or>
       drw_settlementId new \<noteq> drw_settlementId old \<or> drw_reservationId new \<noteq> drw_reservationId old \<or>
       drw_amountMinor new \<noteq> drw_amountMinor old \<or>
       drw_requestFingerprint new \<noteq> drw_requestFingerprint old) new) (\<lambda>new.
     refused_if ((drw_status old = W_CONFIRMED \<or> drw_status old = W_FAILED) \<and>
       drw_status new \<noteq> drw_status old) new)"

definition put_drawdowns :: "drawdown_row list \<Rightarrow> db \<Rightarrow> db" where
  "put_drawdowns rs db = db\<lparr>db_drawdowns := rs\<rparr>"

interpretation drawdowns: table db_drawdowns put_drawdowns drw_id drw_scope
  by unfold_locales (simp_all add: put_drawdowns_def)

definition insert_drawdown :: "drawdown_row \<Rightarrow> unit tx" where
  "insert_drawdown = insert_row db_drawdowns put_drawdowns drw_id drawdown_violation"

definition update_drawdowns :: "(drawdown_row \<Rightarrow> bool) \<Rightarrow> (drawdown_row \<Rightarrow> drawdown_row) \<Rightarrow> unit tx" where
  "update_drawdowns p patch = update_table db_drawdowns put_drawdowns drw_scope p
     (\<lambda>db. guarded protect_drawdown_row (drawdown_violation db) patch)"

section \<open>The ledger\<close>

text \<open>The ledger takes inserts only; each queues the balance check of its transfer for the commit.\<close>

definition ledger_violation :: "db \<Rightarrow> ledger_row \<Rightarrow> exn option" where
  "ledger_violation db r =
     first_violation
      [(led_scope r \<noteq> db_scope db, Row_Security),
       (\<not> in_bigint (le_minorUnits r), Out_Of_Range),
       (le_minorUnits r \<le> 0, Check_Violation),
       (list_ex (\<lambda>r'. le_transferId r' = le_transferId r \<and> le_account r' = le_account r) (db_ledger db), Duplicate_Key),
       (\<not> references_facility db (le_facilityId r) (led_scope r) (le_currency r), Foreign_Key_Violation)]"

definition put_ledger :: "ledger_row list \<Rightarrow> db \<Rightarrow> db" where
  "put_ledger rs db = db\<lparr>db_ledger := rs\<rparr>"

interpretation ledger: table db_ledger put_ledger le_id led_scope
  by unfold_locales (simp_all add: put_ledger_def)

definition insert_ledger :: "ledger_row \<Rightarrow> unit tx" where
  "insert_ledger r =
     bind_tx (insert_row db_ledger put_ledger le_id ledger_violation r) (\<lambda>_ db.
     Inr ((), db\<lparr>db_pendingTransfers := db_pendingTransfers db @ [le_transferId r]\<rparr>))"

section \<open>Identifiers, events and audit\<close>

definition new_id :: "id_kind \<Rightarrow> string tx" where
  "new_id kind db = Inr (make_id kind (db_bodies db (db_txid db) (db_next db)), db\<lparr>db_next := db_next db + 1\<rparr>)"

definition put_events :: "event_row list \<Rightarrow> db \<Rightarrow> db" where
  "put_events rs db = db\<lparr>db_events := rs\<rparr>"

definition put_outbox :: "outbox_row list \<Rightarrow> db \<Rightarrow> db" where
  "put_outbox rs db = db\<lparr>db_outbox := rs\<rparr>"

definition put_audit :: "audit_row list \<Rightarrow> db \<Rightarrow> db" where
  "put_audit rs db = db\<lparr>db_audit := rs\<rparr>"

interpretation events: table db_events put_events evt_id evt_scope
  by unfold_locales (simp_all add: put_events_def)

interpretation outbox: table db_outbox put_outbox obx_id obx_scope
  by unfold_locales (simp_all add: put_outbox_def)

interpretation audit: table db_audit put_audit aud_id aud_scope
  by unfold_locales (simp_all add: put_audit_def)

record emission =
  em_type :: event_type
  em_subjectType :: string
  em_subjectId :: string
  em_actor :: principal
  em_payload :: "(string \<times> json) list"
  em_deliver :: bool

definition new_event :: "tenant_scope \<Rightarrow> emission \<Rightarrow> string \<Rightarrow> db \<Rightarrow> event_row" where
  "new_event scope e i db =
     \<lparr>evt_id = i, evt_scope = scope, evt_type = em_type e, evt_subjectType = em_subjectType e,
      evt_subjectId = em_subjectId e, evt_actor = em_actor e, evt_payload = JObj (em_payload e),
      evt_createdAt = db_now db, evt_txid = db_txid db\<rparr>"

definition emit_event :: "tenant_scope \<Rightarrow> emission \<Rightarrow> unit tx" where
  "emit_event scope e =
     bind_tx (new_id K_event) (\<lambda>i.
     bind_tx (get_db (new_event scope e i)) (\<lambda>row.
     bind_tx (insert_row db_events put_events evt_id
         (\<lambda>db r. first_violation [(evt_scope r \<noteq> db_scope db, Row_Security)]) row) (\<lambda>_.
     if em_deliver e
     then bind_tx (new_id K_outbox) (\<lambda>o_id.
          insert_row db_outbox put_outbox obx_id
            (\<lambda>db r. first_violation
              [(obx_scope r \<noteq> db_scope db, Row_Security),
               (\<not> list_ex (\<lambda>ev. evt_id ev = obx_eventId r) (db_events db), Foreign_Key_Violation)])
            \<lparr>obx_id = o_id, obx_eventId = i, obx_scope = scope\<rparr>)
     else ret ())))"

record audit_entry =
  au_actor :: principal
  au_action :: string
  au_subjectType :: string
  au_subjectId :: string
  au_before :: json
  au_after :: json
  au_reason :: "string option"

definition write_audit :: "tenant_scope \<Rightarrow> audit_entry \<Rightarrow> unit tx" where
  "write_audit scope a =
     bind_tx (new_id K_audit) (\<lambda>i.
     bind_tx (get_db db_now) (\<lambda>now.
     insert_row db_audit put_audit aud_id
       (\<lambda>db r. first_violation [(aud_scope r \<noteq> db_scope db, Row_Security)])
       \<lparr>aud_id = i, aud_scope = scope, aud_actor = au_actor a, aud_action = au_action a,
        aud_subjectType = au_subjectType a, aud_subjectId = au_subjectId a, aud_before = au_before a,
        aud_after = au_after a, aud_reason = au_reason a, aud_createdAt = now\<rparr>))"

lemma new_event_simps [simp]:
  "evt_scope (new_event scope e i db) = scope" "evt_type (new_event scope e i db) = em_type e"
  "evt_subjectType (new_event scope e i db) = em_subjectType e"
  "evt_subjectId (new_event scope e i db) = em_subjectId e" "evt_actor (new_event scope e i db) = em_actor e"
  "evt_payload (new_event scope e i db) = JObj (em_payload e)" "evt_txid (new_event scope e i db) = db_txid db"
  by (simp_all add: new_event_def)

lemma emit_event_effect:
  assumes "emit_event scope e db = Inr (u, db')"
  obtains i n os where "scope = db_scope db"
    "db' = db\<lparr>db_next := n, db_events := db_events db @ [new_event scope e i db], db_outbox := db_outbox db @ os\<rparr>"
proof (cases "em_deliver e")
  case True
  let ?i = "make_id K_event (db_bodies db (db_txid db) (db_next db))"
  let ?r = "\<lparr>obx_id = make_id K_outbox (db_bodies db (db_txid db) (db_next db + 1)), obx_eventId = ?i,
    obx_scope = scope\<rparr>"
  from True assms have "scope = db_scope db \<and>
      db' = db\<lparr>db_events := db_events db @ [new_event scope e ?i db], db_next := db_next db + 2,
        db_outbox := db_outbox db @ [?r]\<rparr>"
    by (auto simp: emit_event_def bind_tx_Inr new_id_def insert_row_Inr put_events_def put_outbox_def
        new_event_def)
  then show ?thesis by (intro that [where i = ?i and os = "[?r]" and n = "db_next db + 2"] db.equality) simp_all
next
  case False
  let ?i = "make_id K_event (db_bodies db (db_txid db) (db_next db))"
  from False assms have "scope = db_scope db \<and>
      db' = db\<lparr>db_events := db_events db @ [new_event scope e ?i db], db_next := db_next db + 1\<rparr>"
    by (auto simp: emit_event_def bind_tx_Inr new_id_def insert_row_Inr put_events_def new_event_def)
  then show ?thesis by (intro that [where i = ?i and os = "[]" and n = "db_next db + 1"] db.equality) simp_all
qed

lemma write_audit_effect:
  assumes "write_audit scope a db = Inr (u, db')"
  obtains au n where "db' = db\<lparr>db_next := n, db_audit := db_audit db @ [au]\<rparr>"
    "scope = db_scope db" "aud_scope au = scope" "aud_actor au = au_actor a" "aud_action au = au_action a"
    "aud_subjectType au = au_subjectType a" "aud_subjectId au = au_subjectId a"
    "aud_before au = au_before a" "aud_after au = au_after a" "aud_reason au = au_reason a"
  using assms by (fastforce simp: write_audit_def bind_tx_Inr new_id_def insert_row_Inr put_audit_def)

lemma update_settlements_cases:
  assumes "update_settlements p patch db = Inr (u, db')" "keyed db_settlements stl_id db"
    and "\<forall>r. p r \<longrightarrow> stl_id r = i"
  obtains (unchanged) "db' = db" "find_visible db_settlements stl_scope p db = []"
    | (changed) xs r ys r' where "db_settlements db = xs @ r # ys" "stl_scope r = db_scope db" "p r"
        "protect_settlement_row (db_now db) r (patch r) = Inr r'" "settlement_violation db r' = None"
        "db' = db\<lparr>db_settlements := xs @ r' # ys,
           db_pendingPairing := db_pendingPairing db @ [(stl_id r', stl_status r' \<noteq> stl_status r)]\<rparr>"
proof -
  let ?f = "\<lambda>db. guarded (protect_settlement_row (db_now db)) (settlement_violation db) patch"
  let ?changes = "\<lambda>db1. map (\<lambda>(old, new). (stl_id new, stl_status new \<noteq> stl_status old))
    (filter (\<lambda>(old, new). stl_scope old = db_scope db \<and> p old) (zip (db_settlements db) (db_settlements db1)))"
  from assms(1) obtain db1 where upd: "update_table db_settlements put_settlements stl_scope p ?f db = Inr ((), db1)"
    and db': "db' = db1\<lparr>db_pendingPairing := db_pendingPairing db1 @ ?changes db1\<rparr>"
    by (auto simp: update_settlements_def bind_tx_Inr)
  have same: "filter (\<lambda>(old, new). stl_scope old = db_scope db \<and> p old) (zip rs rs) = []"
    if "\<forall>r\<in>set rs. \<not> (stl_scope r = db_scope db \<and> p r)" for rs
    using that by (induction rs) auto
  show ?thesis
  proof (cases rule: settlements.update_cases [OF upd assms(2,3)])
    case 1
    then have "?changes db1 = []" by (simp add: find_visible_def filter_empty_conv same)
    with 1 db' show ?thesis by (intro that(1)) simp_all
  next
    case (2 xs r ys r')
    have "distinct (map stl_id (xs @ r # ys))" using assms(2) 2(1) by (simp add: keyed_def)
    then have others: "\<forall>x\<in>set xs \<union> set ys. \<not> p x" using assms(3) 2(4) by (metis 
      UnE distinct_append distinct.simps(2) disjoint_iff list.set_intros(1) list.set_map list.simps(9) map_append image_eqI)
    have "?changes db1 = [(stl_id r', stl_status r' \<noteq> stl_status r)]"
      using 2(1,3,4) others same [of xs] same [of ys] by (simp add: 2(2) put_settlements_def)
    with 2 db' show ?thesis
      by (intro that(2) [of xs r ys r']) (simp_all add: guarded_Inr put_settlements_def)
  qed
qed

section \<open>Transactions of a tenant\<close>

text \<open>The two checks deferred to commit: the status-event pairing and the balance of each transfer.\<close>

definition status_events_of :: "string \<Rightarrow> db \<Rightarrow> nat" where
  "status_events_of i db = length (filter (\<lambda>e.
     evt_scope e = db_scope db \<and> (case evt_type e of Ev_status _ \<Rightarrow> True | _ \<Rightarrow> False) \<and>
     evt_subjectType e = ''settlement'' \<and> evt_subjectId e = i \<and> evt_txid e = db_txid db) (db_events db))"

definition pairing_holds :: "db \<Rightarrow> string \<times> bool \<Rightarrow> bool" where
  "pairing_holds db p = (status_events_of (fst p) db = (if snd p then 1 else 0))"

definition transfer_balanced :: "db \<Rightarrow> string \<Rightarrow> bool" where
  "transfer_balanced db t =
     (let rows = find_visible db_ledger led_scope (\<lambda>r. le_transferId r = t) db in
      length rows = 2 \<and> length (filter (\<lambda>r. le_direction r = Debit) rows) = 1 \<and>
      length (filter (\<lambda>r. le_direction r = Credit) rows) = 1 \<and>
      sum_list (map (\<lambda>r. if le_direction r = Debit then le_minorUnits r else - le_minorUnits r) rows) = 0 \<and>
      length (remdups (map le_currency rows)) = 1)"

definition commit_checks :: "db \<Rightarrow> bool" where
  "commit_checks db \<longleftrightarrow> list_all (pairing_holds db) (db_pendingPairing db) \<and>
     list_all (transfer_balanced db) (db_pendingTransfers db)"

definition begin_tenant :: "tenant_scope \<Rightarrow> int \<Rightarrow> int \<Rightarrow> db \<Rightarrow> db" where
  "begin_tenant scope now clock db =
     db\<lparr>db_now := now, db_clock := clock, db_scope := scope, db_txid := db_txid db + 1, db_next := 0,
        db_pendingPairing := [], db_pendingTransfers := []\<rparr>"

definition with_tenant :: "tenant_scope \<Rightarrow> int \<Rightarrow> int \<Rightarrow> 'a tx \<Rightarrow> db \<Rightarrow> (exn, 'a) result \<times> db" where
  "with_tenant scope now clock work db =
     (let db0 = begin_tenant scope now clock db;
          rolled_back = db\<lparr>db_txid := db_txid db + 1\<rparr>
      in case work db0 of
           Inl e \<Rightarrow> (Inl e, rolled_back)
         | Inr (x, db') \<Rightarrow> if commit_checks db' then (Inr x, db') else (Inl Deferred_Violation, rolled_back))"

end
