(* ===== verification/Transition_Service.thy ===== *)
theory Transition_Service
  imports Store_Tables Settlement_Machine
begin

text \<open>
  \<open>packages/app/src/settlement-transition.service.ts\<close>: the only writer of \<open>settlements.status\<close>. A
  transition is refused as a value or carried out as a transaction: the row, one status event, the
  companions, the audit entry. A patch is a list of column writes, applied in order; a key that is no
  column (\<open>CW_other\<close>) is dropped by the driver, and the primary key is not among the writes.
\<close>

section \<open>Names\<close>

primrec status_name :: "settlement_status \<Rightarrow> string" where
  "status_name DRAFT = ''DRAFT''"
| "status_name PREFLIGHTING = ''PREFLIGHTING''"
| "status_name ACTION_REQUIRED = ''ACTION_REQUIRED''"
| "status_name READY = ''READY''"
| "status_name QUOTED = ''QUOTED''"
| "status_name AUTHORIZED = ''AUTHORIZED''"
| "status_name LIQUIDITY_RESERVING = ''LIQUIDITY_RESERVING''"
| "status_name LIQUIDITY_RESERVED = ''LIQUIDITY_RESERVED''"
| "status_name DRAWDOWN_REQUESTED = ''DRAWDOWN_REQUESTED''"
| "status_name DRAWDOWN_CONFIRMED = ''DRAWDOWN_CONFIRMED''"
| "status_name PAYOUT_SUBMITTED = ''PAYOUT_SUBMITTED''"
| "status_name PAYOUT_CONFIRMED = ''PAYOUT_CONFIRMED''"
| "status_name RECONCILING = ''RECONCILING''"
| "status_name EXCEPTION = ''EXCEPTION''"
| "status_name SETTLED = ''SETTLED''"
| "status_name FAILED = ''FAILED''"
| "status_name CANCELLED = ''CANCELLED''"

primrec transition_name :: "transition_id \<Rightarrow> string" where
  "transition_name T01 = ''T01''"
| "transition_name T02 = ''T02''"
| "transition_name T03 = ''T03''"
| "transition_name T04 = ''T04''"
| "transition_name T05 = ''T05''"
| "transition_name T06 = ''T06''"
| "transition_name T07 = ''T07''"
| "transition_name T08 = ''T08''"
| "transition_name T09 = ''T09''"
| "transition_name T10 = ''T10''"
| "transition_name T11 = ''T11''"
| "transition_name T12 = ''T12''"
| "transition_name T13 = ''T13''"
| "transition_name T14 = ''T14''"
| "transition_name T15 = ''T15''"
| "transition_name T16 = ''T16''"
| "transition_name T17 = ''T17''"
| "transition_name T18 = ''T18''"
| "transition_name T19 = ''T19''"
| "transition_name T20 = ''T20''"
| "transition_name T21 = ''T21''"
| "transition_name T22 = ''T22''"
| "transition_name T23 = ''T23''"
| "transition_name T24 = ''T24''"
| "transition_name T25 = ''T25''"
| "transition_name T26 = ''T26''"
| "transition_name T27 = ''T27''"
| "transition_name T28 = ''T28''"
| "transition_name T29 = ''T29''"
| "transition_name T30 = ''T30''"

primrec trigger_name :: "trigger \<Rightarrow> string" where
  "trigger_name T_create = ''create''"
| "trigger_name T_run_preflight = ''run_preflight''"
| "trigger_name T_preflight_passed = ''preflight_passed''"
| "trigger_name T_preflight_blocked = ''preflight_blocked''"
| "trigger_name T_requirement_resolved = ''requirement_resolved''"
| "trigger_name T_attach_quote = ''attach_quote''"
| "trigger_name T_quote_expired = ''quote_expired''"
| "trigger_name T_authorize = ''authorize''"
| "trigger_name T_begin_reservation = ''begin_reservation''"
| "trigger_name T_reservation_succeeded = ''reservation_succeeded''"
| "trigger_name T_reservation_failed = ''reservation_failed''"
| "trigger_name T_request_drawdown = ''request_drawdown''"
| "trigger_name T_drawdown_confirmed = ''drawdown_confirmed''"
| "trigger_name T_drawdown_failed = ''drawdown_failed''"
| "trigger_name T_dispatch_payout = ''dispatch_payout''"
| "trigger_name T_payout_credited = ''payout_credited''"
| "trigger_name T_payout_rejected = ''payout_rejected''"
| "trigger_name T_payout_timeout = ''payout_timeout''"
| "trigger_name T_begin_reconciliation = ''begin_reconciliation''"
| "trigger_name T_reconciled_matched = ''reconciled_matched''"
| "trigger_name T_reconciled_mismatch = ''reconciled_mismatch''"
| "trigger_name T_resolve_resume = ''resolve_resume''"
| "trigger_name T_resolve_fail = ''resolve_fail''"
| "trigger_name T_resolve_cancel = ''resolve_cancel''"
| "trigger_name T_cancel = ''cancel''"
| "trigger_name T_request_cancellation = ''request_cancellation''"
| "trigger_name T_cancellation_honoured = ''cancellation_honoured''"
| "trigger_name T_reservation_expired = ''reservation_expired''"
| "trigger_name T_drawdown_timeout = ''drawdown_timeout''"
| "trigger_name T_reconciliation_stalled = ''reconciliation_stalled''"

section \<open>Patches\<close>

datatype column_write =
    CW_beneficiaryId string
  | CW_destinationId "string option"
  | CW_destinationVersionId "string option"
  | CW_recipientAmountMinor int
  | CW_recipientAmountCurrency currency_code
  | CW_fundingCurrency string
  | CW_purposeCode "string option"
  | CW_quoteId "string option"
  | CW_authorizedTerms "json option"
  | CW_authorizedTermsHash "string option"
  | CW_status settlement_status
  | CW_customerStatus "customer_status option"
  | CW_exceptionEnteredFrom "settlement_status option"
  | CW_openExceptionCode "exception_code option"
  | CW_externalReference "string option"
  | CW_idempotencyKey "string option"
  | CW_replacesSettlementId "string option"
  | CW_authorizedAt "int option"
  | CW_authorizedBy "string option"
  | CW_cancellationRequestedAt "int option"
  | CW_cancellationRequestedBy "string option"
  | CW_pointOfNoReturnAt "int option"
  | CW_settledAt "int option"
  | CW_reservationId "string option"
  | CW_drawdownId "string option"
  | CW_payoutAttemptId "string option"
  | CW_receiptId "string option"
  | CW_createdAt int
  | CW_updatedAt int
  | CW_createdBy string
  | CW_version int
  | CW_workspaceId string
  | CW_environment environment
  | CW_other string

primrec write_key :: "column_write \<Rightarrow> string" where
  "write_key (CW_beneficiaryId _) = ''beneficiaryId''"
| "write_key (CW_destinationId _) = ''destinationId''"
| "write_key (CW_destinationVersionId _) = ''destinationVersionId''"
| "write_key (CW_recipientAmountMinor _) = ''recipientAmountMinor''"
| "write_key (CW_recipientAmountCurrency _) = ''recipientAmountCurrency''"
| "write_key (CW_fundingCurrency _) = ''fundingCurrency''"
| "write_key (CW_purposeCode _) = ''purposeCode''"
| "write_key (CW_quoteId _) = ''quoteId''"
| "write_key (CW_authorizedTerms _) = ''authorizedTerms''"
| "write_key (CW_authorizedTermsHash _) = ''authorizedTermsHash''"
| "write_key (CW_status _) = ''status''"
| "write_key (CW_customerStatus _) = ''customerStatus''"
| "write_key (CW_exceptionEnteredFrom _) = ''exceptionEnteredFrom''"
| "write_key (CW_openExceptionCode _) = ''openExceptionCode''"
| "write_key (CW_externalReference _) = ''externalReference''"
| "write_key (CW_idempotencyKey _) = ''idempotencyKey''"
| "write_key (CW_replacesSettlementId _) = ''replacesSettlementId''"
| "write_key (CW_authorizedAt _) = ''authorizedAt''"
| "write_key (CW_authorizedBy _) = ''authorizedBy''"
| "write_key (CW_cancellationRequestedAt _) = ''cancellationRequestedAt''"
| "write_key (CW_cancellationRequestedBy _) = ''cancellationRequestedBy''"
| "write_key (CW_pointOfNoReturnAt _) = ''pointOfNoReturnAt''"
| "write_key (CW_settledAt _) = ''settledAt''"
| "write_key (CW_reservationId _) = ''reservationId''"
| "write_key (CW_drawdownId _) = ''drawdownId''"
| "write_key (CW_payoutAttemptId _) = ''payoutAttemptId''"
| "write_key (CW_receiptId _) = ''receiptId''"
| "write_key (CW_createdAt _) = ''createdAt''"
| "write_key (CW_updatedAt _) = ''updatedAt''"
| "write_key (CW_createdBy _) = ''createdBy''"
| "write_key (CW_version _) = ''version''"
| "write_key (CW_workspaceId _) = ''workspaceId''"
| "write_key (CW_environment _) = ''environment''"
| "write_key (CW_other k) = k"

primrec apply_write :: "column_write \<Rightarrow> settlement_row \<Rightarrow> settlement_row" where
  "apply_write (CW_beneficiaryId v) r = r\<lparr>stl_beneficiaryId := v\<rparr>"
| "apply_write (CW_destinationId v) r = r\<lparr>stl_destinationId := v\<rparr>"
| "apply_write (CW_destinationVersionId v) r = r\<lparr>stl_destinationVersionId := v\<rparr>"
| "apply_write (CW_recipientAmountMinor v) r = r\<lparr>stl_recipientAmountMinor := v\<rparr>"
| "apply_write (CW_recipientAmountCurrency v) r = r\<lparr>stl_recipientAmountCurrency := v\<rparr>"
| "apply_write (CW_fundingCurrency v) r = r\<lparr>stl_fundingCurrency := v\<rparr>"
| "apply_write (CW_purposeCode v) r = r\<lparr>stl_purposeCode := v\<rparr>"
| "apply_write (CW_quoteId v) r = r\<lparr>stl_quoteId := v\<rparr>"
| "apply_write (CW_authorizedTerms v) r = r\<lparr>stl_authorizedTerms := v\<rparr>"
| "apply_write (CW_authorizedTermsHash v) r = r\<lparr>stl_authorizedTermsHash := v\<rparr>"
| "apply_write (CW_status v) r = r\<lparr>stl_status := v\<rparr>"
| "apply_write (CW_customerStatus v) r = r\<lparr>stl_customerStatus := v\<rparr>"
| "apply_write (CW_exceptionEnteredFrom v) r = r\<lparr>stl_exceptionEnteredFrom := v\<rparr>"
| "apply_write (CW_openExceptionCode v) r = r\<lparr>stl_openExceptionCode := v\<rparr>"
| "apply_write (CW_externalReference v) r = r\<lparr>stl_externalReference := v\<rparr>"
| "apply_write (CW_idempotencyKey v) r = r\<lparr>stl_idempotencyKey := v\<rparr>"
| "apply_write (CW_replacesSettlementId v) r = r\<lparr>stl_replacesSettlementId := v\<rparr>"
| "apply_write (CW_authorizedAt v) r = r\<lparr>stl_authorizedAt := v\<rparr>"
| "apply_write (CW_authorizedBy v) r = r\<lparr>stl_authorizedBy := v\<rparr>"
| "apply_write (CW_cancellationRequestedAt v) r = r\<lparr>stl_cancellationRequestedAt := v\<rparr>"
| "apply_write (CW_cancellationRequestedBy v) r = r\<lparr>stl_cancellationRequestedBy := v\<rparr>"
| "apply_write (CW_pointOfNoReturnAt v) r = r\<lparr>stl_pointOfNoReturnAt := v\<rparr>"
| "apply_write (CW_settledAt v) r = r\<lparr>stl_settledAt := v\<rparr>"
| "apply_write (CW_reservationId v) r = r\<lparr>stl_reservationId := v\<rparr>"
| "apply_write (CW_drawdownId v) r = r\<lparr>stl_drawdownId := v\<rparr>"
| "apply_write (CW_payoutAttemptId v) r = r\<lparr>stl_payoutAttemptId := v\<rparr>"
| "apply_write (CW_receiptId v) r = r\<lparr>stl_receiptId := v\<rparr>"
| "apply_write (CW_createdAt v) r = r\<lparr>stl_createdAt := v\<rparr>"
| "apply_write (CW_updatedAt v) r = r\<lparr>stl_updatedAt := v\<rparr>"
| "apply_write (CW_createdBy v) r = r\<lparr>stl_createdBy := v\<rparr>"
| "apply_write (CW_version v) r = r\<lparr>stl_version := v\<rparr>"
| "apply_write (CW_workspaceId v) r = r\<lparr>stl_scope := (stl_scope r)\<lparr>ts_workspace := v\<rparr>\<rparr>"
| "apply_write (CW_environment v) r = r\<lparr>stl_scope := (stl_scope r)\<lparr>ts_environment := v\<rparr>\<rparr>"
| "apply_write (CW_other _) r = r"

definition MACHINE_OWNED_COLUMNS :: "string list" where
  "MACHINE_OWNED_COLUMNS =
     [''status'', ''customerStatus'', ''customer_status'', ''version'', ''exceptionEnteredFrom'',
      ''exception_entered_from'', ''openExceptionCode'', ''open_exception_code'']"

definition apply_writes :: "column_write list \<Rightarrow> settlement_row \<Rightarrow> settlement_row" where
  "apply_writes patch r = fold apply_write patch r"

definition column_writes :: "column_write list \<Rightarrow> column_write list" where
  "column_writes patch = filter (\<lambda>w. case w of CW_other _ \<Rightarrow> False | _ \<Rightarrow> True) patch"

section \<open>Transitions\<close>

record companion_emission =
  ce_type :: companion_event
  ce_subjectType :: string
  ce_subjectId :: string
  ce_payload :: "(string \<times> json) list"

record apply_input =
  ai_settlementId :: string
  ai_trigger :: trigger
  ai_actor :: principal
  ai_guards :: guard_context
  ai_expectedVersion :: "int option"
  ai_companions :: "companion_emission list"
  ai_patch :: "column_write list option"
  ai_statusEventPayload :: "(string \<times> json) list"
  ai_exceptionCode :: "exception_code option"
  ai_reason :: "string option"

datatype transition_failure =
    Settlement_Not_Found
  | Protected_Field "string list"
  | Refused_Invalid_Transition settlement_status trigger
  | Refused_Guard_Failed transition_id "guard list"
  | Refused_Guard_Unanswered transition_id "guard list"
  | Refused_Resume_Target_Unknown transition_id
  | Stale_Version int int
  | Illegal_Companion "companion_event list"

record transition_outcome =
  out_transition :: transition_id
  out_from :: settlement_status
  out_to :: "settlement_status option"
  out_version :: int

text \<open>The object spread \<open>{...base, ...extra}\<close>: a repeated key keeps its place and takes the new value.\<close>

fun put_entry :: "string \<times> json \<Rightarrow> (string \<times> json) list \<Rightarrow> (string \<times> json) list" where
  "put_entry e [] = [e]"
| "put_entry e (f # fs) = (if fst f = fst e then e # fs else f # put_entry e fs)"

definition spread :: "(string \<times> json) list \<Rightarrow> (string \<times> json) list \<Rightarrow> (string \<times> json) list" where
  "spread base extra = fold put_entry extra base"

fun emit_companions :: "tenant_scope \<Rightarrow> principal \<Rightarrow> companion_emission list \<Rightarrow> unit tx" where
  "emit_companions scope actor [] = ret ()"
| "emit_companions scope actor (c # cs) =
     bind_tx (emit_event scope
       \<lparr>em_type = Ev_companion (ce_type c), em_subjectType = ce_subjectType c, em_subjectId = ce_subjectId c,
        em_actor = actor, em_payload = ce_payload c, em_deliver = True\<rparr>) (\<lambda>_.
     emit_companions scope actor cs)"

definition given_patch :: "apply_input \<Rightarrow> column_write list" where
  "given_patch input = (case ai_patch input of None \<Rightarrow> [] | Some p \<Rightarrow> p)"

definition refusal_of :: "settlement_row \<Rightarrow> apply_input \<Rightarrow> transition_refusal \<Rightarrow> transition_failure" where
  "refusal_of current input e =
     (case e of
        Invalid_Transition _ _ \<Rightarrow> Refused_Invalid_Transition (stl_status current) (ai_trigger input)
      | Guard_Failed t gs \<Rightarrow> Refused_Guard_Failed t gs
      | Guard_Unanswered t gs \<Rightarrow> Refused_Guard_Unanswered t gs
      | Resume_Target_Unknown t \<Rightarrow> Refused_Resume_Target_Unknown t)"

definition machine_patch ::
    "apply_input \<Rightarrow> settlement_row \<Rightarrow> settlement_status \<Rightarrow> int \<Rightarrow> settlement_row \<Rightarrow> settlement_row" where
  "machine_patch input current to now r =
     (let openCode = (if to = EXCEPTION then ai_exceptionCode input else None);
          r1 = (apply_writes (given_patch input) r)
                 \<lparr>stl_status := to, stl_customerStatus := customerStatusColumn to openCode, stl_updatedAt := now\<rparr>
      in if to = EXCEPTION
         then r1\<lparr>stl_exceptionEnteredFrom := Some (stl_status current), stl_openExceptionCode := openCode\<rparr>
         else if stl_status current = EXCEPTION then r1\<lparr>stl_openExceptionCode := None\<rparr>
         else r1)"

definition write_settlement :: "apply_input \<Rightarrow> settlement_row \<Rightarrow> transition_ok \<Rightarrow> int tx" where
  "write_settlement input current ok =
     (case ok_to ok of
        Some to \<Rightarrow>
          bind_tx (get_db db_clock) (\<lambda>now.
          bind_tx (update_settlements
              (\<lambda>r. stl_id r = ai_settlementId input \<and> stl_version r = stl_version current)
              (machine_patch input current to now)) (\<lambda>_.
          ret (stl_version current + 1)))
      | None \<Rightarrow>
          (case ai_patch input of
             None \<Rightarrow> ret (stl_version current)
           | Some patch \<Rightarrow>
               if column_writes patch = [] then throw JS_Error
               else bind_tx (update_settlements (\<lambda>r. stl_id r = ai_settlementId input) (apply_writes patch)) (\<lambda>_.
                    ret (stl_version current))))"

definition emit_status_event :: "tenant_scope \<Rightarrow> apply_input \<Rightarrow> settlement_row \<Rightarrow> transition_ok \<Rightarrow> unit tx" where
  "emit_status_event scope input current ok =
     (case ok_statusEvent ok of
        None \<Rightarrow> ret ()
      | Some e \<Rightarrow> emit_event scope
          \<lparr>em_type = Ev_status e, em_subjectType = ''settlement'', em_subjectId = ai_settlementId input,
           em_actor = ai_actor input,
           em_payload = spread
             [(''transition'', JStr (transition_name (tr_id (ok_transition ok)))),
              (''from'', JStr (status_name (stl_status current))),
              (''to'', json_opt (\<lambda>s. JStr (status_name s)) (ok_to ok))] (ai_statusEventPayload input),
           em_deliver = True\<rparr>)"

definition transition_audit :: "apply_input \<Rightarrow> settlement_row \<Rightarrow> transition_ok \<Rightarrow> audit_entry" where
  "transition_audit input current ok =
     \<lparr>au_actor = ai_actor input, au_action = ''settlement.'' @ trigger_name (ai_trigger input),
      au_subjectType = ''settlement'', au_subjectId = ai_settlementId input,
      au_before = JObj [(''status'', JStr (status_name (stl_status current))), (''version'', JNum (stl_version current))],
      au_after = JObj [(''status'', JStr (status_name (case ok_to ok of None \<Rightarrow> stl_status current | Some s \<Rightarrow> s))),
        (''transition'', JStr (transition_name (tr_id (ok_transition ok))))],
      au_reason = (if ai_reason input = Some [] then None else ai_reason input)\<rparr>"

definition carry_out ::
    "tenant_scope \<Rightarrow> apply_input \<Rightarrow> settlement_row \<Rightarrow> transition_ok \<Rightarrow> transition_outcome tx" where
  "carry_out scope input current ok =
     bind_tx (write_settlement input current ok) (\<lambda>version.
     bind_tx (emit_status_event scope input current ok) (\<lambda>_.
     bind_tx (emit_companions scope (ai_actor input) (ai_companions input)) (\<lambda>_.
     bind_tx (write_audit scope (transition_audit input current ok)) (\<lambda>_.
     ret \<lparr>out_transition = tr_id (ok_transition ok), out_from = stl_status current, out_to = ok_to ok,
          out_version = version\<rparr>))))"

definition transition_request_of :: "apply_input \<Rightarrow> settlement_row \<Rightarrow> transition_request" where
  "transition_request_of input current =
     \<lparr>rq_from = Some (stl_status current), rq_trigger = ai_trigger input, rq_guards = ai_guards input,
      rq_exceptionEnteredFrom = stl_exceptionEnteredFrom current\<rparr>"

definition illegal_companions :: "apply_input \<Rightarrow> transition_ok \<Rightarrow> companion_event list" where
  "illegal_companions input ok =
     map ce_type (filter (\<lambda>c. ce_type c \<notin> set (ok_permittedCompanions ok)) (ai_companions input))"

definition decide :: "apply_input \<Rightarrow> settlement_row \<Rightarrow> (transition_failure, transition_ok) result" where
  "decide input current =
     bind_result (case ai_expectedVersion input of
        Some v \<Rightarrow> if v \<noteq> stl_version current then Inl (Stale_Version v (stl_version current)) else Inr ()
      | None \<Rightarrow> Inr ()) (\<lambda>_.
     case evaluateTransition (transition_request_of input current) of
       Inl e \<Rightarrow> Inl (refusal_of current input e)
     | Inr ok \<Rightarrow> if illegal_companions input ok \<noteq> [] then Inl (Illegal_Companion (illegal_companions input ok))
                else Inr ok)"

definition applyTransition ::
    "tenant_scope \<Rightarrow> apply_input \<Rightarrow> (transition_failure, transition_outcome) result tx" where
  "applyTransition scope input =
     (let trespassing = filter (\<lambda>k. k \<in> set MACHINE_OWNED_COLUMNS) (map write_key (given_patch input)) in
      if trespassing \<noteq> [] then ret (Inl (Protected_Field trespassing))
      else bind_tx (get_db (find_visible db_settlements stl_scope (\<lambda>r. stl_id r = ai_settlementId input))) (\<lambda>rows.
        case rows of
          [] \<Rightarrow> ret (Inl Settlement_Not_Found)
        | current # _ \<Rightarrow>
            (case decide input current of
               Inl failure \<Rightarrow> ret (Inl failure)
             | Inr ok \<Rightarrow> bind_tx (carry_out scope input current ok) (\<lambda>outcome. ret (Inr outcome)))))"

section \<open>Creation\<close>

record create_input =
  ci_beneficiaryId :: string
  ci_destinationId :: "string option"
  ci_recipientAmountMinor :: int
  ci_fundingCurrency :: string
  ci_purposeCode :: "string option"
  ci_externalReference :: "string option"
  ci_idempotencyKey :: "string option"
  ci_replacesSettlementId :: "string option"
  ci_actor :: principal

definition new_settlement :: "tenant_scope \<Rightarrow> create_input \<Rightarrow> string \<Rightarrow> db \<Rightarrow> settlement_row" where
  "new_settlement scope input i db =
     \<lparr>stl_id = i, stl_scope = scope, stl_beneficiaryId = ci_beneficiaryId input,
      stl_destinationId = ci_destinationId input, stl_destinationVersionId = None,
      stl_recipientAmountMinor = ci_recipientAmountMinor input, stl_recipientAmountCurrency = INR,
      stl_fundingCurrency = ci_fundingCurrency input, stl_purposeCode = ci_purposeCode input,
      stl_quoteId = None, stl_authorizedTerms = None, stl_authorizedTermsHash = None,
      stl_status = DRAFT, stl_customerStatus = None, stl_exceptionEnteredFrom = None,
      stl_openExceptionCode = None, stl_externalReference = ci_externalReference input,
      stl_idempotencyKey = ci_idempotencyKey input,
      stl_replacesSettlementId = ci_replacesSettlementId input, stl_authorizedAt = None,
      stl_authorizedBy = None, stl_cancellationRequestedAt = None, stl_cancellationRequestedBy = None,
      stl_pointOfNoReturnAt = None, stl_settledAt = None, stl_reservationId = None,
      stl_drawdownId = None, stl_payoutAttemptId = None, stl_receiptId = None,
      stl_createdAt = db_now db, stl_updatedAt = db_now db, stl_createdBy = pr_id (ci_actor input),
      stl_version = 1\<rparr>"

definition createSettlement :: "tenant_scope \<Rightarrow> create_input \<Rightarrow> string tx" where
  "createSettlement scope input =
     bind_tx (new_id K_settlement) (\<lambda>i.
     bind_tx (get_db (new_settlement scope input i)) (\<lambda>row.
     bind_tx (insert_settlement row) (\<lambda>_.
     bind_tx (emit_event scope
       \<lparr>em_type = Ev_status E_settlement_created, em_subjectType = ''settlement'', em_subjectId = i,
        em_actor = ci_actor input,
        em_payload = [(''transition'', JStr ''T01''), (''to'', JStr ''DRAFT'')], em_deliver = True\<rparr>) (\<lambda>_.
     bind_tx (write_audit scope
       \<lparr>au_actor = ci_actor input, au_action = ''settlement.create'', au_subjectType = ''settlement'',
        au_subjectId = i, au_before = JNull,
        au_after = JObj [(''status'', JStr ''DRAFT''), (''transition'', JStr ''T01'')], au_reason = None\<rparr>) (\<lambda>_.
     ret i)))))"

section \<open>What the steps leave alone\<close>

text \<open>
  Two databases agree on everything a settlement transaction has no business with: the funding
  tables, the transaction and what it has queued for its ledger transfers.
\<close>

definition funding_unchanged :: "db \<Rightarrow> db \<Rightarrow> bool" where
  "funding_unchanged db db' \<longleftrightarrow>
     db_facilities db' = db_facilities db \<and> db_reservations db' = db_reservations db \<and>
     db_drawdowns db' = db_drawdowns db \<and> db_repayments db' = db_repayments db \<and>
     db_ledger db' = db_ledger db \<and> db_pendingTransfers db' = db_pendingTransfers db \<and>
     db_scope db' = db_scope db \<and> db_txid db' = db_txid db"

lemma stl_id_apply_write [simp]: "stl_id (apply_write w r) = stl_id r"
  by (cases w) simp_all

lemma stl_id_apply_writes [simp]: "stl_id (apply_writes p r) = stl_id r"
  unfolding apply_writes_def by (induction p arbitrary: r) simp_all

lemma apply_write_machine:
  "write_key w \<notin> set MACHINE_OWNED_COLUMNS \<Longrightarrow>
     stl_status (apply_write w r) = stl_status r \<and> stl_customerStatus (apply_write w r) = stl_customerStatus r \<and>
     stl_version (apply_write w r) = stl_version r \<and>
     stl_exceptionEnteredFrom (apply_write w r) = stl_exceptionEnteredFrom r \<and>
     stl_openExceptionCode (apply_write w r) = stl_openExceptionCode r"
  by (cases w) (simp_all add: MACHINE_OWNED_COLUMNS_def)

lemma apply_writes_machine:
  "list_all (\<lambda>w. write_key w \<notin> set MACHINE_OWNED_COLUMNS) p \<Longrightarrow>
     stl_status (apply_writes p r) = stl_status r \<and> stl_customerStatus (apply_writes p r) = stl_customerStatus r \<and>
     stl_version (apply_writes p r) = stl_version r \<and>
     stl_exceptionEnteredFrom (apply_writes p r) = stl_exceptionEnteredFrom r \<and>
     stl_openExceptionCode (apply_writes p r) = stl_openExceptionCode r"
  unfolding apply_writes_def by (induction p arbitrary: r) (simp_all add: apply_write_machine)

lemma emit_companions_effect:
  assumes "emit_companions scope actor cs db = Inr (u, db')"
  obtains n evs os where
    "db' = db\<lparr>db_next := n, db_events := db_events db @ evs, db_outbox := db_outbox db @ os\<rparr>"
    "map evt_type evs = map (Ev_companion \<circ> ce_type) cs"
  using assms
proof (induction cs arbitrary: db thesis)
  case Nil
  from Nil.prems(2) show ?case by (intro Nil.prems(1) [where n = "db_next db" and evs = "[]" and os = "[]"]) simp_all
next
  case (Cons c cs)
  from Cons.prems(2) obtain u1 db1 where
      e: "emit_event scope
        \<lparr>em_type = Ev_companion (ce_type c), em_subjectType = ce_subjectType c, em_subjectId = ce_subjectId c,
         em_actor = actor, em_payload = ce_payload c, em_deliver = True\<rparr> db = Inr (u1, db1)"
    and rest: "emit_companions scope actor cs db1 = Inr (u, db')"
    by (auto simp: bind_tx_Inr)
  from Cons.IH [OF _ rest] obtain n evs os where
      db': "db' = db1\<lparr>db_next := n, db_events := db_events db1 @ evs, db_outbox := db_outbox db1 @ os\<rparr>"
    and types: "map evt_type evs = map (Ev_companion \<circ> ce_type) cs"
    by metis
  from e obtain i n1 os1 where
      "db1 = db\<lparr>db_next := n1, db_events := db_events db @ [new_event scope
        \<lparr>em_type = Ev_companion (ce_type c), em_subjectType = ce_subjectType c, em_subjectId = ce_subjectId c,
         em_actor = actor, em_payload = ce_payload c, em_deliver = True\<rparr> i db], db_outbox := db_outbox db @ os1\<rparr>"
    by (rule emit_event_effect)
  with db' types show ?case
    by (intro Cons.prems(1) [where n = n and os = "os1 @ os"]) auto
qed

lemma emit_status_event_effect:
  assumes "emit_status_event scope input current ok db = Inr (u, db')"
  obtains n evs os where
    "db' = db\<lparr>db_next := n, db_events := db_events db @ evs, db_outbox := db_outbox db @ os\<rparr>"
    "map evt_type evs = (case ok_statusEvent ok of None \<Rightarrow> [] | Some e \<Rightarrow> [Ev_status e])"
    "list_all (\<lambda>ev. evt_scope ev = db_scope db \<and> evt_subjectType ev = ''settlement'' \<and>
      evt_subjectId ev = ai_settlementId input \<and> evt_txid ev = db_txid db) evs"
proof (cases "ok_statusEvent ok")
  case None
  with assms have "db' = db" by (simp add: emit_status_event_def)
  with None show ?thesis by (intro that [where n = "db_next db" and evs = "[]" and os = "[]"]) simp_all
next
  case (Some e)
  let ?payload = "spread
    [(''transition'', JStr (transition_name (tr_id (ok_transition ok)))),
     (''from'', JStr (status_name (stl_status current))),
     (''to'', json_opt (\<lambda>s. JStr (status_name s)) (ok_to ok))] (ai_statusEventPayload input)"
  let ?e = "\<lparr>em_type = Ev_status e, em_subjectType = ''settlement'', em_subjectId = ai_settlementId input,
    em_actor = ai_actor input, em_payload = ?payload, em_deliver = True\<rparr>"
  from Some assms have "emit_event scope ?e db = Inr (u, db')" by (simp add: emit_status_event_def)
  then obtain i n os where "scope = db_scope db"
    "db' = db\<lparr>db_next := n, db_events := db_events db @ [new_event scope ?e i db], db_outbox := db_outbox db @ os\<rparr>"
    by (rule emit_event_effect)
  with Some show ?thesis by (intro that [where n = n and evs = "[new_event scope ?e i db]" and os = os]) simp_all
qed

lemma protect_settlement_row_Inr:
  assumes "protect_settlement_row now old new = Inr r"
  shows "r = (if stl_status new \<noteq> stl_status old
      then new\<lparr>stl_version := stl_version old + 1, stl_updatedAt := now\<rparr> else new)"
    and "\<not> isTerminal (stl_status old)"
    and "stl_authorizedAt old = None \<or> \<not> instruction_changed old new"
    and "stl_pointOfNoReturnAt old = None \<or> stl_pointOfNoReturnAt new = stl_pointOfNoReturnAt old"
  using assms by (auto simp: protect_settlement_row_def bind_result_Inr)

lemma event_iff_moved:
  assumes "evaluateTransition rq = Inr ok"
  shows "ok_statusEvent ok = None \<longleftrightarrow> ok_to ok = None"
  using assms
  by (cases "rq_trigger rq") (auto simp: evaluateTransition_Inr row_defs)

lemma moves_or_resumes:
  assumes "evaluateTransition rq = Inr ok" "rq_from rq = Some s" "ok_to ok = Some to"
  shows "to \<noteq> s \<or> s = EXCEPTION"
  using assms
  by (cases "rq_trigger rq") (auto simp: evaluateTransition_Inr row_defs row_accepts_def)

lemma customerStatusColumn_code:
  "s \<noteq> EXCEPTION \<Longrightarrow> customerStatusColumn s c = customerStatusColumn s d"
  by (cases s) (simp_all add: customerStatusColumn_def projectCustomerStatus_def)

section \<open>What a transition does to its row\<close>

text \<open>
  The specification of one move: where the table says the settlement goes, the derived columns, the
  version, the bookkeeping of exceptions; and what protects the row it is applied to.
\<close>

definition follows_table :: "transition_ok \<Rightarrow> settlement_row \<Rightarrow> settlement_row \<Rightarrow> bool" where
  "follows_table ok old new \<longleftrightarrow>
     stl_id new = stl_id old \<and> stl_scope new = stl_scope old \<and>
     (case ok_to ok of
        None \<Rightarrow>
          stl_status new = stl_status old \<and> stl_customerStatus new = stl_customerStatus old \<and>
          stl_version new = stl_version old \<and>
          stl_exceptionEnteredFrom new = stl_exceptionEnteredFrom old \<and>
          stl_openExceptionCode new = stl_openExceptionCode old
      | Some to \<Rightarrow>
          stl_status new = to \<and> to \<noteq> stl_status old \<and> stl_version new = stl_version old + 1 \<and>
          stl_customerStatus new = customerStatusColumn to (stl_openExceptionCode new) \<and>
          (if to = EXCEPTION
           then stl_exceptionEnteredFrom new = Some (stl_status old) \<and> stl_status old \<in> set RESUMABLE_STATUSES
           else stl_exceptionEnteredFrom new = stl_exceptionEnteredFrom old \<and>
             stl_openExceptionCode new =
               (if stl_status old = EXCEPTION then None else stl_openExceptionCode old)))"

definition respects_row :: "settlement_row \<Rightarrow> settlement_row \<Rightarrow> bool" where
  "respects_row old new \<longleftrightarrow>
     new = old \<or>
     (\<not> isTerminal (stl_status old) \<and> (stl_authorizedAt old = None \<or> \<not> instruction_changed old new) \<and>
      (stl_pointOfNoReturnAt old = None \<or> stl_pointOfNoReturnAt new = stl_pointOfNoReturnAt old))"

lemma respects_row_protected:
  assumes "protect_settlement_row now old new = Inr r"
  shows "respects_row old r"
  using protect_settlement_row_Inr [OF assms] by (auto simp: respects_row_def instruction_changed_def)

lemma violation_None:
  assumes "settlement_violation db r = None"
  shows "stl_scope r = db_scope db" "0 < stl_recipientAmountMinor r"
    "case stl_exceptionEnteredFrom r of None \<Rightarrow> True | Some s \<Rightarrow> s \<in> set RESUMABLE_STATUSES"
  using assms by (auto simp: settlement_violation_def Let_def not_le split: option.splits)

lemma machine_patch_columns:
  assumes "list_all (\<lambda>w. write_key w \<notin> set MACHINE_OWNED_COLUMNS) (given_patch input)"
  shows "stl_id (machine_patch input current to now r) = stl_id r"
    "stl_status (machine_patch input current to now r) = to"
    "stl_customerStatus (machine_patch input current to now r) =
       customerStatusColumn to (if to = EXCEPTION then ai_exceptionCode input else None)"
    "stl_exceptionEnteredFrom (machine_patch input current to now r) =
       (if to = EXCEPTION then Some (stl_status current) else stl_exceptionEnteredFrom r)"
    "stl_openExceptionCode (machine_patch input current to now r) =
       (if to = EXCEPTION then ai_exceptionCode input
        else if stl_status current = EXCEPTION then None else stl_openExceptionCode r)"
  using apply_writes_machine [OF assms, of r] by (simp_all add: machine_patch_def Let_def)

lemma machine_move_follows:
  assumes patch: "list_all (\<lambda>w. write_key w \<notin> set MACHINE_OWNED_COLUMNS) (given_patch input)"
    and ev: "evaluateTransition (transition_request_of input current) = Inr ok" "ok_to ok = Some to"
    and p: "protect_settlement_row t current (machine_patch input current to now current) = Inr row"
    and v: "settlement_violation db row = None" and scope: "stl_scope current = db_scope db"
  shows "follows_table ok current row \<and> stl_version row = stl_version current + 1"
proof -
  note cols = machine_patch_columns [OF patch, of current to now current]
  have moved: "to \<noteq> stl_status current"
  proof
    assume eq: "to = stl_status current"
    with moves_or_resumes [OF ev(1) _ ev(2)] have ex: "to = EXCEPTION"
      by (simp add: transition_request_of_def)
    with eq cols(2,4) protect_settlement_row_Inr(1) [OF p]
    have "stl_exceptionEnteredFrom row = Some EXCEPTION" by simp
    with violation_None(3) [OF v] show False by (simp add: RESUMABLE_STATUSES_def)
  qed
  from protect_settlement_row_Inr(1) [OF p] cols moved
  have row: "row = (machine_patch input current to now current)
      \<lparr>stl_version := stl_version current + 1, stl_updatedAt := t\<rparr>" by simp
  have "stl_status current \<in> set RESUMABLE_STATUSES" if "to = EXCEPTION"
    using violation_None(3) [OF v] cols(4) that by (simp add: row)
  moreover have "stl_customerStatus row = customerStatusColumn to (stl_openExceptionCode row)"
    using cols(3,5) customerStatusColumn_code [of to None "stl_openExceptionCode row"]
    by (cases "to = EXCEPTION") (simp_all add: row)
  ultimately show ?thesis
    using cols(1,2,4,5) moved ev(2) violation_None(1) [OF v] scope
    unfolding follows_table_def by (cases "to = EXCEPTION") (simp_all add: row)
qed

lemma write_settlement_effect:
  assumes w: "write_settlement input current ok db = Inr (v, db')"
    and keyed: "keyed db_settlements stl_id db"
    and current: "current \<in> set (db_settlements db)" "stl_scope current = db_scope db"
      "stl_id current = ai_settlementId input"
    and patch: "list_all (\<lambda>w. write_key w \<notin> set MACHINE_OWNED_COLUMNS) (given_patch input)"
    and ev: "evaluateTransition (transition_request_of input current) = Inr ok"
  obtains xs ys row pend where "db_settlements db = xs @ current # ys"
    "db' = db\<lparr>db_settlements := xs @ row # ys, db_pendingPairing := db_pendingPairing db @ pend\<rparr>"
    "pend = [] \<and> ok_to ok = None \<or> pend = [(ai_settlementId input, ok_to ok \<noteq> None)]"
    "follows_table ok current row" "respects_row current row" "v = stl_version row"
proof -
  have same: "r = current" if "db_settlements db = xs @ r # ys" "stl_id r = ai_settlementId input" for r xs ys
  proof -
    from that(1) have "r \<in> set (db_settlements db)" by simp
    with keyed that(2) current show ?thesis
      unfolding keyed_def distinct_map by (metis inj_onD)
  qed
  show ?thesis
  proof (cases "ok_to ok")
    case (Some to)
    let ?p = "\<lambda>r. stl_id r = ai_settlementId input \<and> stl_version r = stl_version current"
    from w Some obtain u where v: "v = stl_version current + 1"
      and upd: "update_settlements ?p (machine_patch input current to (db_clock db)) db = Inr (u, db')"
      by (auto simp: write_settlement_def bind_tx_Inr)
    have p: "\<forall>r. ?p r \<longrightarrow> stl_id r = ai_settlementId input" by simp
    show ?thesis
    proof (cases rule: update_settlements_cases [OF upd keyed p])
      case 1
      with current show ?thesis by (auto simp: find_visible_def filter_empty_conv)
    next
      case (2 xs r ys row)
      then have r: "r = current" by (intro same) simp_all
      from machine_move_follows [OF patch ev Some] 2(4,5) current(2)
      have f: "follows_table ok current row \<and> stl_version row = stl_version current + 1"
        by (simp add: r)
      then have "stl_id row = ai_settlementId input \<and> stl_status row \<noteq> stl_status current"
        using Some current(3) by (simp add: follows_table_def)
      with 2 f respects_row_protected [OF 2(4)] Some show ?thesis
        by (intro that [where xs = xs and ys = ys and row = row and pend = "[(ai_settlementId input, True)]"]) (simp_all add: r v)
    qed
  next
    case None
    show ?thesis
    proof (cases "ai_patch input")
      case None
      with w \<open>ok_to ok = None\<close> have "db' = db" "v = stl_version current"
        by (auto simp: write_settlement_def)
      moreover obtain xs ys where "db_settlements db = xs @ current # ys"
        using current(1) by (metis split_list)
      ultimately show ?thesis using \<open>ok_to ok = None\<close>
        by (intro that [where xs = xs and ys = ys and row = current and pend = "[]"] db.equality) (simp_all add: follows_table_def respects_row_def)
    next
      case (Some writes)
      let ?p = "\<lambda>r. stl_id r = ai_settlementId input"
      from w None Some obtain u where v: "v = stl_version current"
        and upd: "update_settlements ?p (apply_writes writes) db = Inr (u, db')"
        by (auto simp: write_settlement_def bind_tx_Inr split: if_splits)
      have p: "\<forall>r. ?p r \<longrightarrow> stl_id r = ai_settlementId input" by simp
      show ?thesis
      proof (cases rule: update_settlements_cases [OF upd keyed p])
        case 1
        with current show ?thesis by (auto simp: find_visible_def filter_empty_conv)
      next
        case (2 xs r ys row)
        then have r: "r = current" by (intro same) simp_all
        have writes: "list_all (\<lambda>w. write_key w \<notin> set MACHINE_OWNED_COLUMNS) writes"
          using patch Some by (simp add: given_patch_def)
        from protect_settlement_row_Inr(1) [OF 2(4)] apply_writes_machine [OF writes, of current]
        have row: "row = apply_writes writes current" by (simp add: r)
        have "follows_table ok current row \<and> stl_version row = stl_version current"
          using apply_writes_machine [OF writes, of current] None violation_None(1) [OF 2(5)] current(2)
          by (simp add: follows_table_def row)
        with 2 respects_row_protected [OF 2(4)] None current(3) row show ?thesis
          by (intro that [where xs = xs and ys = ys and row = row and pend = "[(ai_settlementId input, False)]"]) (simp_all add: r v follows_table_def)
      qed
    qed
  qed
qed

section \<open>What a transition does to the database\<close>

definition status_count :: "db \<Rightarrow> string \<Rightarrow> event_row list \<Rightarrow> nat" where
  "status_count db i evs = length (filter (\<lambda>e.
     evt_scope e = db_scope db \<and> (case evt_type e of Ev_status _ \<Rightarrow> True | _ \<Rightarrow> False) \<and>
     evt_subjectType e = ''settlement'' \<and> evt_subjectId e = i \<and> evt_txid e = db_txid db) evs)"

lemma status_count_append [simp]: "status_count db i (es @ fs) = status_count db i es + status_count db i fs"
  by (simp add: status_count_def)

lemma status_events_of_count: "status_events_of i db = status_count db i (db_events db)"
  by (simp add: status_events_of_def status_count_def)

lemma status_count_companions: "map evt_type evs = map (Ev_companion \<circ> f) cs \<Longrightarrow> status_count db i evs = 0"
proof -
  assume types: "map evt_type evs = map (Ev_companion \<circ> f) cs"
  then have "evt_type e \<in> set (map (Ev_companion \<circ> f) cs)" if "e \<in> set evs" for e
    using that by (metis image_eqI set_map)
  then have "\<forall>e\<in>set evs. \<exists>c. evt_type e = Ev_companion c" by fastforce
  then show ?thesis by (auto simp: status_count_def filter_empty_conv)
qed

lemma carry_out_effect:
  assumes c: "carry_out scope input current ok db = Inr (out, db')"
    and keyed: "keyed db_settlements stl_id db"
    and current: "current \<in> set (db_settlements db)" "stl_scope current = db_scope db"
      "stl_id current = ai_settlementId input"
    and patch: "list_all (\<lambda>w. write_key w \<notin> set MACHINE_OWNED_COLUMNS) (given_patch input)"
    and ev: "evaluateTransition (transition_request_of input current) = Inr ok"
  obtains xs ys row pend where "db_settlements db = xs @ current # ys"
    "db_settlements db' = xs @ row # ys" "db_pendingPairing db' = db_pendingPairing db @ pend"
    "pend = [] \<and> ok_to ok = None \<or> pend = [(ai_settlementId input, ok_to ok \<noteq> None)]"
    "follows_table ok current row" "respects_row current row" "out_version out = stl_version row"
    "out_to out = ok_to ok" "out_from out = stl_status current" "funding_unchanged db db'"
    "status_events_of (ai_settlementId input) db' =
       status_events_of (ai_settlementId input) db + (if ok_to ok = None then 0 else 1)"
proof -
  from c obtain v db1 u2 db2 u3 db3 u4 where
      w: "write_settlement input current ok db = Inr (v, db1)"
    and e: "emit_status_event scope input current ok db1 = Inr (u2, db2)"
    and cs: "emit_companions scope (ai_actor input) (ai_companions input) db2 = Inr (u3, db3)"
    and a: "write_audit scope (transition_audit input current ok) db3 = Inr (u4, db')"
    and out: "out = \<lparr>out_transition = tr_id (ok_transition ok), out_from = stl_status current, out_to = ok_to ok,
      out_version = v\<rparr>"
    by (auto simp: carry_out_def bind_tx_Inr)
  from w keyed current patch ev obtain xs ys row pend where split: "db_settlements db = xs @ current # ys"
    and db1: "db1 = db\<lparr>db_settlements := xs @ row # ys, db_pendingPairing := db_pendingPairing db @ pend\<rparr>"
    and rest: "pend = [] \<and> ok_to ok = None \<or> pend = [(ai_settlementId input, ok_to ok \<noteq> None)]"
      "follows_table ok current row" "respects_row current row" "v = stl_version row"
    by (rule write_settlement_effect)
  from e obtain n1 evs1 os1 where
      db2: "db2 = db1\<lparr>db_next := n1, db_events := db_events db1 @ evs1, db_outbox := db_outbox db1 @ os1\<rparr>"
    and types1: "map evt_type evs1 = (case ok_statusEvent ok of None \<Rightarrow> [] | Some e \<Rightarrow> [Ev_status e])"
    and all1: "list_all (\<lambda>ev. evt_scope ev = db_scope db1 \<and> evt_subjectType ev = ''settlement'' \<and>
      evt_subjectId ev = ai_settlementId input \<and> evt_txid ev = db_txid db1) evs1"
    by (rule emit_status_event_effect)
  from cs obtain n2 evs2 os2 where
      db3: "db3 = db2\<lparr>db_next := n2, db_events := db_events db2 @ evs2, db_outbox := db_outbox db2 @ os2\<rparr>"
    and types2: "map evt_type evs2 = map (Ev_companion \<circ> ce_type) (ai_companions input)"
    by (rule emit_companions_effect)
  from a obtain au n3 where db': "db' = db3\<lparr>db_next := n3, db_audit := db_audit db3 @ [au]\<rparr>"
    by (rule write_audit_effect)
  note dbs = db' db3 db2 db1
  have "status_count db (ai_settlementId input) evs1 = (if ok_to ok = None then 0 else 1)"
  proof (cases "ok_statusEvent ok")
    case None
    with types1 event_iff_moved [OF ev] show ?thesis by (simp add: status_count_def)
  next
    case (Some e)
    with types1 obtain x where x: "evs1 = [x]" "evt_type x = Ev_status e" by auto
    from Some event_iff_moved [OF ev] have "ok_to ok \<noteq> None" by auto
    with x all1 show ?thesis by (simp add: status_count_def db1)
  qed
  moreover have "status_events_of i db' =
      status_events_of i db + status_count db i evs1 + status_count db i evs2" for i
    by (simp add: status_events_of_count status_count_def dbs)
  ultimately have "status_events_of (ai_settlementId input) db' =
      status_events_of (ai_settlementId input) db + (if ok_to ok = None then 0 else 1)"
    by (simp add: status_count_companions [OF types2])
  with split rest show ?thesis
    by (intro that [of xs ys row pend]) (simp_all add: dbs out funding_unchanged_def)
qed

lemma not_trespassing:
  "filter (\<lambda>k. k \<in> set MACHINE_OWNED_COLUMNS) (map write_key p) = [] \<longleftrightarrow>
     list_all (\<lambda>w. write_key w \<notin> set MACHINE_OWNED_COLUMNS) p"
  by (induction p) auto

lemma decide_Inr:
  assumes "decide input current = Inr ok"
  shows "evaluateTransition (transition_request_of input current) = Inr ok"
    "case ai_expectedVersion input of None \<Rightarrow> True | Some v \<Rightarrow> v = stl_version current"
    "list_all (\<lambda>c. ce_type c \<in> set (ok_permittedCompanions ok)) (ai_companions input)"
  using assms
  by (auto simp: decide_def bind_result_Inr illegal_companions_def list_all_iff filter_empty_conv
      split: option.splits if_splits sum.splits)

lemma applyTransition_refused:
  assumes "applyTransition scope input db = Inr (Inl failure, db')"
  shows "db' = db"
  using assms
  by (auto simp: applyTransition_def Let_def bind_tx_Inr split: if_splits list.splits sum.splits)

lemma applyTransition_applied:
  assumes "applyTransition scope input db = Inr (Inr out, db')" and keyed: "keyed db_settlements stl_id db"
  obtains current ok xs ys row pend where "stl_id current = ai_settlementId input" "stl_scope current = db_scope db"
    "decide input current = Inr ok"
    "db_settlements db = xs @ current # ys" "db_settlements db' = xs @ row # ys"
    "db_pendingPairing db' = db_pendingPairing db @ pend"
    "pend = [] \<and> ok_to ok = None \<or> pend = [(ai_settlementId input, ok_to ok \<noteq> None)]"
    "follows_table ok current row" "respects_row current row" "out_version out = stl_version row"
    "out_to out = ok_to ok" "out_from out = stl_status current" "funding_unchanged db db'"
    "status_events_of (ai_settlementId input) db' =
       status_events_of (ai_settlementId input) db + (if ok_to ok = None then 0 else 1)"
proof -
  from assms(1) obtain current cs ok where
      patch: "list_all (\<lambda>w. write_key w \<notin> set MACHINE_OWNED_COLUMNS) (given_patch input)"
    and rows: "find_visible db_settlements stl_scope (\<lambda>r. stl_id r = ai_settlementId input) db = current # cs"
    and d: "decide input current = Inr ok" and c: "carry_out scope input current ok db = Inr (out, db')"
    by (auto simp: applyTransition_def Let_def bind_tx_Inr not_trespassing split: if_splits list.splits sum.splits)
  have "current \<in> set (find_visible db_settlements stl_scope (\<lambda>r. stl_id r = ai_settlementId input) db)"
    by (simp add: rows)
  then have current: "current \<in> set (db_settlements db)" "stl_scope current = db_scope db"
      "stl_id current = ai_settlementId input"
    by (simp_all add: find_visible_def)
  show ?thesis
    by (rule carry_out_effect [OF c keyed current patch decide_Inr(1) [OF d]])
      (rule that [OF current(3,2) d])
qed

lemma respects_row_id: "respects_row r r" by (simp add: respects_row_def)

end
