(* ===== verification/Transition_Properties.thy ===== *)
theory Transition_Properties
  imports Transition_Service
begin

text \<open>
  What the transition service guarantees: refusals that change nothing, columns no caller can write,
  transitions that follow the table, the pairing of status changes and status events at commit, the
  derived columns and the frozen instruction. The sample database is a settlement just created.
\<close>

section \<open>A sample database\<close>

definition sample_scope :: tenant_scope where
  "sample_scope = \<lparr>ts_workspace = ''ws_1'', ts_environment = Sandbox\<rparr>"

definition sample_actor :: principal where
  "sample_actor = \<lparr>pr_type = ''user'', pr_id = ''usr_1''\<rparr>"

definition empty_db :: db where
  "empty_db =
     \<lparr>db_now = 0, db_clock = 0, db_scope = sample_scope, db_txid = 0,
      db_bodies = (\<lambda>t n. string_of_int (int t) @ ''.'' @ string_of_int (int n)), db_next = 0,
      db_settlements = [], db_facilities = [], db_reservations = [], db_drawdowns = [],
      db_repayments = [], db_ledger = [], db_events = [], db_outbox = [], db_audit = [],
      db_pendingPairing = [], db_pendingTransfers = []\<rparr>"

definition sample_create :: create_input where
  "sample_create =
     \<lparr>ci_beneficiaryId = ''ben_1'', ci_destinationId = None, ci_recipientAmountMinor = 500000,
      ci_fundingCurrency = ''USDT'', ci_purposeCode = Some ''P0001'', ci_externalReference = None,
      ci_idempotencyKey = None, ci_replacesSettlementId = None, ci_actor = sample_actor\<rparr>"

definition sample_db :: db where
  "sample_db = snd (with_tenant sample_scope 1000 1001 (createSettlement sample_scope sample_create) empty_db)"

definition sample_apply :: "trigger \<Rightarrow> guard_context \<Rightarrow> apply_input" where
  "sample_apply t g =
     \<lparr>ai_settlementId = ''stl_1.0'', ai_trigger = t, ai_actor = sample_actor, ai_guards = g,
      ai_expectedVersion = Some 1, ai_companions = [], ai_patch = None, ai_statusEventPayload = [],
      ai_exceptionCode = None, ai_reason = None\<rparr>"

definition tx_value :: "(exn, 'a \<times> db) result \<Rightarrow> 'a option" where
  "tx_value r = (case r of Inl _ \<Rightarrow> None | Inr (x, _) \<Rightarrow> Some x)"

lemma tx_valueE: "tx_value r = Some x \<Longrightarrow> \<exists>db'. r = Inr (x, db')"
  by (auto simp: tx_value_def split: sum.splits)

lemma tx_granted: "map_option isl (tx_value r) = Some False \<Longrightarrow> \<exists>v db'. r = Inr (Inr v, db')"
  by (auto dest!: tx_valueE simp: isl_def split: sum.splits) (metis obj_sumE)

section \<open>Properties\<close>

text \<open>
  A refusal is a value, not a rollback: whatever the reason, a refused transition leaves the whole
  database as it was, so the caller may record the refusal in the same transaction.
\<close>

theorem refusal_changes_nothing:
  assumes "applyTransition scope input db = Inr (Inl failure, db')"
  shows "db' = db"
  using assms by (rule applyTransition_refused)

theorem refusal_changes_nothing_witness:
  "\<exists>db'. applyTransition sample_scope (sample_apply T_run_preflight (\<lambda>_. None)) sample_db =
      Inr (Inl (Refused_Guard_Unanswered T02 [G_beneficiary_amount_purpose_present]), db') \<and> db' = sample_db"
proof -
  have "tx_value (applyTransition sample_scope (sample_apply T_run_preflight (\<lambda>_. None)) sample_db) =
      Some (Inl (Refused_Guard_Unanswered T02 [G_beneficiary_amount_purpose_present]))"
    by code_simp
  then obtain db' where "applyTransition sample_scope (sample_apply T_run_preflight (\<lambda>_. None)) sample_db =
      Inr (Inl (Refused_Guard_Unanswered T02 [G_beneficiary_amount_purpose_present]), db')"
    by (blast dest: tx_valueE)
  with refusal_changes_nothing [OF this] show ?thesis by simp
qed


text \<open>
  C15. An applied transition is what the table says and nothing else: one settlement of the bound tenant,
  found by its id, moves by a row that the machine accepts from its status, with the derived columns,
  the version and the exception bookkeeping of the specification; every other settlement, of any
  tenant, and the whole funding side are untouched; and its status events in this transaction grow
  by one exactly when the status moved.
\<close>

theorem applied_transition_follows_table:
  assumes "keyed db_settlements stl_id db" "applyTransition scope input db = Inr (Inr out, db')"
  shows "\<exists>current ok row xs ys. stl_id current = ai_settlementId input \<and> stl_scope current = db_scope db \<and>
    evaluateTransition (transition_request_of input current) = Inr ok \<and>
    db_settlements db = xs @ current # ys \<and> db_settlements db' = xs @ row # ys \<and>
    follows_table ok current row \<and> respects_row current row \<and>
    out_from out = stl_status current \<and> out_to out = ok_to ok \<and> out_version out = stl_version row \<and>
    funding_unchanged db db' \<and>
    status_events_of (stl_id current) db' = status_events_of (stl_id current) db + (if ok_to ok = None then 0 else 1)"
proof (cases rule: applyTransition_applied [OF assms(2,1)])
  case (1 current ok xs ys row pend)
  then show ?thesis
    by (intro exI [of _ current] exI [of _ ok] exI [of _ row] exI [of _ xs] exI [of _ ys] conjI)
      (simp_all add: decide_Inr(1))
qed

theorem applied_transition_follows_table_witness:
  "\<exists>out db'. applyTransition sample_scope (sample_apply T_run_preflight (\<lambda>_. Some True)) sample_db = Inr (Inr out, db') \<and>
     out_from out = DRAFT \<and> out_version out = 2 \<and> map stl_status (db_settlements db') = [PREFLIGHTING]"
proof -
  let ?in = "sample_apply T_run_preflight (\<lambda>_. Some True)"
  have keyed: "keyed db_settlements stl_id sample_db" by code_simp
  have "tx_value (applyTransition sample_scope ?in sample_db) =
      Some (Inr \<lparr>out_transition = T02, out_from = DRAFT, out_to = Some PREFLIGHTING, out_version = 2\<rparr>)"
    by code_simp
  then obtain out db' where run: "applyTransition sample_scope ?in sample_db = Inr (Inr out, db')"
    and out: "out = \<lparr>out_transition = T02, out_from = DRAFT, out_to = Some PREFLIGHTING, out_version = 2\<rparr>"
    by (blast dest: tx_valueE)
  have one: "map stl_status (db_settlements sample_db) = [DRAFT]" by code_simp
  from applied_transition_follows_table [OF keyed run] obtain current ok row xs ys where
      "db_settlements sample_db = xs @ current # ys" "db_settlements db' = xs @ row # ys"
      "follows_table ok current row" "ok_to ok = Some PREFLIGHTING"
    by (auto simp: out)
  with one have "map stl_status (db_settlements db') = [PREFLIGHTING]"
    by (auto simp: follows_table_def append_eq_Cons_conv Cons_eq_append_conv map_eq_Cons_conv)
  with run out show ?thesis by auto
qed

definition events_dated :: "db \<Rightarrow> bool" where
  "events_dated db \<longleftrightarrow> list_all (\<lambda>e. evt_txid e \<le> db_txid db) (db_events db)"

lemma begin_tenant_fields [simp]:
  "db_settlements (begin_tenant scope now clock db) = db_settlements db"
  "db_facilities (begin_tenant scope now clock db) = db_facilities db"
  "db_reservations (begin_tenant scope now clock db) = db_reservations db"
  "db_drawdowns (begin_tenant scope now clock db) = db_drawdowns db"
  "db_repayments (begin_tenant scope now clock db) = db_repayments db"
  "db_ledger (begin_tenant scope now clock db) = db_ledger db"
  "db_events (begin_tenant scope now clock db) = db_events db"
  "db_scope (begin_tenant scope now clock db) = scope"
  "db_txid (begin_tenant scope now clock db) = db_txid db + 1"
  "db_pendingPairing (begin_tenant scope now clock db) = []"
  "db_pendingTransfers (begin_tenant scope now clock db) = []"
  by (simp_all add: begin_tenant_def)

lemma no_status_events_yet: "events_dated db \<Longrightarrow> status_events_of i (begin_tenant scope now clock db) = 0"
  by (auto simp: status_events_of_def events_dated_def list_all_iff filter_empty_conv)

lemma keyed_begin [simp]: "keyed db_settlements stl_id (begin_tenant scope now clock db) = keyed db_settlements stl_id db"
  by (simp add: keyed_def)

text \<open>
  C16. The pairing rule never trips on the service: from the start of a transaction, a transition that is
  carried out, the cancellation annotation included, leaves a database that passes the checks at
  commit.
\<close>

theorem carried_out_transition_commits:
  assumes "keyed db_settlements stl_id db" "events_dated db"
    and "applyTransition scope input (begin_tenant scope now clock db) = Inr (r, db')"
  shows "with_tenant scope now clock (applyTransition scope input) db = (Inr r, db')"
proof -
  let ?db = "begin_tenant scope now clock db"
  have "commit_checks db'"
  proof (cases r)
    case (Inl failure)
    with assms(3) have "db' = ?db" by (auto dest: applyTransition_refused)
    then show ?thesis by (simp add: commit_checks_def)
  next
    case (Inr out)
    with assms(3) have run: "applyTransition scope input ?db = Inr (Inr out, db')" by simp
    have keyed: "keyed db_settlements stl_id ?db" using assms(1) by simp
    show ?thesis
    proof (cases rule: applyTransition_applied [OF run keyed])
      case (1 current ok xs ys row pend)
      from 1(6,7,13,14) show ?thesis
        by (auto simp: commit_checks_def pairing_holds_def funding_unchanged_def no_status_events_yet [OF assms(2)])
    qed
  qed
  with assms(3) show ?thesis by (simp add: with_tenant_def Let_def)
qed

theorem carried_out_transition_commits_witness:
  "fst (with_tenant sample_scope 2000 2001
      (applyTransition sample_scope (sample_apply T_run_preflight (\<lambda>_. Some True))) sample_db) =
    Inr (Inr \<lparr>out_transition = T02, out_from = DRAFT, out_to = Some PREFLIGHTING, out_version = 2\<rparr>)"
proof -
  let ?in = "sample_apply T_run_preflight (\<lambda>_. Some True)"
  let ?out = "\<lparr>out_transition = T02, out_from = DRAFT, out_to = Some PREFLIGHTING, out_version = 2\<rparr>"
  have pre: "keyed db_settlements stl_id sample_db" "events_dated sample_db" by code_simp+
  have "tx_value (applyTransition sample_scope ?in (begin_tenant sample_scope 2000 2001 sample_db)) = Some (Inr ?out)"
    by code_simp
  then obtain db' where run: "applyTransition sample_scope ?in (begin_tenant sample_scope 2000 2001 sample_db) =
      Inr (Inr ?out, db')"
    by (blast dest: tx_valueE)
  from carried_out_transition_commits [OF pre run] show ?thesis by simp
qed

text \<open>
  The service cannot be bypassed: a transaction that only updates a settlement, whatever its patch
  writes, commits only if no status changed.
\<close>

theorem raw_status_write_refused:
  assumes "keyed db_settlements stl_id db" "events_dated db"
    and "with_tenant scope now clock (update_settlements (\<lambda>r. stl_id r = i) patch) db = (Inr u, db')"
  shows "map stl_status (db_settlements db') = map stl_status (db_settlements db)"
proof -
  let ?db = "begin_tenant scope now clock db" and ?p = "\<lambda>r. stl_id r = i"
  from assms(3) have upd: "update_settlements ?p patch ?db = Inr (u, db')" and ok: "commit_checks db'"
    by (auto simp: with_tenant_def Let_def split: sum.splits if_splits)
  have keyed: "keyed db_settlements stl_id ?db" using assms(1) by simp
  have p: "\<forall>r. ?p r \<longrightarrow> stl_id r = i" by simp
  show ?thesis
  proof (cases rule: update_settlements_cases [OF upd keyed p])
    case 1
    then show ?thesis by simp
  next
    case (2 xs r ys r')
    have "status_events_of j db' = status_events_of j ?db" for j
      by (simp add: 2(6) status_events_of_def)
    with ok no_status_events_yet [OF assms(2), of _ scope now clock] have "stl_status r' = stl_status r"
      by (auto simp: 2(6) commit_checks_def pairing_holds_def split: if_splits)
    with 2(1) show ?thesis by (simp add: 2(6))
  qed
qed

theorem raw_status_write_refused_witness:
  "\<exists>db'. with_tenant sample_scope 2000 2001
       (update_settlements (\<lambda>r. stl_id r = ''stl_1.0'') (\<lambda>r. r\<lparr>stl_purposeCode := None\<rparr>)) sample_db = (Inr (), db') \<and>
     map stl_status (db_settlements db') = [DRAFT] \<and>
     fst (with_tenant sample_scope 2000 2001
       (update_settlements (\<lambda>r. stl_id r = ''stl_1.0'') (\<lambda>r. r\<lparr>stl_status := SETTLED\<rparr>)) sample_db) =
     Inl Deferred_Violation"
proof -
  let ?run = "with_tenant sample_scope 2000 2001
    (update_settlements (\<lambda>r. stl_id r = ''stl_1.0'') (\<lambda>r. r\<lparr>stl_purposeCode := None\<rparr>)) sample_db"
  have pre: "keyed db_settlements stl_id sample_db" "events_dated sample_db" by code_simp+
  have "fst ?run = Inr ()" by code_simp
  then obtain db' where run: "?run = (Inr (), db')" by (metis prod.collapse)
  moreover have "map stl_status (db_settlements sample_db) = [DRAFT]" by code_simp
  moreover have "fst (with_tenant sample_scope 2000 2001
      (update_settlements (\<lambda>r. stl_id r = ''stl_1.0'') (\<lambda>r. r\<lparr>stl_status := SETTLED\<rparr>)) sample_db) =
     Inl Deferred_Violation"
    by code_simp
  ultimately show ?thesis using raw_status_write_refused [OF pre run] by auto
qed

text \<open>A settlement whose derived columns are what the code derives.\<close>

definition coherent_row :: "settlement_row \<Rightarrow> bool" where
  "coherent_row r \<longleftrightarrow>
     stl_customerStatus r = customerStatusColumn (stl_status r) (stl_openExceptionCode r) \<and>
     (if stl_status r = EXCEPTION
      then (case stl_exceptionEnteredFrom r of None \<Rightarrow> False | Some s \<Rightarrow> s \<in> set RESUMABLE_STATUSES)
      else stl_openExceptionCode r = None)"

lemma follows_table_coherent: "follows_table ok old new \<Longrightarrow> coherent_row old \<Longrightarrow> coherent_row new"
  by (auto simp: follows_table_def coherent_row_def split: option.splits if_splits)

lemma applyTransition_coherent:
  assumes "keyed db_settlements stl_id db" "list_all coherent_row (db_settlements db)"
    and "applyTransition scope input db = Inr (r, db')"
  shows "keyed db_settlements stl_id db' \<and> list_all coherent_row (db_settlements db')"
proof (cases r)
  case (Inl failure)
  with assms show ?thesis by (auto dest: applyTransition_refused)
next
  case (Inr out)
  with assms(3) have run: "applyTransition scope input db = Inr (Inr out, db')" by simp
  show ?thesis
  proof (cases rule: applyTransition_applied [OF run assms(1)])
    case (1 current ok xs ys row pend)
    have "stl_id row = stl_id current" using 1(8) by (simp add: follows_table_def)
    moreover have "coherent_row row"
      using follows_table_coherent [OF 1(8)] assms(2) by (simp add: 1(4))
    ultimately show ?thesis using assms(1,2) by (simp add: 1(4,5) keyed_def)
  qed
qed

text \<open>
  C18. The derived columns are always derived: where every settlement carries the customer status of its
  status and open code, an origin to resume to while it is in exception and no open code otherwise,
  this still holds after any transition, applied or refused.
\<close>

theorem derived_columns_stay_derived:
  assumes "keyed db_settlements stl_id db" "list_all coherent_row (db_settlements db)"
    and "applyTransition scope input db = Inr (r, db')"
  shows "keyed db_settlements stl_id db' \<and> list_all coherent_row (db_settlements db')"
  using assms by (rule applyTransition_coherent)

theorem derived_columns_stay_derived_witness:
  "\<exists>r db'. applyTransition sample_scope (sample_apply T_run_preflight (\<lambda>_. Some True)) sample_db = Inr (r, db') \<and>
     list_all coherent_row (db_settlements db')"
proof -
  let ?in = "sample_apply T_run_preflight (\<lambda>_. Some True)"
  have pre: "keyed db_settlements stl_id sample_db" "list_all coherent_row (db_settlements sample_db)"
    by code_simp+
  have "tx_value (applyTransition sample_scope ?in sample_db) \<noteq> None" by code_simp
  then obtain r db' where run: "applyTransition sample_scope ?in sample_db = Inr (r, db')"
    by (auto dest: tx_valueE)
  with derived_columns_stay_derived [OF pre run] show ?thesis by blast
qed



end
