(* ===== verification/Liquidity_Service.thy ===== *)
theory Liquidity_Service
  imports Store_Tables "HOL-Library.Product_Lexorder"
begin

text \<open>
  \<open>packages/app/src/liquidity.service.ts\<close>: reading and locking facilities, the ledger movement that
  carries the projection with it, reservations, repayments, the projection check and the creation of
  a facility. A refusal is \<open>Inl\<close> of its reason inside a transaction that goes on; a \<open>throw\<close> is an
  exception of the transaction. Where SQL leaves the order of equal rows open, the model takes the
  order of the table; identifiers are compared byte by byte.
\<close>

section \<open>Facilities\<close>

record facility_view =
  fv_id :: string
  fv_currency :: currency_code
  fv_status :: facility_status
  fv_position :: facility_position
  fv_available :: money
  fv_version :: int

definition position_of :: "facility_row \<Rightarrow> facility_position" where
  "position_of raw =
     \<lparr>pos_currency = fac_currency raw, pos_limit = money (fac_currency raw) (fac_limitMinor raw),
      pos_drawn = money (fac_currency raw) (fac_drawnMinor raw),
      pos_reserved = money (fac_currency raw) (fac_reservedMinor raw)\<rparr>"

definition liquidity_tx :: "(liquidity_error, 'a) result \<Rightarrow> 'a tx" where
  "liquidity_tx r = (case r of Inl e \<Rightarrow> throw (JS_Liquidity_Error e) | Inr x \<Rightarrow> ret x)"

definition toFacilityRow :: "facility_row \<Rightarrow> facility_view tx" where
  "toFacilityRow raw =
     bind_tx (liquidity_tx (availableToSettle (position_of raw))) (\<lambda>available.
     ret \<lparr>fv_id = fac_id raw, fv_currency = fac_currency raw, fv_status = fac_status raw,
          fv_position = position_of raw, fv_available = available, fv_version = fac_version raw\<rparr>)"

definition readFacility :: "string \<Rightarrow> facility_view option tx" where
  "readFacility facilityId =
     bind_tx (get_db (find_visible db_facilities fac_scope (\<lambda>r. fac_id r = facilityId))) (\<lambda>rows.
     case rows of
       [] \<Rightarrow> ret None
     | raw # _ \<Rightarrow> bind_tx (toFacilityRow raw) (\<lambda>v. ret (Some v)))"

text \<open>The row lock of \<open>FOR UPDATE\<close> is what makes transactions run one after the other; the read is the same.\<close>

definition lockFacility :: "string \<Rightarrow> facility_view option tx" where
  "lockFacility facilityId = readFacility facilityId"

fun map_tx :: "('a \<Rightarrow> 'b tx) \<Rightarrow> 'a list \<Rightarrow> 'b list tx" where
  "map_tx f [] = ret []"
| "map_tx f (x # xs) = bind_tx (f x) (\<lambda>y. bind_tx (map_tx f xs) (\<lambda>ys. ret (y # ys)))"

definition listFacilities :: "tenant_scope \<Rightarrow> currency_code \<Rightarrow> facility_view list tx" where
  "listFacilities scope c =
     bind_tx (get_db (find_visible db_facilities fac_scope
       (\<lambda>r. fac_scope r = scope \<and> fac_currency r = c \<and> fac_status r = F_ACTIVE))) (\<lambda>rows.
     map_tx toFacilityRow (sort_key (\<lambda>r. (fac_createdAt r, fac_id r)) rows))"

section \<open>The ledger\<close>

definition ledger_row_of ::
    "tenant_scope \<Rightarrow> string \<Rightarrow> string \<Rightarrow> string \<Rightarrow> ledger_movement \<Rightarrow> ledger_account \<Rightarrow> ledger_direction \<Rightarrow>
     money \<Rightarrow> string \<Rightarrow> string \<Rightarrow> principal \<Rightarrow> db \<Rightarrow> ledger_row" where
  "ledger_row_of scope i facilityId transferId movement account direction amount subjectType subjectId actor db =
     \<lparr>le_id = i, le_facilityId = facilityId, le_transferId = transferId, le_movement = movement,
      le_account = account, le_direction = direction, le_currency = currency amount,
      le_minorUnits = minorUnits amount, led_scope = scope, led_subjectType = subjectType,
      led_subjectId = subjectId, led_createdAt = db_now db, led_createdBy = pr_id actor\<rparr>"

definition post_entry ::
    "tenant_scope \<Rightarrow> string \<Rightarrow> string \<Rightarrow> ledger_movement \<Rightarrow> ledger_account \<Rightarrow> ledger_direction \<Rightarrow>
     money \<Rightarrow> string \<Rightarrow> string \<Rightarrow> principal \<Rightarrow> unit tx" where
  "post_entry scope facilityId transferId movement account direction amount subjectType subjectId actor =
     bind_tx (new_id K_ledgerEntry) (\<lambda>i.
     bind_tx (get_db (ledger_row_of scope i facilityId transferId movement account direction amount
       subjectType subjectId actor)) (\<lambda>row.
     insert_ledger row))"

definition movement_delta :: "ledger_account \<Rightarrow> ledger_account \<Rightarrow> money \<Rightarrow> ledger_account \<Rightarrow> int" where
  "movement_delta debit credit amount account =
     (if debit = account then minorUnits amount else 0) - (if credit = account then minorUnits amount else 0)"

definition postMovement ::
    "tenant_scope \<Rightarrow> string \<Rightarrow> ledger_movement \<Rightarrow> money \<Rightarrow> string \<Rightarrow> string \<Rightarrow> principal \<Rightarrow> string tx" where
  "postMovement scope facilityId movement amount subjectType subjectId actor =
     (case ledgerPairFor movement of
        None \<Rightarrow> throw JS_Type_Error
      | Some (debit, credit) \<Rightarrow>
          bind_tx (new_id K_ledgerTransfer) (\<lambda>transferId.
          bind_tx (post_entry scope facilityId transferId movement debit Debit amount subjectType subjectId actor) (\<lambda>_.
          bind_tx (post_entry scope facilityId transferId movement credit Credit amount subjectType subjectId actor) (\<lambda>_.
          bind_tx (update_facilities (\<lambda>r. fac_id r = facilityId)
            (\<lambda>r. r\<lparr>fac_drawnMinor := fac_drawnMinor r + movement_delta debit credit amount Acc_drawn,
                   fac_reservedMinor := fac_reservedMinor r + movement_delta debit credit amount Acc_reserved\<rparr>)) (\<lambda>_.
          ret transferId)))))"

section \<open>Reservations\<close>

record reserve_input =
  ri_facilityId :: string
  ri_settlementId :: string
  ri_amount :: money
  ri_ttlSeconds :: int
  ri_actor :: principal

datatype reserve_refusal =
    RR_Facility_Not_Found | RR_Facility_Not_Active | RR_Insufficient_Availability
  | RR_Currency_Mismatch | RR_Already_Reserved

record reserve_ok =
  rok_reservationId :: string
  rok_available :: money
  rok_expiresAt :: int

definition new_reservation :: "tenant_scope \<Rightarrow> string \<Rightarrow> reserve_input \<Rightarrow> string \<Rightarrow> int \<Rightarrow> db \<Rightarrow> reservation_row" where
  "new_reservation scope facilityId input i expiresAt db =
     \<lparr>rsv_id = i, rsv_scope = scope, rsv_facilityId = facilityId, rsv_settlementId = ri_settlementId input,
      rsv_amountMinor = minorUnits (ri_amount input), rsv_amountCurrency = currency (ri_amount input),
      rsv_status = V_ACTIVE, rsv_expiresAt = expiresAt, rsv_createdAt = db_now db, rsv_releasedAt = None,
      rsv_releasedReason = None, rsv_consumedAt = None\<rparr>"

definition grant_reservation :: "tenant_scope \<Rightarrow> reserve_input \<Rightarrow> facility_view \<Rightarrow> reserve_ok tx" where
  "grant_reservation scope input facility =
     bind_tx (get_db db_now) (\<lambda>now.
     let expiresAt = now + ri_ttlSeconds input * 1000 in
     bind_tx (new_id K_liquidityReservation) (\<lambda>i.
     bind_tx (get_db (new_reservation scope (fv_id facility) input i expiresAt)) (\<lambda>row.
     bind_tx (insert_reservation row) (\<lambda>_.
     bind_tx (postMovement scope (fv_id facility) reservation_created (ri_amount input)
       ''liquidity_reservation'' i (ri_actor input)) (\<lambda>_.
     bind_tx (emit_event scope
       \<lparr>em_type = Ev_companion C_facility_reservation_created, em_subjectType = ''settlement'',
        em_subjectId = ri_settlementId input, em_actor = ri_actor input,
        em_payload = [(''reservation_id'', JStr i),
          (''amount_minor'', JStr (string_of_int (minorUnits (ri_amount input))))],
        em_deliver = True\<rparr>) (\<lambda>_.
     bind_tx (lockFacility (fv_id facility)) (\<lambda>after.
     case after of
       None \<Rightarrow> throw JS_Type_Error
     | Some view \<Rightarrow> ret \<lparr>rok_reservationId = i, rok_available = fv_available view, rok_expiresAt = expiresAt\<rparr>)))))))"

definition reserveLiquidity :: "tenant_scope \<Rightarrow> reserve_input \<Rightarrow> (reserve_refusal, reserve_ok) result tx" where
  "reserveLiquidity scope input =
     (if ri_ttlSeconds input \<le> 0 then throw JS_Range_Error
      else bind_tx (lockFacility (ri_facilityId input)) (\<lambda>facility.
        case facility of
          None \<Rightarrow> ret (Inl RR_Facility_Not_Found)
        | Some facility \<Rightarrow>
            bind_tx (liquidity_tx (canReserve (fv_position facility) (fv_status facility) (ri_amount input))) (\<lambda>permitted.
            case permitted of
              Facility_Not_Active \<Rightarrow> ret (Inl RR_Facility_Not_Active)
            | Insufficient_Availability \<Rightarrow> ret (Inl RR_Insufficient_Availability)
            | Reserve_Currency_Mismatch \<Rightarrow> ret (Inl RR_Currency_Mismatch)
            | Reserve_Ok \<Rightarrow>
                bind_tx (get_db (find_visible db_reservations rsv_scope
                  (\<lambda>r. rsv_settlementId r = ri_settlementId input \<and> rsv_status r = V_ACTIVE))) (\<lambda>existing.
                if existing \<noteq> [] then ret (Inl RR_Already_Reserved)
                else bind_tx (grant_reservation scope input facility) (\<lambda>ok. ret (Inr ok))))))"

datatype reservation_failure = RV_Reservation_Not_Found | RV_Consumed_Cannot_Be_Released | RV_Invalid_Transition

record reservation_done =
  rd_reservationId :: string
  rd_noop :: bool

text \<open>\<open>ORDER BY (status = 'ACTIVE') DESC, created_at DESC LIMIT 1\<close>.\<close>

fun latest_reservation :: "reservation_row list \<Rightarrow> reservation_row option" where
  "latest_reservation [] = None"
| "latest_reservation (r # rs) =
     (case latest_reservation rs of
        None \<Rightarrow> Some r
      | Some best \<Rightarrow>
          if (rsv_status r \<noteq> V_ACTIVE \<and> rsv_status best = V_ACTIVE) \<or>
             ((rsv_status r = V_ACTIVE) = (rsv_status best = V_ACTIVE) \<and> rsv_createdAt r < rsv_createdAt best)
          then Some best else Some r)"

definition lockReservation :: "string \<Rightarrow> reservation_row option tx" where
  "lockReservation settlementId =
     bind_tx (get_db (find_visible db_reservations rsv_scope (\<lambda>r. rsv_settlementId r = settlementId))) (\<lambda>rows.
     ret (latest_reservation rows))"

record release_input =
  rl_settlementId :: string
  rl_reason :: release_reason
  rl_actor :: principal
  rl_expired :: bool

definition reason_name :: "release_reason \<Rightarrow> string" where
  "reason_name r =
     (case r of
        settlement_cancelled \<Rightarrow> ''settlement_cancelled''
      | settlement_failed \<Rightarrow> ''settlement_failed''
      | drawdown_failed \<Rightarrow> ''drawdown_failed''
      | ttl_expired \<Rightarrow> ''ttl_expired'')"

definition money_of_reservation :: "reservation_row \<Rightarrow> money" where
  "money_of_reservation r = money (rsv_amountCurrency r) (rsv_amountMinor r)"

definition perform_release ::
    "tenant_scope \<Rightarrow> release_input \<Rightarrow> reservation_row \<Rightarrow> reservation_ok \<Rightarrow> reservation_done tx" where
  "perform_release scope input reservation evaluated =
     bind_tx (get_db db_now) (\<lambda>now.
     bind_tx (update_reservations (\<lambda>r. rsv_id r = rsv_id reservation \<and> rsv_status r = V_ACTIVE)
       (\<lambda>r. r\<lparr>rsv_status := vo_to evaluated, rsv_releasedAt := Some now,
              rsv_releasedReason := Some (rl_reason input)\<rparr>)) (\<lambda>_.
     bind_tx (postMovement scope (rsv_facilityId reservation) (vo_movement evaluated)
       (money_of_reservation reservation) ''liquidity_reservation'' (rsv_id reservation) (rl_actor input)) (\<lambda>_.
     bind_tx (emit_event scope
       \<lparr>em_type = Ev_companion (if rl_expired input then C_facility_reservation_expired
          else C_facility_reservation_released),
        em_subjectType = ''settlement'', em_subjectId = rl_settlementId input, em_actor = rl_actor input,
        em_payload = [(''reservation_id'', JStr (rsv_id reservation)),
          (''reason'', JStr (reason_name (rl_reason input)))], em_deliver = True\<rparr>) (\<lambda>_.
     ret \<lparr>rd_reservationId = rsv_id reservation, rd_noop = False\<rparr>))))"

definition releaseReservation ::
    "tenant_scope \<Rightarrow> release_input \<Rightarrow> (reservation_failure, reservation_done) result tx" where
  "releaseReservation scope input =
     bind_tx (lockReservation (rl_settlementId input)) (\<lambda>found.
     case found of
       None \<Rightarrow> ret (Inl RV_Reservation_Not_Found)
     | Some reservation \<Rightarrow>
         (case evaluateReservationTransition (Some (rsv_status reservation))
                 (if rl_expired input then V_expire else V_release) of
            Inl e \<Rightarrow>
              if e = Consumed_Cannot_Be_Released then ret (Inl RV_Consumed_Cannot_Be_Released)
              else if rsv_status reservation = V_RELEASED \<or> rsv_status reservation = V_EXPIRED
              then ret (Inr \<lparr>rd_reservationId = rsv_id reservation, rd_noop = True\<rparr>)
              else ret (Inl RV_Invalid_Transition)
          | Inr evaluated \<Rightarrow>
              bind_tx (lockFacility (rsv_facilityId reservation)) (\<lambda>facility.
              case facility of
                None \<Rightarrow> ret (Inl RV_Reservation_Not_Found)
              | Some _ \<Rightarrow> bind_tx (perform_release scope input reservation evaluated) (\<lambda>done. ret (Inr done)))))"

record consume_input =
  cn_settlementId :: string
  cn_actor :: principal

definition consumeReservation ::
    "tenant_scope \<Rightarrow> consume_input \<Rightarrow> (reservation_failure, reservation_done) result tx" where
  "consumeReservation scope input =
     bind_tx (lockReservation (cn_settlementId input)) (\<lambda>found.
     case found of
       None \<Rightarrow> ret (Inl RV_Reservation_Not_Found)
     | Some reservation \<Rightarrow>
         (case evaluateReservationTransition (Some (rsv_status reservation)) V_consume of
            Inl _ \<Rightarrow> ret (Inl RV_Invalid_Transition)
          | Inr _ \<Rightarrow>
              bind_tx (get_db db_now) (\<lambda>now.
              bind_tx (update_reservations (\<lambda>r. rsv_id r = rsv_id reservation \<and> rsv_status r = V_ACTIVE)
                (\<lambda>r. r\<lparr>rsv_status := V_CONSUMED, rsv_consumedAt := Some now\<rparr>)) (\<lambda>_.
              bind_tx (lockFacility (rsv_facilityId reservation)) (\<lambda>_.
              bind_tx (postMovement scope (rsv_facilityId reservation) reservation_consumed
                (money_of_reservation reservation) ''liquidity_reservation'' (rsv_id reservation) (cn_actor input)) (\<lambda>_.
              ret (Inr \<lparr>rd_reservationId = rsv_id reservation, rd_noop = False\<rparr>)))))))"

section \<open>Repayments\<close>

definition in_flight_amount :: "string \<Rightarrow> repayment_row \<Rightarrow> int" where
  "in_flight_amount facilityId r =
     (if rpy_facilityId r = facilityId \<and> isRepaymentInFlight (rpy_status r) then rpy_amountMinor r else 0)"

definition eligibleOutstanding :: "string \<Rightarrow> int tx" where
  "eligibleOutstanding facilityId =
     bind_tx (get_db (find_visible db_facilities fac_scope (\<lambda>r. fac_id r = facilityId))) (\<lambda>rows.
     bind_tx (get_db (find_visible db_repayments rpy_scope (\<lambda>_. True))) (\<lambda>repayments.
     case rows of
       [] \<Rightarrow> ret 0
     | row # _ \<Rightarrow>
         (let eligible = fac_drawnMinor row - sum_list (map (in_flight_amount facilityId) repayments)
          in ret (if eligible > 0 then eligible else 0))))"

record request_input =
  rq_facilityId :: string
  rq_amount :: money
  rq_source :: repayment_source
  rq_settlementId :: "string option"
  rq_returnId :: "string option"
  rq_actor :: principal

datatype repayment_failure =
    RP_Invalid_Transition
  | RP_Facility_Not_Found
  | RP_Currency_Mismatch currency_code currency_code
  | RP_Amount_Not_Positive
  | RP_Exceeds_Outstanding int int int
  | RP_Repayment_Not_Found
  | RP_Refused_Transition repayment_status repayment_trigger

record repayment_done =
  rp_repaymentId :: string
  rp_status :: repayment_status
  rp_capacityRestored :: bool

definition truthy :: "string option \<Rightarrow> bool" where
  "truthy s = (case s of None \<Rightarrow> False | Some t \<Rightarrow> t \<noteq> [])"

definition source_name :: "repayment_source \<Rightarrow> string" where
  "source_name s =
     (case s of
        CANCELLATION_AFTER_DRAWDOWN \<Rightarrow> ''CANCELLATION_AFTER_DRAWDOWN''
      | SETTLEMENT_RETURN \<Rightarrow> ''SETTLEMENT_RETURN''
      | MANUAL \<Rightarrow> ''MANUAL''
      | SCHEDULED \<Rightarrow> ''SCHEDULED'')"

definition fingerprint_tx :: "string \<Rightarrow> int \<Rightarrow> string tx" where
  "fingerprint_tx i n = (case repaymentFingerprint i n of Inl _ \<Rightarrow> throw JS_Range_Error | Inr k \<Rightarrow> ret k)"

definition new_repayment :: "tenant_scope \<Rightarrow> request_input \<Rightarrow> string \<Rightarrow> string \<Rightarrow> db \<Rightarrow> repayment_row" where
  "new_repayment scope input i fingerprint db =
     \<lparr>rpy_id = i, rpy_scope = scope, rpy_facilityId = rq_facilityId input,
      rpy_amountMinor = minorUnits (rq_amount input), rpy_amountCurrency = currency (rq_amount input),
      rpy_source = rq_source input, rpy_settlementId = rq_settlementId input,
      rpy_returnId = rq_returnId input, rpy_status = Y_REQUESTED, rpy_attempt = 1,
      rpy_requestFingerprint = fingerprint, rpy_providerReference = None, rpy_requestedAt = db_now db,
      rpy_submittedAt = None, rpy_confirmedAt = None, rpy_failedAt = None\<rparr>"

definition open_repayment :: "tenant_scope \<Rightarrow> request_input \<Rightarrow> repayment_done tx" where
  "open_repayment scope input =
     bind_tx (new_id K_repayment) (\<lambda>i.
     bind_tx (fingerprint_tx i 1) (\<lambda>fingerprint.
     bind_tx (get_db (new_repayment scope input i fingerprint)) (\<lambda>row.
     bind_tx (insert_repayment row) (\<lambda>_.
     bind_tx (emit_event scope
       \<lparr>em_type = Ev_companion C_facility_repayment_requested,
        em_subjectType = (if truthy (rq_settlementId input) then ''settlement'' else ''facility''),
        em_subjectId = (case rq_settlementId input of None \<Rightarrow> rq_facilityId input | Some s \<Rightarrow> s),
        em_actor = rq_actor input,
        em_payload = [(''repayment_id'', JStr i),
          (''amount_minor'', JStr (string_of_int (minorUnits (rq_amount input)))),
          (''source'', JStr (source_name (rq_source input))), (''capacity_restored'', JBool False)],
        em_deliver = True\<rparr>) (\<lambda>_.
     ret \<lparr>rp_repaymentId = i, rp_status = Y_REQUESTED, rp_capacityRestored = False\<rparr>)))))"

definition requestRepayment :: "tenant_scope \<Rightarrow> request_input \<Rightarrow> (repayment_failure, repayment_done) result tx" where
  "requestRepayment scope input =
     (case evaluateRepaymentTransition None Y_request of
        Inl _ \<Rightarrow> ret (Inl RP_Invalid_Transition)
      | Inr _ \<Rightarrow>
          bind_tx (lockFacility (rq_facilityId input)) (\<lambda>facility.
          case facility of
            None \<Rightarrow> ret (Inl RP_Facility_Not_Found)
          | Some facility \<Rightarrow>
              if currency (rq_amount input) \<noteq> fv_currency facility
              then ret (Inl (RP_Currency_Mismatch (fv_currency facility) (currency (rq_amount input))))
              else if minorUnits (rq_amount input) \<le> 0 then ret (Inl RP_Amount_Not_Positive)
              else bind_tx (eligibleOutstanding (rq_facilityId input)) (\<lambda>outstanding.
                if minorUnits (rq_amount input) > outstanding
                then ret (Inl (RP_Exceeds_Outstanding (minorUnits (rq_amount input)) outstanding
                  (minorUnits (pos_drawn (fv_position facility)))))
                else bind_tx (open_repayment scope input) (\<lambda>done. ret (Inr done)))))"

record advance_input =
  av_repaymentId :: string
  av_trigger :: repayment_trigger
  av_actor :: principal
  av_providerReference :: "string option"
  av_reason :: "string option"

definition advance_patch ::
    "advance_input \<Rightarrow> repayment_row \<Rightarrow> repayment_ok \<Rightarrow> string \<Rightarrow> int \<Rightarrow> repayment_row \<Rightarrow> repayment_row" where
  "advance_patch input current ok fingerprint now r =
     (let r1 = r\<lparr>rpy_status := yo_to ok\<rparr>;
          r2 = (if yo_to ok = Y_SUBMITTED then r1\<lparr>rpy_submittedAt := Some now\<rparr> else r1);
          r3 = (if yo_to ok = Y_CONFIRMED then r2\<lparr>rpy_confirmedAt := Some now\<rparr> else r2);
          r4 = (if yo_to ok = Y_FAILED then r3\<lparr>rpy_failedAt := Some now\<rparr> else r3);
          r5 = (if truthy (av_providerReference input)
                then r4\<lparr>rpy_providerReference := av_providerReference input\<rparr> else r4)
      in if yo_requiresNewFingerprint ok
         then r5\<lparr>rpy_attempt := rpy_attempt current + 1, rpy_requestFingerprint := fingerprint,
                 rpy_failedAt := None, rpy_providerReference := None\<rparr>
         else r5)"

definition trigger_string :: "repayment_trigger \<Rightarrow> string" where
  "trigger_string t =
     (case t of
        Y_request \<Rightarrow> ''request'' | Y_submit \<Rightarrow> ''submit'' | Y_confirmed \<Rightarrow> ''confirmed''
      | Y_rejected \<Rightarrow> ''rejected'' | Y_sla_elapsed \<Rightarrow> ''sla_elapsed''
      | Y_pull_resolved_confirmed \<Rightarrow> ''pull_resolved_confirmed''
      | Y_pull_resolved_failed \<Rightarrow> ''pull_resolved_failed'' | Y_re_request \<Rightarrow> ''re_request'')"

definition repayment_status_string :: "repayment_status \<Rightarrow> string" where
  "repayment_status_string s =
     (case s of
        Y_REQUESTED \<Rightarrow> ''REQUESTED'' | Y_SUBMITTED \<Rightarrow> ''SUBMITTED'' | Y_CONFIRMED \<Rightarrow> ''CONFIRMED''
      | Y_FAILED \<Rightarrow> ''FAILED'' | Y_UNKNOWN \<Rightarrow> ''UNKNOWN'')"

definition repayment_transition_string :: "repayment_transition_id \<Rightarrow> string" where
  "repayment_transition_string i =
     (case i of
        Y01 \<Rightarrow> ''Y01'' | Y02 \<Rightarrow> ''Y02'' | Y03 \<Rightarrow> ''Y03'' | Y04 \<Rightarrow> ''Y04''
      | Y05 \<Rightarrow> ''Y05'' | Y06 \<Rightarrow> ''Y06'' | Y07 \<Rightarrow> ''Y07'' | Y08 \<Rightarrow> ''Y08'')"

definition advance_event :: "advance_input \<Rightarrow> repayment_row \<Rightarrow> repayment_ok \<Rightarrow> emission" where
  "advance_event input current ok =
     \<lparr>em_type = Ev_other (if yo_restoresCapacity ok then ''facility.repayment_confirmed''
        else ''facility.repayment_updated''),
      em_subjectType = (if truthy (rpy_settlementId current) then ''settlement'' else ''facility''),
      em_subjectId = (case rpy_settlementId current of None \<Rightarrow> rpy_facilityId current | Some s \<Rightarrow> s),
      em_actor = av_actor input,
      em_payload = [(''repayment_id'', JStr (rpy_id current)),
        (''transition'', JStr (repayment_transition_string (yo_id ok))),
        (''to'', JStr (repayment_status_string (yo_to ok))),
        (''capacity_restored'', JBool (yo_restoresCapacity ok))],
      em_deliver = True\<rparr>"

definition advance_audit :: "advance_input \<Rightarrow> repayment_row \<Rightarrow> repayment_ok \<Rightarrow> audit_entry" where
  "advance_audit input current ok =
     \<lparr>au_actor = av_actor input, au_action = ''facility.repayment_'' @ trigger_string (av_trigger input),
      au_subjectType = ''repayment'', au_subjectId = rpy_id current,
      au_before = JObj [(''status'', JStr (repayment_status_string (rpy_status current))),
        (''attempt'', JNum (rpy_attempt current))],
      au_after = JObj [(''status'', JStr (repayment_status_string (yo_to ok))),
        (''transition'', JStr (repayment_transition_string (yo_id ok)))],
      au_reason = (if truthy (av_reason input) then av_reason input else None)\<rparr>"

definition restore_capacity :: "tenant_scope \<Rightarrow> advance_input \<Rightarrow> repayment_row \<Rightarrow> repayment_ok \<Rightarrow> unit tx" where
  "restore_capacity scope input current ok =
     (if yo_restoresCapacity ok
      then bind_tx (lockFacility (rpy_facilityId current)) (\<lambda>_.
           bind_tx (postMovement scope (rpy_facilityId current) repayment_confirmed
             (money (rpy_amountCurrency current) (rpy_amountMinor current)) ''repayment'' (rpy_id current)
             (av_actor input)) (\<lambda>_.
           ret ()))
      else ret ())"

definition perform_advance ::
    "tenant_scope \<Rightarrow> advance_input \<Rightarrow> repayment_row \<Rightarrow> repayment_ok \<Rightarrow> repayment_done tx" where
  "perform_advance scope input current ok =
     bind_tx (get_db db_now) (\<lambda>now.
     bind_tx (if yo_requiresNewFingerprint ok then fingerprint_tx (rpy_id current) (rpy_attempt current + 1)
       else ret []) (\<lambda>fingerprint.
     bind_tx (update_repayments (\<lambda>r. rpy_id r = rpy_id current)
       (advance_patch input current ok fingerprint now)) (\<lambda>_.
     bind_tx (restore_capacity scope input current ok) (\<lambda>_.
     bind_tx (emit_event scope (advance_event input current ok)) (\<lambda>_.
     bind_tx (write_audit scope (advance_audit input current ok)) (\<lambda>_.
     ret \<lparr>rp_repaymentId = rpy_id current, rp_status = yo_to ok,
          rp_capacityRestored = yo_restoresCapacity ok\<rparr>))))))"

definition advanceRepayment :: "tenant_scope \<Rightarrow> advance_input \<Rightarrow> (repayment_failure, repayment_done) result tx" where
  "advanceRepayment scope input =
     bind_tx (get_db (find_visible db_repayments rpy_scope (\<lambda>r. rpy_id r = av_repaymentId input))) (\<lambda>rows.
     case rows of
       [] \<Rightarrow> ret (Inl RP_Repayment_Not_Found)
     | current # _ \<Rightarrow>
         (case evaluateRepaymentTransition (Some (rpy_status current)) (av_trigger input) of
            Inl _ \<Rightarrow> ret (Inl (RP_Refused_Transition (rpy_status current) (av_trigger input)))
          | Inr ok \<Rightarrow> bind_tx (perform_advance scope input current ok) (\<lambda>done. ret (Inr done))))"

section \<open>The projection check and creation\<close>

text \<open>\<open>project_facility_position\<close> of \<open>0006_liquidity.sql\<close>: the sums over the ledger rows the tenant sees.\<close>

definition ledger_contribution :: "ledger_account \<Rightarrow> string \<Rightarrow> ledger_row \<Rightarrow> int" where
  "ledger_contribution account facilityId r =
     (if le_facilityId r = facilityId \<and> le_account r = account
      then if le_direction r = Debit then le_minorUnits r else - le_minorUnits r else 0)"

definition project_facility_position :: "string \<Rightarrow> db \<Rightarrow> int \<times> int" where
  "project_facility_position facilityId db =
     (let rows = find_visible db_ledger led_scope (\<lambda>r. le_facilityId r = facilityId) db in
      (sum_list (map (ledger_contribution Acc_drawn facilityId) rows),
       sum_list (map (ledger_contribution Acc_reserved facilityId) rows)))"

record projection_check =
  pc_facilityId :: string
  pc_agrees :: bool
  pc_projected :: "int \<times> int"
  pc_stored :: "int \<times> int"

definition checkFacilityProjection :: "string \<Rightarrow> projection_check tx" where
  "checkFacilityProjection facilityId =
     bind_tx (get_db (find_visible db_facilities fac_scope (\<lambda>r. fac_id r = facilityId))) (\<lambda>rows.
     case rows of
       [] \<Rightarrow> throw JS_Error
     | row # _ \<Rightarrow>
         bind_tx (get_db (project_facility_position facilityId)) (\<lambda>projected.
         let stored = (fac_drawnMinor row, fac_reservedMinor row) in
         ret \<lparr>pc_facilityId = facilityId,
              pc_agrees = (fst stored = fst projected \<and> snd stored = snd projected),
              pc_projected = projected, pc_stored = stored\<rparr>))"

record facility_input =
  fi_providerId :: string
  fi_currency :: currency_code
  fi_limit :: money
  fi_actor :: principal

definition new_facility :: "tenant_scope \<Rightarrow> facility_input \<Rightarrow> string \<Rightarrow> db \<Rightarrow> facility_row" where
  "new_facility scope input i db =
     \<lparr>fac_id = i, fac_scope = scope, fac_providerId = fi_providerId input, fac_currency = fi_currency input,
      fac_limitMinor = minorUnits (fi_limit input), fac_status = F_ACTIVE, fac_drawnMinor = 0,
      fac_reservedMinor = 0, fac_createdAt = db_now db, fac_updatedAt = db_now db, fac_version = 0\<rparr>"

definition createFacility :: "tenant_scope \<Rightarrow> facility_input \<Rightarrow> string tx" where
  "createFacility scope input =
     (if currency (fi_limit input) \<noteq> fi_currency input then throw JS_Error
      else bind_tx (new_id K_liquidityFacility) (\<lambda>i.
        bind_tx (get_db (new_facility scope input i)) (\<lambda>row.
        bind_tx (insert_facility row) (\<lambda>_.
        bind_tx (write_audit scope
          \<lparr>au_actor = fi_actor input, au_action = ''facility.create'', au_subjectType = ''facility'',
           au_subjectId = i, au_before = JNull,
           au_after = JObj [(''limit_minor'', JStr (string_of_int (minorUnits (fi_limit input)))),
             (''currency'', JStr (code_string (fi_currency input)))], au_reason = None\<rparr>) (\<lambda>_.
        ret i)))))"

end
