(* ===== verification/Liquidity_Effects.thy ===== *)
theory Liquidity_Effects
  imports Liquidity_Service
begin

text \<open>
  What each operation of the liquidity service does to the database, and the invariant of the funding
  side: the stored figures of a facility are the balances of its ledger, are the sums of what its
  active and consumed reservations hold less what its confirmed repayments gave back, and leave a
  non-negative availability.
\<close>

section \<open>The invariant\<close>

definition active_amount :: "string \<Rightarrow> reservation_row \<Rightarrow> int" where
  "active_amount f r = (if rsv_facilityId r = f \<and> rsv_status r = V_ACTIVE then rsv_amountMinor r else 0)"

definition consumed_amount :: "string \<Rightarrow> reservation_row \<Rightarrow> int" where
  "consumed_amount f r = (if rsv_facilityId r = f \<and> rsv_status r = V_CONSUMED then rsv_amountMinor r else 0)"

definition confirmed_amount :: "string \<Rightarrow> repayment_row \<Rightarrow> int" where
  "confirmed_amount f r = (if rpy_facilityId r = f \<and> rpy_status r = Y_CONFIRMED then rpy_amountMinor r else 0)"

definition ledger_total :: "ledger_account \<Rightarrow> string \<Rightarrow> db \<Rightarrow> int" where
  "ledger_total a f db = sum_list (map (ledger_contribution a f) (db_ledger db))"

definition held_total :: "string \<Rightarrow> db \<Rightarrow> int" where
  "held_total f db = sum_list (map (active_amount f) (db_reservations db))"

definition outstanding_total :: "string \<Rightarrow> db \<Rightarrow> int" where
  "outstanding_total f db =
     sum_list (map (consumed_amount f) (db_reservations db)) - sum_list (map (confirmed_amount f) (db_repayments db))"

definition facility_consistent :: "db \<Rightarrow> facility_row \<Rightarrow> bool" where
  "facility_consistent db fac \<longleftrightarrow>
     0 \<le> fac_drawnMinor fac \<and> 0 \<le> fac_reservedMinor fac \<and>
     0 \<le> fac_limitMinor fac - fac_drawnMinor fac - fac_reservedMinor fac \<and>
     fac_drawnMinor fac = ledger_total Acc_drawn (fac_id fac) db \<and>
     fac_reservedMinor fac = ledger_total Acc_reserved (fac_id fac) db \<and>
     fac_reservedMinor fac = held_total (fac_id fac) db \<and>
     fac_drawnMinor fac = outstanding_total (fac_id fac) db"

definition funding_linked :: "db \<Rightarrow> bool" where
  "funding_linked db \<longleftrightarrow>
     list_all (\<lambda>r. references_facility db (le_facilityId r) (led_scope r) (le_currency r)) (db_ledger db) \<and>
     list_all (\<lambda>r. references_facility db (rsv_facilityId r) (rsv_scope r) (rsv_amountCurrency r)) (db_reservations db) \<and>
     list_all (\<lambda>r. references_facility db (rpy_facilityId r) (rpy_scope r) (rpy_amountCurrency r)) (db_repayments db)"

definition funding_keyed :: "db \<Rightarrow> bool" where
  "funding_keyed db \<longleftrightarrow> keyed db_facilities fac_id db \<and> keyed db_reservations rsv_id db \<and>
     keyed db_repayments rpy_id db"

definition funding_consistent :: "db \<Rightarrow> bool" where
  "funding_consistent db \<longleftrightarrow> funding_keyed db \<and> funding_linked db \<and>
     list_all (facility_consistent db) (db_facilities db)"

section \<open>Movements\<close>

lemma movement_delta_moved:
  "ledgerPairFor m = Some (debit, credit) \<Longrightarrow> movement_delta debit credit amount a = moved m a (minorUnits amount)"
  by (simp add: movement_delta_def moved_def eq_commute)

lemma post_entry_effect:
  assumes "post_entry scope f tid m a d amount st sid actor db = Inr (u, db')"
  obtains n i where "scope = db_scope db" "references_facility db f scope (currency amount)"
    "0 < minorUnits amount"
    "db' = db\<lparr>db_next := n, db_ledger := db_ledger db @ [ledger_row_of scope i f tid m a d amount st sid actor db],
       db_pendingTransfers := db_pendingTransfers db @ [tid]\<rparr>"
proof -
  let ?i = "make_id K_ledgerEntry (db_bodies db (db_txid db) (db_next db))"
  from assms have "scope = db_scope db \<and> references_facility db f scope (currency amount) \<and>
      0 < minorUnits amount \<and>
      db' = db\<lparr>db_next := db_next db + 1,
        db_ledger := db_ledger db @ [ledger_row_of scope ?i f tid m a d amount st sid actor db],
        db_pendingTransfers := db_pendingTransfers db @ [tid]\<rparr>"
    by (auto simp: post_entry_def bind_tx_Inr new_id_def insert_ledger_def insert_row_Inr put_ledger_def
        ledger_violation_def ledger_row_of_def references_facility_def)
  then show ?thesis by (elim conjE) (rule that)
qed

lemma protect_facility_row_Inr:
  assumes "protect_facility_row now old new = Inr r"
  shows "fac_id r = fac_id new" "fac_scope r = fac_scope new" "fac_currency r = fac_currency old"
    "fac_limitMinor r = fac_limitMinor new" "fac_status r = fac_status new"
    "fac_drawnMinor r = fac_drawnMinor new" "fac_reservedMinor r = fac_reservedMinor new"
  using assms by (auto simp: protect_facility_row_def bind_result_Inr)

lemma facility_violation_None:
  assumes "facility_violation db r = None"
  shows "fac_scope r = db_scope db \<and> 0 \<le> fac_drawnMinor r \<and> 0 \<le> fac_reservedMinor r \<and>
    0 \<le> fac_limitMinor r - fac_drawnMinor r - fac_reservedMinor r"
  using assms by (auto simp: facility_violation_def not_less)

text \<open>A posted movement: the row of its facility and its two entries, nothing else.\<close>

lemma postMovement_effect:
  assumes post: "postMovement scope f m amount st sid actor db = Inr (tid, db')"
    and keyed: "keyed db_facilities fac_id db"
  obtains n xs fac ys fac' e1 e2 where "scope = db_scope db" "0 < minorUnits amount"
    "db_facilities db = xs @ fac # ys" "fac_id fac = f" "fac_scope fac = scope" "fac_currency fac = currency amount"
    "fac_id fac' = f" "fac_scope fac' = scope" "fac_currency fac' = currency amount"
    "fac_limitMinor fac' = fac_limitMinor fac" "fac_status fac' = fac_status fac"
    "fac_drawnMinor fac' = fac_drawnMinor fac + moved m Acc_drawn (minorUnits amount)"
    "fac_reservedMinor fac' = fac_reservedMinor fac + moved m Acc_reserved (minorUnits amount)"
    "0 \<le> fac_drawnMinor fac' \<and> 0 \<le> fac_reservedMinor fac' \<and>
     0 \<le> fac_limitMinor fac' - fac_drawnMinor fac' - fac_reservedMinor fac'"
    "\<And>a g. ledger_contribution a g e1 + ledger_contribution a g e2 = (if g = f then moved m a (minorUnits amount) else 0)"
    "list_all (\<lambda>e. le_facilityId e = f \<and> led_scope e = scope \<and> le_currency e = currency amount) [e1, e2]"
    "db' = db\<lparr>db_next := n, db_facilities := xs @ fac' # ys, db_ledger := db_ledger db @ [e1, e2],
       db_pendingTransfers := db_pendingTransfers db @ [tid, tid]\<rparr>"
proof -
  from post obtain debit credit where pair: "ledgerPairFor m = Some (debit, credit)"
    by (auto simp: postMovement_def split: option.splits)
  let ?patch = "\<lambda>r. r\<lparr>fac_drawnMinor := fac_drawnMinor r + movement_delta debit credit amount Acc_drawn,
    fac_reservedMinor := fac_reservedMinor r + movement_delta debit credit amount Acc_reserved\<rparr>"
  from post pair obtain db0 db1 db2 u1 u2 u3 where
      db0: "db0 = db\<lparr>db_next := db_next db + 1\<rparr>"
    and p1: "post_entry scope f tid m debit Debit amount st sid actor db0 = Inr (u1, db1)"
    and p2: "post_entry scope f tid m credit Credit amount st sid actor db1 = Inr (u2, db2)"
    and upd: "update_facilities (\<lambda>r. fac_id r = f) ?patch db2 = Inr (u3, db')"
    by (auto simp: postMovement_def bind_tx_Inr new_id_def)
  from p1 obtain n1 i1 where e1: "scope = db_scope db0" "references_facility db0 f scope (currency amount)"
      "0 < minorUnits amount"
    and db1: "db1 = db0\<lparr>db_next := n1, db_ledger := db_ledger db0 @
      [ledger_row_of scope i1 f tid m debit Debit amount st sid actor db0],
      db_pendingTransfers := db_pendingTransfers db0 @ [tid]\<rparr>"
    by (rule post_entry_effect)
  from p2 obtain n2 i2 where
      db2: "db2 = db1\<lparr>db_next := n2, db_ledger := db_ledger db1 @
      [ledger_row_of scope i2 f tid m credit Credit amount st sid actor db1],
      db_pendingTransfers := db_pendingTransfers db1 @ [tid]\<rparr>"
    by (rule post_entry_effect)
  let ?e1 = "ledger_row_of scope i1 f tid m debit Debit amount st sid actor db0"
  let ?e2 = "ledger_row_of scope i2 f tid m credit Credit amount st sid actor db1"
  have keyed2: "keyed db_facilities fac_id db2" using keyed by (simp add: keyed_def db2 db1 db0)
  have p: "\<forall>r. fac_id r = f \<longrightarrow> fac_id r = f" by simp
  obtain fac0 where fac0: "fac0 \<in> set (db_facilities db)" "fac_id fac0 = f" "fac_scope fac0 = scope"
      "fac_currency fac0 = currency amount"
    using e1(2) by (auto simp: references_facility_def list_ex_iff db0)
  have contrib: "ledger_contribution a g ?e1 + ledger_contribution a g ?e2 =
      (if g = f then moved m a (minorUnits amount) else 0)" for a g
    using pair by (auto simp: ledger_contribution_def ledger_row_of_def moved_def)
  show ?thesis
  proof (cases rule: facilities.update_cases [OF upd [unfolded update_facilities_def] keyed2 p])
    case 1
    with fac0 e1(1) show ?thesis
      by (auto simp: find_visible_def filter_empty_conv db2 db1 db0)
  next
    case (2 xs r ys r')
    have "r \<in> set (db_facilities db)" using 2(1) by (simp add: db2 db1 db0)
    with fac0 2(4) keyed have r: "r = fac0"
      unfolding keyed_def distinct_map by (metis inj_onD)
    from 2(5) have pr: "protect_facility_row (db_now db2) r (?patch r) = Inr r'"
      and v: "facility_violation db2 r' = None"
      by (simp_all add: guarded_Inr)
    note fields = protect_facility_row_Inr [OF pr]
    show ?thesis
      using 2(1,2) fac0 e1 fields facility_violation_None [OF v] contrib
      by (intro that [where xs = xs and fac = r and ys = ys and fac' = r' and n = n2 and ?e1.0 = ?e1 and ?e2.0 = ?e2])
        (simp_all add: r db2 db1 db0 put_facilities_def movement_delta_moved [OF pair] ledger_row_of_def)
  qed
qed

section \<open>Preservation\<close>

lemma movement_preserves:
  assumes post: "postMovement scope f m amount st sid actor db1 = Inr (tid, db')"
    and inv: "funding_consistent db"
    and same: "db_facilities db1 = db_facilities db" "db_ledger db1 = db_ledger db"
    and keyed1: "keyed db_reservations rsv_id db1" "keyed db_repayments rpy_id db1"
    and linked1: "funding_linked db1"
    and held: "\<forall>g. held_total g db1 = held_total g db + (if g = f then moved m Acc_reserved (minorUnits amount) else 0)"
    and outs: "\<forall>g. outstanding_total g db1 =
      outstanding_total g db + (if g = f then moved m Acc_drawn (minorUnits amount) else 0)"
  shows "funding_consistent db' \<and> db_settlements db' = db_settlements db1 \<and> db_events db' = db_events db1 \<and>
    db_txid db' = db_txid db1 \<and> db_pendingPairing db' = db_pendingPairing db1 \<and> db_scope db' = db_scope db1 \<and>
    db_now db' = db_now db1"
proof -
  have keyed: "keyed db_facilities fac_id db1"
    using inv same by (simp add: funding_consistent_def funding_keyed_def keyed_def)
  obtain n xs fac ys fac' e1 e2 where
      facs: "db_facilities db1 = xs @ fac # ys" "fac_id fac = f" "fac_scope fac = scope" "fac_currency fac = currency amount"
    and fac': "fac_id fac' = f" "fac_scope fac' = scope" "fac_currency fac' = currency amount"
      "fac_drawnMinor fac' = fac_drawnMinor fac + moved m Acc_drawn (minorUnits amount)"
      "fac_reservedMinor fac' = fac_reservedMinor fac + moved m Acc_reserved (minorUnits amount)"
      "0 \<le> fac_drawnMinor fac' \<and> 0 \<le> fac_reservedMinor fac' \<and>
       0 \<le> fac_limitMinor fac' - fac_drawnMinor fac' - fac_reservedMinor fac'"
    and contrib: "\<And>a g. ledger_contribution a g e1 + ledger_contribution a g e2 =
      (if g = f then moved m a (minorUnits amount) else 0)"
    and entries: "list_all (\<lambda>e. le_facilityId e = f \<and> led_scope e = scope \<and> le_currency e = currency amount) [e1, e2]"
    and db': "db' = db1\<lparr>db_next := n, db_facilities := xs @ fac' # ys, db_ledger := db_ledger db1 @ [e1, e2],
       db_pendingTransfers := db_pendingTransfers db1 @ [tid, tid]\<rparr>"
    by (rule postMovement_effect [OF post keyed]) (rule that)
  have ledger': "ledger_total a g db' = ledger_total a g db + (if g = f then moved m a (minorUnits amount) else 0)" for a g
    using contrib [of a g] same by (simp add: ledger_total_def db' add.assoc)
  have others: "held_total g db' = held_total g db1" "outstanding_total g db' = outstanding_total g db1" for g
    by (simp_all add: held_total_def outstanding_total_def db')
  have refs: "references_facility db' i s c = references_facility db1 i s c" for i s c
    using facs fac'(1-3) by (simp add: references_facility_def db')
  have tables': "db_ledger db' = db_ledger db1 @ [e1, e2]" "db_reservations db' = db_reservations db1"
      "db_repayments db' = db_repayments db1"
    by (simp_all add: db')
  have "references_facility db1 f scope (currency amount)"
    using facs by (simp add: references_facility_def)
  then have linked: "funding_linked db'"
    using linked1 entries by (simp add: funding_linked_def refs tables')
  have ids: "distinct (map fac_id (xs @ fac # ys))" using keyed by (simp add: keyed_def facs)
  have cons: "list_all (facility_consistent db) (xs @ fac # ys)"
    using inv facs(1) same by (simp add: funding_consistent_def)
  have rest: "facility_consistent db' x" if "x \<in> set xs \<union> set ys" for x
  proof -
    from ids facs(2) have "f \<notin> fac_id ` (set xs \<union> set ys)" by auto
    with that have "fac_id x \<noteq> f" by (metis imageI)
    moreover from cons that have "facility_consistent db x" by (auto simp: list_all_iff)
    ultimately show ?thesis
      using held outs by (simp add: facility_consistent_def ledger' others)
  qed
  from cons have "facility_consistent db fac" by simp
  then have "facility_consistent db' fac'"
    using fac' held outs facs(2) by (simp add: facility_consistent_def ledger' others)
  with rest have "list_all (facility_consistent db') (db_facilities db')"
    by (auto simp: db' list_all_iff)
  moreover have "funding_keyed db'"
    using ids keyed1 fac'(1) facs(2) by (simp add: funding_keyed_def keyed_def db')
  ultimately show ?thesis using linked by (simp add: funding_consistent_def db')
qed

text \<open>What only touches events, outbox, audit or the identifier supply keeps the invariant.\<close>

lemma funding_consistent_frame:
  assumes "db_facilities db' = db_facilities db" "db_reservations db' = db_reservations db"
    "db_repayments db' = db_repayments db" "db_ledger db' = db_ledger db"
  shows "funding_consistent db' = funding_consistent db"
  using assms
  by (simp add: funding_consistent_def funding_keyed_def keyed_def funding_linked_def references_facility_def
      facility_consistent_def [abs_def] ledger_total_def held_total_def outstanding_total_def)

lemma toFacilityRow_state: "toFacilityRow raw db = Inr (v, db') \<Longrightarrow> db' = db"
  by (auto simp: toFacilityRow_def liquidity_tx_def bind_tx_Inr split: sum.splits)

lemma lockFacility_state:
  assumes "lockFacility f db = Inr (v, db')"
  shows "db' = db" "v = Some w \<Longrightarrow> \<exists>raw. raw \<in> set (db_facilities db) \<and> fac_scope raw = db_scope db \<and>
    fac_id raw = f \<and> fv_id w = f \<and> fv_currency w = fac_currency raw \<and> fv_position w = position_of raw \<and>
    fv_status w = fac_status raw \<and>
    fv_available w = money (fac_currency raw) (fac_limitMinor raw - fac_drawnMinor raw - fac_reservedMinor raw)"
proof -
  have "coherent (position_of raw)" for raw by (simp add: coherent_def position_of_def)
  note avail = availableToSettle_Inr [OF this]
  from assms show "db' = db"
    by (auto simp: lockFacility_def readFacility_def bind_tx_Inr split: list.splits dest: toFacilityRow_state)
  assume "v = Some w"
  with assms obtain raw rs where "find_visible db_facilities fac_scope (\<lambda>r. fac_id r = f) db = raw # rs"
    and w: "toFacilityRow raw db = Inr (w, db)"
    by (auto simp: lockFacility_def readFacility_def bind_tx_Inr split: list.splits dest: toFacilityRow_state)
  then have "raw \<in> set (find_visible db_facilities fac_scope (\<lambda>r. fac_id r = f) db)" by simp
  moreover from w have "fv_id w = fac_id raw \<and> fv_currency w = fac_currency raw \<and> fv_position w = position_of raw \<and>
      fv_status w = fac_status raw \<and>
      fv_available w = money (fac_currency raw) (fac_limitMinor raw - fac_drawnMinor raw - fac_reservedMinor raw)"
    by (auto simp: toFacilityRow_def liquidity_tx_def bind_tx_Inr avail split: sum.splits) (simp add: position_of_def)
  ultimately show "\<exists>raw. raw \<in> set (db_facilities db) \<and> fac_scope raw = db_scope db \<and>
    fac_id raw = f \<and> fv_id w = f \<and> fv_currency w = fac_currency raw \<and> fv_position w = position_of raw \<and>
    fv_status w = fac_status raw \<and>
    fv_available w = money (fac_currency raw) (fac_limitMinor raw - fac_drawnMinor raw - fac_reservedMinor raw)"
    by (auto simp: find_visible_def)
qed

section \<open>What the liquidity service leaves alone\<close>

definition liquidity_frame :: "db \<Rightarrow> db \<Rightarrow> bool" where
  "liquidity_frame db db' \<longleftrightarrow>
     db_settlements db' = db_settlements db \<and> db_pendingPairing db' = db_pendingPairing db \<and>
     db_txid db' = db_txid db \<and> db_scope db' = db_scope db \<and> db_now db' = db_now db \<and>
     (\<exists>evs. db_events db' = db_events db @ evs \<and>
        list_all (\<lambda>e. evt_txid e = db_txid db \<and> (case evt_type e of Ev_status _ \<Rightarrow> False | _ \<Rightarrow> True)) evs)"

lemma liquidity_frame_refl [simp]: "liquidity_frame db db"
  by (simp add: liquidity_frame_def)

lemma liquidity_frame_trans: "liquidity_frame db1 db2 \<Longrightarrow> liquidity_frame db2 db3 \<Longrightarrow> liquidity_frame db1 db3"
  by (fastforce simp: liquidity_frame_def)

lemma liquidity_frame_same:
  "db_settlements db' = db_settlements db \<Longrightarrow> db_pendingPairing db' = db_pendingPairing db \<Longrightarrow>
   db_txid db' = db_txid db \<Longrightarrow> db_scope db' = db_scope db \<Longrightarrow> db_now db' = db_now db \<Longrightarrow>
   db_events db' = db_events db \<Longrightarrow> liquidity_frame db db'"
  by (simp add: liquidity_frame_def)

lemma emit_event_frame:
  assumes "emit_event scope e db = Inr (u, db')" "case em_type e of Ev_status _ \<Rightarrow> False | _ \<Rightarrow> True"
  shows "liquidity_frame db db' \<and> funding_consistent db' = funding_consistent db \<and>
    db_facilities db' = db_facilities db"
proof -
  from assms(1) obtain i n os where
      db': "db' = db\<lparr>db_next := n, db_events := db_events db @ [new_event scope e i db], db_outbox := db_outbox db @ os\<rparr>"
    by (rule emit_event_effect)
  have "funding_consistent db' = funding_consistent db"
    by (rule funding_consistent_frame) (simp_all add: db')
  with assms(2) show ?thesis by (simp add: liquidity_frame_def db')
qed

lemma write_audit_frame:
  assumes "write_audit scope a db = Inr (u, db')"
  shows "liquidity_frame db db' \<and> funding_consistent db' = funding_consistent db"
proof -
  from assms obtain au n where db': "db' = db\<lparr>db_next := n, db_audit := db_audit db @ [au]\<rparr>"
    by (rule write_audit_effect)
  have "funding_consistent db' = funding_consistent db"
    by (rule funding_consistent_frame) (simp_all add: db')
  then show ?thesis by (simp add: liquidity_frame_def db')
qed

lemma replaced_sum: "sum_list (map g (xs @ r' # ys)) = sum_list (map g (xs @ r # ys)) + (g r' - (g r :: int))"
  by simp

section \<open>Reservations\<close>

lemma reservation_violation_None:
  assumes "reservation_violation db r = None"
  shows "rsv_scope r = db_scope db" "0 < rsv_amountMinor r"
    "references_facility db (rsv_facilityId r) (rsv_scope r) (rsv_amountCurrency r)"
  using assms by (auto simp: reservation_violation_def not_le)

lemma protect_reservation_row_Inr:
  assumes "protect_reservation_row old new = Inr r"
  shows "r = new" "rsv_facilityId r = rsv_facilityId old" "rsv_amountMinor r = rsv_amountMinor old"
    "rsv_settlementId r = rsv_settlementId old" "rsv_amountCurrency r = rsv_amountCurrency old"
  using assms by (auto simp: protect_reservation_row_def bind_result_Inr)

lemma latest_reservation_in: "latest_reservation rs = Some r \<Longrightarrow> r \<in> set rs"
  by (induction rs arbitrary: r) (auto split: option.splits if_splits)

lemma lockReservation_found:
  assumes "lockReservation sid db = Inr (Some r, db')"
  shows "db' = db \<and> r \<in> set (db_reservations db) \<and> rsv_scope r = db_scope db \<and> rsv_settlementId r = sid"
proof -
  from assms have "db' = db" "latest_reservation (find_visible db_reservations rsv_scope (\<lambda>r. rsv_settlementId r = sid) db) = Some r"
    by (auto simp: lockReservation_def bind_tx_Inr)
  with latest_reservation_in [of _ r] show ?thesis by (fastforce simp: find_visible_def)
qed

lemma new_reservation_simps [simp]:
  "rsv_id (new_reservation scope f input i e db) = i" "rsv_scope (new_reservation scope f input i e db) = scope"
  "rsv_facilityId (new_reservation scope f input i e db) = f"
  "rsv_settlementId (new_reservation scope f input i e db) = ri_settlementId input"
  "rsv_status (new_reservation scope f input i e db) = V_ACTIVE"
  "rsv_amountMinor (new_reservation scope f input i e db) = minorUnits (ri_amount input)"
  "rsv_amountCurrency (new_reservation scope f input i e db) = currency (ri_amount input)"
  by (simp_all add: new_reservation_def)

lemma grant_reservation_steps:
  assumes "grant_reservation scope input facility db = Inr (ok, db')"
  obtains i n row tid db2 u db3 view where
    "row = new_reservation scope (fv_id facility) input i (db_now db + ri_ttlSeconds input * 1000) (db\<lparr>db_next := n\<rparr>)"
    "insert_reservation row (db\<lparr>db_next := n\<rparr>) = Inr ((), db\<lparr>db_next := n, db_reservations := db_reservations db @ [row]\<rparr>)"
    "postMovement scope (fv_id facility) reservation_created (ri_amount input) ''liquidity_reservation'' i
       (ri_actor input) (db\<lparr>db_next := n, db_reservations := db_reservations db @ [row]\<rparr>) = Inr (tid, db2)"
    "emit_event scope
       \<lparr>em_type = Ev_companion C_facility_reservation_created, em_subjectType = ''settlement'',
        em_subjectId = ri_settlementId input, em_actor = ri_actor input,
        em_payload = [(''reservation_id'', JStr i),
          (''amount_minor'', JStr (string_of_int (minorUnits (ri_amount input))))], em_deliver = True\<rparr> db2 = Inr (u, db3)"
    "lockFacility (fv_id facility) db3 = Inr (Some view, db')"
    "ok = \<lparr>rok_reservationId = i, rok_available = fv_available view,
       rok_expiresAt = db_now db + ri_ttlSeconds input * 1000\<rparr>"
proof -
  from assms that [where n = "db_next db + 1" and i = "make_id K_liquidityReservation (db_bodies db (db_txid db) (db_next db))"]
  show ?thesis
    by (auto simp: grant_reservation_def bind_tx_Inr new_id_def Let_def insert_reservation_def insert_row_Inr
        put_reservations_def split: option.splits)
qed

lemma grant_reservation_preserves:
  assumes run: "grant_reservation scope input facility db = Inr (ok, db')" and inv: "funding_consistent db"
  shows "funding_consistent db' \<and> liquidity_frame db db'"
proof -
  let ?n = "minorUnits (ri_amount input)" and ?f = "fv_id facility"
  obtain i n row tid db2 u db3 view where
      row: "row = new_reservation scope ?f input i (db_now db + ri_ttlSeconds input * 1000) (db\<lparr>db_next := n\<rparr>)"
    and ins: "insert_reservation row (db\<lparr>db_next := n\<rparr>) =
        Inr ((), db\<lparr>db_next := n, db_reservations := db_reservations db @ [row]\<rparr>)"
    and post: "postMovement scope ?f reservation_created (ri_amount input) ''liquidity_reservation'' i
        (ri_actor input) (db\<lparr>db_next := n, db_reservations := db_reservations db @ [row]\<rparr>) = Inr (tid, db2)"
    and ev: "emit_event scope
       \<lparr>em_type = Ev_companion C_facility_reservation_created, em_subjectType = ''settlement'',
        em_subjectId = ri_settlementId input, em_actor = ri_actor input,
        em_payload = [(''reservation_id'', JStr i), (''amount_minor'', JStr (string_of_int ?n))],
        em_deliver = True\<rparr> db2 = Inr (u, db3)"
    and lock: "lockFacility ?f db3 = Inr (Some view, db')"
    by (rule grant_reservation_steps [OF run]) (rule that)
  let ?db1 = "db\<lparr>db_next := n, db_reservations := db_reservations db @ [row]\<rparr>"
  from ins have v: "reservation_violation (db\<lparr>db_next := n\<rparr>) row = None"
    and fresh: "rsv_id row \<notin> rsv_id ` set (db_reservations db)"
    by (simp_all add: insert_reservation_def insert_row_Inr)
  have held: "\<forall>g. held_total g ?db1 = held_total g db + (if g = ?f then moved reservation_created Acc_reserved ?n else 0)"
    by (auto simp: held_total_def active_amount_def row)
  have outs: "\<forall>g. outstanding_total g ?db1 =
      outstanding_total g db + (if g = ?f then moved reservation_created Acc_drawn ?n else 0)"
    by (auto simp: outstanding_total_def consumed_amount_def row)
  have keyed1: "keyed db_reservations rsv_id ?db1" "keyed db_repayments rpy_id ?db1"
    using inv fresh by (simp_all add: funding_consistent_def funding_keyed_def keyed_def)
  have linked1: "funding_linked ?db1"
    using inv reservation_violation_None(3) [OF v]
    by (simp add: funding_consistent_def funding_linked_def references_facility_def)
  have same: "db_facilities ?db1 = db_facilities db" "db_ledger ?db1 = db_ledger db" by simp_all
  from movement_preserves [OF post inv same keyed1 linked1 held outs]
  have "funding_consistent db2 \<and> liquidity_frame db db2"
    by (auto intro!: liquidity_frame_same)
  with emit_event_frame [OF ev] lockFacility_state(1) [OF lock] show ?thesis
    by (auto intro: liquidity_frame_trans)
qed

text \<open>Taking an active reservation to another status, before its movement is posted.\<close>

lemma reservation_taken:
  assumes upd: "update_reservations (\<lambda>r. rsv_id r = rsv_id res \<and> rsv_status r = V_ACTIVE) patch db = Inr (u, db1)"
    and inv: "funding_consistent db"
    and res: "res \<in> set (db_reservations db)" "rsv_scope res = db_scope db" "rsv_status res = V_ACTIVE"
    and patch: "rsv_id (patch res) = rsv_id res" "rsv_status (patch res) \<noteq> V_ACTIVE"
  shows "db_facilities db1 = db_facilities db \<and> db_ledger db1 = db_ledger db \<and>
    keyed db_reservations rsv_id db1 \<and> keyed db_repayments rpy_id db1 \<and> funding_linked db1 \<and>
    liquidity_frame db db1 \<and>
    (\<forall>g. held_total g db1 = held_total g db + (if g = rsv_facilityId res then - rsv_amountMinor res else 0)) \<and>
    (\<forall>g. outstanding_total g db1 = outstanding_total g db +
      (if g = rsv_facilityId res \<and> rsv_status (patch res) = V_CONSUMED then rsv_amountMinor res else 0))"
proof -
  let ?p = "\<lambda>r. rsv_id r = rsv_id res \<and> rsv_status r = V_ACTIVE"
  have keyed: "keyed db_reservations rsv_id db"
    using inv by (simp add: funding_consistent_def funding_keyed_def)
  have p: "\<forall>r. ?p r \<longrightarrow> rsv_id r = rsv_id res" by simp
  show ?thesis
  proof (cases rule: reservations.update_cases [OF upd [unfolded update_reservations_def] keyed p])
    case 1
    with res show ?thesis by (auto simp: find_visible_def filter_empty_conv)
  next
    case (2 xs r ys r')
    have "r \<in> set (db_reservations db)" using 2(1) by simp
    with res(1) 2(4) keyed have r: "r = res" unfolding keyed_def distinct_map by (metis inj_onD)
    from 2(5) have pr: "protect_reservation_row res (patch res) = Inr r'"
      and v: "reservation_violation db r' = None" by (simp_all add: guarded_Inr r)
    note f = protect_reservation_row_Inr [OF pr]
    have db1: "db1 = db\<lparr>db_reservations := xs @ r' # ys\<rparr>" using 2(2) by (simp add: put_reservations_def)
    have status: "rsv_status r' \<noteq> V_ACTIVE" "rsv_id r' = rsv_id res" using patch f(1) by simp_all
    have rows: "db_reservations db = xs @ res # ys" using 2(1) r by simp
    have held: "held_total g db1 = held_total g db + (if g = rsv_facilityId res then - rsv_amountMinor res else 0)" for g
      using res(3) status by (simp add: held_total_def db1 rows active_amount_def)
    have outs: "outstanding_total g db1 = outstanding_total g db +
        (if g = rsv_facilityId res \<and> rsv_status (patch res) = V_CONSUMED then rsv_amountMinor res else 0)" for g
      using res(3) f(1,2,3) by (simp add: outstanding_total_def db1 rows consumed_amount_def)
    have keyed1: "keyed db_reservations rsv_id db1" "keyed db_repayments rpy_id db1"
      using inv status(2) by (simp_all add: funding_consistent_def funding_keyed_def keyed_def db1 rows)
    have "funding_linked db1"
      using inv reservation_violation_None(3) [OF v]
      by (simp add: funding_consistent_def funding_linked_def references_facility_def db1 rows)
    with held outs keyed1 show ?thesis
      by (auto simp: db1 intro!: liquidity_frame_same)
  qed
qed

lemma perform_release_preserves:
  assumes run: "perform_release scope input res ok db = Inr (fin, db')" and inv: "funding_consistent db"
    and res: "res \<in> set (db_reservations db)" "rsv_scope res = db_scope db"
    and ev: "evaluateReservationTransition (Some (rsv_status res)) (if rl_expired input then V_expire else V_release) = Inr ok"
  shows "funding_consistent db' \<and> liquidity_frame db db'"
proof -
  from ev have ok: "rsv_status res = V_ACTIVE" "vo_to ok \<noteq> V_ACTIVE" "vo_to ok \<noteq> V_CONSUMED"
    "moved (vo_movement ok) Acc_reserved n = - n" "moved (vo_movement ok) Acc_drawn n = 0" for n
    by (auto simp: evaluateReservation_value split: if_splits reservation_status.splits)
  from run obtain u1 db1 tid db2 u2 where
      upd: "update_reservations (\<lambda>r. rsv_id r = rsv_id res \<and> rsv_status r = V_ACTIVE)
        (\<lambda>r. r\<lparr>rsv_status := vo_to ok, rsv_releasedAt := Some (db_now db),
              rsv_releasedReason := Some (rl_reason input)\<rparr>) db = Inr (u1, db1)"
    and post: "postMovement scope (rsv_facilityId res) (vo_movement ok) (money_of_reservation res)
        ''liquidity_reservation'' (rsv_id res) (rl_actor input) db1 = Inr (tid, db2)"
    and emit: "emit_event scope
       \<lparr>em_type = Ev_companion (if rl_expired input then C_facility_reservation_expired
          else C_facility_reservation_released),
        em_subjectType = ''settlement'', em_subjectId = rl_settlementId input, em_actor = rl_actor input,
        em_payload = [(''reservation_id'', JStr (rsv_id res)),
          (''reason'', JStr (reason_name (rl_reason input)))], em_deliver = True\<rparr> db2 = Inr (u2, db')"
    by (auto simp: perform_release_def bind_tx_Inr)
  have t: "db_facilities db1 = db_facilities db" "db_ledger db1 = db_ledger db"
      "keyed db_reservations rsv_id db1" "keyed db_repayments rpy_id db1" "funding_linked db1" "liquidity_frame db db1"
      "\<forall>g. held_total g db1 = held_total g db +
        (if g = rsv_facilityId res then moved (vo_movement ok) Acc_reserved (minorUnits (money_of_reservation res)) else 0)"
      "\<forall>g. outstanding_total g db1 = outstanding_total g db +
        (if g = rsv_facilityId res then moved (vo_movement ok) Acc_drawn (minorUnits (money_of_reservation res)) else 0)"
    using reservation_taken [OF upd inv res ok(1)] by (simp_all add: ok money_of_reservation_def)
  from movement_preserves [OF post inv t(1-5,7,8)]
  have "funding_consistent db2 \<and> liquidity_frame db1 db2" by (auto intro!: liquidity_frame_same)
  with t(6) emit_event_frame [OF emit] show ?thesis by (auto intro: liquidity_frame_trans)
qed

lemma consume_preserves:
  assumes run: "consumeReservation scope input db = Inr (r, db')" and inv: "funding_consistent db"
  shows "funding_consistent db' \<and> liquidity_frame db db' \<and>
    (case r of Inl _ \<Rightarrow> db' = db | Inr _ \<Rightarrow> True)"
proof (cases r)
  case (Inl e)
  with run have "db' = db"
    by (auto simp: consumeReservation_def lockReservation_def bind_tx_Inr split: option.splits sum.splits)
  with inv Inl show ?thesis by simp
next
  case (Inr fin)
  with run obtain res ok u1 db1 view db2 tid where
      found: "lockReservation (cn_settlementId input) db = Inr (Some res, db)"
    and ev: "evaluateReservationTransition (Some (rsv_status res)) V_consume = Inr ok"
    and upd: "update_reservations (\<lambda>r. rsv_id r = rsv_id res \<and> rsv_status r = V_ACTIVE)
        (\<lambda>r. r\<lparr>rsv_status := V_CONSUMED, rsv_consumedAt := Some (db_now db)\<rparr>) db = Inr (u1, db1)"
    and lock: "lockFacility (rsv_facilityId res) db1 = Inr (view, db2)"
    and post: "postMovement scope (rsv_facilityId res) reservation_consumed (money_of_reservation res)
        ''liquidity_reservation'' (rsv_id res) (cn_actor input) db2 = Inr (tid, db')"
    by (auto simp: consumeReservation_def lockReservation_def bind_tx_Inr split: option.splits sum.splits)
  from lockReservation_found [OF found]
  have res: "res \<in> set (db_reservations db)" "rsv_scope res = db_scope db" by simp_all
  from ev have active: "rsv_status res = V_ACTIVE"
    by (auto simp: evaluateReservation_value split: reservation_status.splits)
  have t: "db_facilities db1 = db_facilities db" "db_ledger db1 = db_ledger db"
      "keyed db_reservations rsv_id db1" "keyed db_repayments rpy_id db1" "funding_linked db1" "liquidity_frame db db1"
      "\<forall>g. held_total g db1 = held_total g db +
        (if g = rsv_facilityId res then moved reservation_consumed Acc_reserved (minorUnits (money_of_reservation res)) else 0)"
      "\<forall>g. outstanding_total g db1 = outstanding_total g db +
        (if g = rsv_facilityId res then moved reservation_consumed Acc_drawn (minorUnits (money_of_reservation res)) else 0)"
    using reservation_taken [OF upd inv res active] by (simp_all add: money_of_reservation_def)
  from lockFacility_state(1) [OF lock] post
  have "postMovement scope (rsv_facilityId res) reservation_consumed (money_of_reservation res)
        ''liquidity_reservation'' (rsv_id res) (cn_actor input) db1 = Inr (tid, db')" by simp
  from movement_preserves [OF this inv t(1-5,7,8)]
  have "funding_consistent db' \<and> liquidity_frame db1 db'" by (auto intro!: liquidity_frame_same)
  with t(6) Inr show ?thesis by (auto intro: liquidity_frame_trans)
qed

lemma release_preserves:
  assumes run: "releaseReservation scope input db = Inr (r, db')" and inv: "funding_consistent db"
  shows "funding_consistent db' \<and> liquidity_frame db db' \<and>
    (case r of Inl _ \<Rightarrow> db' = db | Inr fin \<Rightarrow> rd_noop fin \<longrightarrow> db' = db)"
proof -
  let ?t = "if rl_expired input then V_expire else V_release"
  consider (same) "db' = db"
    | (released) res ok fin where "lockReservation (rl_settlementId input) db = Inr (Some res, db)"
      "evaluateReservationTransition (Some (rsv_status res)) ?t = Inr ok"
      "perform_release scope input res ok db = Inr (fin, db')" "r = Inr fin"
    using run
    by (auto simp: releaseReservation_def lockReservation_def bind_tx_Inr
        split: option.splits sum.splits if_splits dest!: lockFacility_state(1))
  then show ?thesis
  proof cases
    case same
    with inv show ?thesis by (auto split: sum.splits)
  next
    case released
    from lockReservation_found [OF released(1)]
    have res: "res \<in> set (db_reservations db)" "rsv_scope res = db_scope db" by simp_all
    from released(3) have "\<not> rd_noop fin" by (auto simp: perform_release_def bind_tx_Inr)
    with perform_release_preserves [OF released(3) inv res released(2)] released(4) show ?thesis by simp
  qed
qed

text \<open>A reservation call decides from the locked facility alone, and then grants or returns.\<close>

lemma reserve_decides:
  assumes "reserveLiquidity scope input db = Inr (r, db')"
  obtains (refused) e where "r = Inl e" "db' = db"
    | (granted) view ok where "lockFacility (ri_facilityId input) db = Inr (Some view, db)"
        "canReserve (fv_position view) (fv_status view) (ri_amount input) = Inr Reserve_Ok"
        "find_visible db_reservations rsv_scope
          (\<lambda>r. rsv_settlementId r = ri_settlementId input \<and> rsv_status r = V_ACTIVE) db = []"
        "0 < ri_ttlSeconds input" "grant_reservation scope input view db = Inr (ok, db')" "r = Inr ok"
proof -
  from assms obtain fo where ttl: "0 < ri_ttlSeconds input"
    and lock: "lockFacility (ri_facilityId input) db = Inr (fo, db)"
    by (fastforce simp: reserveLiquidity_def bind_tx_Inr split: if_splits dest: lockFacility_state(1))
  show ?thesis
  proof (cases fo)
    case None
    with assms ttl lock show ?thesis by (intro refused) (auto simp: reserveLiquidity_def)
  next
    case (Some view)
    let ?v = "canReserve (fv_position view) (fv_status view) (ri_amount input)"
    from assms ttl lock Some obtain v where v: "?v = Inr v"
      by (cases ?v) (auto simp: reserveLiquidity_def liquidity_tx_def bind_tx_Inr)
    have run: "(case v of
        Facility_Not_Active \<Rightarrow> ret (Inl RR_Facility_Not_Active)
      | Insufficient_Availability \<Rightarrow> ret (Inl RR_Insufficient_Availability)
      | Reserve_Currency_Mismatch \<Rightarrow> ret (Inl RR_Currency_Mismatch)
      | Reserve_Ok \<Rightarrow>
          bind_tx (get_db (find_visible db_reservations rsv_scope
            (\<lambda>r. rsv_settlementId r = ri_settlementId input \<and> rsv_status r = V_ACTIVE))) (\<lambda>existing.
          if existing \<noteq> [] then ret (Inl RR_Already_Reserved)
          else bind_tx (grant_reservation scope input view) (\<lambda>ok. ret (Inr ok)))) db = Inr (r, db')"
      using assms ttl lock Some v by (simp add: reserveLiquidity_def liquidity_tx_def bind_tx_def ret_def)
    show ?thesis
    proof (cases "v = Reserve_Ok")
      case False
      with run show ?thesis by (cases v) (auto intro: refused)
    next
      case True
      with run granted [OF lock [unfolded Some]] v ttl refused show ?thesis
        by (auto simp: bind_tx_Inr split: if_splits)
    qed
  qed
qed

lemma reserve_preserves:
  assumes run: "reserveLiquidity scope input db = Inr (r, db')" and inv: "funding_consistent db"
  shows "funding_consistent db' \<and> liquidity_frame db db' \<and> (case r of Inl _ \<Rightarrow> db' = db | Inr _ \<Rightarrow> True)"
  using run
proof (cases rule: reserve_decides)
  case refused
  with inv show ?thesis by simp
next
  case (granted view ok)
  with grant_reservation_preserves [OF granted(5) inv] show ?thesis by simp
qed

section \<open>Repayments\<close>

lemma repayment_violation_None:
  assumes "repayment_violation db r = None"
  shows "rpy_scope r = db_scope db" "0 < rpy_amountMinor r"
    "references_facility db (rpy_facilityId r) (rpy_scope r) (rpy_amountCurrency r)"
  using assms by (auto simp: repayment_violation_def Let_def not_le)

lemma protect_repayment_row_Inr:
  assumes "protect_repayment_row old new = Inr r"
  shows "r = new" "rpy_facilityId r = rpy_facilityId old" "rpy_amountMinor r = rpy_amountMinor old"
  using assms by (auto simp: protect_repayment_row_def bind_result_Inr split: if_splits)

lemma advance_patch_simps [simp]:
  "rpy_id (advance_patch input current ok fp now r) = rpy_id r"
  "rpy_status (advance_patch input current ok fp now r) = yo_to ok"
  by (simp_all add: advance_patch_def Let_def)

lemma new_repayment_status [simp]: "rpy_status (new_repayment scope input i fp db) = Y_REQUESTED"
  by (simp add: new_repayment_def)

lemma open_repayment_preserves:
  assumes run: "open_repayment scope input db = Inr (fin, db')" and inv: "funding_consistent db"
  shows "funding_consistent db' \<and> liquidity_frame db db' \<and> db_facilities db' = db_facilities db"
proof -
  let ?i = "make_id K_repayment (db_bodies db (db_txid db) (db_next db))"
  let ?db0 = "db\<lparr>db_next := db_next db + 1\<rparr>"
  from run obtain fp u1 db1 u2 e where fp: "fingerprint_tx ?i 1 ?db0 = Inr (fp, ?db0)"
    and ins: "insert_repayment (new_repayment scope input ?i fp ?db0) ?db0 = Inr (u1, db1)"
    and ev: "emit_event scope e db1 = Inr (u2, db')" "case em_type e of Ev_status _ \<Rightarrow> False | _ \<Rightarrow> True"
    by (fastforce simp: open_repayment_def bind_tx_Inr new_id_def fingerprint_tx_def split: sum.splits)
  let ?row = "new_repayment scope input ?i fp ?db0"
  from ins have v: "repayment_violation ?db0 ?row = None" and fresh: "rpy_id ?row \<notin> rpy_id ` set (db_repayments db)"
    and db1: "db1 = db\<lparr>db_next := db_next db + 1, db_repayments := db_repayments db @ [?row]\<rparr>"
    by (auto simp: insert_repayment_def insert_row_Inr put_repayments_def)
  have totals: "ledger_total a g db1 = ledger_total a g db" "held_total g db1 = held_total g db"
      "outstanding_total g db1 = outstanding_total g db" for a g
    by (simp_all add: ledger_total_def held_total_def outstanding_total_def db1 confirmed_amount_def)
  have "funding_linked db1"
    using inv repayment_violation_None(3) [OF v]
    by (simp add: funding_consistent_def funding_linked_def references_facility_def db1)
  moreover have "funding_keyed db1"
    using inv fresh by (simp add: funding_consistent_def funding_keyed_def keyed_def db1)
  moreover have "list_all (facility_consistent db1) (db_facilities db1)"
    using inv by (simp add: funding_consistent_def facility_consistent_def [abs_def] totals) (simp add: db1)
  ultimately have "funding_consistent db1" by (simp add: funding_consistent_def)
  moreover have "liquidity_frame db db1 \<and> db_facilities db1 = db_facilities db"
    by (simp add: db1 liquidity_frame_same)
  ultimately show ?thesis
    using emit_event_frame [OF ev] by (auto intro: liquidity_frame_trans)
qed

text \<open>A repayment taken to its next status, before capacity is restored.\<close>

lemma repayment_advanced:
  assumes upd: "update_repayments (\<lambda>r. rpy_id r = rpy_id cur) (advance_patch input cur ok fp now) db = Inr (u, db1)"
    and inv: "funding_consistent db"
    and cur: "cur \<in> set (db_repayments db)" "rpy_scope cur = db_scope db" "rpy_status cur \<noteq> Y_CONFIRMED"
  shows "db_facilities db1 = db_facilities db \<and> db_ledger db1 = db_ledger db \<and>
    keyed db_reservations rsv_id db1 \<and> keyed db_repayments rpy_id db1 \<and> funding_linked db1 \<and>
    liquidity_frame db db1 \<and> (\<forall>g. held_total g db1 = held_total g db) \<and>
    (\<forall>g. outstanding_total g db1 = outstanding_total g db -
      (if g = rpy_facilityId cur \<and> yo_to ok = Y_CONFIRMED then rpy_amountMinor cur else 0))"
proof -
  let ?p = "\<lambda>r. rpy_id r = rpy_id cur"
  have keyed: "keyed db_repayments rpy_id db"
    using inv by (simp add: funding_consistent_def funding_keyed_def)
  have p: "\<forall>r. ?p r \<longrightarrow> rpy_id r = rpy_id cur" by simp
  show ?thesis
  proof (cases rule: repayments.update_cases [OF upd [unfolded update_repayments_def] keyed p])
    case 1
    with cur show ?thesis by (auto simp: find_visible_def filter_empty_conv)
  next
    case (2 xs r ys r')
    have "r \<in> set (db_repayments db)" using 2(1) by simp
    with cur(1) 2(4) keyed have r: "r = cur" unfolding keyed_def distinct_map by (metis inj_onD)
    from 2(5) have pr: "protect_repayment_row cur (advance_patch input cur ok fp now cur) = Inr r'"
      and v: "repayment_violation db r' = None" by (simp_all add: guarded_Inr r)
    note f = protect_repayment_row_Inr [OF pr]
    have db1: "db1 = db\<lparr>db_repayments := xs @ r' # ys\<rparr>" using 2(2) by (simp add: put_repayments_def)
    have rows: "db_repayments db = xs @ cur # ys" using 2(1) r by simp
    have status: "rpy_status r' = yo_to ok" "rpy_id r' = rpy_id cur" using f(1) by simp_all
    have held: "held_total g db1 = held_total g db" for g by (simp add: held_total_def db1)
    have outs: "outstanding_total g db1 = outstanding_total g db -
        (if g = rpy_facilityId cur \<and> yo_to ok = Y_CONFIRMED then rpy_amountMinor cur else 0)" for g
      using cur(3) f(2,3) status by (simp add: outstanding_total_def db1 rows confirmed_amount_def)
    have keyed1: "keyed db_reservations rsv_id db1" "keyed db_repayments rpy_id db1"
      using inv status(2) by (simp_all add: funding_consistent_def funding_keyed_def keyed_def db1 rows)
    have "funding_linked db1"
      using inv repayment_violation_None(3) [OF v]
      by (simp add: funding_consistent_def funding_linked_def references_facility_def db1 rows)
    with held outs keyed1 show ?thesis
      by (auto simp: db1 intro!: liquidity_frame_same)
  qed
qed

lemma perform_advance_preserves:
  assumes run: "perform_advance scope input cur ok db = Inr (fin, db')" and inv: "funding_consistent db"
    and cur: "cur \<in> set (db_repayments db)" "rpy_scope cur = db_scope db"
    and ev: "evaluateRepaymentTransition (Some (rpy_status cur)) t = Inr ok"
  shows "funding_consistent db' \<and> liquidity_frame db db' \<and> fin =
    \<lparr>rp_repaymentId = rpy_id cur, rp_status = yo_to ok, rp_capacityRestored = yo_restoresCapacity ok\<rparr>"
proof -
  from ev have ok: "rpy_status cur \<noteq> Y_CONFIRMED" "yo_restoresCapacity ok \<longleftrightarrow> yo_to ok = Y_CONFIRMED"
    by (auto simp: evaluateRepayment_value split: repayment_status.splits repayment_trigger.splits)
  from run obtain fp u1 db1 u2 db2 u3 db3 u4 where
      upd: "update_repayments (\<lambda>r. rpy_id r = rpy_id cur) (advance_patch input cur ok fp (db_now db)) db = Inr (u1, db1)"
    and rest: "restore_capacity scope input cur ok db1 = Inr (u2, db2)"
    and emit: "emit_event scope (advance_event input cur ok) db2 = Inr (u3, db3)"
    and audit: "write_audit scope (advance_audit input cur ok) db3 = Inr (u4, db')"
    and fin: "fin = \<lparr>rp_repaymentId = rpy_id cur, rp_status = yo_to ok, rp_capacityRestored = yo_restoresCapacity ok\<rparr>"
    by (auto simp: perform_advance_def bind_tx_Inr fingerprint_tx_def split: if_splits sum.splits)
  note adv = repayment_advanced [OF upd inv cur ok(1)]
  have "funding_consistent db2 \<and> liquidity_frame db1 db2"
  proof (cases "yo_restoresCapacity ok")
    case False
    then have same: "db2 = db1" using rest by (simp add: restore_capacity_def)
    have "funding_consistent db1"
      using adv inv False ok(2)
      by (simp add: funding_consistent_def funding_keyed_def keyed_def facility_consistent_def [abs_def] ledger_total_def)
    with same show ?thesis by simp
  next
    case True
    then obtain view dbl tid where lock: "lockFacility (rpy_facilityId cur) db1 = Inr (view, dbl)"
      and post: "postMovement scope (rpy_facilityId cur) repayment_confirmed
        (money (rpy_amountCurrency cur) (rpy_amountMinor cur)) ''repayment'' (rpy_id cur) (av_actor input) dbl = Inr (tid, db2)"
      using rest by (auto simp: restore_capacity_def bind_tx_Inr)
    have post1: "postMovement scope (rpy_facilityId cur) repayment_confirmed
        (money (rpy_amountCurrency cur) (rpy_amountMinor cur)) ''repayment'' (rpy_id cur) (av_actor input) db1 = Inr (tid, db2)"
      using post lockFacility_state(1) [OF lock] by simp
    have t: "db_facilities db1 = db_facilities db" "db_ledger db1 = db_ledger db"
      "keyed db_reservations rsv_id db1" "keyed db_repayments rpy_id db1" "funding_linked db1"
      "\<forall>g. held_total g db1 = held_total g db + (if g = rpy_facilityId cur then moved repayment_confirmed Acc_reserved
        (minorUnits (money (rpy_amountCurrency cur) (rpy_amountMinor cur))) else 0)"
      "\<forall>g. outstanding_total g db1 = outstanding_total g db + (if g = rpy_facilityId cur then moved repayment_confirmed Acc_drawn
        (minorUnits (money (rpy_amountCurrency cur) (rpy_amountMinor cur))) else 0)"
      using adv True ok(2) by simp_all
    from movement_preserves [OF post1 inv t] show ?thesis by (auto intro!: liquidity_frame_same)
  qed
  moreover have "case em_type (advance_event input cur ok) of Ev_status _ \<Rightarrow> False | _ \<Rightarrow> True"
    by (simp add: advance_event_def)
  ultimately show ?thesis
    using adv emit_event_frame [OF emit] write_audit_frame [OF audit] fin
    by (auto intro: liquidity_frame_trans)
qed

lemma eligibleOutstanding_value:
  assumes "eligibleOutstanding f db = Inr (v, db')" "raw \<in> set (db_facilities db)" "fac_scope raw = db_scope db"
    "fac_id raw = f" "keyed db_facilities fac_id db"
  shows "db' = db \<and> v = max 0 (fac_drawnMinor raw -
    sum_list (map (in_flight_amount f) (find_visible db_repayments rpy_scope (\<lambda>_. True) db)))"
proof -
  have "find_visible db_facilities fac_scope (\<lambda>r. fac_id r = f) db = [raw]"
    using facilities.find_by_key [OF assms(5,2,3,4)] .
  with assms(1) show ?thesis by (auto simp: eligibleOutstanding_def bind_tx_Inr Let_def)
qed

text \<open>A request is decided from the locked facility and what is in flight, and then opened or refused.\<close>

lemma request_decides:
  assumes run: "requestRepayment scope input db = Inr (r, db')" and inv: "funding_consistent db"
  obtains (refused) e where "r = Inl e" "db' = db"
    | (opened) raw fin where "raw \<in> set (db_facilities db)" "fac_scope raw = db_scope db"
        "fac_id raw = rq_facilityId input" "currency (rq_amount input) = fac_currency raw"
        "0 < minorUnits (rq_amount input)"
        "minorUnits (rq_amount input) + sum_list (map (in_flight_amount (rq_facilityId input))
           (find_visible db_repayments rpy_scope (\<lambda>_. True) db)) \<le> fac_drawnMinor raw"
        "open_repayment scope input db = Inr (fin, db')" "r = Inr fin"
proof -
  let ?f = "rq_facilityId input" and ?n = "minorUnits (rq_amount input)"
  have keyed: "keyed db_facilities fac_id db"
    using inv by (simp add: funding_consistent_def funding_keyed_def)
  from run obtain fo where lock: "lockFacility ?f db = Inr (fo, db)"
    by (fastforce simp: requestRepayment_def evaluateRepayment_value bind_tx_Inr dest: lockFacility_state(1))
  show ?thesis
  proof (cases fo)
    case None
    with run lock show ?thesis
      by (intro refused) (auto simp: requestRepayment_def evaluateRepayment_value)
  next
    case (Some view)
    from lockFacility_state(2) [OF lock Some] obtain raw where raw: "raw \<in> set (db_facilities db)"
      "fac_scope raw = db_scope db" "fac_id raw = ?f" "fv_currency view = fac_currency raw"
      "fv_position view = position_of raw" by auto
    have rest: "(if currency (rq_amount input) \<noteq> fv_currency view
        then ret (Inl (RP_Currency_Mismatch (fv_currency view) (currency (rq_amount input))))
        else if ?n \<le> 0 then ret (Inl RP_Amount_Not_Positive)
        else bind_tx (eligibleOutstanding ?f) (\<lambda>outstanding.
          if ?n > outstanding
          then ret (Inl (RP_Exceeds_Outstanding ?n outstanding (minorUnits (pos_drawn (fv_position view)))))
          else bind_tx (open_repayment scope input) (\<lambda>fin. ret (Inr fin)))) db = Inr (r, db')"
      using run lock Some by (simp add: requestRepayment_def evaluateRepayment_value)
    show ?thesis
    proof (cases "currency (rq_amount input) \<noteq> fv_currency view \<or> ?n \<le> 0")
      case True
      with rest refused show ?thesis by (auto split: if_splits)
    next
      case False
      with rest obtain out where out: "eligibleOutstanding ?f db = Inr (out, db)"
        by (fastforce simp: bind_tx_Inr dest: eligibleOutstanding_value [OF _ raw(1,2,3) keyed])
      note v = eligibleOutstanding_value [OF out raw(1,2,3) keyed]
      show ?thesis
      proof (cases "?n > out")
        case True
        with rest False out refused show ?thesis by (auto simp: bind_tx_Inr)
      next
        case le: False
        with rest False out obtain fin where "open_repayment scope input db = Inr (fin, db')" "r = Inr fin"
          by (auto simp: bind_tx_Inr)
        moreover have "?n + sum_list (map (in_flight_amount ?f) (find_visible db_repayments rpy_scope (\<lambda>_. True) db))
            \<le> fac_drawnMinor raw"
          using v le False by (auto simp: max_def split: if_splits)
        ultimately show ?thesis using opened raw False by auto
      qed
    qed
  qed
qed

lemma request_preserves:
  assumes run: "requestRepayment scope input db = Inr (r, db')" and inv: "funding_consistent db"
  shows "funding_consistent db' \<and> liquidity_frame db db' \<and> db_facilities db' = db_facilities db \<and>
    (case r of Inl _ \<Rightarrow> db' = db | Inr _ \<Rightarrow> True)"
proof (cases rule: request_decides [OF run inv])
  case (1 e)
  with inv show ?thesis by simp
next
  case (2 raw fin)
  with open_repayment_preserves [OF 2(7) inv] show ?thesis by simp
qed

lemma advance_decides:
  assumes "advanceRepayment scope input db = Inr (r, db')"
  obtains (refused) e where "r = Inl e" "db' = db"
    | (advanced) cur ok fin where "cur \<in> set (db_repayments db)" "rpy_scope cur = db_scope db"
        "rpy_id cur = av_repaymentId input"
        "evaluateRepaymentTransition (Some (rpy_status cur)) (av_trigger input) = Inr ok"
        "perform_advance scope input cur ok db = Inr (fin, db')" "r = Inr fin"
proof -
  let ?rows = "find_visible db_repayments rpy_scope (\<lambda>r. rpy_id r = av_repaymentId input) db"
  show ?thesis
  proof (cases ?rows)
    case Nil
    with assms show ?thesis by (intro refused) (auto simp: advanceRepayment_def bind_tx_Inr)
  next
    case (Cons cur cs)
    then have "cur \<in> set ?rows" by simp
    then have cur: "cur \<in> set (db_repayments db)" "rpy_scope cur = db_scope db" "rpy_id cur = av_repaymentId input"
      by (simp_all add: find_visible_def)
    show ?thesis
    proof (cases "evaluateRepaymentTransition (Some (rpy_status cur)) (av_trigger input)")
      case (Inl e)
      with assms Cons show ?thesis by (intro refused) (auto simp: advanceRepayment_def bind_tx_Inr)
    next
      case (Inr ok)
      with assms Cons obtain fin where "perform_advance scope input cur ok db = Inr (fin, db')" "r = Inr fin"
        by (auto simp: advanceRepayment_def bind_tx_Inr)
      with cur Inr show ?thesis by (intro advanced)
    qed
  qed
qed

lemma advance_preserves:
  assumes run: "advanceRepayment scope input db = Inr (r, db')" and inv: "funding_consistent db"
  shows "funding_consistent db' \<and> liquidity_frame db db' \<and> (case r of Inl _ \<Rightarrow> db' = db | Inr _ \<Rightarrow> True)"
  using run
proof (cases rule: advance_decides)
  case refused
  with inv show ?thesis by simp
next
  case (advanced cur ok fin)
  with perform_advance_preserves [OF advanced(5) inv advanced(1,2,4)] show ?thesis by simp
qed

section \<open>Creation of a facility\<close>

lemma new_facility_simps [simp]:
  "fac_id (new_facility scope input i db) = i" "fac_limitMinor (new_facility scope input i db) = minorUnits (fi_limit input)"
  "fac_drawnMinor (new_facility scope input i db) = 0" "fac_reservedMinor (new_facility scope input i db) = 0"
  by (simp_all add: new_facility_def)

lemma unreferenced_totals:
  assumes "funding_linked db" "f \<notin> fac_id ` set (db_facilities db)"
  shows "ledger_total a f db = 0" "held_total f db = 0" "outstanding_total f db = 0"
proof -
  have ref: "\<not> references_facility db f s c" for s c
    using assms(2) by (auto simp: references_facility_def list_ex_iff)
  from assms(1) have l: "\<forall>r\<in>set (db_ledger db). le_facilityId r \<noteq> f"
    and v: "\<forall>r\<in>set (db_reservations db). rsv_facilityId r \<noteq> f"
    and y: "\<forall>r\<in>set (db_repayments db). rpy_facilityId r \<noteq> f"
    using ref by (auto simp: funding_linked_def list_all_iff)
  have zero: "sum_list (map g xs) = 0" if "\<forall>x\<in>set xs. g x = 0" for g :: "'a \<Rightarrow> int" and xs
    using that by (induction xs) simp_all
  show "ledger_total a f db = 0" "held_total f db = 0" "outstanding_total f db = 0"
    using l v y
    by (simp_all add: ledger_total_def held_total_def outstanding_total_def zero ledger_contribution_def
        active_amount_def consumed_amount_def confirmed_amount_def)
qed

lemma create_facility_preserves:
  assumes run: "createFacility scope input db = Inr (i, db')" and inv: "funding_consistent db"
  shows "funding_consistent db' \<and> liquidity_frame db db'"
proof -
  let ?i = "make_id K_liquidityFacility (db_bodies db (db_txid db) (db_next db))"
  let ?db0 = "db\<lparr>db_next := db_next db + 1\<rparr>"
  let ?row = "new_facility scope input ?i ?db0"
  from run obtain u1 db1 u2 a where ins: "insert_facility ?row ?db0 = Inr (u1, db1)"
    and audit: "write_audit scope a db1 = Inr (u2, db')"
    by (fastforce simp: createFacility_def bind_tx_Inr new_id_def split: if_splits)
  from ins have v: "facility_violation ?db0 ?row = None" and fresh: "?i \<notin> fac_id ` set (db_facilities db)"
    and db1: "db1 = db\<lparr>db_next := db_next db + 1, db_facilities := db_facilities db @ [?row]\<rparr>"
    by (auto simp: insert_facility_def insert_row_Inr put_facilities_def)
  have linked: "funding_linked db" using inv by (simp add: funding_consistent_def)
  have totals: "ledger_total a g db1 = ledger_total a g db" "held_total g db1 = held_total g db"
      "outstanding_total g db1 = outstanding_total g db" for a g
    by (simp_all add: ledger_total_def held_total_def outstanding_total_def db1)
  have "references_facility db1 j s c" if "references_facility db j s c" for j s c
    using that by (auto simp: references_facility_def db1)
  then have "funding_linked db1"
    using linked by (auto simp: funding_linked_def list_all_iff db1)
  moreover have "funding_keyed db1"
    using inv fresh by (simp add: funding_consistent_def funding_keyed_def keyed_def db1)
  moreover have "facility_consistent db1 ?row"
    using facility_violation_None [OF v] unreferenced_totals [OF linked fresh]
    unfolding facility_consistent_def totals by simp
  moreover have "list_all (facility_consistent db1) (db_facilities db)"
    using inv by (simp add: funding_consistent_def facility_consistent_def [abs_def] totals)
  ultimately have "funding_consistent db1" by (simp add: funding_consistent_def) (simp add: db1)
  moreover have "liquidity_frame db db1" by (simp add: db1 liquidity_frame_same)
  ultimately show ?thesis using write_audit_frame [OF audit] by (auto intro: liquidity_frame_trans)
qed

end
