(* ===== verification/Platform.thy ===== *)
theory Platform
  imports Transition_Properties Liquidity_Effects
begin

text \<open>
  The settlement transitions and the liquidity operations together, as the services compose them: a
  step of the platform is one transaction of a tenant that runs a list of operations and commits or
  rolls back. The invariants hold in every state such steps reach.
\<close>

section \<open>Operations and steps\<close>

datatype operation =
    Op_createSettlement create_input
  | Op_applyTransition apply_input
  | Op_createFacility facility_input
  | Op_reserve reserve_input
  | Op_release release_input
  | Op_consume consume_input
  | Op_requestRepayment request_input
  | Op_advanceRepayment advance_input

definition ignore :: "'a tx \<Rightarrow> unit tx" where
  "ignore m = bind_tx m (\<lambda>_. ret ())"

definition run_operation :: "tenant_scope \<Rightarrow> operation \<Rightarrow> unit tx" where
  "run_operation scope op =
     (case op of
        Op_createSettlement i \<Rightarrow> ignore (createSettlement scope i)
      | Op_applyTransition i \<Rightarrow> ignore (applyTransition scope i)
      | Op_createFacility i \<Rightarrow> ignore (createFacility scope i)
      | Op_reserve i \<Rightarrow> ignore (reserveLiquidity scope i)
      | Op_release i \<Rightarrow> ignore (releaseReservation scope i)
      | Op_consume i \<Rightarrow> ignore (consumeReservation scope i)
      | Op_requestRepayment i \<Rightarrow> ignore (requestRepayment scope i)
      | Op_advanceRepayment i \<Rightarrow> ignore (advanceRepayment scope i))"

fun run_operations :: "tenant_scope \<Rightarrow> operation list \<Rightarrow> unit tx" where
  "run_operations scope [] = ret ()"
| "run_operations scope (op # ops) = bind_tx (run_operation scope op) (\<lambda>_. run_operations scope ops)"

definition transaction :: "tenant_scope \<Rightarrow> int \<Rightarrow> operation list \<Rightarrow> db \<Rightarrow> db" where
  "transaction scope now ops db = snd (with_tenant scope now now (run_operations scope ops) db)"

inductive platform_step :: "db \<Rightarrow> db \<Rightarrow> bool" where
  step: "platform_step db (snd (with_tenant scope now clock (run_operations scope ops) db))"

inductive_cases platform_stepE: "platform_step db db'"

section \<open>The invariant\<close>

definition platform_ok :: "db \<Rightarrow> bool" where
  "platform_ok db \<longleftrightarrow> keyed db_settlements stl_id db \<and> list_all coherent_row (db_settlements db) \<and>
     events_dated db \<and> funding_consistent db"

lemma ignore_Inr: "ignore m db = Inr (u, db') \<longleftrightarrow> (\<exists>x. m db = Inr (x, db'))"
  by (auto simp: ignore_def bind_tx_Inr)

lemma platform_ok_begin: "platform_ok db \<Longrightarrow> platform_ok (begin_tenant scope now clock db)"
proof -
  have "funding_consistent (begin_tenant scope now clock db) = funding_consistent db"
    by (rule funding_consistent_frame) simp_all
  then show "platform_ok db \<Longrightarrow> platform_ok (begin_tenant scope now clock db)"
    by (auto simp: platform_ok_def events_dated_def list_all_iff)
qed

lemma platform_ok_rollback: "platform_ok db \<Longrightarrow> platform_ok (db\<lparr>db_txid := db_txid db + 1\<rparr>)"
proof -
  have "funding_consistent (db\<lparr>db_txid := db_txid db + 1\<rparr>) = funding_consistent db"
    by (rule funding_consistent_frame) simp_all
  then show "platform_ok db \<Longrightarrow> platform_ok (db\<lparr>db_txid := db_txid db + 1\<rparr>)"
    by (auto simp: platform_ok_def events_dated_def list_all_iff keyed_def)
qed

lemma liquidity_platform_ok:
  "platform_ok db \<Longrightarrow> funding_consistent db' \<and> liquidity_frame db db' \<Longrightarrow> platform_ok db'"
  by (auto simp: platform_ok_def liquidity_frame_def keyed_def events_dated_def list_all_iff)

lemma emit_event_platform_ok:
  assumes "emit_event scope e db = Inr (u, db')" "platform_ok db"
  shows "platform_ok db'"
proof -
  from assms(1) obtain i n os where
      db': "db' = db\<lparr>db_next := n, db_events := db_events db @ [new_event scope e i db], db_outbox := db_outbox db @ os\<rparr>"
    by (rule emit_event_effect)
  have "funding_consistent db' = funding_consistent db"
    by (rule funding_consistent_frame) (simp_all add: db')
  with assms(2) show ?thesis by (simp add: platform_ok_def keyed_def events_dated_def db')
qed

lemma write_audit_platform_ok:
  assumes "write_audit scope a db = Inr (u, db')" "platform_ok db"
  shows "platform_ok db'"
  using liquidity_platform_ok [OF assms(2)] write_audit_frame [OF assms(1)] assms(2)
  by (simp add: platform_ok_def)

lemma create_settlement_steps:
  assumes "createSettlement scope input db = Inr (i, db')"
  obtains n row pend u e db1 u2 a where
    "row = new_settlement scope input i (db\<lparr>db_next := n\<rparr>)" "i \<notin> stl_id ` set (db_settlements db)"
    "emit_event scope e (db\<lparr>db_next := n, db_settlements := db_settlements db @ [row], db_pendingPairing := pend\<rparr>) = Inr (u, db1)"
    "write_audit scope a db1 = Inr (u2, db')" "em_type e = Ev_status E_settlement_created" "em_subjectId e = i"
    "em_subjectType e = ''settlement''" "pend = db_pendingPairing db @ [(i, True)]"
proof -
  from assms that [where n = "db_next db + 1"] show ?thesis
    by (fastforce simp: createSettlement_def bind_tx_Inr new_id_def insert_settlement_def insert_row_Inr
        queue_pairing_def put_settlements_def new_settlement_def)
qed

lemma create_settlement_platform_ok:
  assumes run: "createSettlement scope input db = Inr (i, db')" and ok: "platform_ok db"
  shows "platform_ok db'"
  using run
proof (rule create_settlement_steps)
  fix n row pend u e db1 u2 a
  assume row: "row = new_settlement scope input i (db\<lparr>db_next := n\<rparr>)" "i \<notin> stl_id ` set (db_settlements db)"
    and ev: "emit_event scope e (db\<lparr>db_next := n, db_settlements := db_settlements db @ [row], db_pendingPairing := pend\<rparr>) = Inr (u, db1)"
    and audit: "write_audit scope a db1 = Inr (u2, db')"
  let ?db1 = "db\<lparr>db_next := n, db_settlements := db_settlements db @ [row], db_pendingPairing := pend\<rparr>"
  have "coherent_row row"
    by (simp add: row new_settlement_def coherent_row_def customerStatusColumn_def projectCustomerStatus_def)
  moreover have "stl_id row = i" by (simp add: row new_settlement_def)
  moreover have "funding_consistent ?db1 = funding_consistent db"
    by (rule funding_consistent_frame) simp_all
  ultimately have "platform_ok ?db1"
    using ok row(2) by (simp add: platform_ok_def keyed_def events_dated_def)
  from write_audit_platform_ok [OF audit emit_event_platform_ok [OF ev this]] show ?thesis .
qed

lemma emit_event_dated: "emit_event scope e db = Inr (u, db') \<Longrightarrow> events_dated db \<Longrightarrow> events_dated db'"
  by (erule emit_event_effect) (simp add: events_dated_def)

lemma emit_companions_dated:
  "emit_companions scope actor cs db = Inr (u, db') \<Longrightarrow> events_dated db \<Longrightarrow> events_dated db'"
  by (induction cs arbitrary: db) (auto simp: bind_tx_Inr dest: emit_event_dated)

lemma write_settlement_dated:
  "write_settlement input cur ok db = Inr (v, db') \<Longrightarrow> events_dated db \<Longrightarrow> events_dated db'"
  by (auto simp: write_settlement_def update_settlements_def update_table_def put_settlements_def bind_tx_Inr
      bind_result_Inr events_dated_def split: option.splits if_splits)

lemma emit_status_event_dated:
  "emit_status_event scope input cur ok db = Inr (u, db') \<Longrightarrow> events_dated db \<Longrightarrow> events_dated db'"
  by (auto simp: emit_status_event_def split: option.splits dest: emit_event_dated)

lemma write_audit_dated: "write_audit scope a db = Inr (u, db') \<Longrightarrow> events_dated db \<Longrightarrow> events_dated db'"
  by (erule write_audit_effect) (simp add: events_dated_def)

lemma applyTransition_dated:
  assumes "applyTransition scope input db = Inr (r, db')" "events_dated db"
  shows "events_dated db'"
proof (cases r)
  case (Inl failure)
  with assms show ?thesis by (auto dest: applyTransition_refused)
next
  case (Inr out)
  with assms(1) obtain cur ok where "carry_out scope input cur ok db = Inr (out, db')"
    by (auto simp: applyTransition_def Let_def bind_tx_Inr split: if_splits list.splits sum.splits)
  with assms(2) show ?thesis
    by (auto simp: carry_out_def bind_tx_Inr dest!: write_settlement_dated emit_status_event_dated
        emit_companions_dated write_audit_dated)
qed

lemma apply_transition_platform_ok:
  assumes run: "applyTransition scope input db = Inr (r, db')" and ok: "platform_ok db"
  shows "platform_ok db'"
proof (cases r)
  case (Inl failure)
  with assms show ?thesis by (auto dest: applyTransition_refused)
next
  case (Inr out)
  have keyed: "keyed db_settlements stl_id db" using ok by (simp add: platform_ok_def)
  from run Inr have "applyTransition scope input db = Inr (Inr out, db')" by simp
  from applyTransition_applied [OF this keyed] have "funding_unchanged db db'" by metis
  then have "funding_consistent db' = funding_consistent db"
    by (intro funding_consistent_frame) (simp_all add: funding_unchanged_def)
  with applyTransition_coherent [OF keyed _ run] applyTransition_dated [OF run] ok show ?thesis
    by (simp add: platform_ok_def)
qed

lemma run_operation_platform_ok:
  assumes run: "run_operation scope op db = Inr (u, db')" and ok: "platform_ok db"
  shows "platform_ok db'"
proof -
  have inv: "funding_consistent db" using ok by (simp add: platform_ok_def)
  note liquidity = liquidity_platform_ok [OF ok]
  show ?thesis
  proof (cases op)
    case Op_createFacility
    with run create_facility_preserves [OF _ inv] liquidity show ?thesis
      by (auto simp: run_operation_def ignore_Inr)
  next
    case Op_reserve
    with run reserve_preserves [OF _ inv] liquidity show ?thesis
      by (auto simp: run_operation_def ignore_Inr)
  next
    case Op_release
    with run release_preserves [OF _ inv] liquidity show ?thesis
      by (auto simp: run_operation_def ignore_Inr)
  next
    case Op_consume
    with run consume_preserves [OF _ inv] liquidity show ?thesis
      by (auto simp: run_operation_def ignore_Inr)
  next
    case Op_requestRepayment
    with run request_preserves [OF _ inv] liquidity show ?thesis
      by (auto simp: run_operation_def ignore_Inr)
  next
    case Op_advanceRepayment
    with run advance_preserves [OF _ inv] liquidity show ?thesis
      by (auto simp: run_operation_def ignore_Inr)
  qed (use run create_settlement_platform_ok [OF _ ok] apply_transition_platform_ok [OF _ ok] in
    \<open>auto simp: run_operation_def ignore_Inr\<close>)
qed

lemma run_operations_platform_ok:
  "run_operations scope ops db = Inr (u, db') \<Longrightarrow> platform_ok db \<Longrightarrow> platform_ok db'"
  by (induction ops arbitrary: db) (auto simp: bind_tx_Inr dest: run_operation_platform_ok)

lemma with_tenant_platform_ok:
  "platform_ok db \<Longrightarrow> platform_ok (snd (with_tenant scope now clock (run_operations scope ops) db))"
  using platform_ok_rollback [of db] run_operations_platform_ok [OF _ platform_ok_begin]
  by (auto simp: with_tenant_def Let_def split: sum.splits)

lemma step_platform_ok: "platform_step db db' \<Longrightarrow> platform_ok db \<Longrightarrow> platform_ok db'"
  by (erule platform_stepE) (simp add: with_tenant_platform_ok)

lemma reachable_platform_ok: "platform_step\<^sup>*\<^sup>* db db' \<Longrightarrow> platform_ok db \<Longrightarrow> platform_ok db'"
  by (induction rule: rtranclp_induct) (auto intro: step_platform_ok)

definition tables_empty :: "db \<Rightarrow> bool" where
  "tables_empty db \<longleftrightarrow> db_settlements db = [] \<and> db_facilities db = [] \<and> db_reservations db = [] \<and>
     db_repayments db = [] \<and> db_ledger db = [] \<and> db_events db = []"

lemma empty_platform_ok: "tables_empty db \<Longrightarrow> platform_ok db"
  by (simp add: tables_empty_def platform_ok_def keyed_def events_dated_def funding_consistent_def
      funding_keyed_def funding_linked_def)

section \<open>A sample history\<close>

text \<open>A settlement and a facility are created, liquidity is reserved and drawn.\<close>

definition sample_facility :: facility_input where
  "sample_facility = \<lparr>fi_providerId = ''prv_1'', fi_currency = USDT, fi_limit = money USDT 1000, fi_actor = sample_actor\<rparr>"

definition sample_reserve :: reserve_input where
  "sample_reserve =
     \<lparr>ri_facilityId = ''fac_2.0'', ri_settlementId = ''stl_1.0'', ri_amount = money USDT 500,
      ri_ttlSeconds = 900, ri_actor = sample_actor\<rparr>"

definition facility_db :: db where
  "facility_db = transaction sample_scope 2000 [Op_createFacility sample_facility] sample_db"

definition reserved_db :: db where
  "reserved_db = transaction sample_scope 3000 [Op_reserve sample_reserve] facility_db"

definition drawn_db :: db where
  "drawn_db = transaction sample_scope 4000
     [Op_consume \<lparr>cn_settlementId = ''stl_1.0'', cn_actor = sample_actor\<rparr>] reserved_db"

lemma transaction_step: "platform_step db (transaction scope now ops db)"
  unfolding transaction_def by (rule platform_step.step)

lemma sample_history:
  shows sample_step: "platform_step\<^sup>*\<^sup>* empty_db sample_db" and
  sample_steps: "platform_step\<^sup>*\<^sup>* empty_db facility_db" "platform_step\<^sup>*\<^sup>* empty_db reserved_db"
  "platform_step\<^sup>*\<^sup>* empty_db drawn_db"
proof -
  have sample: "sample_db = snd (with_tenant sample_scope 1000 1001
      (run_operations sample_scope [Op_createSettlement sample_create]) empty_db)"
    by (simp add: sample_db_def with_tenant_def Let_def run_operation_def ignore_def bind_tx_def ret_def
        split: sum.splits prod.splits)
  have "platform_step empty_db sample_db" by (subst sample) (rule platform_step.step)
  then show "platform_step\<^sup>*\<^sup>* empty_db sample_db" by (rule r_into_rtranclp)
  then show 1: "platform_step\<^sup>*\<^sup>* empty_db facility_db"
    unfolding facility_db_def by (meson transaction_step r_into_rtranclp rtranclp.rtrancl_into_rtrancl)
  then show 2: "platform_step\<^sup>*\<^sup>* empty_db reserved_db"
    unfolding reserved_db_def by (meson transaction_step rtranclp.rtrancl_into_rtrancl)
  then show "platform_step\<^sup>*\<^sup>* empty_db drawn_db"
    unfolding drawn_db_def by (meson transaction_step rtranclp.rtrancl_into_rtrancl)
qed

lemma empty_db_empty: "tables_empty empty_db"
  by (simp add: tables_empty_def empty_db_def)

section \<open>Properties\<close>

text \<open>
  C2. No facility is ever over-allocated, however transactions of any tenants follow one another and
  whether they commit or roll back: in every state reached from an empty database each facility has a
  non-negative availability, its reserved figure is what its active reservations hold and its drawn
  figure is what its consumed reservations drew less what its confirmed repayments gave back.
\<close>

theorem funding_never_over_allocated:
  assumes "platform_step\<^sup>*\<^sup>* db0 db" "tables_empty db0" "fac \<in> set (db_facilities db)"
  shows "0 \<le> fac_limitMinor fac - fac_drawnMinor fac - fac_reservedMinor fac \<and>
    0 \<le> fac_drawnMinor fac \<and> 0 \<le> fac_reservedMinor fac \<and>
    fac_reservedMinor fac = held_total (fac_id fac) db \<and>
    fac_drawnMinor fac = outstanding_total (fac_id fac) db"
proof -
  from reachable_platform_ok [OF assms(1) empty_platform_ok [OF assms(2)]] assms(3)
  have "facility_consistent db fac" by (simp add: platform_ok_def funding_consistent_def list_all_iff)
  then show ?thesis by (simp add: facility_consistent_def)
qed

theorem funding_never_over_allocated_witness:
  "list_all (\<lambda>fac. fac_drawnMinor fac = outstanding_total (fac_id fac) drawn_db) (db_facilities drawn_db) \<and>
   map (\<lambda>fac. (fac_limitMinor fac, fac_drawnMinor fac, fac_reservedMinor fac)) (db_facilities drawn_db) = [(1000, 500, 0)]"
proof
  show "list_all (\<lambda>fac. fac_drawnMinor fac = outstanding_total (fac_id fac) drawn_db) (db_facilities drawn_db)"
    unfolding list_all_iff using funding_never_over_allocated [OF sample_steps(3) empty_db_empty] by blast
  show "map (\<lambda>fac. (fac_limitMinor fac, fac_drawnMinor fac, fac_reservedMinor fac)) (db_facilities drawn_db) =
      [(1000, 500, 0)]"
    by code_simp
qed

lemma visible_projection:
  assumes linked: "funding_linked db" and keyed: "keyed db_facilities fac_id db"
    and fac: "fac \<in> set (db_facilities db)" "fac_scope fac = db_scope db"
  shows "project_facility_position (fac_id fac) db =
    (ledger_total Acc_drawn (fac_id fac) db, ledger_total Acc_reserved (fac_id fac) db)"
proof -
  have "led_scope r = db_scope db" if "r \<in> set (db_ledger db)" "le_facilityId r = fac_id fac" for r
  proof -
    from linked that(1) obtain f where "f \<in> set (db_facilities db)" "fac_id f = le_facilityId r" "fac_scope f = led_scope r"
      by (auto simp: funding_linked_def list_all_iff references_facility_def list_ex_iff)
    with keyed fac that(2) show ?thesis unfolding keyed_def distinct_map by (metis inj_onD)
  qed
  then have rows: "find_visible db_ledger led_scope (\<lambda>r. le_facilityId r = fac_id fac) db =
      filter (\<lambda>r. le_facilityId r = fac_id fac) (db_ledger db)"
    unfolding find_visible_def by (intro filter_cong) auto
  have "sum_list (map (ledger_contribution a (fac_id fac)) (filter (\<lambda>r. le_facilityId r = fac_id fac) rs)) =
      sum_list (map (ledger_contribution a (fac_id fac)) rs)" for a rs
    by (induction rs) (auto simp: ledger_contribution_def)
  then show ?thesis by (simp add: project_facility_position_def rows ledger_total_def)
qed

text \<open>
  C23. The projection check never raises the alarm: in every reachable state, asked by any tenant about any
  facility that tenant sees, it finds the stored figures equal to what the ledger the tenant sees
  projects.
\<close>

theorem projection_check_agrees:
  assumes "platform_step\<^sup>*\<^sup>* db0 db" "tables_empty db0"
    and "checkFacilityProjection f (begin_tenant scope now clock db) = Inr (check, db')"
  shows "pc_agrees check \<and> pc_stored check = pc_projected check \<and> db' = begin_tenant scope now clock db"
proof -
  let ?db = "begin_tenant scope now clock db"
  from reachable_platform_ok [OF assms(1) empty_platform_ok [OF assms(2)]]
  have inv: "funding_consistent ?db" using platform_ok_begin by (auto simp: platform_ok_def)
  from assms(3) obtain fac rs where rows: "find_visible db_facilities fac_scope (\<lambda>r. fac_id r = f) ?db = fac # rs"
    and check: "check = \<lparr>pc_facilityId = f,
        pc_agrees = (fac_drawnMinor fac = fst (project_facility_position f ?db) \<and>
          fac_reservedMinor fac = snd (project_facility_position f ?db)),
        pc_projected = project_facility_position f ?db, pc_stored = (fac_drawnMinor fac, fac_reservedMinor fac)\<rparr>"
    and db': "db' = ?db"
    by (auto simp: checkFacilityProjection_def bind_tx_Inr Let_def split: list.splits)
  have "fac \<in> set (find_visible db_facilities fac_scope (\<lambda>r. fac_id r = f) ?db)" by (simp add: rows)
  then have fac: "fac \<in> set (db_facilities ?db)" "fac_scope fac = db_scope ?db" "fac_id fac = f"
    by (simp_all add: find_visible_def)
  have "facility_consistent ?db fac" using inv fac(1) by (simp add: funding_consistent_def list_all_iff)
  moreover have "project_facility_position f ?db = (ledger_total Acc_drawn f ?db, ledger_total Acc_reserved f ?db)"
    using visible_projection [OF _ _ fac(1,2)] inv fac(3) by (simp add: funding_consistent_def funding_keyed_def)
  ultimately show ?thesis by (simp add: check db' facility_consistent_def fac(3))
qed

theorem projection_check_agrees_witness:
  "\<exists>check db'. checkFacilityProjection ''fac_2.0'' (begin_tenant sample_scope 5000 5000 drawn_db) = Inr (check, db') \<and>
     pc_agrees check \<and> pc_stored check = (500, 0)"
proof -
  have "map_option pc_stored (tx_value (checkFacilityProjection ''fac_2.0'' (begin_tenant sample_scope 5000 5000 drawn_db))) =
      Some (500, 0)"
    by code_simp
  then obtain check db' where
      run: "checkFacilityProjection ''fac_2.0'' (begin_tenant sample_scope 5000 5000 drawn_db) = Inr (check, db')"
    and "pc_stored check = (500, 0)"
    by (auto dest: tx_valueE)
  with projection_check_agrees [OF sample_steps(3) empty_db_empty run] show ?thesis by blast
qed

text \<open>How the row of a settlement may differ from an earlier one.\<close>

definition row_history :: "settlement_row \<Rightarrow> settlement_row \<Rightarrow> bool" where
  "row_history old new \<longleftrightarrow>
     stl_id new = stl_id old \<and> stl_scope new = stl_scope old \<and> stl_version old \<le> stl_version new \<and>
     (isTerminal (stl_status old) \<longrightarrow> new = old) \<and>
     (stl_authorizedAt old \<noteq> None \<longrightarrow> \<not> instruction_changed old new) \<and>
     (stl_pointOfNoReturnAt old \<noteq> None \<longrightarrow> stl_pointOfNoReturnAt new = stl_pointOfNoReturnAt old)"

definition keeps_history :: "db \<Rightarrow> db \<Rightarrow> bool" where
  "keeps_history db db' \<longleftrightarrow> (\<forall>old\<in>set (db_settlements db). \<exists>new\<in>set (db_settlements db'). row_history old new)"

lemma row_history_refl: "row_history r r"
  by (simp add: row_history_def instruction_changed_def)

lemma row_history_trans:
  assumes "row_history a b" "row_history b c"
  shows "row_history a c"
proof -
  have "stl_authorizedAt b \<noteq> None" if "stl_authorizedAt a \<noteq> None"
    using assms(1) that by (auto simp: row_history_def instruction_changed_def)
  with assms show ?thesis
    unfolding row_history_def by (auto simp: instruction_changed_def simp del: isTerminal_simps)
qed

lemma keeps_history_same: "db_settlements db' = db_settlements db \<Longrightarrow> keeps_history db db'"
  by (auto simp: keeps_history_def intro: row_history_refl)

lemma keeps_history_trans: "keeps_history a b \<Longrightarrow> keeps_history b c \<Longrightarrow> keeps_history a c"
  by (meson keeps_history_def row_history_trans)

lemma apply_transition_history:
  assumes run: "applyTransition scope input db = Inr (r, db')" and keyed: "keyed db_settlements stl_id db"
  shows "keeps_history db db'"
proof (cases r)
  case (Inl failure)
  with run show ?thesis by (auto dest: applyTransition_refused intro: keeps_history_same)
next
  case (Inr out)
  with run have run': "applyTransition scope input db = Inr (Inr out, db')" by simp
  show ?thesis
  proof (cases rule: applyTransition_applied [OF run' keyed])
    case (1 current ok xs ys row pend)
    have "row_history current row"
      using 1(8,9) row_history_refl [of current]
      by (auto simp: row_history_def follows_table_def respects_row_def split: option.splits)
    then show ?thesis by (auto simp: keeps_history_def 1(4,5) intro: row_history_refl)
  qed
qed

lemma create_settlement_history:
  assumes "createSettlement scope input db = Inr (i, db')"
  shows "keeps_history db db'"
  using assms
  by (rule create_settlement_steps)
    (auto simp: keeps_history_def elim!: emit_event_effect write_audit_effect intro: row_history_refl)

lemma run_operation_history:
  assumes run: "run_operation scope op db = Inr (u, db')" and ok: "platform_ok db"
  shows "keeps_history db db'"
proof -
  have inv: "funding_consistent db" and keyed: "keyed db_settlements stl_id db" using ok by (simp_all add: platform_ok_def)
  have frame: "liquidity_frame db db' \<Longrightarrow> keeps_history db db'"
    by (rule keeps_history_same) (simp add: liquidity_frame_def)
  show ?thesis
  proof (cases op)
    case Op_createFacility
    with run create_facility_preserves [OF _ inv] frame show ?thesis by (auto simp: run_operation_def ignore_Inr)
  next
    case Op_reserve
    with run reserve_preserves [OF _ inv] frame show ?thesis by (auto simp: run_operation_def ignore_Inr)
  next
    case Op_release
    with run release_preserves [OF _ inv] frame show ?thesis by (auto simp: run_operation_def ignore_Inr)
  next
    case Op_consume
    with run consume_preserves [OF _ inv] frame show ?thesis by (auto simp: run_operation_def ignore_Inr)
  next
    case Op_requestRepayment
    with run request_preserves [OF _ inv] frame show ?thesis by (auto simp: run_operation_def ignore_Inr)
  next
    case Op_advanceRepayment
    with run advance_preserves [OF _ inv] frame show ?thesis by (auto simp: run_operation_def ignore_Inr)
  qed (use run create_settlement_history apply_transition_history [OF _ keyed] in
    \<open>auto simp: run_operation_def ignore_Inr\<close>)
qed

lemma run_operations_history:
  "run_operations scope ops db = Inr (u, db') \<Longrightarrow> platform_ok db \<Longrightarrow> keeps_history db db'"
proof (induction ops arbitrary: db)
  case (Cons op ops)
  from Cons.prems(1) obtain v mid where
    first: "run_operation scope op db = Inr (v, mid)" and rest: "run_operations scope ops mid = Inr (u, db')"
    by (auto simp: bind_tx_Inr)
  show ?case
    using Cons.IH [OF rest run_operation_platform_ok [OF first Cons.prems(2)]]
      run_operation_history [OF first Cons.prems(2)]
    by (rule keeps_history_trans [rotated])
qed (auto intro: keeps_history_same simp: ret_def)

lemma step_history:
  assumes "platform_step db db'" "platform_ok db"
  shows "keeps_history db db'"
proof -
  from assms(1) obtain scope now clock ops where
    db': "db' = snd (with_tenant scope now clock (run_operations scope ops) db)"
    by (rule platform_stepE)
  have start: "keeps_history db (begin_tenant scope now clock db)"
    by (rule keeps_history_same) (simp add: begin_tenant_def)
  show ?thesis
  proof (cases "run_operations scope ops (begin_tenant scope now clock db)")
    case (Inl e)
    then show ?thesis by (simp add: db' with_tenant_def keeps_history_same)
  next
    case (Inr result)
    then obtain u mid where run: "run_operations scope ops (begin_tenant scope now clock db) = Inr (u, mid)"
      by (cases result) auto
    have "keeps_history db mid"
      using keeps_history_trans [OF start run_operations_history [OF run platform_ok_begin [OF assms(2)]]] .
    then show ?thesis
      using keeps_history_trans [OF _ keeps_history_same]
      by (auto simp: db' with_tenant_def Let_def run keeps_history_same split: option.splits)
  qed
qed

lemma reachable_history:
  "platform_step\<^sup>*\<^sup>* db db' \<Longrightarrow> platform_ok db \<Longrightarrow> keeps_history db db'"
proof (induction rule: rtranclp_induct)
  case (step mid db')
  then show ?case
    using keeps_history_trans step_history reachable_platform_ok by blast
qed (simp add: keeps_history_same)

text \<open>
  C1. History is never rewritten: whatever transactions any tenants run after a reachable state, every
  settlement of that state is still there under its id and tenant; its version has not gone down; if it
  was in a terminal state its whole row is unchanged; if it was authorised its instructed terms are
  unchanged; and if it had passed its point of no return, the recorded instant is unchanged.
\<close>

theorem settlement_history:
  assumes "platform_step\<^sup>*\<^sup>* db0 db" "tables_empty db0" "platform_step\<^sup>*\<^sup>* db db'"
    and "old \<in> set (db_settlements db)"
  shows "\<exists>new\<in>set (db_settlements db'). stl_id new = stl_id old \<and> stl_scope new = stl_scope old \<and>
     stl_version old \<le> stl_version new \<and> (isTerminal (stl_status old) \<longrightarrow> new = old) \<and>
     (stl_authorizedAt old \<noteq> None \<longrightarrow> \<not> instruction_changed old new) \<and>
     (stl_pointOfNoReturnAt old \<noteq> None \<longrightarrow> stl_pointOfNoReturnAt new = stl_pointOfNoReturnAt old)"
proof -
  have "keeps_history db db'"
    by (rule reachable_history [OF assms(3) reachable_platform_ok [OF assms(1) empty_platform_ok [OF assms(2)]]])
  with assms(4) show ?thesis by (auto simp: keeps_history_def row_history_def simp del: isTerminal_simps)
qed

theorem settlement_history_witness:
  "\<exists>new\<in>set (db_settlements drawn_db). stl_id new = ''stl_1.0'' \<and> stl_version new \<ge> 1"
proof -
  have old: "hd (db_settlements sample_db) \<in> set (db_settlements sample_db)"
    "stl_id (hd (db_settlements sample_db)) = ''stl_1.0''" "stl_version (hd (db_settlements sample_db)) = 1"
    by (code_simp, code_simp, code_simp)
  have "platform_step\<^sup>*\<^sup>* sample_db drawn_db"
    unfolding drawn_db_def reserved_db_def facility_db_def
    by (meson transaction_step r_into_rtranclp rtranclp.rtrancl_into_rtrancl)
  from settlement_history [OF sample_step empty_db_empty this old(1)] old(2,3) show ?thesis by auto
qed

end
