(* ===== verification/Table_Discipline.thy ===== *)
theory Table_Discipline
  imports Platform "HOL-Library.Sublist"
begin

text \<open>
  What holds of every service because of the few table operations they are all made of. The locale
  \<open>discipline\<close> takes a relation between a database and a later one that each table operation
  respects and shows that every operation of the services, and every transaction, respects it. It is
  interpreted for the isolation of tenants, for the append-only tables and for the uniqueness of
  identifiers.
\<close>

section \<open>Relations that transactions respect\<close>

definition keeps :: "(db \<Rightarrow> db \<Rightarrow> bool) \<Rightarrow> 'a tx \<Rightarrow> bool" where
  "keeps R m \<longleftrightarrow> (\<forall>db x db'. m db = Inr (x, db') \<longrightarrow> R db db')"

lemma keepsI: "(\<And>db x db'. m db = Inr (x, db') \<Longrightarrow> R db db') \<Longrightarrow> keeps R m"
  by (simp add: keeps_def)

lemma keepsD: "keeps R m \<Longrightarrow> m db = Inr (x, db') \<Longrightarrow> R db db'"
  by (simp add: keeps_def)

lemma keeps_throw [simp, intro!]: "keeps R (throw e)"
  by (simp add: keeps_def)

locale discipline =
  fixes R :: "db \<Rightarrow> db \<Rightarrow> bool"
  assumes same: "R db db"
    and chain: "R db1 db2 \<Longrightarrow> R db2 db3 \<Longrightarrow> R db1 db3"
    and kept_id: "keeps R (new_id k)"
    and kept_event: "keeps R (emit_event scope e)"
    and kept_audit: "keeps R (write_audit scope a)"
    and kept_insert_settlement: "keeps R (insert_settlement stl)"
    and kept_update_settlements: "keeps R (update_settlements p f)"
    and kept_insert_facility: "keeps R (insert_facility fac)"
    and kept_update_facilities: "keeps R (update_facilities pf ff)"
    and kept_insert_reservation: "keeps R (insert_reservation rsv)"
    and kept_update_reservations: "keeps R (update_reservations pr fr)"
    and kept_insert_repayment: "keeps R (insert_repayment rpy)"
    and kept_update_repayments: "keeps R (update_repayments py fy)"
    and kept_insert_ledger: "keeps R (insert_ledger led)"
begin

lemma kept_ret [simp, intro!]: "keeps R (ret x)"
  by (auto simp: keeps_def same)

lemma kept_get [simp, intro!]: "keeps R (get_db f)"
  by (auto simp: keeps_def same)

lemma kept_bind [intro!]: "keeps R m \<Longrightarrow> (\<And>x. keeps R (f x)) \<Longrightarrow> keeps R (bind_tx m f)"
  unfolding keeps_def bind_tx_Inr by (meson chain)

lemmas kept = kept_id kept_event kept_audit kept_insert_settlement kept_update_settlements
  kept_insert_facility kept_update_facilities kept_insert_reservation kept_update_reservations
  kept_insert_repayment kept_update_repayments kept_insert_ledger

lemma kept_create_settlement: "keeps R (createSettlement scope i)"
  by (auto simp: createSettlement_def intro!: kept)

lemma kept_emit_companions: "keeps R (emit_companions scope actor cs)"
  by (induction cs) (auto intro!: kept)

lemma kept_carry_out: "keeps R (carry_out scope i current ok)"
  by (auto simp: carry_out_def write_settlement_def emit_status_event_def kept_emit_companions
      intro!: kept split: option.split)

lemma kept_apply_transition: "keeps R (applyTransition scope i)"
  by (auto simp: applyTransition_def Let_def kept_carry_out split: list.split sum.split)

lemma kept_lock_facility: "keeps R (lockFacility f)"
  by (auto simp: lockFacility_def toFacilityRow_def liquidity_tx_def readFacility_def Let_def
      split: list.split sum.split)

lemma kept_post_movement: "keeps R (postMovement scope f mv amount st si actor)"
  by (auto simp: postMovement_def post_entry_def intro!: kept split: option.split prod.split)

lemma kept_reserve: "keeps R (reserveLiquidity scope i)"
  by (auto simp: reserveLiquidity_def grant_reservation_def liquidity_tx_def Let_def kept_post_movement
      kept_lock_facility intro!: kept split: option.split sum.split reserve_verdict.split)

lemma kept_release: "keeps R (releaseReservation scope i)"
  by (auto simp: releaseReservation_def perform_release_def lockReservation_def kept_post_movement
      kept_lock_facility intro!: kept split: option.split sum.split)

lemma kept_consume: "keeps R (consumeReservation scope i)"
  by (auto simp: consumeReservation_def lockReservation_def kept_post_movement kept_lock_facility
      intro!: kept split: option.split sum.split)

lemma kept_fingerprint: "keeps R (fingerprint_tx i n)"
  by (auto simp: fingerprint_tx_def split: sum.split)

lemma kept_request: "keeps R (requestRepayment scope i)"
  by (auto simp: requestRepayment_def open_repayment_def eligibleOutstanding_def Let_def kept_fingerprint
      kept_lock_facility intro!: kept split: option.split sum.split list.split)

lemma kept_advance: "keeps R (advanceRepayment scope i)"
  by (auto simp: advanceRepayment_def perform_advance_def restore_capacity_def kept_fingerprint
      kept_post_movement kept_lock_facility intro!: kept split: sum.split list.split)

lemma kept_create_facility: "keeps R (createFacility scope i)"
  by (auto simp: createFacility_def intro!: kept)

lemma kept_operation: "keeps R (run_operation scope op)"
  by (cases op) (auto simp: run_operation_def ignore_def kept_create_settlement kept_apply_transition
      kept_create_facility kept_reserve kept_release kept_consume kept_request kept_advance)

lemma kept_operations: "keeps R (run_operations scope ops)"
  by (induction ops) (auto simp: kept_operation)

end

context table
begin

lemma insert_shape: "insert_row get put rid violation r db = Inr (u, db') \<Longrightarrow> db' = put (get db @ [r]) db"
  by (simp add: insert_row_Inr)

lemma update_shape: "update_table get put scope_of p f db = Inr (u, db') \<Longrightarrow> \<exists>rs. db' = put rs db"
  by (auto simp: update_table_def bind_result_Inr)

lemma update_rows_foreign:
  assumes "update_rows (\<lambda>r. scope_of r = sc \<and> p r) f rows = Inr rows'"
    and "\<And>r r'. f r = Inr r' \<Longrightarrow> scope_of r' = sc"
  shows "filter (\<lambda>r. scope_of r \<noteq> sc) rows' = filter (\<lambda>r. scope_of r \<noteq> sc) rows"
  using assms(1)
  by (induction rows arbitrary: rows') (auto simp: bind_result_Inr assms(2) split: if_splits)

lemma update_foreign:
  assumes "update_table get put scope_of p f db = Inr (u, db')"
    and "\<And>r r'. f db r = Inr r' \<Longrightarrow> scope_of r' = db_scope db"
  shows "filter (\<lambda>r. scope_of r \<noteq> db_scope db) (get db') = filter (\<lambda>r. scope_of r \<noteq> db_scope db) (get db)"
  using assms by (auto simp: update_table_def bind_result_Inr update_rows_foreign)

end

section \<open>Tenants are isolated\<close>

definition isolated :: "db \<Rightarrow> db \<Rightarrow> bool" where
  "isolated db db' \<longleftrightarrow> db_scope db' = db_scope db \<and>
     filter (\<lambda>r. stl_scope r \<noteq> db_scope db) (db_settlements db') = filter (\<lambda>r. stl_scope r \<noteq> db_scope db) (db_settlements db) \<and>
     filter (\<lambda>r. fac_scope r \<noteq> db_scope db) (db_facilities db') = filter (\<lambda>r. fac_scope r \<noteq> db_scope db) (db_facilities db) \<and>
     filter (\<lambda>r. rsv_scope r \<noteq> db_scope db) (db_reservations db') = filter (\<lambda>r. rsv_scope r \<noteq> db_scope db) (db_reservations db) \<and>
     filter (\<lambda>r. rpy_scope r \<noteq> db_scope db) (db_repayments db') = filter (\<lambda>r. rpy_scope r \<noteq> db_scope db) (db_repayments db) \<and>
     filter (\<lambda>r. led_scope r \<noteq> db_scope db) (db_ledger db') = filter (\<lambda>r. led_scope r \<noteq> db_scope db) (db_ledger db) \<and>
     filter (\<lambda>r. evt_scope r \<noteq> db_scope db) (db_events db') = filter (\<lambda>r. evt_scope r \<noteq> db_scope db) (db_events db) \<and>
     filter (\<lambda>r. aud_scope r \<noteq> db_scope db) (db_audit db') = filter (\<lambda>r. aud_scope r \<noteq> db_scope db) (db_audit db)"

lemma violation_scopes:
  "settlement_violation db r = None \<Longrightarrow> stl_scope r = db_scope db"
  "facility_violation db f = None \<Longrightarrow> fac_scope f = db_scope db"
  "reservation_violation db v = None \<Longrightarrow> rsv_scope v = db_scope db"
  "repayment_violation db y = None \<Longrightarrow> rpy_scope y = db_scope db"
  "ledger_violation db l = None \<Longrightarrow> led_scope l = db_scope db"
  by (auto simp: settlement_violation_def facility_violation_def reservation_violation_def
      repayment_violation_def ledger_violation_def Let_def)

interpretation isolation: discipline isolated
proof
  show "isolated db db" for db by (simp add: isolated_def)
  show "isolated db1 db3" if "isolated db1 db2" "isolated db2 db3" for db1 db2 db3
    using that unfolding isolated_def by metis
  show "keeps isolated (new_id k)" for k by (auto simp: keeps_def new_id_def isolated_def)
  show "keeps isolated (emit_event scope e)" for scope e
    by (rule keepsI) (auto simp: isolated_def elim!: emit_event_effect)
  show "keeps isolated (write_audit scope a)" for scope a
    by (rule keepsI) (auto simp: isolated_def elim!: write_audit_effect)
  show "keeps isolated (insert_settlement r)" for r
    by (rule keepsI)
      (auto simp: insert_settlement_def queue_pairing_def bind_tx_Inr insert_row_Inr isolated_def
        put_settlements_def dest: violation_scopes)
  show "keeps isolated (insert_facility r)" for r
    by (rule keepsI)
      (auto simp: insert_facility_def insert_row_Inr isolated_def put_facilities_def dest: violation_scopes)
  show "keeps isolated (insert_reservation r)" for r
    by (rule keepsI)
      (auto simp: insert_reservation_def insert_row_Inr isolated_def put_reservations_def dest: violation_scopes)
  show "keeps isolated (insert_repayment r)" for r
    by (rule keepsI)
      (auto simp: insert_repayment_def insert_row_Inr isolated_def put_repayments_def dest: violation_scopes)
  show "keeps isolated (insert_ledger r)" for r
    by (rule keepsI)
      (auto simp: insert_ledger_def bind_tx_Inr insert_row_Inr isolated_def put_ledger_def dest: violation_scopes)
  show "keeps isolated (update_settlements p f)" for p f
  proof (rule keepsI)
    fix db u db' assume "update_settlements p f db = Inr (u, db')"
    then obtain db1 pend where upd: "update_table db_settlements put_settlements stl_scope p
          (\<lambda>db. guarded (protect_settlement_row (db_now db)) (settlement_violation db) f) db = Inr ((), db1)"
      and db': "db' = db1\<lparr>db_pendingPairing := pend\<rparr>"
      by (auto simp: update_settlements_def bind_tx_Inr)
    from settlements.update_foreign [OF upd] settlements.update_shape [OF upd] show "isolated db db'"
      by (auto simp: db' isolated_def put_settlements_def guarded_Inr dest: violation_scopes)
  qed
  show "keeps isolated (update_facilities p f)" for p f
  proof (rule keepsI)
    fix db u db' assume upd: "update_facilities p f db = Inr (u, db')"
    from facilities.update_foreign [OF upd [unfolded update_facilities_def]]
      facilities.update_shape [OF upd [unfolded update_facilities_def]] show "isolated db db'"
      by (auto simp: isolated_def put_facilities_def guarded_Inr dest: violation_scopes)
  qed
  show "keeps isolated (update_reservations p f)" for p f
  proof (rule keepsI)
    fix db u db' assume upd: "update_reservations p f db = Inr (u, db')"
    from reservations.update_foreign [OF upd [unfolded update_reservations_def]]
      reservations.update_shape [OF upd [unfolded update_reservations_def]] show "isolated db db'"
      by (auto simp: isolated_def put_reservations_def guarded_Inr dest: violation_scopes)
  qed
  show "keeps isolated (update_repayments p f)" for p f
  proof (rule keepsI)
    fix db u db' assume upd: "update_repayments p f db = Inr (u, db')"
    from repayments.update_foreign [OF upd [unfolded update_repayments_def]]
      repayments.update_shape [OF upd [unfolded update_repayments_def]] show "isolated db db'"
      by (auto simp: isolated_def put_repayments_def guarded_Inr dest: violation_scopes)
  qed
qed

lemma with_tenant_cases:
  assumes "discipline R" "R db (db\<lparr>db_txid := db_txid db + 1\<rparr>)" "R db (begin_tenant scope now clock db)"
  shows "R db (snd (with_tenant scope now clock (run_operations scope' ops) db))"
proof (cases "run_operations scope' ops (begin_tenant scope now clock db)")
  case (Inl e)
  then show ?thesis using assms(2) by (simp add: with_tenant_def)
next
  case (Inr result)
  then obtain u mid where run: "run_operations scope' ops (begin_tenant scope now clock db) = Inr (u, mid)"
    by (cases result) auto
  have "R db mid"
    using discipline.chain [OF assms(1,3) keepsD [OF discipline.kept_operations [OF assms(1)] run]] .
  then show ?thesis using assms(2) by (simp add: with_tenant_def Let_def run)
qed

text \<open>
  C13. Tenants are isolated: whatever operations a transaction bound to one tenant runs, with whatever scope
  its services are handed, the settlements, facilities, reservations, repayments, ledger entries,
  events and audit rows of every other tenant are exactly those of before, in the same order.
\<close>

theorem tenant_isolation:
  "(\<lambda>db. (filter (\<lambda>r. stl_scope r \<noteq> scope) (db_settlements db), filter (\<lambda>r. fac_scope r \<noteq> scope) (db_facilities db),
      filter (\<lambda>r. rsv_scope r \<noteq> scope) (db_reservations db), filter (\<lambda>r. rpy_scope r \<noteq> scope) (db_repayments db),
      filter (\<lambda>r. led_scope r \<noteq> scope) (db_ledger db), filter (\<lambda>r. evt_scope r \<noteq> scope) (db_events db),
      filter (\<lambda>r. aud_scope r \<noteq> scope) (db_audit db)))
     (snd (with_tenant scope now clock (run_operations scope' ops) db)) =
   (filter (\<lambda>r. stl_scope r \<noteq> scope) (db_settlements db), filter (\<lambda>r. fac_scope r \<noteq> scope) (db_facilities db),
      filter (\<lambda>r. rsv_scope r \<noteq> scope) (db_reservations db), filter (\<lambda>r. rpy_scope r \<noteq> scope) (db_repayments db),
      filter (\<lambda>r. led_scope r \<noteq> scope) (db_ledger db), filter (\<lambda>r. evt_scope r \<noteq> scope) (db_events db),
      filter (\<lambda>r. aud_scope r \<noteq> scope) (db_audit db))"
proof -
  let ?db = "begin_tenant scope now clock db"
  have run: "isolated ?db mid" if "run_operations scope' ops ?db = Inr (u, mid)" for u mid
    using that by (rule keepsD [OF isolation.kept_operations])
  have audit: "db_audit ?db = db_audit db" by (simp add: begin_tenant_def)
  show ?thesis
    using run audit by (auto simp: with_tenant_def Let_def isolated_def split: sum.splits)
qed

section \<open>What is written stays written\<close>

definition appends :: "db \<Rightarrow> db \<Rightarrow> bool" where
  "appends db db' \<longleftrightarrow> prefix (db_ledger db) (db_ledger db') \<and> prefix (db_events db) (db_events db') \<and>
     prefix (db_audit db) (db_audit db')"

lemma appends_same:
  "db_ledger db' = db_ledger db \<Longrightarrow> db_events db' = db_events db \<Longrightarrow> db_audit db' = db_audit db \<Longrightarrow> appends db db'"
  by (simp add: appends_def)

lemma update_effects:
  "update_settlements p f db = Inr (u, db') \<Longrightarrow>
     \<exists>rs pend. db' = db\<lparr>db_settlements := rs, db_pendingPairing := pend\<rparr>"
  "update_facilities pf ff db = Inr (u, db') \<Longrightarrow> \<exists>rs. db' = db\<lparr>db_facilities := rs\<rparr>"
  "update_reservations pr fr db = Inr (u, db') \<Longrightarrow> \<exists>rs. db' = db\<lparr>db_reservations := rs\<rparr>"
  "update_repayments py fy db = Inr (u, db') \<Longrightarrow> \<exists>rs. db' = db\<lparr>db_repayments := rs\<rparr>"
  by (auto simp: update_settlements_def update_facilities_def update_reservations_def update_repayments_def
      put_settlements_def put_facilities_def put_reservations_def put_repayments_def update_table_def
      bind_tx_Inr bind_result_Inr) blast?

interpretation append_only: discipline appends
proof
  show "appends db db" for db by (simp add: appends_def)
  show "appends db1 db3" if "appends db1 db2" "appends db2 db3" for db1 db2 db3
    using that unfolding appends_def by (metis prefix_order.trans)
  show "keeps appends (new_id k)" for k by (auto simp: keeps_def new_id_def appends_def)
  show "keeps appends (emit_event scope e)" for scope e
    by (rule keepsI) (auto simp: appends_def elim!: emit_event_effect)
  show "keeps appends (write_audit scope a)" for scope a
    by (rule keepsI) (auto simp: appends_def elim!: write_audit_effect)
  show "keeps appends (insert_settlement r)" for r
    by (rule keepsI) (auto simp: insert_settlement_def queue_pairing_def bind_tx_Inr insert_row_Inr
        put_settlements_def intro: appends_same)
  show "keeps appends (insert_facility r)" for r
    by (rule keepsI) (auto simp: insert_facility_def insert_row_Inr put_facilities_def intro: appends_same)
  show "keeps appends (insert_reservation r)" for r
    by (rule keepsI) (auto simp: insert_reservation_def insert_row_Inr put_reservations_def intro: appends_same)
  show "keeps appends (insert_repayment r)" for r
    by (rule keepsI) (auto simp: insert_repayment_def insert_row_Inr put_repayments_def intro: appends_same)
  show "keeps appends (insert_ledger r)" for r
    by (rule keepsI) (auto simp: insert_ledger_def bind_tx_Inr insert_row_Inr put_ledger_def appends_def)
qed (rule keepsI, drule update_effects, force intro: appends_same)+

text \<open>
  C14. The ledger, the event log and the audit trail are append-only: after any transaction of any tenant
  each still begins with exactly the entries it had, in order and unaltered.
\<close>

theorem append_only_tables:
  "prefix (db_ledger db) (db_ledger (snd (with_tenant scope now clock (run_operations scope' ops) db))) \<and>
   prefix (db_events db) (db_events (snd (with_tenant scope now clock (run_operations scope' ops) db))) \<and>
   prefix (db_audit db) (db_audit (snd (with_tenant scope now clock (run_operations scope' ops) db)))"
proof -
  have "appends db (snd (with_tenant scope now clock (run_operations scope' ops) db))"
    by (rule with_tenant_cases [OF append_only.discipline_axioms]) (simp_all add: appends_def begin_tenant_def)
  then show ?thesis by (simp add: appends_def)
qed

end
