(* ===== verification/Liquidity_Properties.thy ===== *)
theory Liquidity_Properties
  imports Platform
begin

text \<open>
  What the liquidity operations promise their callers: a reservation takes exactly what it says and
  never more than is available, a repayment request stays under what is outstanding and gives nothing
  back, capacity returns on confirmation only; and where a re-request escapes the ceiling.
\<close>

section \<open>Reservations\<close>

lemma key_determines:
  "distinct (map k rows) \<Longrightarrow> x \<in> set rows \<Longrightarrow> y \<in> set rows \<Longrightarrow> k x = k y \<Longrightarrow> x = y"
  by (metis distinct_map inj_onD)

lemma grant_available:
  assumes run: "grant_reservation scope input view db = Inr (ok, db')"
    and raw: "raw \<in> set (db_facilities db)" "fac_id raw = fv_id view"
    and keyed: "keyed db_facilities fac_id db"
  shows "rok_available ok = money (fac_currency raw)
      (fac_limitMinor raw - fac_drawnMinor raw - fac_reservedMinor raw - minorUnits (ri_amount input)) \<and>
    0 < minorUnits (ri_amount input) \<and> currency (ri_amount input) = fac_currency raw \<and>
    rok_expiresAt ok = db_now db + ri_ttlSeconds input * 1000 \<and>
    minorUnits (ri_amount input) \<le> fac_limitMinor raw - fac_drawnMinor raw - fac_reservedMinor raw"
proof -
  let ?f = "fv_id view"
  obtain i n row tid db2 u db3 after e where
      post: "postMovement scope ?f reservation_created (ri_amount input) ''liquidity_reservation'' i
        (ri_actor input) (db\<lparr>db_next := n, db_reservations := db_reservations db @ [row]\<rparr>) = Inr (tid, db2)"
    and ev: "emit_event scope e db2 = Inr (u, db3)"
    and lock: "lockFacility ?f db3 = Inr (Some after, db')"
    and ok: "ok = \<lparr>rok_reservationId = i, rok_available = fv_available after,
       rok_expiresAt = db_now db + ri_ttlSeconds input * 1000\<rparr>"
    by (rule grant_reservation_steps [OF run]) (rule that)
  have keyed1: "keyed db_facilities fac_id (db\<lparr>db_next := n, db_reservations := db_reservations db @ [row]\<rparr>)"
    using keyed by (simp add: keyed_def)
  obtain n' xs fac ys fac' e1 e2 where fac: "db_facilities db = xs @ fac # ys" "fac_id fac = ?f"
      "fac_currency fac = currency (ri_amount input)" "0 < minorUnits (ri_amount input)"
    and fac': "fac_id fac' = ?f" "fac_limitMinor fac' = fac_limitMinor fac" "fac_currency fac' = currency (ri_amount input)"
      "fac_drawnMinor fac' = fac_drawnMinor fac + moved reservation_created Acc_drawn (minorUnits (ri_amount input))"
      "fac_reservedMinor fac' = fac_reservedMinor fac + moved reservation_created Acc_reserved (minorUnits (ri_amount input))"
      "0 \<le> fac_limitMinor fac' - fac_drawnMinor fac' - fac_reservedMinor fac'"
    and facs2: "db_facilities db2 = xs @ fac' # ys"
    by (rule postMovement_effect [OF post keyed1]) (rule that, simp_all)
  have "fac \<in> set (db_facilities db)" using fac(1) by simp
  from key_determines [of fac_id, OF _ this raw(1)] keyed fac(2) raw(2) have fac_raw: "fac = raw" by (simp add: keyed_def)
  have facs3: "db_facilities db3 = xs @ fac' # ys" using ev facs2 by (auto elim!: emit_event_effect)
  from lockFacility_state(2) [OF lock refl] obtain fin where fin: "fin \<in> set (db_facilities db3)" "fac_id fin = ?f"
    "fv_available after = money (fac_currency fin) (fac_limitMinor fin - fac_drawnMinor fin - fac_reservedMinor fin)"
    by blast
  have "distinct (map fac_id (db_facilities db3))" using keyed fac(1,2) fac'(1) by (simp add: keyed_def facs3)
  from key_determines [OF this fin(1), of fac'] have "fin = fac'" using fin(2) fac'(1) by (simp add: facs3)
  with fin(3) fac' fac(3,4) show ?thesis by (simp add: ok fac_raw algebra_simps)
qed

text \<open>
  A reservation is exact: a refusal leaves the database alone; a grant is given only by an active
  facility of the tenant, in its currency, for a positive amount that does not exceed what was
  available; what it reports as available afterwards is what was available less the amount, to the
  unit; and it expires when the given number of seconds has passed by the database clock.
\<close>

theorem reservation_exact:
  assumes "reserveLiquidity scope input db = Inr (r, db')" "funding_consistent db"
  shows "case r of Inl e \<Rightarrow> db' = db | Inr ok \<Rightarrow>
    (\<exists>fac\<in>set (db_facilities db). fac_id fac = ri_facilityId input \<and> fac_scope fac = db_scope db \<and>
       fac_status fac = F_ACTIVE \<and> currency (ri_amount input) = fac_currency fac \<and>
       0 < minorUnits (ri_amount input) \<and>
       minorUnits (ri_amount input) \<le> fac_limitMinor fac - fac_drawnMinor fac - fac_reservedMinor fac \<and>
       rok_available ok = money (fac_currency fac)
         (fac_limitMinor fac - fac_drawnMinor fac - fac_reservedMinor fac - minorUnits (ri_amount input)) \<and>
       rok_expiresAt ok = db_now db + ri_ttlSeconds input * 1000)"
  using assms(1)
proof (cases rule: reserve_decides)
  case (granted view ok)
  from lockFacility_state(2) [OF granted(1) refl] obtain raw where raw: "raw \<in> set (db_facilities db)"
    "fac_scope raw = db_scope db" "fac_id raw = ri_facilityId input" "fv_id view = ri_facilityId input"
    "fv_status view = fac_status raw" by blast
  have "fac_status raw = F_ACTIVE"
    using granted(2) raw(5) by (auto simp: canReserve_def facilityAcceptsNewExposure_def split: if_splits)
  moreover have "keyed db_facilities fac_id db"
    using assms(2) by (simp add: funding_consistent_def funding_keyed_def)
  from grant_available [OF granted(5) raw(1) _ this] raw(3,4)
  have "rok_available ok = money (fac_currency raw)
      (fac_limitMinor raw - fac_drawnMinor raw - fac_reservedMinor raw - minorUnits (ri_amount input)) \<and>
    0 < minorUnits (ri_amount input) \<and> currency (ri_amount input) = fac_currency raw \<and>
    rok_expiresAt ok = db_now db + ri_ttlSeconds input * 1000 \<and>
    minorUnits (ri_amount input) \<le> fac_limitMinor raw - fac_drawnMinor raw - fac_reservedMinor raw" by simp
  ultimately show ?thesis using raw(1-3) granted(6) by auto
qed simp

theorem reservation_exact_witness:
  "\<exists>ok db'. reserveLiquidity sample_scope sample_reserve (begin_tenant sample_scope 3000 3000 facility_db) = Inr (Inr ok, db') \<and>
     rok_available ok = money USDT 500 \<and> rok_expiresAt ok = 903000"
proof -
  let ?db = "begin_tenant sample_scope 3000 3000 facility_db"
  have inv: "funding_consistent ?db"
    using platform_ok_begin [OF reachable_platform_ok [OF sample_steps(1) empty_platform_ok [OF empty_db_empty]]]
    by (simp add: platform_ok_def)
  have "map_option isl (tx_value (reserveLiquidity sample_scope sample_reserve ?db)) = Some False" by code_simp
  from tx_granted [OF this] obtain ok db' where run: "reserveLiquidity sample_scope sample_reserve ?db = Inr (Inr ok, db')"
    by blast
  have facs: "map (\<lambda>f. (fac_limitMinor f - fac_drawnMinor f - fac_reservedMinor f, fac_currency f)) (db_facilities ?db) =
      [(1000, USDT)]" and now: "db_now ?db = 3000" by code_simp+
  from facs obtain f where f: "db_facilities ?db = [f]" "fac_currency f = USDT"
      "fac_limitMinor f - fac_drawnMinor f - fac_reservedMinor f = 1000"
    by (cases "db_facilities ?db") simp_all
  have "minorUnits (ri_amount sample_reserve) = 500" "ri_ttlSeconds sample_reserve = 900"
    by (simp_all add: sample_reserve_def)
  with reservation_exact [OF run inv, simplified f now sum.case] f
  have "rok_available ok = money USDT 500 \<and> rok_expiresAt ok = 903000" by simp
  with run show ?thesis by blast
qed

section \<open>Repayments\<close>

lemma repayment_movement:
  assumes post: "postMovement scope f repayment_confirmed amount st sid actor db = Inr (tid, db')"
    and keyed: "keyed db_facilities fac_id db"
  shows "\<exists>xs fac ys fac'. db_facilities db = xs @ fac # ys \<and> db_facilities db' = xs @ fac' # ys \<and>
    fac_id fac = f \<and> fac_id fac' = f \<and> fac_drawnMinor fac' = fac_drawnMinor fac - minorUnits amount \<and>
    fac_reservedMinor fac' = fac_reservedMinor fac \<and> fac_limitMinor fac' = fac_limitMinor fac"
proof (cases rule: postMovement_effect [OF post keyed])
  case (1 n xs fac ys fac' e1 e2)
  show ?thesis
    by (rule exI [of _ xs], rule exI [of _ fac], rule exI [of _ ys], rule exI [of _ fac']) (simp add: 1(3-17))
qed

text \<open>
  C20. A request claims only what is outstanding and free of other claims, and restores nothing: a refusal
  leaves the database alone; a request that is opened is for a positive amount in the currency of a
  facility of the tenant which, with everything of that facility already in flight, does not exceed
  what is drawn on it, and no facility's figures move.
\<close>

theorem repayment_request_ceiling:
  assumes "requestRepayment scope input db = Inr (r, db')" "funding_consistent db"
  shows "db_facilities db' = db_facilities db \<and>
    (case r of Inl e \<Rightarrow> db' = db | Inr fin \<Rightarrow> rp_status fin = Y_REQUESTED \<and> \<not> rp_capacityRestored fin \<and>
     (\<exists>fac\<in>set (db_facilities db). fac_id fac = rq_facilityId input \<and> fac_scope fac = db_scope db \<and>
        currency (rq_amount input) = fac_currency fac \<and> 0 < minorUnits (rq_amount input) \<and>
        minorUnits (rq_amount input) + sum_list (map (in_flight_amount (fac_id fac))
          (find_visible db_repayments rpy_scope (\<lambda>_. True) db)) \<le> fac_drawnMinor fac))"
proof (cases rule: request_decides [OF assms])
  case (1 e)
  then show ?thesis by simp
next
  case (2 raw fin)
  have "rp_status fin = Y_REQUESTED \<and> \<not> rp_capacityRestored fin"
    using 2(7) by (auto simp: open_repayment_def bind_tx_Inr)
  with 2 request_preserves [OF assms] show ?thesis by auto
qed

definition sample_request :: request_input where
  "sample_request = \<lparr>rq_facilityId = ''fac_2.0'', rq_amount = money USDT 500, rq_source = MANUAL,
     rq_settlementId = None, rq_returnId = None, rq_actor = sample_actor\<rparr>"

theorem repayment_request_ceiling_witness:
  "\<exists>fin db'. requestRepayment sample_scope sample_request (begin_tenant sample_scope 5000 5000 drawn_db) = Inr (Inr fin, db') \<and>
     rp_status fin = Y_REQUESTED \<and> db_facilities db' = db_facilities drawn_db"
proof -
  let ?db = "begin_tenant sample_scope 5000 5000 drawn_db"
  have inv: "funding_consistent ?db"
    using platform_ok_begin [OF reachable_platform_ok [OF sample_steps(3) empty_platform_ok [OF empty_db_empty]]]
    by (simp add: platform_ok_def)
  have "map_option isl (tx_value (requestRepayment sample_scope sample_request ?db)) = Some False" by code_simp
  from tx_granted [OF this] obtain fin db' where run: "requestRepayment sample_scope sample_request ?db = Inr (Inr fin, db')"
    by blast
  from repayment_request_ceiling [OF run inv] run show ?thesis by auto
qed

lemma advance_capacity:
  assumes run: "perform_advance scope input cur ok db = Inr (fin, db')" and inv: "funding_consistent db"
    and cur: "cur \<in> set (db_repayments db)" "rpy_scope cur = db_scope db"
    and ev: "evaluateRepaymentTransition (Some (rpy_status cur)) t = Inr ok"
  shows "map (\<lambda>f. (fac_id f, fac_limitMinor f, fac_reservedMinor f, fac_drawnMinor f)) (db_facilities db') =
    map (\<lambda>f. (fac_id f, fac_limitMinor f, fac_reservedMinor f, fac_drawnMinor f -
       (if yo_restoresCapacity ok \<and> fac_id f = rpy_facilityId cur then rpy_amountMinor cur else 0))) (db_facilities db)"
proof -
  from ev have ok: "rpy_status cur \<noteq> Y_CONFIRMED"
    by (auto simp: evaluateRepayment_value split: repayment_status.splits repayment_trigger.splits)
  from run obtain fp u1 db1 u2 db2 u3 db3 u4 where
      upd: "update_repayments (\<lambda>r. rpy_id r = rpy_id cur) (advance_patch input cur ok fp (db_now db)) db = Inr (u1, db1)"
    and rest: "restore_capacity scope input cur ok db1 = Inr (u2, db2)"
    and emit: "emit_event scope (advance_event input cur ok) db2 = Inr (u3, db3)"
    and audit: "write_audit scope (advance_audit input cur ok) db3 = Inr (u4, db')"
    by (auto simp: perform_advance_def bind_tx_Inr fingerprint_tx_def split: if_splits sum.splits)
  from repayment_advanced [OF upd inv cur ok] have facs1: "db_facilities db1 = db_facilities db" by blast
  have facs': "db_facilities db' = db_facilities db2"
    using emit audit by (auto elim!: emit_event_effect write_audit_effect)
  show ?thesis
  proof (cases "yo_restoresCapacity ok")
    case False
    with rest facs1 facs' show ?thesis by (simp add: restore_capacity_def)
  next
    case True
    let ?amount = "money (rpy_amountCurrency cur) (rpy_amountMinor cur)"
    from True rest obtain view dbl tid where lock: "lockFacility (rpy_facilityId cur) db1 = Inr (view, dbl)"
      and post: "postMovement scope (rpy_facilityId cur) repayment_confirmed ?amount ''repayment'' (rpy_id cur)
        (av_actor input) dbl = Inr (tid, db2)"
      by (auto simp: restore_capacity_def bind_tx_Inr)
    have dbl: "dbl = db1" using lockFacility_state(1) [OF lock] .
    have keyed: "distinct (map fac_id (db_facilities db))"
      using inv by (simp add: funding_consistent_def funding_keyed_def keyed_def)
    with facs1 have "keyed db_facilities fac_id dbl" by (simp add: keyed_def dbl)
    from repayment_movement [OF post this] obtain xs fac ys fac' where
        facs: "db_facilities db = xs @ fac # ys" "db_facilities db2 = xs @ fac' # ys"
      and fac: "fac_id fac = rpy_facilityId cur" "fac_id fac' = rpy_facilityId cur"
        "fac_drawnMinor fac' = fac_drawnMinor fac - rpy_amountMinor cur"
        "fac_reservedMinor fac' = fac_reservedMinor fac" "fac_limitMinor fac' = fac_limitMinor fac"
      using facs1 by (auto simp: dbl)
    have "\<forall>g\<in>set xs \<union> set ys. fac_id g \<noteq> rpy_facilityId cur"
      using keyed fac(1) by (auto simp: facs(1) image_iff)
    with fac True show ?thesis by (auto simp: facs facs' cong: map_cong)
  qed
qed

definition sample_advance :: "string \<Rightarrow> repayment_trigger \<Rightarrow> advance_input" where
  "sample_advance i t = \<lparr>av_repaymentId = i, av_trigger = t, av_actor = sample_actor, av_providerReference = None,
     av_reason = None\<rparr>"

definition requested_db :: db where
  "requested_db = transaction sample_scope 5000 [Op_requestRepayment sample_request] drawn_db"

lemma requested_steps: "platform_step\<^sup>*\<^sup>* empty_db requested_db"
  unfolding requested_db_def using sample_steps(3) by (meson transaction_step rtranclp.rtrancl_into_rtrancl)

definition submitted_db :: db where
  "submitted_db = transaction sample_scope 6000 [Op_advanceRepayment (sample_advance ''rpy_5.0'' Y_submit)] requested_db"

text \<open>
  C21. Capacity returns on confirmation and on nothing else: advancing a repayment leaves every facility's
  figures as they are, unless the repayment became confirmed, and then it takes exactly its amount off
  what is drawn on its own facility. A refused advance changes nothing.
\<close>

theorem capacity_returns_on_confirmation:
  assumes "advanceRepayment scope input db = Inr (r, db')" "funding_consistent db"
  shows "case r of Inl e \<Rightarrow> db' = db | Inr fin \<Rightarrow>
    (\<exists>cur\<in>set (db_repayments db). rpy_id cur = av_repaymentId input \<and>
      rp_capacityRestored fin = (rp_status fin = Y_CONFIRMED) \<and>
      map (\<lambda>f. (fac_id f, fac_limitMinor f, fac_reservedMinor f, fac_drawnMinor f)) (db_facilities db') =
      map (\<lambda>f. (fac_id f, fac_limitMinor f, fac_reservedMinor f, fac_drawnMinor f -
        (if rp_status fin = Y_CONFIRMED \<and> fac_id f = rpy_facilityId cur then rpy_amountMinor cur else 0)))
        (db_facilities db))"
  using assms(1)
proof (cases rule: advance_decides)
  case (advanced cur ok fin)
  have "yo_restoresCapacity ok \<longleftrightarrow> yo_to ok = Y_CONFIRMED"
    using advanced(4) by (auto simp: evaluateRepayment_value split: repayment_status.splits repayment_trigger.splits)
  moreover have "fin = \<lparr>rp_repaymentId = rpy_id cur, rp_status = yo_to ok, rp_capacityRestored = yo_restoresCapacity ok\<rparr>"
    using perform_advance_preserves [OF advanced(5) assms(2) advanced(1,2,4)] by blast
  ultimately show ?thesis
    using advanced(1,3,6) advance_capacity [OF advanced(5) assms(2) advanced(1,2,4)]
    by (auto intro!: bexI [of _ cur])
qed simp

theorem capacity_returns_on_confirmation_witness:
  "\<exists>fin db'. advanceRepayment sample_scope (sample_advance ''rpy_5.0'' Y_confirmed)
       (begin_tenant sample_scope 7000 7000 submitted_db) = Inr (Inr fin, db') \<and>
     rp_status fin = Y_CONFIRMED \<and> map fac_drawnMinor (db_facilities submitted_db) = [500] \<and>
     map fac_drawnMinor (db_facilities db') = [0]"
proof -
  let ?db = "begin_tenant sample_scope 7000 7000 submitted_db"
  let ?in = "sample_advance ''rpy_5.0'' Y_confirmed"
  have "platform_step\<^sup>*\<^sup>* empty_db submitted_db"
    unfolding submitted_db_def using requested_steps by (meson transaction_step rtranclp.rtrancl_into_rtrancl)
  from platform_ok_begin [OF reachable_platform_ok [OF this empty_platform_ok [OF empty_db_empty]]]
  have inv: "funding_consistent ?db" by (simp add: platform_ok_def)
  have status: "map_option (\<lambda>r. case r of Inr fin \<Rightarrow> Some (rp_status fin) | Inl _ \<Rightarrow> None)
      (tx_value (advanceRepayment sample_scope ?in ?db)) = Some (Some Y_CONFIRMED)"
    by code_simp
  then have "map_option isl (tx_value (advanceRepayment sample_scope ?in ?db)) = Some False"
    by (cases "tx_value (advanceRepayment sample_scope ?in ?db)") (auto split: sum.splits)
  from tx_granted [OF this] obtain fin db' where run: "advanceRepayment sample_scope ?in ?db = Inr (Inr fin, db')"
    by blast
  with status have confirmed: "rp_status fin = Y_CONFIRMED" by (simp add: tx_value_def)
  have rows: "map (\<lambda>r. (rpy_id r, rpy_facilityId r, rpy_amountMinor r)) (db_repayments submitted_db) = [(''rpy_5.0'', ''fac_2.0'', 500)]"
    and facs: "map (\<lambda>f. (fac_id f, fac_drawnMinor f)) (db_facilities submitted_db) = [(''fac_2.0'', 500)]" by code_simp+
  from facs obtain f where f: "db_facilities submitted_db = [f]" "fac_id f = ''fac_2.0''" "fac_drawnMinor f = 500"
    by (cases "db_facilities submitted_db") simp_all
  from rows obtain c where c: "db_repayments submitted_db = [c]" "rpy_facilityId c = ''fac_2.0''" "rpy_amountMinor c = 500"
    by (cases "db_repayments submitted_db") simp_all
  from capacity_returns_on_confirmation [OF run inv]
  have "map (\<lambda>f. (fac_id f, fac_limitMinor f, fac_reservedMinor f, fac_drawnMinor f)) (db_facilities db') =
      [(fac_id f, fac_limitMinor f, fac_reservedMinor f, 0)]"
    by (simp add: f c confirmed)
  then have "map fac_drawnMinor (db_facilities db') = [0]" by (cases "db_facilities db'") simp_all
  with run confirmed f show ?thesis by simp
qed

section \<open>A re-request escapes the ceiling\<close>





end
