(* ===== verification/Identity.thy ===== *)
theory Identity
  imports Store
begin

text \<open>
  Who may do what (\<open>packages/domain/src/identity\<close>): the capabilities of workspace and staff roles
  (\<open>capabilities.ts\<close>, \<open>internal.ts\<close>), API keys and their scopes (\<open>api-key.ts\<close>), the establishment of
  sessions (\<open>auth.ts\<close>), separation of duties (\<open>separation-of-duties.ts\<close>) and the policy that governs
  it (\<open>security-policy.ts\<close>). A set of capabilities is a HOL set; the messages of denials are left out.
\<close>

section \<open>Capabilities and roles\<close>

datatype workspace_role = R_viewer | R_operator | R_approver | R_admin | R_developer

datatype capability =
    Settlement_Read | Settlement_Create | Settlement_Authorize | Settlement_Cancel
  | Beneficiary_Read | Beneficiary_Write | Batch_Read | Batch_Write
  | Workspace_Read | Workspace_Manage | Member_Manage | Security_Policy_Manage
  | Apikey_Manage | Webhook_Manage | Developer_Read

primrec capability_string :: "capability \<Rightarrow> string" where
  "capability_string Settlement_Read = ''settlement:read''"
| "capability_string Settlement_Create = ''settlement:create''"
| "capability_string Settlement_Authorize = ''settlement:authorize''"
| "capability_string Settlement_Cancel = ''settlement:cancel''"
| "capability_string Beneficiary_Read = ''beneficiary:read''"
| "capability_string Beneficiary_Write = ''beneficiary:write''"
| "capability_string Batch_Read = ''batch:read''"
| "capability_string Batch_Write = ''batch:write''"
| "capability_string Workspace_Read = ''workspace:read''"
| "capability_string Workspace_Manage = ''workspace:manage''"
| "capability_string Member_Manage = ''member:manage''"
| "capability_string Security_Policy_Manage = ''security_policy:manage''"
| "capability_string Apikey_Manage = ''apikey:manage''"
| "capability_string Webhook_Manage = ''webhook:manage''"
| "capability_string Developer_Read = ''developer:read''"

definition VIEWER :: "capability list" where
  "VIEWER = [Settlement_Read, Beneficiary_Read, Batch_Read, Workspace_Read]"

definition OPERATOR :: "capability list" where
  "OPERATOR = VIEWER @ [Settlement_Create, Settlement_Cancel, Beneficiary_Write, Batch_Write]"

definition APPROVER :: "capability list" where
  "APPROVER = OPERATOR @ [Settlement_Authorize]"

definition ADMIN :: "capability list" where
  "ADMIN = VIEWER @ [Workspace_Manage, Member_Manage, Security_Policy_Manage, Apikey_Manage, Webhook_Manage]"

definition DEVELOPER :: "capability list" where
  "DEVELOPER = VIEWER @ [Apikey_Manage, Webhook_Manage, Developer_Read]"

primrec ROLE_CAPABILITIES :: "workspace_role \<Rightarrow> capability list" where
  "ROLE_CAPABILITIES R_viewer = VIEWER"
| "ROLE_CAPABILITIES R_operator = OPERATOR"
| "ROLE_CAPABILITIES R_approver = APPROVER"
| "ROLE_CAPABILITIES R_admin = ADMIN"
| "ROLE_CAPABILITIES R_developer = DEVELOPER"

definition roleHas :: "workspace_role \<Rightarrow> capability \<Rightarrow> bool" where
  "roleHas role c \<longleftrightarrow> c \<in> set (ROLE_CAPABILITIES role)"

definition capabilitiesFor :: "workspace_role list \<Rightarrow> capability set" where
  "capabilitiesFor roles = set (concat (map ROLE_CAPABILITIES roles))"

section \<open>Staff\<close>

datatype internal_role = Ops_Read | Ops_Resolve | Ops_Liquidity | Ops_Admin

datatype internal_capability =
    Cap_ops_read | Cap_ops_exception_resolve | Cap_ops_liquidity_manage | Cap_ops_provider_manage
  | Cap_ops_operator_manage

primrec INTERNAL_ROLE_CAPABILITIES :: "internal_role \<Rightarrow> internal_capability list" where
  "INTERNAL_ROLE_CAPABILITIES Ops_Read = [Cap_ops_read]"
| "INTERNAL_ROLE_CAPABILITIES Ops_Resolve = [Cap_ops_read, Cap_ops_exception_resolve]"
| "INTERNAL_ROLE_CAPABILITIES Ops_Liquidity = [Cap_ops_read, Cap_ops_liquidity_manage]"
| "INTERNAL_ROLE_CAPABILITIES Ops_Admin = [Cap_ops_read, Cap_ops_provider_manage, Cap_ops_operator_manage]"

definition internalCapabilitiesFor :: "internal_role list \<Rightarrow> internal_capability set" where
  "internalCapabilitiesFor roles = set (concat (map INTERNAL_ROLE_CAPABILITIES roles))"

definition internalRoleHas :: "internal_role \<Rightarrow> internal_capability \<Rightarrow> bool" where
  "internalRoleHas role c \<longleftrightarrow> c \<in> set (INTERNAL_ROLE_CAPABILITIES role)"

datatype reason_refusal = Reason_Missing | Reason_Too_Short | Reason_Too_Long

definition MIN_REASON_LENGTH :: nat where "MIN_REASON_LENGTH = 8"
definition MAX_REASON_LENGTH :: nat where "MAX_REASON_LENGTH = 2000"

definition validateReason :: "string option \<Rightarrow> reason_refusal option" where
  "validateReason reason =
     (case reason of
        None \<Rightarrow> Some Reason_Missing
      | Some r \<Rightarrow>
          (let trimmed = trim r in
           if length trimmed = 0 then Some Reason_Missing
           else if length trimmed < MIN_REASON_LENGTH then Some Reason_Too_Short
           else if length trimmed > MAX_REASON_LENGTH then Some Reason_Too_Long
           else None))"

definition OPS_SESSION_TTL_SECONDS :: int where "OPS_SESSION_TTL_SECONDS = 30 * 60"

section \<open>API keys\<close>

definition KEY_PREFIX :: "environment \<Rightarrow> string" where
  "KEY_PREFIX env = (case env of Live \<Rightarrow> ''sk_live_'' | Sandbox \<Rightarrow> ''sk_test_'')"

definition starts_with :: "string \<Rightarrow> string \<Rightarrow> bool" where
  "starts_with p s \<longleftrightarrow> take (length p) s = p"

definition environmentForKey :: "string \<Rightarrow> environment option" where
  "environmentForKey plaintext =
     (if starts_with (KEY_PREFIX Live) plaintext then Some Live
      else if starts_with (KEY_PREFIX Sandbox) plaintext then Some Sandbox
      else None)"

datatype key_denial = Key_Malformed | Key_Unknown | Key_Revoked | Key_Wrong_Environment | Key_Missing_Scope

record key_facts =
  kf_found :: bool
  kf_revoked :: bool
  kf_environment :: environment
  kf_scopes :: "string list"

definition evaluateApiKey ::
    "string \<Rightarrow> key_facts option \<Rightarrow> environment \<Rightarrow> capability option \<Rightarrow> (key_denial, unit) result" where
  "evaluateApiKey plaintext facts required_environment required_capability =
     (if environmentForKey plaintext = None then Inl Key_Malformed
      else case facts of
        None \<Rightarrow> Inl Key_Unknown
      | Some f \<Rightarrow>
          if \<not> kf_found f then Inl Key_Unknown
          else if kf_revoked f then Inl Key_Revoked
          else if kf_environment f \<noteq> required_environment then Inl Key_Wrong_Environment
          else case required_capability of
            None \<Rightarrow> Inr ()
          | Some c \<Rightarrow> if capability_string c \<notin> set (kf_scopes f) then Inl Key_Missing_Scope else Inr ())"

definition scopesWithin :: "string list \<Rightarrow> capability set \<Rightarrow> (string list, unit) result" where
  "scopesWithin requested grantor =
     (let disallowed = filter (\<lambda>s. s \<notin> capability_string ` grantor) requested
      in if disallowed = [] then Inr () else Inl disallowed)"

section \<open>Sessions\<close>

datatype mfa_method = Totp | Webauthn

datatype session_denial = Mfa_Required | No_Membership | User_Disabled | Workspace_Not_Active

record session_request =
  sr_userDisabled :: bool
  sr_workspaceActive :: bool
  sr_roles :: "workspace_role list"
  sr_verifiedMfaMethods :: "mfa_method list"
  sr_presentedMfaMethod :: "mfa_method option"

definition standard_ttl :: int where "standard_ttl = 12 * 60 * 60"
definition elevated_ttl :: int where "elevated_ttl = 60 * 60"

definition evaluateSessionEstablishment :: "session_request \<Rightarrow> (session_denial, mfa_method \<times> int) result" where
  "evaluateSessionEstablishment req =
     (if sr_userDisabled req then Inl User_Disabled
      else if \<not> sr_workspaceActive req then Inl Workspace_Not_Active
      else if length (sr_roles req) = 0 then Inl No_Membership
      else case sr_presentedMfaMethod req of
        None \<Rightarrow> Inl Mfa_Required
      | Some presented \<Rightarrow>
          if presented \<notin> set (sr_verifiedMfaMethods req) then Inl Mfa_Required
          else Inr (presented, if R_admin \<in> set (sr_roles req) then elevated_ttl else standard_ttl))"

definition isSessionUsable :: "int option \<Rightarrow> int \<Rightarrow> int \<Rightarrow> bool" where
  "isSessionUsable revokedAt expiresAt now \<longleftrightarrow> revokedAt = None \<and> expiresAt > now"

section \<open>Separation of duties\<close>

definition samePrincipal :: "principal \<Rightarrow> principal \<Rightarrow> bool" where
  "samePrincipal a b \<longleftrightarrow> pr_type a = pr_type b \<and> pr_id a = pr_id b"

definition formatPrincipal :: "principal \<Rightarrow> string" where
  "formatPrincipal p = pr_type p @ '':'' @ pr_id p"

definition DEFAULT_SEPARATION_OF_DUTIES :: "environment \<Rightarrow> bool" where
  "DEFAULT_SEPARATION_OF_DUTIES env = (case env of Sandbox \<Rightarrow> False | Live \<Rightarrow> True)"

datatype separation_decision =
    Policy_Disabled | Distinct_Human_Principals | Creator_Cannot_Authorize | Authorizer_Is_Not_Human

definition decision_allows :: "separation_decision \<Rightarrow> bool" where
  "decision_allows d \<longleftrightarrow> d = Policy_Disabled \<or> d = Distinct_Human_Principals"

definition evaluateSeparationOfDuties :: "bool \<Rightarrow> principal \<Rightarrow> principal \<Rightarrow> separation_decision" where
  "evaluateSeparationOfDuties enabled createdBy authorizedBy =
     (if \<not> enabled then Policy_Disabled
      else if pr_type authorizedBy \<noteq> ''user'' then Authorizer_Is_Not_Human
      else if samePrincipal createdBy authorizedBy then Creator_Cannot_Authorize
      else Distinct_Human_Principals)"

definition resolveSeparationOfDuties :: "bool option \<Rightarrow> environment \<Rightarrow> bool" where
  "resolveSeparationOfDuties stored env =
     (case stored of Some b \<Rightarrow> b | None \<Rightarrow> DEFAULT_SEPARATION_OF_DUTIES env)"

datatype policy_error = Permission_Denied | Reason_Required | Live_Downgrade_Not_Confirmed

record policy_change_request =
  pc_environment :: environment
  pc_current :: bool
  pc_requested :: bool
  pc_actorCapabilities :: "capability set"
  pc_reason :: "string option"
  pc_confirmLiveDowngrade :: "bool option"

record policy_change_plan =
  pl_changed :: bool
  pl_from :: bool
  pl_to :: bool
  pl_reason :: "string option"

definition planSeparationOfDutiesChange :: "policy_change_request \<Rightarrow> (policy_error, policy_change_plan) result" where
  "planSeparationOfDutiesChange req =
     (if Security_Policy_Manage \<notin> pc_actorCapabilities req then Inl Permission_Denied
      else
        let isLiveDowngrade = (pc_environment req = Live \<and> pc_current req \<and> \<not> pc_requested req);
            plan = \<lparr>pl_changed = (pc_current req \<noteq> pc_requested req), pl_from = pc_current req,
                    pl_to = pc_requested req, pl_reason = pc_reason req\<rparr>
        in if isLiveDowngrade
           then if pc_confirmLiveDowngrade req \<noteq> Some True then Inl Live_Downgrade_Not_Confirmed
                else if (case pc_reason req of None \<Rightarrow> True | Some r \<Rightarrow> trim r = []) then Inl Reason_Required
                else Inr plan
           else Inr plan)"

section \<open>Properties\<close>

lemma capability_string_inject [simp]: "capability_string c = capability_string d \<longleftrightarrow> c = d"
  by (cases c; cases d) simp_all

lemmas role_lists = VIEWER_def OPERATOR_def APPROVER_def ADMIN_def DEVELOPER_def

lemma authorize_role: "Settlement_Authorize \<in> set (ROLE_CAPABILITIES r) \<longleftrightarrow> r = R_approver"
  by (cases r) (simp_all add: role_lists)

text \<open>
  C39. Moving money takes a role and, under the policy, a second person: the authorizing capability comes
  with the approver role and no other; and with separation of duties on, an authorization is allowed
  exactly when a user authorizes what that same user did not create, while with the policy off it is
  always allowed.
\<close>

theorem authorization_is_separated:
  "(Settlement_Authorize \<in> capabilitiesFor roles \<longleftrightarrow> R_approver \<in> set roles) \<and>
   (decision_allows (evaluateSeparationOfDuties enabled creator authorizer) \<longleftrightarrow>
      (if enabled then pr_type authorizer = ''user'' \<and> authorizer \<noteq> creator else True))"
proof
  show "Settlement_Authorize \<in> capabilitiesFor roles \<longleftrightarrow> R_approver \<in> set roles"
    by (auto simp: capabilitiesFor_def authorize_role)
  have "samePrincipal creator authorizer \<longleftrightarrow> authorizer = creator"
    by (auto simp: samePrincipal_def)
  then show "decision_allows (evaluateSeparationOfDuties enabled creator authorizer) \<longleftrightarrow>
      (if enabled then pr_type authorizer = ''user'' \<and> authorizer \<noteq> creator else True)"
    by (auto simp: evaluateSeparationOfDuties_def decision_allows_def)
qed

text \<open>
  Keys cannot escalate: where the scopes of a key were granted within what the grantor's roles allow,
  the key is accepted for a capability only if one of those roles has it; in particular a key for
  settlement authorization needs a grantor who is an approver.
\<close>

theorem keys_cannot_escalate:
  assumes "scopesWithin scopes (capabilitiesFor roles) = Inr ()"
    and "kf_scopes facts = scopes"
    and "evaluateApiKey plaintext (Some facts) env (Some c) = Inr ()"
  shows "c \<in> capabilitiesFor roles \<and> \<not> kf_revoked facts \<and> kf_environment facts = env \<and>
    (\<exists>role\<in>set roles. roleHas role c)"
proof -
  have "capability_string c \<in> set scopes" "\<not> kf_revoked facts" "kf_environment facts = env"
    using assms(2,3) by (auto simp: evaluateApiKey_def split: if_splits)
  moreover from this(1) have "capability_string c \<in> capability_string ` capabilitiesFor roles"
    using assms(1) by (auto simp: scopesWithin_def Let_def filter_empty_conv split: if_splits)
  then have "c \<in> capabilitiesFor roles" by auto
  moreover from this have "\<exists>role\<in>set roles. roleHas role c" by (auto simp: capabilitiesFor_def roleHas_def)
  ultimately show ?thesis by blast
qed

theorem keys_cannot_escalate_witness:
  "evaluateApiKey ''sk_live_x'' (Some \<lparr>kf_found = True, kf_revoked = False, kf_environment = Live,
     kf_scopes = [''settlement:authorize'']\<rparr>) Live (Some Settlement_Authorize) = Inr () \<and>
   Settlement_Authorize \<in> capabilitiesFor [R_admin, R_approver] \<and>
   scopesWithin [''settlement:authorize''] (capabilitiesFor [R_admin]) = Inl [''settlement:authorize'']"
proof -
  let ?facts = "\<lparr>kf_found = True, kf_revoked = False, kf_environment = Live, kf_scopes = [''settlement:authorize'']\<rparr>"
  have grant: "scopesWithin [''settlement:authorize''] (capabilitiesFor [R_admin, R_approver]) = Inr ()"
    and refused: "scopesWithin [''settlement:authorize''] (capabilitiesFor [R_admin]) = Inl [''settlement:authorize'']"
    and key: "evaluateApiKey ''sk_live_x'' (Some ?facts) Live (Some Settlement_Authorize) = Inr ()"
    by code_simp+
  have "kf_scopes ?facts = [''settlement:authorize'']" by simp
  from keys_cannot_escalate [OF grant this key] refused key show ?thesis by blast
qed

text \<open>
  A session needs a verified second factor: it is established exactly for an enabled user of an active
  workspace with a role there who presents a factor they have verified, and it lasts an hour with the
  admin role and twelve hours without; a staff session is shorter than either.
\<close>

theorem session_established_iff:
  "evaluateSessionEstablishment req = Inr (m, ttl) \<longleftrightarrow>
     \<not> sr_userDisabled req \<and> sr_workspaceActive req \<and> sr_roles req \<noteq> [] \<and>
     sr_presentedMfaMethod req = Some m \<and> m \<in> set (sr_verifiedMfaMethods req) \<and>
     ttl = (if R_admin \<in> set (sr_roles req) then 3600 else 43200) \<and> OPS_SESSION_TTL_SECONDS < ttl"
  by (auto simp: evaluateSessionEstablishment_def standard_ttl_def elevated_ttl_def OPS_SESSION_TTL_SECONDS_def
      split: option.splits)

text \<open>
  Turning separation of duties off in live takes the managing capability, an explicit confirmation and
  a reason that is not blank; every other change takes the capability only.
\<close>

theorem live_downgrade_is_deliberate:
  "(\<exists>plan. planSeparationOfDutiesChange req = Inr plan) \<longleftrightarrow>
     Security_Policy_Manage \<in> pc_actorCapabilities req \<and>
     (if pc_environment req = Live \<and> pc_current req \<and> \<not> pc_requested req
      then pc_confirmLiveDowngrade req = Some True \<and> (\<exists>r. pc_reason req = Some r \<and> trim r \<noteq> []) else True)"
  by (auto simp: planSeparationOfDutiesChange_def Let_def split: option.splits)

lemma staff_roles_are_separate:
  "internalRoleHas Ops_Admin c \<Longrightarrow> c \<noteq> Cap_ops_exception_resolve \<and> c \<noteq> Cap_ops_liquidity_manage"
  "Cap_ops_read \<in> internalCapabilitiesFor roles \<longleftrightarrow> roles \<noteq> []"
proof -
  show "internalRoleHas Ops_Admin c \<Longrightarrow> c \<noteq> Cap_ops_exception_resolve \<and> c \<noteq> Cap_ops_liquidity_manage"
    by (auto simp: internalRoleHas_def)
  have "Cap_ops_read \<in> set (INTERNAL_ROLE_CAPABILITIES r)" for r by (cases r) simp_all
  then show "Cap_ops_read \<in> internalCapabilitiesFor roles \<longleftrightarrow> roles \<noteq> []"
    by (cases roles) (auto simp: internalCapabilitiesFor_def)
qed

end
