(* ===== verification/Webhooks.thy ===== *)
theory Webhooks
  imports Complex_Main Settling_Prelude Money
begin

text \<open>
  Webhooks (\<open>packages/domain/src/webhooks\<close>): the delivery policy of \<open>delivery.ts\<close> and the signatures of
  \<open>signature.ts\<close>. The HMAC of \<open>node:crypto\<close> is a parameter; the jittered delay is computed on exact
  rationals where the code uses doubles, so on a tie the rounding may differ by a second.
\<close>

section \<open>Delivery\<close>

definition RETRY_SCHEDULE_SECONDS :: "int list" where
  "RETRY_SCHEDULE_SECONDS =
     [10, 30, 60, 120, 300, 900, 1800, 3600, 7200, 10800, 14400, 21600, 25200]"

definition MAX_ATTEMPTS :: nat where
  "MAX_ATTEMPTS = length RETRY_SCHEDULE_SECONDS + 1"

definition CIRCUIT_BREAK_AFTER_CONSECUTIVE_FAILURES :: int where
  "CIRCUIT_BREAK_AFTER_CONSECUTIVE_FAILURES = 20"

definition JITTER_FRACTION :: rat where
  "JITTER_FRACTION = 1 / 5"

datatype delivery_outcome = Delivered int | Rejected int | Retryable "int option" "string option"

definition classifyResponse :: "int \<Rightarrow> delivery_outcome" where
  "classifyResponse statusCode =
     (if statusCode \<ge> 200 \<and> statusCode < 300 then Delivered statusCode
      else if statusCode = 408 \<or> statusCode = 429 then Retryable (Some statusCode) None
      else if statusCode \<ge> 400 \<and> statusCode < 500 then Rejected statusCode
      else Retryable (Some statusCode) None)"

definition math_round :: "rat \<Rightarrow> int" where
  "math_round x = \<lfloor>x + 1 / 2\<rfloor>"

definition nextAttempt :: "int \<Rightarrow> rat \<Rightarrow> (int \<times> int) option" where
  "nextAttempt attemptsSoFar random =
     (let index = attemptsSoFar - 1 in
      if index < 0 \<or> int (length RETRY_SCHEDULE_SECONDS) \<le> index then None
      else
        let base = of_int (RETRY_SCHEDULE_SECONDS ! nat index);
            spread = base * JITTER_FRACTION;
            delay = base - spread + random * 2 * spread
        in Some (attemptsSoFar + 1, max 1 (math_round delay)))"

definition scheduleHorizonSeconds :: int where
  "scheduleHorizonSeconds = sum_list RETRY_SCHEDULE_SECONDS"

datatype endpoint_health = Keep_Enabled int | Open_Circuit int

definition endpointHealthAfter :: "int \<Rightarrow> delivery_outcome \<Rightarrow> endpoint_health" where
  "endpointHealthAfter before outcome =
     (case outcome of
        Delivered _ \<Rightarrow> Keep_Enabled 0
      | _ \<Rightarrow>
          let failures = before + 1 in
          if failures \<ge> CIRCUIT_BREAK_AFTER_CONSECUTIVE_FAILURES then Open_Circuit failures
          else Keep_Enabled failures)"

definition MAX_RECORDED_RESPONSE_BYTES :: nat where
  "MAX_RECORDED_RESPONSE_BYTES = 2048"

section \<open>Signatures\<close>

definition SIGNATURE_TOLERANCE_SECONDS :: int where
  "SIGNATURE_TOLERANCE_SECONDS = 300"

definition SIGNATURE_SCHEME :: string where
  "SIGNATURE_SCHEME = ''v1''"

text \<open>\<open>String.prototype.split\<close> on one character and the parts of an \<open>indexOf\<close>.\<close>

fun split_on :: "char \<Rightarrow> string \<Rightarrow> string list" where
  "split_on d [] = [[]]"
| "split_on d (c # s) =
     (if c = d then [] # split_on d s
      else case split_on d s of p # ps \<Rightarrow> (c # p) # ps | [] \<Rightarrow> [[c]])"

fun split_at :: "char \<Rightarrow> string \<Rightarrow> (string \<times> string) option" where
  "split_at d [] = None"
| "split_at d (c # s) = (if c = d then Some ([], s) else map_option (\<lambda>(p, r). (c # p, r)) (split_at d s))"

fun join_with :: "string \<Rightarrow> string list \<Rightarrow> string" where
  "join_with d [] = []"
| "join_with d [p] = p"
| "join_with d (p # q # ps) = p @ d @ join_with d (q # ps)"

definition is_hex :: "char \<Rightarrow> bool" where
  "is_hex c \<longleftrightarrow> c \<in> set ''0123456789abcdefABCDEF''"

definition hex_lower :: "char \<Rightarrow> char" where
  "hex_lower c =
     (if c = CHR ''A'' then CHR ''a'' else if c = CHR ''B'' then CHR ''b'' else if c = CHR ''C'' then CHR ''c''
      else if c = CHR ''D'' then CHR ''d'' else if c = CHR ''E'' then CHR ''e''
      else if c = CHR ''F'' then CHR ''f'' else c)"

definition signedPayload :: "nat \<Rightarrow> string \<Rightarrow> string" where
  "signedPayload timestampSeconds rawBody = digits_of_nat timestampSeconds @ ''.'' @ rawBody"

definition computeSignature :: "(string \<Rightarrow> string \<Rightarrow> string) \<Rightarrow> string \<Rightarrow> nat \<Rightarrow> string \<Rightarrow> string" where
  "computeSignature hmac secret timestampSeconds rawBody = hmac secret (signedPayload timestampSeconds rawBody)"

definition buildSignatureHeader :: "(string \<Rightarrow> string \<Rightarrow> string) \<Rightarrow> string list \<Rightarrow> nat \<Rightarrow> string \<Rightarrow> string" where
  "buildSignatureHeader hmac secrets timestampSeconds rawBody =
     join_with '','' ((''t='' @ digits_of_nat timestampSeconds) #
       map (\<lambda>s. SIGNATURE_SCHEME @ ''='' @ computeSignature hmac s timestampSeconds rawBody) secrets)"

fun read_parts :: "string list \<Rightarrow> nat option \<Rightarrow> string list \<Rightarrow> (nat option \<times> string list) option" where
  "read_parts [] timestamp signatures = Some (timestamp, signatures)"
| "read_parts (part # parts) timestamp signatures =
     (case split_at (CHR ''='') part of
        None \<Rightarrow> read_parts parts timestamp signatures
      | Some (k, v) \<Rightarrow>
          let key = trim k; val = trim v in
          if key = ''t''
          then if val \<noteq> [] \<and> list_all is_digit val then read_parts parts (Some (nat_of_digits val)) signatures else None
          else if key = SIGNATURE_SCHEME
          then if val \<noteq> [] \<and> list_all is_hex val
               then read_parts parts timestamp (signatures @ [map hex_lower val])
               else read_parts parts timestamp signatures
          else read_parts parts timestamp signatures)"

definition parseSignatureHeader :: "string \<Rightarrow> (nat \<times> string list) option" where
  "parseSignatureHeader header =
     (case read_parts (split_on (CHR '','') header) None [] of
        Some (Some t, s # ss) \<Rightarrow> Some (t, s # ss)
      | _ \<Rightarrow> None)"

datatype signature_refusal = Malformed_Header | Timestamp_Outside_Tolerance | No_Matching_Signature

definition constantTimeEquals :: "string \<Rightarrow> string \<Rightarrow> bool" where
  "constantTimeEquals a b = (if length a \<noteq> length b then False else a = b)"

definition verifySignature ::
    "(string \<Rightarrow> string \<Rightarrow> string) \<Rightarrow> string \<Rightarrow> string \<Rightarrow> string list \<Rightarrow> int \<Rightarrow> int option \<Rightarrow> (signature_refusal, unit) result" where
  "verifySignature hmac header rawBody secrets nowSeconds toleranceSeconds =
     (case parseSignatureHeader header of
        None \<Rightarrow> Inl Malformed_Header
      | Some (t, signatures) \<Rightarrow>
          let tolerance = (case toleranceSeconds of Some n \<Rightarrow> n | None \<Rightarrow> SIGNATURE_TOLERANCE_SECONDS) in
          if \<bar>nowSeconds - int t\<bar> > tolerance then Inl Timestamp_Outside_Tolerance
          else if list_ex (\<lambda>secret. list_ex (constantTimeEquals (computeSignature hmac secret t rawBody)) signatures) secrets
          then Inr ()
          else Inl No_Matching_Signature)"

section \<open>Reading what was written\<close>

lemma split_on_nonempty: "split_on d s \<noteq> []"
  by (cases s) (auto split: list.splits)

lemma split_on_plain: "d \<notin> set s \<Longrightarrow> split_on d s = [s]"
  by (induction s) auto

lemma split_on_append: "d \<notin> set p \<Longrightarrow> split_on d (p @ d # s) = p # split_on d s"
  using split_on_nonempty [of d s] by (induction p) (auto split: list.splits)

lemma split_on_join:
  "list_all (\<lambda>p. d \<notin> set p) (p # ps) \<Longrightarrow> split_on d (join_with [d] (p # ps)) = p # ps"
  by (induction ps arbitrary: p) (simp_all add: split_on_plain split_on_append)

lemma trim_plain: "list_all (\<lambda>c. \<not> is_white c) s \<Longrightarrow> trim s = s"
proof -
  have plain: "dropWhile is_white r = r" if "list_all (\<lambda>c. \<not> is_white c) r" for r
    using that by (cases r) simp_all
  show "list_all (\<lambda>c. \<not> is_white c) s \<Longrightarrow> trim s = s"
    by (simp add: trim_def plain)
qed

definition lower_hex :: "char \<Rightarrow> bool" where
  "lower_hex c \<longleftrightarrow> c \<in> set ''0123456789abcdef''"

definition digest_like :: "string \<Rightarrow> bool" where
  "digest_like s \<longleftrightarrow> s \<noteq> [] \<and> list_all lower_hex s"

lemma hex_char:
  "lower_hex c \<Longrightarrow> \<not> is_white c \<and> c \<noteq> CHR '','' \<and> is_hex c \<and> hex_lower c = c"
  unfolding lower_hex_def by (simp, elim disjE) (simp_all add: is_white_def is_hex_def hex_lower_def)

lemma digit_char_plain: "is_digit c \<Longrightarrow> \<not> is_white c \<and> c \<noteq> CHR '',''"
  by (auto simp: is_digit_of_char is_white_def)

lemma list_all_char:
  assumes "list_all P s" "\<And>c. P c \<Longrightarrow> \<not> is_white c \<and> c \<noteq> CHR '',''"
  shows "trim s = s" "CHR '','' \<notin> set s"
proof -
  have "list_all (\<lambda>c. \<not> is_white c) s" using assms by (metis (mono_tags, lifting) list_all_iff)
  then show "trim s = s" by (rule trim_plain)
  show "CHR '','' \<notin> set s" using assms by (metis list_all_iff)
qed

lemma digest_chars:
  assumes "digest_like s"
  shows "trim s = s" "CHR '','' \<notin> set s" "list_all is_hex s" "map hex_lower s = s" "s \<noteq> []"
proof -
  have all: "list_all lower_hex s" using assms unfolding digest_like_def by blast
  show "trim s = s" "CHR '','' \<notin> set s" using list_all_char [OF all] hex_char by blast+
  show "list_all is_hex s" using all hex_char by (metis (mono_tags, lifting) list_all_iff)
  show "map hex_lower s = s" using all hex_char by (metis (mono_tags, lifting) list_all_iff map_idI)
  show "s \<noteq> []" using assms by (simp add: digest_like_def)
qed

lemma digits_chars:
  "trim (digits_of_nat n) = digits_of_nat n" "CHR '','' \<notin> set (digits_of_nat n)"
  using list_all_char [OF digits_of_nat_digits digit_char_plain] by blast+

lemma read_signature_parts:
  "list_all digest_like ds \<Longrightarrow>
     read_parts (map (\<lambda>d. SIGNATURE_SCHEME @ ''='' @ d) ds) (Some t) acc = Some (Some t, acc @ ds)"
proof (induction ds arbitrary: acc)
  case (Cons d ds)
  then show ?case using digest_chars [of d] by (simp add: SIGNATURE_SCHEME_def trim_plain is_white_def)
qed simp

lemma parse_built_header:
  assumes "\<forall>k p. digest_like (hmac k p)" "secrets \<noteq> []"
  shows "parseSignatureHeader (buildSignatureHeader hmac secrets t body) =
    Some (t, map (\<lambda>s. computeSignature hmac s t body) secrets)"
proof -
  let ?ds = "map (\<lambda>s. computeSignature hmac s t body) secrets"
  have ds: "list_all digest_like ?ds" using assms(1) by (simp add: list_all_iff computeSignature_def)
  have commas: "list_all (\<lambda>p. CHR '','' \<notin> set p)
      ((''t='' @ digits_of_nat t) # map (\<lambda>d. SIGNATURE_SCHEME @ ''='' @ d) ?ds)"
    using ds digits_chars(2) [of t] by (auto simp: list_all_iff SIGNATURE_SCHEME_def dest: digest_chars(2))
  have split: "split_on (CHR '','') (buildSignatureHeader hmac secrets t body) =
      (''t='' @ digits_of_nat t) # map (\<lambda>d. SIGNATURE_SCHEME @ ''='' @ d) ?ds"
    using split_on_join [OF commas] by (simp add: buildSignatureHeader_def comp_def)
  have digits: "digits_of_nat t \<noteq> []" "list_all is_digit (digits_of_nat t)"
    using digits_of_nat_digits digits_of_nat_nonempty by simp_all
  have "read_parts (split_on (CHR '','') (buildSignatureHeader hmac secrets t body)) None [] = Some (Some t, ?ds)"
    unfolding split using read_signature_parts [OF ds, of t "[]"] digits
    by (simp add: digits_chars(1) trim_plain is_white_def nat_of_digits_of_nat)
  with assms(2) show ?thesis by (cases secrets) (simp_all add: parseSignatureHeader_def)
qed

section \<open>Properties\<close>

text \<open>
  C40. A verdict is exactly this: a delivery is accepted if and only if its header parses, its timestamp is
  within the tolerance of now on either side, and one of the presented signatures is the HMAC of the
  timestamp and the raw body under one of the live secrets.
\<close>

theorem signature_verdict_exact:
  "verifySignature hmac header body secrets now tol = Inr () \<longleftrightarrow>
     (\<exists>t sigs. parseSignatureHeader header = Some (t, sigs) \<and>
        now - (case tol of Some n \<Rightarrow> n | None \<Rightarrow> 300) \<le> int t \<and> int t \<le> now + (case tol of Some n \<Rightarrow> n | None \<Rightarrow> 300) \<and>
        (\<exists>secret\<in>set secrets. hmac secret (digits_of_nat t @ ''.'' @ body) \<in> set sigs))"
proof -
  have eq: "constantTimeEquals a b \<longleftrightarrow> a = b" for a b by (auto simp: constantTimeEquals_def)
  show ?thesis
    by (auto simp: verifySignature_def Let_def SIGNATURE_TOLERANCE_SECONDS_def list_ex_iff eq computeSignature_def
        signedPayload_def abs_le_iff not_less split: option.splits)
qed

text \<open>
  What is signed verifies, through a rotation of secrets: where the HMAC yields lower-case hexadecimal
  digests, a delivery signed under several secrets is accepted by a receiver who holds any one of them
  exactly while its timestamp is within the tolerance, too old and too new being refused alike.
\<close>

theorem signed_delivery_verifies:
  assumes "\<forall>k p. digest_like (hmac k p)" "s \<in> set signing" "s \<in> set verifying"
  shows "verifySignature hmac (buildSignatureHeader hmac signing t body) body verifying now None =
    (if \<bar>now - int t\<bar> \<le> 300 then Inr () else Inl Timestamp_Outside_Tolerance)"
proof -
  have "signing \<noteq> []" using assms(2) by auto
  note parsed = parse_built_header [OF assms(1) this, of t body]
  have "list_ex (\<lambda>secret. list_ex (constantTimeEquals (computeSignature hmac secret t body))
      (map (\<lambda>s. computeSignature hmac s t body) signing)) verifying"
    using assms(2,3) by (auto simp: list_ex_iff constantTimeEquals_def)
  then show ?thesis by (simp add: verifySignature_def parsed SIGNATURE_TOLERANCE_SECONDS_def not_less)
qed

definition sample_hmac :: "string \<Rightarrow> string \<Rightarrow> string" where
  "sample_hmac k p = (if k = ''new'' then ''a1'' else ''b2'')"

theorem signed_delivery_verifies_witness:
  "verifySignature sample_hmac (buildSignatureHeader sample_hmac [''old'', ''new''] 1756636800 ''{}'') ''{}'' [''new'']
     1756637100 None = Inr () \<and>
   verifySignature sample_hmac (buildSignatureHeader sample_hmac [''old'', ''new''] 1756636800 ''{}'') ''{}'' [''new'']
     1756636499 None = Inl Timestamp_Outside_Tolerance"
proof -
  have "\<forall>k p. digest_like (sample_hmac k p)" by (simp add: sample_hmac_def digest_like_def lower_hex_def)
  note v = signed_delivery_verifies [OF this, of "''new''" "[''old'', ''new'']" "[''new'']" 1756636800 "''{}''"]
  show ?thesis using v by simp
qed

lemma schedule_positive: "i < length RETRY_SCHEDULE_SECONDS \<Longrightarrow> 10 \<le> RETRY_SCHEDULE_SECONDS ! i"
proof -
  have "list_all (\<lambda>n. 10 \<le> n) RETRY_SCHEDULE_SECONDS" by (simp add: RETRY_SCHEDULE_SECONDS_def)
  then show "i < length RETRY_SCHEDULE_SECONDS \<Longrightarrow> 10 \<le> RETRY_SCHEDULE_SECONDS ! i"
    by (simp add: list_all_length)
qed

lemma math_round_bounds: "of_int (math_round x) \<le> x + 1 / 2 \<and> x - 1 / 2 < of_int (math_round x)"
  unfolding math_round_def using floor_correct [of "x + 1 / 2"] by linarith

lemma jitter_bounds:
  fixes base random :: rat
  assumes "0 \<le> base" "0 \<le> random" "random < 1"
  shows "base * 4 / 5 \<le> base - base * JITTER_FRACTION + random * 2 * (base * JITTER_FRACTION)"
    and "base - base * JITTER_FRACTION + random * 2 * (base * JITTER_FRACTION) \<le> base * 6 / 5"
proof -
  have "0 \<le> random * base" "random * base \<le> base"
    using assms mult_left_le [of random base] by (simp_all add: mult.commute)
  then show "base * 4 / 5 \<le> base - base * JITTER_FRACTION + random * 2 * (base * JITTER_FRACTION)"
    "base - base * JITTER_FRACTION + random * 2 * (base * JITTER_FRACTION) \<le> base * 6 / 5"
    by (simp_all add: JITTER_FRACTION_def field_simps)
qed

text \<open>
  The retry schedule is bounded: an attempt has a successor exactly for the first thirteen attempts,
  numbered one higher; with any draw the delay stays within a fifth of the scheduled interval, to the
  rounding, and is never zero; and the intervals add up to just under a day.
\<close>

theorem retry_schedule_bounded:
  assumes "0 \<le> random" "random < 1"
  shows "(case nextAttempt n random of
      None \<Rightarrow> n \<notin> {1..13}
    | Some (m, delay) \<Rightarrow> n \<in> {1..13} \<and> m = n + 1 \<and> m \<le> int MAX_ATTEMPTS \<and> 0 < delay \<and>
        4 * RETRY_SCHEDULE_SECONDS ! nat (n - 1) \<le> 5 * delay + 2 \<and>
        5 * delay \<le> 6 * RETRY_SCHEDULE_SECONDS ! nat (n - 1) + 2) \<and>
    scheduleHorizonSeconds = 24 * 60 * 60 - 380"
proof (cases "n - 1 < 0 \<or> int (length RETRY_SCHEDULE_SECONDS) \<le> n - 1")
  case True
  then show ?thesis
    by (auto simp: nextAttempt_def Let_def scheduleHorizonSeconds_def RETRY_SCHEDULE_SECONDS_def)
next
  case False
  let ?b = "RETRY_SCHEDULE_SECONDS ! nat (n - 1)"
  let ?d = "of_int ?b - of_int ?b * JITTER_FRACTION + random * 2 * (of_int ?b * JITTER_FRACTION) :: rat"
  have n: "n \<in> {1..13}" using False by (simp add: RETRY_SCHEDULE_SECONDS_def)
  have "nat (n - 1) < length RETRY_SCHEDULE_SECONDS" using False by linarith
  from schedule_positive [OF this] have b: "10 \<le> ?b" .
  then have "(0::rat) \<le> of_int ?b" by linarith
  note j = jitter_bounds [OF this assms]
  have "of_int (5 * math_round ?d) \<le> (of_int (6 * ?b + 3) :: rat) - 1 / 2"
    and "(of_int (4 * ?b) :: rat) - 5 / 2 < of_int (5 * math_round ?d)"
    using math_round_bounds [of ?d] j by (simp_all add: field_simps)
  then have r: "5 * math_round ?d \<le> 6 * ?b + 2" "4 * ?b \<le> 5 * math_round ?d + 2"
    by linarith+
  then have pos: "1 \<le> math_round ?d" using b by linarith
  have "nextAttempt n random = Some (n + 1, math_round ?d)"
    using False pos by (simp add: nextAttempt_def Let_def)
  then show ?thesis
    using n r pos by (simp add: MAX_ATTEMPTS_def scheduleHorizonSeconds_def) (simp add: RETRY_SCHEDULE_SECONDS_def)
qed

theorem retry_schedule_bounded_witness:
  "nextAttempt 1 (1 / 2) = Some (2, 10) \<and> (case nextAttempt 13 (1 / 2) of None \<Rightarrow> False | Some (m, d) \<Rightarrow> m = 14 \<and> 0 < d)"
proof -
  have "nextAttempt 1 (1 / 2) = Some (2, 10)"
    by (simp add: nextAttempt_def RETRY_SCHEDULE_SECONDS_def JITTER_FRACTION_def math_round_def floor_unique)
  moreover have "case nextAttempt 13 (1 / 2) of None \<Rightarrow> False | Some (m, d) \<Rightarrow> m = 14 \<and> 0 < d"
    using retry_schedule_bounded [of "1 / 2" 13] by (auto split: option.splits)
  ultimately show ?thesis by blast
qed

text \<open>
  The circuit opens on a streak: over any sequence of outcomes since the count was zero, the count is
  the number of failures since the last delivery, and the circuit opens exactly when that reaches
  twenty, however many failures lie before the last delivery.
\<close>

primrec is_delivered :: "delivery_outcome \<Rightarrow> bool" where
  "is_delivered (Delivered _) = True"
| "is_delivered (Rejected _) = False"
| "is_delivered (Retryable _ _) = False"

primrec failure_count :: "endpoint_health \<Rightarrow> int" where
  "failure_count (Keep_Enabled n) = n"
| "failure_count (Open_Circuit n) = n"

definition count_after :: "delivery_outcome list \<Rightarrow> int" where
  "count_after outcomes = foldl (\<lambda>n outcome. failure_count (endpointHealthAfter n outcome)) 0 outcomes"

lemma failure_count_after:
  "failure_count (endpointHealthAfter n outcome) = (if is_delivered outcome then 0 else n + 1)"
  by (cases outcome) (simp_all add: endpointHealthAfter_def Let_def)

theorem circuit_opens_on_streak:
  "count_after outcomes = int (length (takeWhile (\<lambda>x. \<not> is_delivered x) (rev outcomes))) \<and>
   (endpointHealthAfter (count_after outcomes) last_outcome = Open_Circuit n \<longleftrightarrow>
      \<not> is_delivered last_outcome \<and> n = int (length (takeWhile (\<lambda>x. \<not> is_delivered x) (rev outcomes))) + 1 \<and> 20 \<le> n)"
proof -
  have count: "count_after outcomes = int (length (takeWhile (\<lambda>x. \<not> is_delivered x) (rev outcomes)))"
    by (induction outcomes rule: rev_induct) (simp_all add: count_after_def failure_count_after)
  then show ?thesis
    by (cases last_outcome)
      (auto simp: endpointHealthAfter_def Let_def CIRCUIT_BREAK_AFTER_CONSECUTIVE_FAILURES_def)
qed

end
