(* ===== verification/Provider_Mapping.thy ===== *)
theory Provider_Mapping
  imports Settlement_Outcomes Settlement_Return Money
begin

text \<open>
  The mapping of a provider's vocabulary onto the closed taxonomies
  (\<open>packages/domain/src/payouts/mapping.ts\<close>): a versioned table, its interpretation with the safe
  defaults, and its validation at load time. The taxonomy check the caller passes in is a parameter;
  the validation reports its problems as values, in the order the code pushes them.
\<close>

section \<open>Tables and their interpretation\<close>

datatype provider_outcome = O_accepted | O_credited | O_rejected | O_returned | O_unknown

record provider_code_mapping =
  pm_providerCode :: string
  pm_outcome :: provider_outcome
  pm_exceptionCode :: "exception_code option"
  pm_returnReason :: "return_reason option"
  pm_note :: string

datatype mapping_source = Sandbox_Fixture | Provider_Documentation | Provider_Contract

record provider_mapping_table =
  mt_providerId :: string
  mt_version :: string
  mt_source :: mapping_source
  mt_codes :: "provider_code_mapping list"

definition UNMAPPED_REJECTION_DEFAULT :: exception_code where
  "UNMAPPED_REJECTION_DEFAULT = PAYOUT_REJECTED_PROVIDER"

definition UNMAPPED_UNKNOWN_DEFAULT :: exception_code where
  "UNMAPPED_UNKNOWN_DEFAULT = PAYOUT_STATUS_UNKNOWN"

datatype code_interpretation =
    Mapped provider_outcome "exception_code option" "return_reason option" string
  | Unmapped provider_outcome exception_code string string

definition interpretProviderCode :: "provider_mapping_table \<Rightarrow> string \<Rightarrow> provider_outcome \<Rightarrow> code_interpretation" where
  "interpretProviderCode tbl rawCode fallbackOutcome =
     (case find (\<lambda>c. pm_providerCode c = rawCode) (mt_codes tbl) of
        Some found \<Rightarrow> Mapped (pm_outcome found) (pm_exceptionCode found) (pm_returnReason found) (mt_version tbl)
      | None \<Rightarrow> Unmapped fallbackOutcome
          (if fallbackOutcome = O_rejected then UNMAPPED_REJECTION_DEFAULT else UNMAPPED_UNKNOWN_DEFAULT)
          (mt_version tbl) rawCode)"

definition returnReasonOf :: "code_interpretation \<Rightarrow> return_reason" where
  "returnReasonOf i =
     (case i of Mapped _ _ (Some r) _ \<Rightarrow> r | _ \<Rightarrow> UNMAPPED_RETURN_REASON)"

section \<open>Validation\<close>

datatype mapping_problem =
    No_Version
  | Duplicate_Code string
  | Outside_Taxonomy string exception_code
  | Rejection_Without_Code string
  | Reason_On_Non_Return string provider_outcome
  | No_Usable_Note string

definition entry_problems :: "(exception_code \<Rightarrow> bool) \<Rightarrow> string list \<Rightarrow> provider_code_mapping \<Rightarrow> mapping_problem list" where
  "entry_problems isExceptionCode seen e =
     (if pm_providerCode e \<in> set seen then [Duplicate_Code (pm_providerCode e)] else []) @
     (case pm_exceptionCode e of
        Some c \<Rightarrow> if \<not> isExceptionCode c then [Outside_Taxonomy (pm_providerCode e) c] else []
      | None \<Rightarrow> []) @
     (if pm_outcome e = O_rejected \<and> pm_exceptionCode e = None then [Rejection_Without_Code (pm_providerCode e)] else []) @
     (if pm_returnReason e \<noteq> None \<and> pm_outcome e \<noteq> O_returned
      then [Reason_On_Non_Return (pm_providerCode e) (pm_outcome e)] else []) @
     (if length (trim (pm_note e)) < 10 then [No_Usable_Note (pm_providerCode e)] else [])"

fun entries_problems :: "(exception_code \<Rightarrow> bool) \<Rightarrow> string list \<Rightarrow> provider_code_mapping list \<Rightarrow> mapping_problem list" where
  "entries_problems isExceptionCode seen [] = []"
| "entries_problems isExceptionCode seen (e # es) =
     entry_problems isExceptionCode seen e @ entries_problems isExceptionCode (pm_providerCode e # seen) es"

definition validateMappingTable :: "provider_mapping_table \<Rightarrow> (exception_code \<Rightarrow> bool) \<Rightarrow> mapping_problem list" where
  "validateMappingTable tbl isExceptionCode =
     (if length (trim (mt_version tbl)) = 0 then [No_Version] else []) @
     entries_problems isExceptionCode [] (mt_codes tbl)"

section \<open>Properties\<close>

lemma entries_problems_Nil:
  "entries_problems ok seen es = [] \<longleftrightarrow>
     distinct (map pm_providerCode es) \<and> set (map pm_providerCode es) \<inter> set seen = {} \<and>
     (\<forall>e\<in>set es. entry_problems ok [] e = [])"
  by (induction es arbitrary: seen) (auto simp: entry_problems_def split: option.splits if_splits)

lemma find_unique:
  "distinct (map k es) \<Longrightarrow> e \<in> set es \<Longrightarrow> find (\<lambda>x. k x = k e) es = Some e"
  by (induction es) (auto simp: image_iff)

text \<open>
  A table that passes validation means what it says: every entry is what its own code is interpreted
  as, whatever its place in the table; an interpreted rejection always names a code, every code named
  is one the taxonomy knows, and a return reason is carried by returns only. A code no entry mentions
  keeps the outcome the transport still tells, with the default code of that outcome, and is never
  given a return reason of its own.
\<close>

theorem valid_table_interpretation:
  assumes "validateMappingTable tbl known = []"
  shows "(\<forall>e\<in>set (mt_codes tbl).
       interpretProviderCode tbl (pm_providerCode e) fallback =
         Mapped (pm_outcome e) (pm_exceptionCode e) (pm_returnReason e) (mt_version tbl) \<and>
       (pm_outcome e = O_rejected \<longrightarrow> (\<exists>c. pm_exceptionCode e = Some c \<and> known c)) \<and>
       (\<forall>c. pm_exceptionCode e = Some c \<longrightarrow> known c) \<and>
       (returnReasonOf (interpretProviderCode tbl (pm_providerCode e) fallback) \<noteq> RETURN_REASON_UNMAPPED \<longrightarrow>
          pm_outcome e = O_returned)) \<and>
     (raw \<notin> pm_providerCode ` set (mt_codes tbl) \<longrightarrow>
       (\<exists>c. interpretProviderCode tbl raw fallback = Unmapped fallback c (mt_version tbl) raw \<and>
          \<not> isCustomerActionable c \<and> returnReasonOf (interpretProviderCode tbl raw fallback) = RETURN_REASON_UNMAPPED))"
proof (intro conjI ballI impI)
  from assms have es: "distinct (map pm_providerCode (mt_codes tbl))"
      "\<forall>e\<in>set (mt_codes tbl). entry_problems known [] e = []"
    by (auto simp: validateMappingTable_def entries_problems_Nil split: if_splits)
  fix e assume e: "e \<in> set (mt_codes tbl)"
  show i: "interpretProviderCode tbl (pm_providerCode e) fallback =
      Mapped (pm_outcome e) (pm_exceptionCode e) (pm_returnReason e) (mt_version tbl)"
    using find_unique [OF es(1) e] by (simp add: interpretProviderCode_def)
  have p: "entry_problems known [] e = []" using es(2) e by blast
  show "pm_outcome e = O_rejected \<Longrightarrow> \<exists>c. pm_exceptionCode e = Some c \<and> known c"
    using p by (auto simp: entry_problems_def split: if_splits option.splits)
  show "\<forall>c. pm_exceptionCode e = Some c \<longrightarrow> known c"
    using p by (auto simp: entry_problems_def split: if_splits)
  assume "returnReasonOf (interpretProviderCode tbl (pm_providerCode e) fallback) \<noteq> RETURN_REASON_UNMAPPED"
  then have "pm_returnReason e \<noteq> None"
    by (auto simp: i returnReasonOf_def UNMAPPED_RETURN_REASON_def split: option.splits)
  then show "pm_outcome e = O_returned" using p by (auto simp: entry_problems_def split: if_splits)
next
  assume raw: "raw \<notin> pm_providerCode ` set (mt_codes tbl)"
  then have "find (\<lambda>c. pm_providerCode c = raw) (mt_codes tbl) = None" by (auto simp: find_None_iff)
  then show "\<exists>c. interpretProviderCode tbl raw fallback = Unmapped fallback c (mt_version tbl) raw \<and>
      \<not> isCustomerActionable c \<and> returnReasonOf (interpretProviderCode tbl raw fallback) = RETURN_REASON_UNMAPPED"
    by (simp add: interpretProviderCode_def returnReasonOf_def UNMAPPED_RETURN_REASON_def
        UNMAPPED_REJECTION_DEFAULT_def UNMAPPED_UNKNOWN_DEFAULT_def)
qed

definition sample_table :: provider_mapping_table where
  "sample_table = \<lparr>mt_providerId = ''mock'', mt_version = ''v1'', mt_source = Sandbox_Fixture,
     mt_codes = [\<lparr>pm_providerCode = ''R01'', pm_outcome = O_rejected, pm_exceptionCode = Some PAYOUT_REJECTED_DESTINATION,
       pm_returnReason = None, pm_note = ''account closed''\<rparr>]\<rparr>"

theorem valid_table_interpretation_witness:
  "interpretProviderCode sample_table ''R01'' O_unknown = Mapped O_rejected (Some PAYOUT_REJECTED_DESTINATION) None ''v1'' \<and>
   interpretProviderCode sample_table ''X'' O_rejected = Unmapped O_rejected PAYOUT_REJECTED_PROVIDER ''v1'' ''X''"
proof -
  have "validateMappingTable sample_table (\<lambda>_. True) = []" by code_simp
  from valid_table_interpretation [OF this, of O_unknown]
  have "interpretProviderCode sample_table ''R01'' O_unknown = Mapped O_rejected (Some PAYOUT_REJECTED_DESTINATION) None ''v1''"
    by (simp add: sample_table_def)
  moreover have "interpretProviderCode sample_table ''X'' O_rejected = Unmapped O_rejected PAYOUT_REJECTED_PROVIDER ''v1'' ''X''"
    by code_simp
  ultimately show ?thesis by blast
qed

end
