(* ===== verification/Strict_Json.thy ===== *)
theory Strict_Json
  imports Json
begin

text \<open>
  JSON as text: what \<open>JSON.stringify\<close> writes, and the strict reader of request bodies
  (\<open>packages/domain/src/api/json.ts\<close>), which refuses a repeated key. The reader works on the rest of
  the text; an offset is the length of the text less that of the rest. A number is kept as its literal:
  the code returns \<open>Number\<close> of it. The fuel bounds the recursion by twice the length of the text.
\<close>

section \<open>Writing\<close>

definition hex_digit :: "nat \<Rightarrow> char" where
  "hex_digit n = (if n < 10 then char_of (48 + n) else char_of (87 + n))"

definition escape_char :: "char \<Rightarrow> string" where
  "escape_char c =
     (let n = of_char c :: nat; bs = CHR 0x5C in
      if n = 34 then [bs, c]
      else if n = 92 then [bs, c]
      else if n = 8 then [bs, CHR ''b'']
      else if n = 12 then [bs, CHR ''f'']
      else if n = 10 then [bs, CHR ''n'']
      else if n = 13 then [bs, CHR ''r'']
      else if n = 9 then [bs, CHR ''t'']
      else if n < 32 then [bs, CHR ''u'', CHR ''0'', CHR ''0'', hex_digit (n div 16), hex_digit (n mod 16)]
      else [c])"

definition quote_string :: "string \<Rightarrow> string" where
  "quote_string s = CHR 0x22 # concat (map escape_char s) @ [CHR 0x22]"

fun comma_join :: "string list \<Rightarrow> string" where
  "comma_join [] = []"
| "comma_join [p] = p"
| "comma_join (p # q # ps) = p @ CHR '','' # comma_join (q # ps)"

fun stringify :: "json \<Rightarrow> string" where
  "stringify JNull = ''null''"
| "stringify (JBool b) = (if b then ''true'' else ''false'')"
| "stringify (JNum n) = string_of_int n"
| "stringify (JStr s) = quote_string s"
| "stringify (JArr vs) = CHR ''['' # comma_join (map stringify vs) @ '']''"
| "stringify (JObj es) = CHR ''{'' # comma_join (map (\<lambda>(k, v). quote_string k @ CHR '':'' # stringify v) es) @ ''}''"

section \<open>Reading\<close>

datatype json_value =
    VNull
  | VBool bool
  | VNum string
  | VStr string
  | VArr "json_value list"
  | VObj "(string \<times> json_value) list"

text \<open>
  A failure is its kind and the text that was left at it. Strings here hold the code units below 256; an
  escape of a larger one is outside the model.
\<close>

datatype parse_kind = Malformed | Duplicate_Json_Key | Out_Of_Fuel | Outside_Model

type_synonym 'a read = "(parse_kind \<times> string, 'a \<times> string) result"

definition is_space :: "char \<Rightarrow> bool" where
  "is_space c \<longleftrightarrow> c = CHR '' '' \<or> c = CHR 0x09 \<or> c = CHR 0x0A \<or> c = CHR 0x0D"

definition skipWhitespace :: "string \<Rightarrow> string" where
  "skipWhitespace s = dropWhile is_space s"

definition expect :: "char \<Rightarrow> string \<Rightarrow> unit read" where
  "expect ch s = (case s of c # r \<Rightarrow> if c = ch then Inr ((), r) else Inl (Malformed, s) | [] \<Rightarrow> Inl (Malformed, s))"

definition parseLiteral :: "string \<Rightarrow> json_value \<Rightarrow> string \<Rightarrow> json_value read" where
  "parseLiteral word v s =
     (if take (length word) s = word then Inr (v, drop (length word) s) else Inl (Malformed, s))"

definition is_hex_digit :: "char \<Rightarrow> bool" where
  "is_hex_digit c \<longleftrightarrow>
     (let n = of_char c :: nat in (48 \<le> n \<and> n \<le> 57) \<or> (65 \<le> n \<and> n \<le> 70) \<or> (97 \<le> n \<and> n \<le> 102))"

definition hex_val :: "char \<Rightarrow> nat" where
  "hex_val c =
     (let n = of_char c :: nat in if n \<le> 57 then n - 48 else if n \<le> 70 then n - 55 else n - 87)"

definition hex_number :: "string \<Rightarrow> nat" where
  "hex_number s = foldl (\<lambda>n c. 16 * n + hex_val c) 0 s"

definition simple_escape :: "char \<Rightarrow> char option" where
  "simple_escape esc =
     (let n = of_char esc :: nat in
      if n = 34 \<or> n = 92 \<or> n = 47 then Some esc
      else if esc = CHR ''b'' then Some (CHR 0x08)
      else if esc = CHR ''f'' then Some (CHR 0x0C)
      else if esc = CHR ''n'' then Some (CHR 0x0A)
      else if esc = CHR ''r'' then Some (CHR 0x0D)
      else if esc = CHR ''t'' then Some (CHR 0x09)
      else None)"

function read_chars :: "string \<Rightarrow> string \<Rightarrow> string read" where
  "read_chars out [] = Inl (Malformed, [])"
| "read_chars out (ch # s) =
     (if ch = CHR 0x22 then Inr (out, s)
      else if ch = CHR 0x5C then
        (case s of
           [] \<Rightarrow> Inl (Malformed, [])
         | esc # r \<Rightarrow>
             (case simple_escape esc of
                Some c \<Rightarrow> read_chars (out @ [c]) r
              | None \<Rightarrow>
                  if esc = CHR ''u'' then
                    if length (take 4 r) = 4 \<and> list_all is_hex_digit (take 4 r)
                    then if hex_number (take 4 r) < 256
                         then read_chars (out @ [char_of (hex_number (take 4 r))]) (drop 4 r)
                         else Inl (Outside_Model, r)
                    else Inl (Malformed, r)
                  else Inl (Malformed, r)))
      else if ch < CHR '' '' then Inl (Malformed, ch # s)
      else read_chars (out @ [ch]) s)"
  by pat_completeness auto
termination by (relation "measure (\<lambda>(out, s). length s)") auto

definition parseString :: "string \<Rightarrow> string read" where
  "parseString s = bind_result (expect (CHR 0x22) s) (\<lambda>(_, r). read_chars [] r)"

text \<open>
  \<open>parseNumber\<close> takes the longest run that could be a number and then tests it against
  \<open>/^-?(0|[1-9]\d*)(\.\d+)?([eE][+-]?\d+)?$/\<close>; both go through the same parts: a sign, digits, a
  fraction, an exponent.
\<close>

definition take_sign :: "string \<Rightarrow> string \<times> string" where
  "take_sign s = (case s of c # r \<Rightarrow> if c = CHR ''-'' then ([c], r) else ([], s) | [] \<Rightarrow> ([], s))"

definition take_digits :: "string \<Rightarrow> string \<times> string" where
  "take_digits s = (takeWhile is_digit s, dropWhile is_digit s)"

definition take_fraction :: "string \<Rightarrow> string option \<times> string" where
  "take_fraction s =
     (case s of
        c # r \<Rightarrow> if c = CHR ''.'' then (Some (fst (take_digits r)), snd (take_digits r)) else (None, s)
      | [] \<Rightarrow> (None, s))"

definition take_exponent :: "string \<Rightarrow> (string \<times> string) option \<times> string" where
  "take_exponent s =
     (case s of
        c # r \<Rightarrow>
          if c = CHR ''e'' \<or> c = CHR ''E'' then
            let (sign, r') = (case r of d # q \<Rightarrow> if d = CHR ''+'' \<or> d = CHR ''-'' then ([d], q) else ([], r) | [] \<Rightarrow> ([], r))
            in (Some (c # sign, fst (take_digits r')), snd (take_digits r'))
          else (None, s)
      | [] \<Rightarrow> (None, s))"

definition integer_part_ok :: "string \<Rightarrow> bool" where
  "integer_part_ok ds = (case ds of [] \<Rightarrow> False | c # r \<Rightarrow> c \<noteq> CHR ''0'' \<or> r = [])"

definition parseNumber :: "string \<Rightarrow> json_value read" where
  "parseNumber s =
     (let (sign, s1) = take_sign s; (ds, s2) = take_digits s1; (frac, s3) = take_fraction s2;
          (ex, s4) = take_exponent s3
      in if integer_part_ok ds \<and> frac \<noteq> Some [] \<and> (case ex of Some (_, es) \<Rightarrow> es \<noteq> [] | None \<Rightarrow> True)
         then Inr (VNum (sign @ ds @ (case frac of None \<Rightarrow> [] | Some f \<Rightarrow> CHR ''.'' # f) @
           (case ex of None \<Rightarrow> [] | Some (e, es) \<Rightarrow> e @ es)), s4)
         else Inl (Malformed, s))"

fun parseValue :: "nat \<Rightarrow> string \<Rightarrow> json_value read"
and parseMembers :: "nat \<Rightarrow> (string \<times> json_value) list \<Rightarrow> string \<Rightarrow> json_value read"
and parseElements :: "nat \<Rightarrow> json_value list \<Rightarrow> string \<Rightarrow> json_value read"
where
  "parseValue 0 s = Inl (Out_Of_Fuel, s)"
| "parseValue (Suc n) s =
     (case skipWhitespace s of
        [] \<Rightarrow> Inl (Malformed, [])
      | ch # r \<Rightarrow>
          if ch = CHR ''{'' then
            (case skipWhitespace r of
               c # q \<Rightarrow> if c = CHR ''}'' then Inr (VObj [], q) else parseMembers n [] (c # q)
             | [] \<Rightarrow> parseMembers n [] [])
          else if ch = CHR ''['' then
            (case skipWhitespace r of
               c # q \<Rightarrow> if c = CHR '']'' then Inr (VArr [], q) else parseElements n [] (c # q)
             | [] \<Rightarrow> parseElements n [] [])
          else if ch = CHR 0x22 then bind_result (parseString (ch # r)) (\<lambda>(t, q). Inr (VStr t, q))
          else if ch = CHR ''t'' then parseLiteral ''true'' (VBool True) (ch # r)
          else if ch = CHR ''f'' then parseLiteral ''false'' (VBool False) (ch # r)
          else if ch = CHR ''n'' then parseLiteral ''null'' VNull (ch # r)
          else parseNumber (ch # r))"
| "parseMembers 0 out s = Inl (Out_Of_Fuel, s)"
| "parseMembers (Suc n) out s =
     (let at = skipWhitespace s in
      bind_result (parseString at) (\<lambda>(key, r).
      if key \<in> fst ` set out then Inl (Duplicate_Json_Key, at)
      else bind_result (expect (CHR '':'') (skipWhitespace r)) (\<lambda>(_, q).
           bind_result (parseValue n q) (\<lambda>(v, p).
           case skipWhitespace p of
             c # t \<Rightarrow>
               if c = CHR '','' then parseMembers n (out @ [(key, v)]) t
               else if c = CHR ''}'' then Inr (VObj (out @ [(key, v)]), t)
               else Inl (Malformed, c # t)
           | [] \<Rightarrow> Inl (Malformed, [])))))"
| "parseElements 0 out s = Inl (Out_Of_Fuel, s)"
| "parseElements (Suc n) out s =
     bind_result (parseValue n s) (\<lambda>(v, p).
     case skipWhitespace p of
       c # t \<Rightarrow>
         if c = CHR '','' then parseElements n (out @ [v]) t
         else if c = CHR '']'' then Inr (VArr (out @ [v]), t)
         else Inl (Malformed, c # t)
     | [] \<Rightarrow> Inl (Malformed, []))"

definition parseStrictJson :: "string \<Rightarrow> (parse_kind \<times> nat, json_value) result" where
  "parseStrictJson text =
     (case parseValue (2 * length text + 2) (skipWhitespace text) of
        Inl (kind, rest) \<Rightarrow> Inl (kind, length text - length rest)
      | Inr (v, rest) \<Rightarrow>
          (let rest' = skipWhitespace rest
           in if rest' \<noteq> [] then Inl (Malformed, length text - length rest') else Inr v))"

section \<open>The fuel is enough\<close>

definition left_of :: "(parse_kind \<times> string, 'a \<times> string) result \<Rightarrow> nat \<Rightarrow> bool" where
  "left_of result n \<longleftrightarrow> (case result of Inl (kind, _) \<Rightarrow> kind \<noteq> Out_Of_Fuel | Inr (_, rest) \<Rightarrow> length rest < n)"

lemma left_of_simps [simp]:
  "left_of (Inl (kind, rest)) n \<longleftrightarrow> kind \<noteq> Out_Of_Fuel" "left_of (Inr (x, rest)) n \<longleftrightarrow> length rest < n"
  by (simp_all add: left_of_def)

lemma left_of_mono: "left_of r m \<Longrightarrow> m \<le> n \<Longrightarrow> left_of r n"
  by (auto simp: left_of_def split: sum.splits)

lemma left_of_bind:
  assumes "left_of r m" "\<And>x rest. r = Inr (x, rest) \<Longrightarrow> length rest < m \<Longrightarrow> left_of (f (x, rest)) n"
  shows "left_of (bind_result r f) n"
  using assms by (cases r) auto

lemma left_of_if:
  "(c \<Longrightarrow> left_of x n) \<Longrightarrow> (\<not> c \<Longrightarrow> left_of y n) \<Longrightarrow> left_of (if c then x else y) n"
  by simp

lemma skipWhitespace_length: "length (skipWhitespace s) \<le> length s"
  by (simp add: skipWhitespace_def length_dropWhile_le)

lemma left_read_chars: "left_of (read_chars out s) (Suc (length s))"
proof (induction out s rule: read_chars.induct)
  case (2 out ch s)
  have escape: "left_of (case s of
           [] \<Rightarrow> Inl (Malformed, [])
         | esc # r \<Rightarrow>
             (case simple_escape esc of
                Some c \<Rightarrow> read_chars (out @ [c]) r
              | None \<Rightarrow>
                  if esc = CHR ''u'' then
                    if length (take 4 r) = 4 \<and> list_all is_hex_digit (take 4 r)
                    then if hex_number (take 4 r) < 256
                         then read_chars (out @ [char_of (hex_number (take 4 r))]) (drop 4 r)
                         else Inl (Outside_Model, r)
                    else Inl (Malformed, r)
                  else Inl (Malformed, r))) (Suc (length (ch # s)))"
    if special: "\<not> ch = CHR 0x22" "ch = CHR 0x5C"
  proof (cases s)
    case (Cons esc r)
    show ?thesis
    proof (cases "simple_escape esc")
      case None
      show ?thesis
        unfolding Cons list.case None option.case
        by (intro left_of_if left_of_mono [OF "2.IH"(1) [OF special Cons None]]) simp_all
    next
      case (Some c)
      then show ?thesis
        using left_of_mono [OF "2.IH"(2) [OF special Cons Some]] by (simp add: Cons del: read_chars.simps)
    qed
  qed simp
  show ?case
    by (subst read_chars.simps(2), intro left_of_if)
      (use escape left_of_mono [OF "2.IH"(3)] in \<open>simp_all del: read_chars.simps\<close>)
qed simp

lemma left_expect: "left_of (expect c s) (length s)"
  by (cases s) (simp_all add: expect_def)

lemma left_parseString: "left_of (parseString s) (length s)"
proof -
  have "left_of (read_chars [] r) (length s)" if "length r < length s" for r
    using left_of_mono [OF left_read_chars] that by (metis Suc_leI)
  then show ?thesis unfolding parseString_def by (intro left_of_bind [OF left_expect]) auto
qed

lemma left_parseLiteral: "word \<noteq> [] \<Longrightarrow> s \<noteq> [] \<Longrightarrow> left_of (parseLiteral word v s) (length s)"
  by (cases word; cases s) (simp_all add: parseLiteral_def less_Suc_eq_le)

lemma take_parts_length:
  "length (snd (take_sign s)) \<le> length s" "length (snd (take_digits s)) \<le> length s"
  "length (snd (take_fraction s)) \<le> length s" "length (snd (take_exponent s)) \<le> length s"
  "fst (take_digits s) \<noteq> [] \<Longrightarrow> length (snd (take_digits s)) < length s"
proof -
  show digits: "length (snd (take_digits s)) \<le> length s" for s
    by (simp add: take_digits_def length_dropWhile_le)
  show "length (snd (take_sign s)) \<le> length s" by (cases s) (simp_all add: take_sign_def)
  show "length (snd (take_fraction s)) \<le> length s"
    using digits [of "tl s"] by (cases s) (simp_all add: take_fraction_def)
  show "length (snd (take_exponent s)) \<le> length s"
    using digits [of "tl s"] digits [of "tl (tl s)"]
    by (cases s; cases "tl s") (simp_all add: take_exponent_def)
  show "fst (take_digits s) \<noteq> [] \<Longrightarrow> length (snd (take_digits s)) < length s"
    by (cases s) (auto simp: take_digits_def less_Suc_eq_le length_dropWhile_le split: if_splits)
qed

lemma left_parseNumber: "left_of (parseNumber s) (length s)"
proof -
  obtain sign s1 where 1: "take_sign s = (sign, s1)" by fastforce
  obtain ds s2 where 2: "take_digits s1 = (ds, s2)" by fastforce
  obtain frac s3 where 3: "take_fraction s2 = (frac, s3)" by fastforce
  obtain ex s4 where 4: "take_exponent s3 = (ex, s4)" by fastforce
  have "length s4 < length s" if "integer_part_ok ds"
  proof -
    have "ds \<noteq> []" using that by (auto simp: integer_part_ok_def)
    then show ?thesis
      using take_parts_length(1) [of s] take_parts_length(5) [of s1] take_parts_length(3) [of s2]
        take_parts_length(4) [of s3] 1 2 3 4 by simp
  qed
  then show ?thesis by (simp add: parseNumber_def 1 2 3 4)
qed

lemma skip_cases:
  assumes "skipWhitespace s = c # r"
  shows "length r < length s"
  using skipWhitespace_length [of s] assms by simp

lemma fuel_is_enough:
  "(\<forall>s. 2 * length s < n \<longrightarrow> left_of (parseValue n s) (length s)) \<and>
   (\<forall>ms s. 2 * length s \<le> n \<and> 0 < n \<longrightarrow> left_of (parseMembers n ms s) (length s)) \<and>
   (\<forall>es s. 2 * length s + 1 < n \<longrightarrow> left_of (parseElements n es s) (length s))"
proof (induction n)
  case (Suc n)
  then have value_ih: "2 * length s < n \<Longrightarrow> left_of (parseValue n s) (length s)"
    and members_ih: "2 * length s \<le> n \<Longrightarrow> 0 < n \<Longrightarrow> left_of (parseMembers n ms s) (length s)"
    and elements_ih: "2 * length s + 1 < n \<Longrightarrow> left_of (parseElements n es s) (length s)" for s ms es
    by blast+
  have value_step: "left_of (parseValue (Suc n) s) (length s)" if "2 * length s < Suc n" for s
  proof (cases "skipWhitespace s")
    case (Cons ch r)
    note len = skip_cases [OF Cons]
    have obj: "left_of (parseMembers n [] (skipWhitespace r)) (length s)"
      using that len skipWhitespace_length [of r] by (intro left_of_mono [OF members_ih]) linarith+
    have arr: "left_of (parseElements n [] (skipWhitespace r)) (length s)"
      using that len skipWhitespace_length [of r] by (intro left_of_mono [OF elements_ih]) linarith+
    have str: "left_of (bind_result (parseString (ch # r)) (\<lambda>(t, q). Inr (VStr t, q))) (length s)"
      using skipWhitespace_length [of s] Cons by (intro left_of_bind [OF left_parseString]) auto
    have lit: "left_of (parseLiteral w v (ch # r)) (length s)" if "w \<noteq> []" for w v
      using skipWhitespace_length [of s] Cons by (intro left_of_mono [OF left_parseLiteral]) (simp_all add: that)
    have num: "left_of (parseNumber (ch # r)) (length s)"
      using skipWhitespace_length [of s] Cons by (intro left_of_mono [OF left_parseNumber]) simp_all
    have close: "length q < length s" if "skipWhitespace r = c # q" for c q
      using skip_cases [OF that] len by linarith
    have obj': "left_of (case skipWhitespace r of
               c # q \<Rightarrow> if c = CHR ''}'' then Inr (VObj [], q) else parseMembers n [] (c # q)
             | [] \<Rightarrow> parseMembers n [] []) (length s)"
      using obj close by (cases "skipWhitespace r") simp_all
    have arr': "left_of (case skipWhitespace r of
               c # q \<Rightarrow> if c = CHR '']'' then Inr (VArr [], q) else parseElements n [] (c # q)
             | [] \<Rightarrow> parseElements n [] []) (length s)"
      using arr close by (cases "skipWhitespace r") simp_all
    show ?thesis
      unfolding parseValue.simps(2) Cons list.case by (intro left_of_if obj' arr' str lit num) simp_all
  qed simp
  have member_step: "left_of (parseMembers (Suc n) ms s) (length s)" if fuel: "2 * length s \<le> Suc n" for ms s
  proof -
    have rest: "left_of (bind_result (expect (CHR '':'') (skipWhitespace r)) (\<lambda>(_, q).
           bind_result (parseValue n q) (\<lambda>(v, p).
           case skipWhitespace p of
             c # t \<Rightarrow>
               if c = CHR '','' then parseMembers n (ms @ [(key, v)]) t
               else if c = CHR ''}'' then Inr (VObj (ms @ [(key, v)]), t)
               else Inl (Malformed, c # t)
           | [] \<Rightarrow> Inl (Malformed, [])))) (length s)" if r: "length r < length s" for key r
    proof (rule left_of_bind [OF left_expect], clarify)
      fix u :: unit and q :: string assume q: "length q < length (skipWhitespace r)"
      then have q': "length q + 2 \<le> length s" using r skipWhitespace_length [of r] by linarith
      show "left_of (bind_result (parseValue n q) (\<lambda>(v, p).
           case skipWhitespace p of
             c # t \<Rightarrow>
               if c = CHR '','' then parseMembers n (ms @ [(key, v)]) t
               else if c = CHR ''}'' then Inr (VObj (ms @ [(key, v)]), t)
               else Inl (Malformed, c # t)
           | [] \<Rightarrow> Inl (Malformed, []))) (length s)"
      proof (rule left_of_bind [OF value_ih], use q' fuel in linarith, clarify)
        fix v and p :: string assume p: "length p < length q"
        have "left_of (parseMembers n (ms @ [(key, v)]) t) (length s) \<and> length t < length s"
          if "skipWhitespace p = c # t" for c t
          using skip_cases [OF that] p q' fuel by (intro conjI left_of_mono [OF members_ih]) linarith+
        then show "left_of (case skipWhitespace p of
             c # t \<Rightarrow>
               if c = CHR '','' then parseMembers n (ms @ [(key, v)]) t
               else if c = CHR ''}'' then Inr (VObj (ms @ [(key, v)]), t)
               else Inl (Malformed, c # t)
           | [] \<Rightarrow> Inl (Malformed, [])) (length s)"
          by (auto split: list.splits)
      qed
    qed
    show ?thesis
      unfolding parseMembers.simps(2) Let_def
      by (rule left_of_bind [OF left_parseString])
        (use rest skipWhitespace_length [of s] in \<open>auto simp: Let_def\<close>)
  qed
  have element_step: "left_of (parseElements (Suc n) es s) (length s)" if fuel: "2 * length s + 1 < Suc n" for es s
  proof -
    have "left_of (case skipWhitespace p of
       c # t \<Rightarrow>
         if c = CHR '','' then parseElements n (es @ [v]) t
         else if c = CHR '']'' then Inr (VArr (es @ [v]), t)
         else Inl (Malformed, c # t)
     | [] \<Rightarrow> Inl (Malformed, [])) (length s)" if p: "length p < length s" for v p
    proof -
      have "left_of (parseElements n (es @ [v]) t) (length s) \<and> length t < length s" if "skipWhitespace p = c # t" for c t
        using skip_cases [OF that] p fuel by (intro conjI left_of_mono [OF elements_ih]) linarith+
      then show ?thesis by (auto split: list.splits)
    qed
    moreover have "left_of (parseValue n s) (length s)" using fuel by (intro value_ih) linarith
    ultimately show ?thesis unfolding parseElements.simps(2) by (intro left_of_bind) auto
  qed
  from value_step member_step element_step show ?case by blast
qed simp

section \<open>No key twice\<close>

primrec distinct_keys :: "json_value \<Rightarrow> bool" where
  "distinct_keys VNull = True"
| "distinct_keys (VBool b) = True"
| "distinct_keys (VNum n) = True"
| "distinct_keys (VStr s) = True"
| "distinct_keys (VArr vs) = list_all id (map distinct_keys vs)"
| "distinct_keys (VObj es) = (distinct (map fst es) \<and> list_all snd (map (map_prod id distinct_keys) es))"

lemma if_value:
  "(if c then x else y) = z \<Longrightarrow> (c \<Longrightarrow> x = z \<Longrightarrow> P) \<Longrightarrow> (\<not> c \<Longrightarrow> y = z \<Longrightarrow> P) \<Longrightarrow> P"
  by (cases c) simp_all

lemma parsed_leaf:
  "parseNumber s = Inr (v, r) \<Longrightarrow> distinct_keys v"
  "parseLiteral w (VBool b) s = Inr (v, r) \<Longrightarrow> distinct_keys v"
  "parseLiteral w VNull s = Inr (v, r) \<Longrightarrow> distinct_keys v"
  by (auto simp: parseNumber_def parseLiteral_def split: prod.splits if_splits)

lemma parseMembers_step:
  assumes run: "parseMembers (Suc n) ms s = Inr (v, r)"
  obtains key q w p c t where "key \<notin> fst ` set ms" "parseValue n q = Inr (w, p)" "skipWhitespace p = c # t"
    "(if c = CHR '','' then parseMembers n (ms @ [(key, w)]) t
      else if c = CHR ''}'' then Inr (VObj (ms @ [(key, w)]), t) else Inl (Malformed, c # t)) = Inr (v, r)"
proof -
  obtain key r1 where k: "parseString (skipWhitespace s) = Inr (key, r1)"
    using run by (cases "parseString (skipWhitespace s)") (auto simp: Let_def)
  have new: "key \<notin> fst ` set ms"
  proof
    assume "key \<in> fst ` set ms"
    with run k show False by (simp add: Let_def)
  qed
  obtain u q where q: "expect (CHR '':'') (skipWhitespace r1) = Inr (u, q)"
    using run k new by (cases "expect (CHR '':'') (skipWhitespace r1)") (auto simp: Let_def)
  obtain w p where w: "parseValue n q = Inr (w, p)"
    using run k new q by (cases "parseValue n q") (auto simp: Let_def)
  obtain c t where p: "skipWhitespace p = c # t"
    using run k new q w by (cases "skipWhitespace p") (auto simp: Let_def)
  from run k new q w p show ?thesis by (intro that [OF new w p]) (simp add: Let_def)
qed

lemma parse_distinct:
  "(\<forall>s v r. parseValue n s = Inr (v, r) \<longrightarrow> distinct_keys v) \<and>
   (\<forall>ms s v r. parseMembers n ms s = Inr (v, r) \<longrightarrow> distinct_keys (VObj ms) \<longrightarrow> distinct_keys v) \<and>
   (\<forall>es s v r. parseElements n es s = Inr (v, r) \<longrightarrow> distinct_keys (VArr es) \<longrightarrow> distinct_keys v)"
proof (induction n)
  case (Suc n)
  then have value_ih: "parseValue n s = Inr (v, r) \<Longrightarrow> distinct_keys v"
    and members_ih: "parseMembers n ms s = Inr (v, r) \<Longrightarrow> distinct_keys (VObj ms) \<Longrightarrow> distinct_keys v"
    and elements_ih: "parseElements n es s = Inr (v, r) \<Longrightarrow> distinct_keys (VArr es) \<Longrightarrow> distinct_keys v"
    for s v r ms es by blast+
  have value_step: "distinct_keys v" if "parseValue (Suc n) s = Inr (v, r)" for s v r
  proof (cases "skipWhitespace s")
    case Nil
    with that show ?thesis by simp
  next
    case (Cons ch q)
    have obj: "distinct_keys v" if "(case skipWhitespace q of
           c # t \<Rightarrow> if c = CHR ''}'' then Inr (VObj [], t) else parseMembers n [] (c # t)
         | [] \<Rightarrow> parseMembers n [] []) = Inr (v, r)"
      using that members_ih [of "[]"] by (cases "skipWhitespace q") (auto split: if_splits)
    have arr: "distinct_keys v" if "(case skipWhitespace q of
           c # t \<Rightarrow> if c = CHR '']'' then Inr (VArr [], t) else parseElements n [] (c # t)
         | [] \<Rightarrow> parseElements n [] []) = Inr (v, r)"
      using that elements_ih [of "[]"] by (cases "skipWhitespace q") (auto split: if_splits)
    show ?thesis
      using that unfolding parseValue.simps(2) Cons list.case
      by (elim if_value) (erule obj arr parsed_leaf | force simp: bind_result_Inr)+
  qed
  have member_step: "distinct_keys v" if run: "parseMembers (Suc n) ms s = Inr (v, r)" and ms: "distinct_keys (VObj ms)"
    for ms s v r
  proof -
    from run obtain key q w p c t where new: "key \<notin> fst ` set ms" and w: "parseValue n q = Inr (w, p)"
      and cont: "(if c = CHR '','' then parseMembers n (ms @ [(key, w)]) t
         else if c = CHR ''}'' then Inr (VObj (ms @ [(key, w)]), t) else Inl (Malformed, c # t)) = Inr (v, r)"
      by (rule parseMembers_step)
    have "distinct_keys (VObj (ms @ [(key, w)]))" using ms new value_ih [OF w] by auto
    with cont members_ih show ?thesis by (auto split: if_splits)
  qed
  have element_step: "distinct_keys v" if run: "parseElements (Suc n) es s = Inr (v, r)" and es: "distinct_keys (VArr es)"
    for es s v r
  proof -
    from run obtain w p where w: "parseValue n s = Inr (w, p)"
      by (cases "parseValue n s") auto
    with run obtain c t where p: "skipWhitespace p = c # t"
      by (cases "skipWhitespace p") auto
    from run w p have cont: "(if c = CHR '','' then parseElements n (es @ [w]) t
         else if c = CHR '']'' then Inr (VArr (es @ [w]), t) else Inl (Malformed, c # t)) = Inr (v, r)"
      by simp
    have "distinct_keys (VArr (es @ [w]))" using es value_ih [OF w] by simp
    with cont elements_ih show ?thesis by (auto split: if_splits)
  qed
  from value_step member_step element_step show ?case by blast
qed simp

section \<open>Reading what was written\<close>

primrec value_of :: "json \<Rightarrow> json_value" where
  "value_of JNull = VNull"
| "value_of (JBool b) = VBool b"
| "value_of (JNum n) = VNum (string_of_int n)"
| "value_of (JStr s) = VStr s"
| "value_of (JArr vs) = VArr (map value_of vs)"
| "value_of (JObj es) = VObj (map (map_prod id value_of) es)"

lemma hex_digit_val: "d < 16 \<Longrightarrow> is_hex_digit (hex_digit d) \<and> hex_val (hex_digit d) = d"
  by (auto simp: hex_digit_def is_hex_digit_def hex_val_def Let_def)

lemma control_chars:
  "of_char c = (8::nat) \<Longrightarrow> c = CHR 0x08" "of_char c = (9::nat) \<Longrightarrow> c = CHR 0x09"
  "of_char c = (10::nat) \<Longrightarrow> c = CHR 0x0A" "of_char c = (12::nat) \<Longrightarrow> c = CHR 0x0C"
  "of_char c = (13::nat) \<Longrightarrow> c = CHR 0x0D" "of_char c = (34::nat) \<Longrightarrow> c = CHR 0x22"
  "of_char c = (92::nat) \<Longrightarrow> c = CHR 0x5C"
  by (rule of_char_eq_iff [where ?'a = nat, THEN iffD1], simp)+

lemma read_escaped: "read_chars out (escape_char c @ s) = read_chars (out @ [c]) s"
proof -
  let ?n = "of_char c :: nat"
  consider (quote) "?n = 34" | (bs) "?n = 92" | (b) "?n = 8" | (f) "?n = 12" | (n) "?n = 10" | (r) "?n = 13" | (t) "?n = 9"
    | (control) "?n < 32" "?n \<notin> {8, 9, 10, 12, 13}" | (plain) "32 \<le> ?n" "?n \<noteq> 34" "?n \<noteq> 92"
    by fastforce
  then show ?thesis
  proof cases
    case control
    have digits: "hex_number [CHR ''0'', CHR ''0'', hex_digit (?n div 16), hex_digit (?n mod 16)] = ?n"
      using hex_digit_val [of "?n div 16"] hex_digit_val [of "?n mod 16"] control(1)
      by (simp add: hex_number_def) (simp add: hex_val_def)
    have "is_hex_digit (hex_digit (?n div 16))" "is_hex_digit (hex_digit (?n mod 16))"
      using hex_digit_val [of "?n div 16"] hex_digit_val [of "?n mod 16"] control(1) by simp_all
    moreover have "is_hex_digit (CHR ''0'')" by (simp add: is_hex_digit_def)
    moreover have "escape_char c = [CHR 0x5C, CHR ''u'', CHR ''0'', CHR ''0'', hex_digit (?n div 16), hex_digit (?n mod 16)]"
      using control by (simp add: escape_char_def Let_def)
    ultimately show ?thesis
      using control(1) digits by (simp add: simple_escape_def Let_def)
  next
    case plain
    have "c \<noteq> CHR 0x22" "c \<noteq> CHR 0x5C" "\<not> c < CHR '' ''"
      using plain by (auto simp: less_char_def)
    with plain show ?thesis by (simp add: escape_char_def Let_def)
  qed (drule control_chars, simp add: escape_char_def simple_escape_def Let_def)+
qed

lemma read_quoted: "read_chars out (concat (map escape_char s) @ CHR 0x22 # rest) = Inr (out @ s, rest)"
  by (induction s arbitrary: out) (simp_all add: read_escaped del: read_chars.simps(2), simp)

definition ends_value :: "string \<Rightarrow> bool" where
  "ends_value s \<longleftrightarrow> (case s of [] \<Rightarrow> True | c # _ \<Rightarrow> c = CHR '','' \<or> c = CHR ''}'' \<or> c = CHR '']'')"

lemma ends_value_simps [simp]:
  "ends_value []" "ends_value (CHR '','' # s)" "ends_value (CHR ''}'' # s)" "ends_value (CHR '']'' # s)"
  by (simp_all add: ends_value_def)

lemma takes_nothing:
  assumes "ends_value s"
  shows "takeWhile is_digit s = []" "dropWhile is_digit s = s" "take_fraction s = (None, s)" "take_exponent s = (None, s)"
  using assms
  by (cases s; auto simp: ends_value_def take_fraction_def take_exponent_def is_digit_of_char)+

lemma digits_of_nat_head: "0 < n \<Longrightarrow> \<exists>c r. digits_of_nat n = c # r \<and> c \<noteq> CHR ''0''"
proof (induction n rule: digits_of_nat.induct)
  case (1 n)
  show ?case
  proof (cases "n < 10")
    case True
    have "digit_char n \<noteq> CHR ''0''"
      using 1(2) True digit_val_char [of n] by (auto simp: digit_val_def)
    with True show ?thesis by (simp add: digits_of_nat.simps [of n])
  next
    case False
    with 1 have "\<exists>c r. digits_of_nat (n div 10) = c # r \<and> c \<noteq> CHR ''0''" by simp
    then show ?thesis using False by (auto simp: digits_of_nat.simps [of n])
  qed
qed

lemma integer_part_digits: "integer_part_ok (digits_of_nat n)"
proof (cases "n = 0")
  case True
  then show ?thesis by (simp add: integer_part_ok_def digits_of_nat.simps [of 0])
next
  case False
  then show ?thesis using digits_of_nat_head [of n] by (auto simp: integer_part_ok_def)
qed

lemma take_digits_written:
  assumes "ends_value rest"
  shows "take_digits (digits_of_nat n @ rest) = (digits_of_nat n, rest)"
  using digits_of_nat_digits [of n] takes_nothing(1,2) [OF assms]
  by (simp add: take_digits_def takeWhile_append dropWhile_append list_all_iff)

lemma digit_not_minus: "is_digit c \<Longrightarrow> c \<noteq> CHR ''-''"
  by (auto simp: is_digit_of_char)

lemma parse_written_number:
  assumes "ends_value rest"
  shows "parseNumber (string_of_int i @ rest) = Inr (VNum (string_of_int i), rest)"
proof (cases "i < 0")
  case True
  then show ?thesis
    using integer_part_digits
    by (simp add: parseNumber_def string_of_int_def take_sign_def take_digits_written [OF assms] takes_nothing [OF assms])
next
  case False
  obtain c r where c: "digits_of_nat (nat i) = c # r" "c \<noteq> CHR ''-''"
    using digits_of_nat_nonempty [of "nat i"] digits_of_nat_digits [of "nat i"]
    by (cases "digits_of_nat (nat i)") (auto dest: digit_not_minus)
  then have "take_sign (digits_of_nat (nat i) @ rest) = ([], digits_of_nat (nat i) @ rest)"
    by (simp add: take_sign_def)
  with False show ?thesis
    using integer_part_digits
    by (simp add: parseNumber_def string_of_int_def take_digits_written [OF assms] takes_nothing [OF assms])
qed

lemma skip_nonspace: "\<not> is_space c \<Longrightarrow> skipWhitespace (c # s) = c # s"
  by (simp add: skipWhitespace_def)

lemma parse_quoted: "parseString (quote_string s @ rest) = Inr (s, rest)"
  using read_quoted [of "[]" s rest] by (simp add: parseString_def quote_string_def expect_def)

lemma digit_class:
  assumes "is_digit c \<or> c = CHR ''-''"
  shows "\<not> is_space c" "c \<noteq> CHR ''{''" "c \<noteq> CHR ''[''" "c \<noteq> CHR 0x22" "c \<noteq> CHR ''t''" "c \<noteq> CHR ''f''" "c \<noteq> CHR ''n''"
  using assms by (auto simp: is_digit_of_char is_space_def)

text \<open>Enough fuel reads the text: from some amount on, the result no longer depends on it.\<close>

definition reads :: "(nat \<Rightarrow> json_value read) \<Rightarrow> json_value \<times> string \<Rightarrow> bool" where
  "reads p r \<longleftrightarrow> (\<exists>N. \<forall>n\<ge>N. p n = Inr r)"

lemma reads_step: "(\<forall>n. p (Suc n) = Inr r) \<Longrightarrow> reads p r"
  unfolding reads_def by (rule exI [of _ 1]) (metis Suc_le_D One_nat_def)

lemma reads_from: "reads q r \<Longrightarrow> (\<forall>n. q n = Inr r \<longrightarrow> p (Suc n) = Inr r') \<Longrightarrow> reads p r'"
  unfolding reads_def by (metis Suc_le_D Suc_le_mono)

lemma reads_both:
  assumes "reads q r" "reads q' r'" "\<forall>n. q n = Inr r \<longrightarrow> q' n = Inr r' \<longrightarrow> p (Suc n) = Inr r''"
  shows "reads p r''"
proof -
  from assms(1,2) obtain N N' where N: "\<forall>n\<ge>N. q n = Inr r" "\<forall>n\<ge>N'. q' n = Inr r'" by (auto simp: reads_def)
  have "p n = Inr r''" if "Suc (max N N') \<le> n" for n
    using that N assms(3) by (cases n) auto
  then show ?thesis unfolding reads_def by blast
qed

lemma read_written_elements:
  "vs \<noteq> [] \<Longrightarrow> (\<And>v rest. v \<in> set vs \<Longrightarrow> ends_value rest \<Longrightarrow> reads (\<lambda>n. parseValue n (stringify v @ rest)) (value_of v, rest)) \<Longrightarrow>
   reads (\<lambda>n. parseElements n acc (comma_join (map stringify vs) @ CHR '']'' # rest)) (VArr (acc @ map value_of vs), rest)"
proof (induction vs arbitrary: acc rule: induct_list012)
  case (2 v)
  have "reads (\<lambda>n. parseValue n (stringify v @ CHR '']'' # rest)) (value_of v, CHR '']'' # rest)"
    by (rule 2(2)) simp_all
  then show ?case by (rule reads_from) (simp add: skip_nonspace is_space_def)
next
  case (3 v w vs)
  have "reads (\<lambda>n. parseValue n (stringify v @ CHR '','' # comma_join (map stringify (w # vs)) @ CHR '']'' # rest))
      (value_of v, CHR '','' # comma_join (map stringify (w # vs)) @ CHR '']'' # rest)"
    by (rule 3(4)) simp_all
  moreover have "reads (\<lambda>n. parseElements n (acc @ [value_of v]) (comma_join (map stringify (w # vs)) @ CHR '']'' # rest))
      (VArr ((acc @ [value_of v]) @ map value_of (w # vs)), rest)"
    by (rule 3(2)) (simp_all add: 3(4))
  ultimately show ?case by (rule reads_both) (simp add: skip_nonspace is_space_def)
qed simp

definition write_entry :: "string \<times> json \<Rightarrow> string" where
  "write_entry e = quote_string (fst e) @ CHR '':'' # stringify (snd e)"

lemma stringify_object: "stringify (JObj es) = CHR ''{'' # comma_join (map write_entry es) @ ''}''"
  by (simp add: write_entry_def case_prod_beta' cong: map_cong)

lemma parseMembers_entry:
  assumes "k \<notin> fst ` set acc" "parseValue n (stringify v @ c # t) = Inr (w, c # t)" "\<not> is_space c"
  shows "parseMembers (Suc n) acc (write_entry (k, v) @ c # t) =
    (if c = CHR '','' then parseMembers n (acc @ [(k, w)]) t
     else if c = CHR ''}'' then Inr (VObj (acc @ [(k, w)]), t) else Inl (Malformed, c # t))"
proof -
  have head: "skipWhitespace (write_entry (k, v) @ c # t) = quote_string k @ CHR '':'' # stringify v @ c # t"
    by (simp add: write_entry_def quote_string_def skip_nonspace is_space_def)
  have colon: "expect (CHR '':'') (skipWhitespace (CHR '':'' # s)) = Inr ((), s)" for s
    by (simp add: expect_def skip_nonspace is_space_def)
  show ?thesis
    unfolding parseMembers.simps(2) Let_def head parse_quoted
    by (simp only: bind_result_simps split_conv if_False assms(1) colon assms(2) skip_nonspace [OF assms(3)] list.case)
qed

lemma read_written_last:
  assumes "k \<notin> fst ` set acc" "reads (\<lambda>n. parseValue n (stringify v @ CHR ''}'' # t)) (value_of v, CHR ''}'' # t)"
  shows "reads (\<lambda>n. parseMembers n acc (write_entry (k, v) @ CHR ''}'' # t)) (VObj (acc @ [(k, value_of v)]), t)"
  by (rule reads_from [OF assms(2)], intro allI impI, subst parseMembers_entry [OF assms(1)])
    (simp_all add: is_space_def del: parseMembers.simps)

lemma read_written_more:
  assumes "k \<notin> fst ` set acc" "reads (\<lambda>n. parseValue n (stringify v @ CHR '','' # t)) (value_of v, CHR '','' # t)"
    and "reads (\<lambda>n. parseMembers n (acc @ [(k, value_of v)]) t) r"
  shows "reads (\<lambda>n. parseMembers n acc (write_entry (k, v) @ CHR '','' # t)) r"
  by (rule reads_both [OF assms(2,3)], intro allI impI, subst parseMembers_entry [OF assms(1)])
    (simp_all add: is_space_def del: parseMembers.simps)

lemma read_written_members:
  "es \<noteq> [] \<Longrightarrow> distinct (map fst acc @ map fst es) \<Longrightarrow>
   (\<And>e rest. e \<in> set es \<Longrightarrow> ends_value rest \<Longrightarrow> reads (\<lambda>n. parseValue n (stringify (snd e) @ rest)) (value_of (snd e), rest)) \<Longrightarrow>
   reads (\<lambda>n. parseMembers n acc (comma_join (map write_entry es) @ CHR ''}'' # rest))
     (VObj (acc @ map (map_prod id value_of) es), rest)"
proof (induction es arbitrary: acc rule: induct_list012)
  case (2 e)
  obtain k v where e: "e = (k, v)" by (cases e)
  have "k \<notin> fst ` set acc" using 2(2) by (auto simp: e)
  moreover have "reads (\<lambda>n. parseValue n (stringify v @ CHR ''}'' # rest)) (value_of v, CHR ''}'' # rest)"
    using 2(3) [of e "CHR ''}'' # rest"] by (simp add: e)
  ultimately show ?case
    using read_written_last [of k acc v rest] by (simp add: e id_def)
next
  case (3 e e' es)
  obtain k v where e: "e = (k, v)" by (cases e)
  let ?t = "comma_join (map write_entry (e' # es)) @ CHR ''}'' # rest"
  have "k \<notin> fst ` set acc" using 3(4) by (auto simp: e)
  moreover have "reads (\<lambda>n. parseValue n (stringify v @ CHR '','' # ?t)) (value_of v, CHR '','' # ?t)"
    using 3(5) [of e "CHR '','' # ?t"] by (simp add: e)
  moreover have "reads (\<lambda>n. parseMembers n (acc @ [(k, value_of v)]) ?t)
      (VObj ((acc @ [(k, value_of v)]) @ map (map_prod id value_of) (e' # es)), rest)"
  proof (rule 3(2))
    show "distinct (map fst (acc @ [(k, value_of v)]) @ map fst (e' # es))" using 3(4) by (auto simp: e)
  qed (simp_all add: 3(5))
  ultimately show ?case
    using read_written_more [of k acc v ?t] by (simp add: e id_def)
qed simp

primrec written_once :: "json \<Rightarrow> bool" where
  "written_once JNull = True"
| "written_once (JBool b) = True"
| "written_once (JNum n) = True"
| "written_once (JStr s) = True"
| "written_once (JArr vs) = list_all id (map written_once vs)"
| "written_once (JObj es) = (distinct (map fst es) \<and> list_all snd (map (map_prod id written_once) es))"

lemma string_of_int_head: "\<exists>c r. string_of_int i = c # r \<and> (is_digit c \<or> c = CHR ''-'')"
proof (cases "i < 0")
  case False
  obtain c r where "digits_of_nat (nat i) = c # r"
    using digits_of_nat_nonempty [of "nat i"] by (cases "digits_of_nat (nat i)") blast+
  then show ?thesis
    using digits_of_nat_digits [of "nat i"] False by (simp add: string_of_int_def)
qed (simp add: string_of_int_def)

lemma stringify_head: "\<exists>c r. stringify j = c # r \<and> \<not> is_space c \<and> c \<noteq> CHR '']'' \<and> c \<noteq> CHR ''}''"
proof (cases j)
  case (JNum n)
  obtain c r where c: "string_of_int n = c # r" "is_digit c \<or> c = CHR ''-''"
    using string_of_int_head by blast
  have "c \<noteq> CHR '']''" "c \<noteq> CHR ''}''"
    using c(2) by (auto simp: is_digit_of_char)
  with c digit_class(1) [OF c(2)] show ?thesis by (simp add: JNum)
qed (simp_all add: quote_string_def is_space_def)

lemma comma_join_head: "ps \<noteq> [] \<Longrightarrow> hd ps = c # r \<Longrightarrow> \<exists>t. comma_join ps @ s = c # t"
  by (induction ps rule: induct_list012) auto

theorem read_written:
  "written_once j \<Longrightarrow> ends_value rest \<Longrightarrow> reads (\<lambda>n. parseValue n (stringify j @ rest)) (value_of j, rest)"
proof (induction j arbitrary: rest)
  case (JNum n)
  obtain c r where c: "string_of_int n = c # r" "is_digit c \<or> c = CHR ''-''"
    using string_of_int_head by blast
  have "parseNumber (c # r @ rest) = Inr (VNum (string_of_int n), rest)"
    using parse_written_number [OF JNum(2), of n] by (simp add: c(1))
  then show ?case
    using digit_class [OF c(2)] by (intro reads_step) (simp add: c(1) skip_nonspace)
next
  case (JStr s)
  have "skipWhitespace (quote_string s @ rest) = quote_string s @ rest"
    by (simp add: quote_string_def skip_nonspace is_space_def)
  moreover obtain t where "quote_string s @ rest = CHR 0x22 # t"
    by (simp add: quote_string_def)
  ultimately show ?case
    using parse_quoted [of s rest] by (intro reads_step) simp
next
  case (JArr vs)
  show ?case
  proof (cases "vs = []")
    case True
    then show ?thesis by (intro reads_step) (simp add: skip_nonspace is_space_def)
  next
    case False
    have "reads (\<lambda>n. parseElements n [] (comma_join (map stringify vs) @ CHR '']'' # rest)) (VArr ([] @ map value_of vs), rest)"
      using JArr False by (intro read_written_elements) (auto simp: list_all_iff)
    moreover obtain c r where "comma_join (map stringify vs) @ CHR '']'' # rest = c # r" "\<not> is_space c" "c \<noteq> CHR '']''"
      using stringify_head [of "hd vs"] comma_join_head [of "map stringify vs" _ _ "CHR '']'' # rest"] False
      by (auto simp: hd_map)
    ultimately show ?thesis
      by (elim reads_from) (simp add: skip_nonspace is_space_def)
  qed
next
  case (JObj es)
  show ?case
  proof (cases "es = []")
    case True
    then show ?thesis by (intro reads_step) (simp add: skip_nonspace is_space_def)
  next
    case False
    have "reads (\<lambda>n. parseMembers n [] (comma_join (map write_entry es) @ CHR ''}'' # rest)) (VObj ([] @ map (map_prod id value_of) es), rest)"
      using JObj False by (intro read_written_members) (auto simp: list_all_iff)
    moreover obtain c r where "comma_join (map write_entry es) @ CHR ''}'' # rest = c # r" "\<not> is_space c" "c \<noteq> CHR ''}''"
      using comma_join_head [of "map write_entry es" "CHR 0x22" _ "CHR ''}'' # rest"] False
      by (auto simp: hd_map write_entry_def quote_string_def is_space_def)
    ultimately show ?thesis
      by (elim reads_from) (simp add: skip_nonspace is_space_def stringify_object del: stringify.simps)
  qed
qed (auto intro!: reads_step simp: skip_nonspace is_space_def parseLiteral_def)

section \<open>More fuel changes nothing\<close>

definition settled :: "('e \<Rightarrow> bool) \<Rightarrow> ('e, 'a) result \<Rightarrow> bool" where
  "settled out r \<longleftrightarrow> (case r of Inl e \<Rightarrow> \<not> out e | Inr _ \<Rightarrow> True)"

abbreviation fueled :: "'a read \<Rightarrow> bool" where
  "fueled \<equiv> settled (\<lambda>(kind, _). kind = Out_Of_Fuel)"

lemma settled_simps [simp]: "settled out (Inl e) \<longleftrightarrow> \<not> out e" "settled out (Inr x)"
  by (simp_all add: settled_def)

lemma settled_bind:
  assumes "settled out (bind_result x (case_prod f))" "settled out x \<Longrightarrow> y = x"
    and "\<And>a b. settled out (f a b) \<Longrightarrow> g a b = f a b"
  shows "bind_result y (case_prod g) = bind_result x (case_prod f)"
  using assms by (cases x) auto

lemma more_fuel:
  "(\<forall>s. fueled (parseValue n s) \<longrightarrow> parseValue (Suc n) s = parseValue n s) \<and>
   (\<forall>ms s. fueled (parseMembers n ms s) \<longrightarrow> parseMembers (Suc n) ms s = parseMembers n ms s) \<and>
   (\<forall>es s. fueled (parseElements n es s) \<longrightarrow> parseElements (Suc n) es s = parseElements n es s)"
proof (induction n)
  case (Suc n)
  then have value_ih: "fueled (parseValue n s) \<Longrightarrow> parseValue (Suc n) s = parseValue n s"
    and members_ih: "fueled (parseMembers n ms s) \<Longrightarrow> parseMembers (Suc n) ms s = parseMembers n ms s"
    and elements_ih: "fueled (parseElements n es s) \<Longrightarrow> parseElements (Suc n) es s = parseElements n es s"
    for s ms es by blast+
  have value_step: "parseValue (Suc (Suc n)) s = parseValue (Suc n) s" if "fueled (parseValue (Suc n) s)" for s
    using that unfolding parseValue.simps(2)
    by (auto simp: members_ih elements_ih split: list.splits if_splits
        simp del: parseMembers.simps parseElements.simps)
  have member_step: "parseMembers (Suc (Suc n)) ms s = parseMembers (Suc n) ms s"
    if "fueled (parseMembers (Suc n) ms s)" for ms s
    unfolding parseMembers.simps(2) [of "Suc n" ms s] parseMembers.simps(2) [of n ms s] Let_def
  proof (rule settled_bind [OF that [unfolded parseMembers.simps(2) Let_def] refl], goal_cases)
    case (1 key r)
    show ?case
    proof (cases "key \<in> fst ` set ms")
      case False
      show ?thesis
        unfolding if_not_P [OF False]
        by (rule settled_bind [OF 1 [unfolded if_not_P [OF False]] refl], erule settled_bind, erule value_ih)
          (auto simp: members_ih simp del: parseMembers.simps split: list.splits if_splits)
    qed simp
  qed
  have element_step: "parseElements (Suc (Suc n)) es s = parseElements (Suc n) es s"
    if "fueled (parseElements (Suc n) es s)" for es s
    unfolding parseElements.simps(2) [of "Suc n" es s] parseElements.simps(2) [of n es s]
    by (rule settled_bind [OF that [unfolded parseElements.simps(2)] value_ih])
      (auto simp: elements_ih simp del: parseElements.simps split: list.splits if_splits)
  from value_step member_step element_step show ?case by blast
qed simp

lemma fuel_beyond: "fueled (parseValue n s) \<Longrightarrow> n \<le> m \<Longrightarrow> parseValue m s = parseValue n s"
proof (induction m)
  case (Suc m)
  show ?case
  proof (cases "n = Suc m")
    case False
    with Suc have "parseValue m s = parseValue n s" by simp
    with Suc(2) show ?thesis using more_fuel [of m] by metis
  qed simp
qed simp

lemma strict_fuel: "fueled (parseValue (2 * length text + 2) (skipWhitespace text))"
proof -
  have "left_of (parseValue (2 * length text + 2) (skipWhitespace text)) (length (skipWhitespace text))"
    using fuel_is_enough [of "2 * length text + 2"] skipWhitespace_length [of "text"] by simp
  then show ?thesis by (auto simp: left_of_def settled_def split: sum.splits)
qed

section \<open>A text is of one value\<close>

lemma value_of_inj: "value_of a = value_of b \<Longrightarrow> a = b"
proof (induction a arbitrary: b)
  case (JArr vs)
  then obtain ws where b: "b = JArr ws" "map value_of vs = map value_of ws" by (cases b) auto
  then show ?case using JArr.IH by (metis list.inj_map_strong)
next
  case (JObj es)
  then obtain fs where b: "b = JObj fs" "map (map_prod id value_of) es = map (map_prod id value_of) fs" by (cases b) auto
  have "es = fs"
  proof (rule list.inj_map_strong [OF _ b(2)])
    fix e f assume "e \<in> set es" "map_prod id value_of e = map_prod id value_of f"
    moreover obtain k v k' w where "e = (k, v)" "f = (k', w)" by (cases e; cases f)
    ultimately show "e = f" using JObj.IH [of "(k, v)" v w] by simp
  qed
  with b show ?case by simp
next
  case JNull
  then show ?case by (cases b) simp_all
next
  case (JBool x)
  then show ?case by (cases b) simp_all
next
  case (JNum x)
  then show ?case by (cases b) (simp_all add: string_of_int_inj)
next
  case (JStr x)
  then show ?case by (cases b) simp_all
qed

lemma stringify_inj:
  assumes "written_once a" "written_once b" "stringify a = stringify b"
  shows "a = b"
proof -
  have "reads (\<lambda>n. parseValue n (stringify a @ [])) (value_of a, [])" by (rule read_written) (simp_all add: assms(1))
  moreover have "reads (\<lambda>n. parseValue n (stringify a @ [])) (value_of b, [])"
    unfolding assms(3) by (rule read_written) (simp_all add: assms(2))
  ultimately obtain m n where "\<forall>k\<ge>m. parseValue k (stringify a @ []) = Inr (value_of a, [])"
      "\<forall>k\<ge>n. parseValue k (stringify a @ []) = Inr (value_of b, [])"
    unfolding reads_def by blast
  then have "Inr (value_of a, [] :: string) = (Inr (value_of b, []) :: (parse_kind \<times> string, _) result)"
    by (metis max.cobounded1 max.cobounded2)
  then show ?thesis using value_of_inj by simp
qed

section \<open>What the reader of request bodies promises\<close>

text \<open>C37. The reader always returns: a value, or a refusal at an offset within the text; the bound on the
  recursion is never what stops it.\<close>

theorem strict_reader_returns:
  "case parseStrictJson text of Inl (kind, offset) \<Rightarrow> kind \<noteq> Out_Of_Fuel \<and> offset \<le> length text | Inr v \<Rightarrow> True"
  using strict_fuel [of "text"]
  by (auto simp: parseStrictJson_def Let_def settled_def split: sum.splits prod.splits)

text \<open>An accepted document gives no object a key twice, at any depth.\<close>

theorem accepted_keys_distinct:
  "case parseStrictJson text of Inr v \<Rightarrow> distinct_keys v | Inl e \<Rightarrow> True"
  using parse_distinct [of "2 * length text + 2"]
  by (auto simp: parseStrictJson_def Let_def simp del: parseValue.simps split: sum.splits if_splits)

text \<open>C38. Writing and reading back: the reader takes the text \<open>JSON.stringify\<close> writes for a value whose
  objects repeat no key, and gives that value.\<close>

theorem strict_reads_written:
  assumes "written_once j"
  shows "parseStrictJson (stringify j) = Inr (value_of j)"
proof -
  let ?s = "stringify j"
  have skip: "skipWhitespace ?s = ?s"
    using stringify_head [of j] skip_nonspace by metis
  obtain N where N: "\<forall>n\<ge>N. parseValue n (?s @ []) = Inr (value_of j, [])"
    using read_written [OF assms, of "[]"] by (auto simp: reads_def)
  let ?m = "2 * length ?s + 2"
  have "parseValue (max N ?m) ?s = parseValue ?m ?s"
    using strict_fuel [of ?s] by (intro fuel_beyond) (simp_all only: skip max.cobounded2)
  with N have "parseValue ?m ?s = Inr (value_of j, [])" by simp
  then show ?thesis
    by (simp add: parseStrictJson_def skip skipWhitespace_def [of "[]"] del: parseValue.simps)
qed

definition sample_body :: json where
  "sample_body = JObj [(''amount'', JNum 1250), (''memo'', JStr [CHR 0x22, CHR ''a'', CHR 0x0A]), (''lines'', JArr [JNull, JBool True, JNum (- 3)]), (''meta'', JObj [])]"

theorem strict_reads_written_witness: "parseStrictJson (stringify sample_body) = Inr (value_of sample_body)"
  by (rule strict_reads_written) (simp add: sample_body_def)

end
