(* ===== verification/Authorized_Terms.thy ===== *)
theory Authorized_Terms
  imports Strict_Json Quotes "HOL-Library.Multiset"
begin

text \<open>
  The authorized commitment (\<open>packages/domain/src/settlements/authorized-terms.ts\<close>): the frozen
  instruction, its canonical text and hash, and the reader that rebuilds the instruction from the stored
  object. SHA-256 is a parameter. Values read back from the column are JSON values, \<open>None\<close> where
  JavaScript has \<open>undefined\<close>; \<open>NaN\<close> is a scale of \<open>None\<close>.
\<close>

section \<open>The frozen instruction\<close>

record terms_money =
  tm_currency :: string
  tm_minorUnits :: int

record terms_exact =
  te_currency :: string
  te_amount :: string
  te_scale :: "int option"

record terms_fee =
  tf_code :: string
  tf_label :: string
  tf_amount :: terms_money

record terms_rate =
  tr_pair :: string
  tr_rateScaled :: string
  tr_scale :: "int option"
  tr_quotedAt :: string

record authorized_terms =
  at_quoteId :: string
  at_direction :: string
  at_recipientAmount :: terms_money
  at_fundingAmount :: terms_money
  at_fxRate :: terms_rate
  at_feeComponents :: "terms_fee list"
  at_roundingResidual :: terms_exact
  at_quotedAt :: string
  at_expiresAt :: string

record instruction =
  in_beneficiaryId :: string
  in_destinationId :: string
  in_destinationVersionId :: string
  in_recipientAmount :: terms_money
  in_purposeCode :: string
  in_fundingCurrency :: string
  in_terms :: authorized_terms

section \<open>The canonical text and its hash\<close>

definition moneyJson :: "terms_money \<Rightarrow> json" where
  "moneyJson m =
     JObj [(''currency'', JStr (tm_currency m)), (''minor_units'', JStr (string_of_int (tm_minorUnits m)))]"

definition fee_json :: "terms_fee \<Rightarrow> json" where
  "fee_json f =
     JObj [(''code'', JStr (tf_code f)), (''label'', JStr (tf_label f)), (''amount'', moneyJson (tf_amount f))]"

definition canonical_fees :: "terms_fee list \<Rightarrow> terms_fee list" where
  "canonical_fees fs = sort_key tf_code fs"

definition rate_json :: "terms_rate \<Rightarrow> json" where
  "rate_json r =
     JObj [(''pair'', JStr (tr_pair r)), (''rate_scaled'', JStr (tr_rateScaled r)),
       (''scale'', json_opt JNum (tr_scale r)), (''quoted_at'', JStr (tr_quotedAt r))]"

definition residual_json :: "terms_exact \<Rightarrow> json" where
  "residual_json e =
     JObj [(''currency'', JStr (te_currency e)), (''amount'', JStr (te_amount e)), (''scale'', json_opt JNum (te_scale e))]"

definition terms_json :: "authorized_terms \<Rightarrow> json" where
  "terms_json t =
     JObj
       [(''quote_id'', JStr (at_quoteId t)),
        (''direction'', JStr (at_direction t)),
        (''recipient_amount'', moneyJson (at_recipientAmount t)),
        (''funding_amount'', moneyJson (at_fundingAmount t)),
        (''fx_rate'', rate_json (at_fxRate t)),
        (''fee_components'', JArr (map fee_json (canonical_fees (at_feeComponents t)))),
        (''rounding_residual'', residual_json (at_roundingResidual t)),
        (''quoted_at'', JStr (at_quotedAt t)),
        (''expires_at'', JStr (at_expiresAt t))]"

definition canonicalInstructionObject :: "instruction \<Rightarrow> json" where
  "canonicalInstructionObject i =
     JObj
       [(''v'', JNum 1),
        (''beneficiary_id'', JStr (in_beneficiaryId i)),
        (''destination_id'', JStr (in_destinationId i)),
        (''destination_version_id'', JStr (in_destinationVersionId i)),
        (''recipient_amount'', moneyJson (in_recipientAmount i)),
        (''purpose_code'', JStr (in_purposeCode i)),
        (''funding_currency'', JStr (in_fundingCurrency i)),
        (''terms'', terms_json (in_terms i))]"

definition canonicalInstruction :: "instruction \<Rightarrow> string" where
  "canonicalInstruction i = stringify (canonicalInstructionObject i)"

definition authorizedTermsHash :: "(string \<Rightarrow> string) \<Rightarrow> instruction \<Rightarrow> string" where
  "authorizedTermsHash sha256 i = sha256 (canonicalInstruction i)"

definition instructionMatchesHash :: "(string \<Rightarrow> string) \<Rightarrow> instruction \<Rightarrow> string \<Rightarrow> bool" where
  "instructionMatchesHash sha256 i expected = (authorizedTermsHash sha256 i = expected)"

section \<open>Dates as text\<close>

text \<open>
  \<open>toISOString\<close> on milliseconds since 1970: the proleptic Gregorian date of the day, then the time of
  the day. It throws outside the range of a \<open>Date\<close>.
\<close>

definition civil_date :: "int \<Rightarrow> int \<times> int \<times> int" where
  "civil_date day =
     (let z = day + 719468; era = z div 146097; doe = z mod 146097;
          yoe = (doe - doe div 1460 + doe div 36524 - doe div 146096) div 365;
          doy = doe - (365 * yoe + yoe div 4 - yoe div 100);
          mp = (5 * doy + 2) div 153;
          d = doy - (153 * mp + 2) div 5 + 1;
          m = (if mp < 10 then mp + 3 else mp - 9);
          y = yoe + era * 400
      in (if m \<le> 2 then y + 1 else y, m, d))"

definition padded :: "nat \<Rightarrow> int \<Rightarrow> string" where
  "padded n i = pad_start n (CHR ''0'') (string_of_int i)"

definition toISOString :: "int \<Rightarrow> string option" where
  "toISOString ms =
     (if 8640000000000000 < \<bar>ms\<bar> then None
      else
        let (y, m, d) = civil_date (ms div 86400000); t = ms mod 86400000
        in Some
             ((if 0 \<le> y \<and> y \<le> 9999 then padded 4 y
               else (if y < 0 then CHR ''-'' else CHR ''+'') # padded 6 \<bar>y\<bar>) @
              ''-'' @ padded 2 m @ ''-'' @ padded 2 d @ ''T'' @ padded 2 (t div 3600000) @ '':'' @
              padded 2 (t div 60000 mod 60) @ '':'' @ padded 2 (t div 1000 mod 60) @ ''.'' @ padded 3 (t mod 1000) @ ''Z''))"

section \<open>Freezing a quote\<close>

record freeze_args =
  fa_beneficiaryId :: string
  fa_destinationId :: string
  fa_destinationVersionId :: string
  fa_purposeCode :: string
  fa_quote :: quote_t

definition frozen_money :: "money \<Rightarrow> terms_money" where
  "frozen_money m = \<lparr>tm_currency = code_string (currency m), tm_minorUnits = minorUnits m\<rparr>"

definition frozen_fee :: "fee_component \<Rightarrow> terms_fee" where
  "frozen_fee f = \<lparr>tf_code = fee_code f, tf_label = fee_label f, tf_amount = frozen_money (fee_amount f)\<rparr>"

definition frozen_exact :: "exact_amount \<Rightarrow> terms_exact" where
  "frozen_exact e =
     \<lparr>te_currency = code_string (exact_currency e), te_amount = exact_amount e, te_scale = Some (int (exact_scale e))\<rparr>"

primrec direction_string :: "quote_direction \<Rightarrow> string" where
  "direction_string RECIPIENT_FIRST = ''RECIPIENT_FIRST''"
| "direction_string SOURCE_FIRST = ''SOURCE_FIRST''"

definition frozen_terms :: "quote_t \<Rightarrow> string \<Rightarrow> string \<Rightarrow> string \<Rightarrow> authorized_terms" where
  "frozen_terms q rateQuotedAt createdAt expiresAt =
     \<lparr>at_quoteId = q_id q, at_direction = direction_string (q_direction q),
      at_recipientAmount = frozen_money (q_recipientAmount q), at_fundingAmount = frozen_money (q_fundingAmount q),
      at_fxRate = \<lparr>tr_pair = fx_pair (q_fxRate q), tr_rateScaled = string_of_int (rateScaled (q_fxRate q)),
        tr_scale = Some (int (fx_scale (q_fxRate q))), tr_quotedAt = rateQuotedAt\<rparr>,
      at_feeComponents = map frozen_fee (q_feeComponents q),
      at_roundingResidual = frozen_exact (q_roundingResidual q),
      at_quotedAt = createdAt, at_expiresAt = expiresAt\<rparr>"

definition freezeInstruction :: "(string \<Rightarrow> string) \<Rightarrow> freeze_args \<Rightarrow> (instruction \<times> string) option" where
  "freezeInstruction sha256 args =
     (let q = fa_quote args in
      case (toISOString (quotedAt (q_fxRate q)), toISOString (q_createdAt q), toISOString (q_expiresAt q)) of
        (Some rateQuotedAt, Some createdAt, Some expiresAt) \<Rightarrow>
          (let i = \<lparr>in_beneficiaryId = fa_beneficiaryId args, in_destinationId = fa_destinationId args,
             in_destinationVersionId = fa_destinationVersionId args,
             in_recipientAmount = frozen_money (q_recipientAmount q), in_purposeCode = fa_purposeCode args,
             in_fundingCurrency = code_string (currency (q_fundingAmount q)),
             in_terms = frozen_terms q rateQuotedAt createdAt expiresAt\<rparr>
           in Some (i, authorizedTermsHash sha256 i))
      | _ \<Rightarrow> None)"

section \<open>Conversions of a stored value\<close>

text \<open>
  A conversion throws or gives a value; a numeric text that is not an integer a double holds exactly is
  outside the model. Numbers in a stored value are such integers, printed in full.
\<close>

datatype read_failure = Thrown | Not_Modelled

type_synonym 'a reading = "(read_failure, 'a) result"

type_synonym js_value = "json option"

definition get_prop :: "js_value \<Rightarrow> string \<Rightarrow> js_value reading" where
  "get_prop v key =
     (case v of
        None \<Rightarrow> Inl Thrown
      | Some JNull \<Rightarrow> Inl Thrown
      | Some (JObj es) \<Rightarrow> Inr (map_of es key)
      | Some _ \<Rightarrow> Inr None)"

primrec collect_readings :: "'a reading list \<Rightarrow> 'a list reading" where
  "collect_readings [] = Inr []"
| "collect_readings (r # rs) = bind_result r (\<lambda>x. bind_result (collect_readings rs) (\<lambda>xs. Inr (x # xs)))"

text \<open>
  \<open>String(v)\<close>: an array joins its elements, an object is the same text for all, unless a property of its
  own hides \<open>toString\<close>.
\<close>

fun json_text :: "json \<Rightarrow> string reading" where
  "json_text JNull = Inr ''null''"
| "json_text (JBool b) = Inr (if b then ''true'' else ''false'')"
| "json_text (JNum n) = Inr (string_of_int n)"
| "json_text (JStr s) = Inr s"
| "json_text (JArr vs) =
     bind_result (collect_readings (map (\<lambda>v. if v = JNull then Inr [] else json_text v) vs)) (\<lambda>ts. Inr (comma_join ts))"
| "json_text (JObj es) = (if ''toString'' \<in> fst ` set es then Inl Thrown else Inr ''[object Object]'')"

definition js_string :: "js_value \<Rightarrow> string reading" where
  "js_string v = (case v of None \<Rightarrow> Inr ''undefined'' | Some j \<Rightarrow> json_text j)"

definition js_blank :: "char \<Rightarrow> bool" where
  "js_blank c \<longleftrightarrow> (of_char c :: nat) \<in> {9, 10, 11, 12, 13, 32, 160}"

definition js_trim :: "string \<Rightarrow> string" where
  "js_trim s = rev (dropWhile js_blank (rev (dropWhile js_blank s)))"

definition radix_number :: "nat \<Rightarrow> string \<Rightarrow> int option" where
  "radix_number radix s =
     (if s \<noteq> [] \<and> list_all (\<lambda>c. is_hex_digit c \<and> hex_val c < radix) s
      then Some (int (foldl (\<lambda>n c. radix * n + hex_val c) 0 s)) else None)"

text \<open>\<open>BigInt\<close> of a text, and \<open>Number\<close> of one.\<close>

definition string_to_bigint :: "string \<Rightarrow> int option" where
  "string_to_bigint s =
     (let t = js_trim s in
      if t = [] then Some 0
      else if take 2 t \<in> {''0x'', ''0X''} then radix_number 16 (drop 2 t)
      else if take 2 t \<in> {''0o'', ''0O''} then radix_number 8 (drop 2 t)
      else if take 2 t \<in> {''0b'', ''0B''} then radix_number 2 (drop 2 t)
      else if hd t = CHR ''-'' then map_option uminus (radix_number 10 (tl t))
      else if hd t = CHR ''+'' then radix_number 10 (tl t)
      else radix_number 10 t)"

definition js_bigint :: "js_value \<Rightarrow> int reading" where
  "js_bigint v =
     bind_result (js_string v) (\<lambda>s. case string_to_bigint s of None \<Rightarrow> Inl Thrown | Some n \<Rightarrow> Inr n)"

definition maybe_decimal :: "string \<Rightarrow> bool" where
  "maybe_decimal t \<longleftrightarrow>
     list_all (\<lambda>c. is_digit c \<or> c \<in> set ''+-.eE'') t \<or> drop (length t - 8) t = ''Infinity''"

definition string_to_number :: "string \<Rightarrow> int option reading" where
  "string_to_number s =
     (case string_to_bigint s of
        Some n \<Rightarrow> if \<bar>n\<bar> \<le> 2 ^ 53 then Inr (Some n) else Inl Not_Modelled
      | None \<Rightarrow> if maybe_decimal (js_trim s) then Inl Not_Modelled else Inr None)"

definition js_number :: "js_value \<Rightarrow> int option reading" where
  "js_number v =
     (case v of
        None \<Rightarrow> Inr None
      | Some JNull \<Rightarrow> Inr (Some 0)
      | Some (JBool b) \<Rightarrow> Inr (Some (if b then 1 else 0))
      | Some (JNum n) \<Rightarrow> Inr (Some n)
      | Some j \<Rightarrow> bind_result (json_text j) string_to_number)"

section \<open>Reading the instruction back\<close>

definition text_at :: "js_value \<Rightarrow> string \<Rightarrow> string reading" where
  "text_at v key = bind_result (get_prop v key) js_string"

definition number_at :: "js_value \<Rightarrow> string \<Rightarrow> int option reading" where
  "number_at v key = bind_result (get_prop v key) js_number"

definition readMoney :: "js_value \<Rightarrow> terms_money reading" where
  "readMoney v =
     bind_result (text_at v ''currency'') (\<lambda>c.
     bind_result (bind_result (get_prop v ''minor_units'') js_bigint) (\<lambda>n.
     Inr \<lparr>tm_currency = c, tm_minorUnits = n\<rparr>))"

definition money_at :: "js_value \<Rightarrow> string \<Rightarrow> terms_money reading" where
  "money_at v key = bind_result (get_prop v key) readMoney"

definition read_fee :: "js_value \<Rightarrow> terms_fee reading" where
  "read_fee f =
     bind_result (text_at f ''code'') (\<lambda>code.
     bind_result (text_at f ''label'') (\<lambda>label.
     bind_result (money_at f ''amount'') (\<lambda>amount.
     Inr \<lparr>tf_code = code, tf_label = label, tf_amount = amount\<rparr>)))"

definition read_fees :: "js_value \<Rightarrow> terms_fee list reading" where
  "read_fees v =
     (case v of
        Some (JArr fs) \<Rightarrow> collect_readings (map (\<lambda>f. read_fee (Some f)) fs)
      | _ \<Rightarrow> Inl Thrown)"

definition read_rate :: "js_value \<Rightarrow> terms_rate reading" where
  "read_rate fx =
     bind_result (text_at fx ''pair'') (\<lambda>pair.
     bind_result (text_at fx ''rate_scaled'') (\<lambda>rateScaled.
     bind_result (number_at fx ''scale'') (\<lambda>scale.
     bind_result (text_at fx ''quoted_at'') (\<lambda>quotedAt.
     Inr \<lparr>tr_pair = pair, tr_rateScaled = rateScaled, tr_scale = scale, tr_quotedAt = quotedAt\<rparr>))))"

definition read_residual :: "js_value \<Rightarrow> terms_exact reading" where
  "read_residual r =
     bind_result (text_at r ''currency'') (\<lambda>c.
     bind_result (text_at r ''amount'') (\<lambda>amount.
     bind_result (number_at r ''scale'') (\<lambda>scale.
     Inr \<lparr>te_currency = c, te_amount = amount, te_scale = scale\<rparr>)))"

definition read_terms :: "js_value \<Rightarrow> js_value \<Rightarrow> js_value \<Rightarrow> authorized_terms reading" where
  "read_terms t fx residual =
     bind_result (text_at t ''quote_id'') (\<lambda>quoteId.
     bind_result (text_at t ''direction'') (\<lambda>direction.
     bind_result (money_at t ''recipient_amount'') (\<lambda>recipientAmount.
     bind_result (money_at t ''funding_amount'') (\<lambda>fundingAmount.
     bind_result (read_rate fx) (\<lambda>fxRate.
     bind_result (bind_result (get_prop t ''fee_components'') read_fees) (\<lambda>feeComponents.
     bind_result (read_residual residual) (\<lambda>roundingResidual.
     bind_result (text_at t ''quoted_at'') (\<lambda>quotedAt.
     bind_result (text_at t ''expires_at'') (\<lambda>expiresAt.
     Inr \<lparr>at_quoteId = quoteId, at_direction = direction, at_recipientAmount = recipientAmount,
       at_fundingAmount = fundingAmount, at_fxRate = fxRate, at_feeComponents = feeComponents,
       at_roundingResidual = roundingResidual, at_quotedAt = quotedAt, at_expiresAt = expiresAt\<rparr>)))))))))"

definition read_instruction :: "js_value \<Rightarrow> instruction reading" where
  "read_instruction obj =
     bind_result (get_prop obj ''terms'') (\<lambda>t.
     bind_result (get_prop t ''fx_rate'') (\<lambda>fx.
     bind_result (get_prop t ''rounding_residual'') (\<lambda>residual.
     bind_result (text_at obj ''beneficiary_id'') (\<lambda>beneficiaryId.
     bind_result (text_at obj ''destination_id'') (\<lambda>destinationId.
     bind_result (text_at obj ''destination_version_id'') (\<lambda>destinationVersionId.
     bind_result (money_at obj ''recipient_amount'') (\<lambda>recipientAmount.
     bind_result (text_at obj ''purpose_code'') (\<lambda>purposeCode.
     bind_result (text_at obj ''funding_currency'') (\<lambda>fundingCurrency.
     bind_result (read_terms t fx residual) (\<lambda>terms.
     Inr \<lparr>in_beneficiaryId = beneficiaryId, in_destinationId = destinationId,
       in_destinationVersionId = destinationVersionId, in_recipientAmount = recipientAmount,
       in_purposeCode = purposeCode, in_fundingCurrency = fundingCurrency, in_terms = terms\<rparr>))))))))))"

text \<open>The \<open>try\<close>: whatever is thrown gives \<open>null\<close>.\<close>

definition instructionFromCanonicalObject :: "js_value \<Rightarrow> instruction option reading" where
  "instructionFromCanonicalObject stored =
     (case read_instruction stored of
        Inr i \<Rightarrow> Inr (Some i)
      | Inl Thrown \<Rightarrow> Inr None
      | Inl Not_Modelled \<Rightarrow> Inl Not_Modelled)"

section \<open>Content, whatever the order of keys\<close>

fun content :: "json \<Rightarrow> json" where
  "content (JArr vs) = JArr (map content vs)"
| "content (JObj es) = JObj (sort_key fst (map (\<lambda>(k, v). (k, content v)) es))"
| "content v = v"

lemma content_leaf:
  "content v = JStr s \<longleftrightarrow> v = JStr s" "content v = JNum n \<longleftrightarrow> v = JNum n" "content v = JNull \<longleftrightarrow> v = JNull"
  by (cases v; simp)+

lemma content_twice: "content (content j) = content j"
proof (induction j)
  case (JObj es)
  have "map (\<lambda>(k, v). (k, content v)) (sort_key fst (map (\<lambda>(k, v). (k, content v)) es)) =
      sort_key fst (map (\<lambda>(k, v). (k, content v)) es)"
    using JObj by (intro map_idI) (auto simp: case_prod_beta)
  then show ?case by (simp add: sort_key_id_if_sorted [OF sorted_sort_key])
qed simp_all

lemma map_of_mset:
  assumes "mset xs = mset ys" "distinct (map fst ys)"
  shows "map_of xs = map_of ys"
proof -
  have "mset (map fst xs) = mset (map fst ys)" using assms(1) by (simp only: mset_map)
  then have "distinct (map fst xs)" using assms(2) mset_eq_imp_distinct_iff by blast
  with assms mset_eq_setD [OF assms(1)] show ?thesis by (simp add: map_of_inject_set)
qed

abbreviation entries_content :: "(string \<times> json) list \<Rightarrow> (string \<times> json) list" where
  "entries_content \<equiv> map (\<lambda>(k, v). (k, content v))"

lemma entries_content_keys: "map fst (entries_content es) = map fst es"
  by (induction es) auto

lemma content_object:
  assumes "content v = content (JObj es)" "distinct (map fst es)"
  shows "\<exists>es'. v = JObj es' \<and> (\<forall>k. map_option content (map_of es' k) = map_option content (map_of es k))"
proof -
  obtain es' where v: "v = JObj es'" using assms(1) by (cases v) simp_all
  from assms(1) have "sort_key fst (entries_content es') = sort_key fst (entries_content es)" by (simp add: v)
  then have "mset (entries_content es') = mset (entries_content es)" by (metis mset_sort)
  moreover have "distinct (map fst (entries_content es))" using assms(2) by (simp only: entries_content_keys)
  ultimately have "map_of (entries_content es') = map_of (entries_content es)" by (rule map_of_mset)
  then have "map_option content (map_of es' k) = map_option content (map_of es k)" for k
    by (metis map_of_map comp_apply)
  with v show ?thesis by blast
qed

text \<open>Reading a field of a stored object that has the content of a written one.\<close>

lemma read_prop:
  assumes "content v = content (JObj es)" "distinct (map fst es)" "map_of es k = Some x"
  shows "\<exists>y. get_prop (Some v) k = Inr (Some y) \<and> content y = content x"
proof -
  from content_object [OF assms(1,2)] obtain es' where v: "v = JObj es'"
    and k: "map_option content (map_of es' k) = map_option content (map_of es k)" by blast
  from k assms(3) obtain y where "map_of es' k = Some y" "content y = content x" by auto
  with v show ?thesis by (simp add: get_prop_def)
qed

lemma read_text:
  assumes "content v = content (JObj es)" "distinct (map fst es)" "map_of es k = Some (JStr s)"
  shows "text_at (Some v) k = Inr s"
  using read_prop [OF assms] by (auto simp: text_at_def content_leaf js_string_def)

lemma read_number:
  assumes "content v = content (JObj es)" "distinct (map fst es)" "map_of es k = Some (json_opt JNum (Some n))"
  shows "number_at (Some v) k = Inr (Some n)"
  using read_prop [OF assms] by (auto simp: number_at_def json_opt_def content_leaf js_number_def)

lemma trim_id: "list_all (\<lambda>c. \<not> js_blank c) s \<Longrightarrow> js_trim s = s"
  by (simp add: js_trim_def list_all_iff dropWhile_eq_self_iff rev_swap hd_rev)
    (metis last_in_set list.set_sel(1) rev_rev_ident dropWhile_eq_self_iff hd_rev rev_is_Nil_conv)

lemma digit_facts:
  assumes "is_digit c"
  shows "\<not> js_blank c" "is_hex_digit c" "hex_val c = digit_val c" "hex_val c < 10"
  using assms by (auto simp: is_digit_of_char js_blank_def is_hex_digit_def hex_val_def digit_val_def Let_def)

lemma radix_digits:
  assumes "list_all is_digit s" "s \<noteq> []"
  shows "radix_number 10 s = Some (int (nat_of_digits s))"
proof -
  have "foldl (\<lambda>n c. 10 * n + hex_val c) n s = foldl (\<lambda>n c. 10 * n + digit_val c) n s" for n
    using assms(1) by (induction s arbitrary: n) (simp_all add: digit_facts)
  with assms show ?thesis
    by (auto simp: radix_number_def nat_of_digits_def list_all_iff digit_facts digit_val_lt)
qed

lemma no_radix_prefix:
  assumes "list_all is_digit (tl s)"
  shows "take 2 s \<notin> {''0x'', ''0X''}" "take 2 s \<notin> {''0o'', ''0O''}" "take 2 s \<notin> {''0b'', ''0B''}"
  using assms by (cases s; cases "tl s"; auto simp: is_digit_of_char)+

lemma bigint_of_printed: "string_to_bigint (string_of_int n) = Some n"
proof -
  let ?ds = "digits_of_nat (nat \<bar>n\<bar>)"
  have ds: "list_all is_digit ?ds" "?ds \<noteq> []" by (simp_all add: digits_of_nat_digits digits_of_nat_nonempty)
  then have blank: "list_all (\<lambda>c. \<not> js_blank c) ?ds" by (auto simp: list_all_iff digit_facts)
  have val: "radix_number 10 ?ds = Some \<bar>n\<bar>" using radix_digits [OF ds] by (simp add: nat_of_digits_of_nat)
  show ?thesis
  proof (cases "n < 0")
    case True
    have "\<not> js_blank (CHR ''-'')" by (simp add: js_blank_def)
    with blank have "js_trim (CHR ''-'' # ?ds) = CHR ''-'' # ?ds" by (simp add: trim_id)
    with True val no_radix_prefix [of "CHR ''-'' # ?ds"] ds(1) show ?thesis
      by (simp add: string_to_bigint_def string_of_int_def Let_def del: take.simps take_Cons_numeral)
  next
    case False
    have hd: "hd ?ds \<noteq> CHR ''-''" "hd ?ds \<noteq> CHR ''+''"
      using ds by (cases ?ds; auto simp: is_digit_of_char)+
    have "list_all is_digit (tl ?ds)" using ds by (cases ?ds) simp_all
    with False val hd no_radix_prefix [of ?ds] ds(2) blank show ?thesis
      by (simp add: string_to_bigint_def string_of_int_def Let_def trim_id)
  qed
qed

lemma read_money:
  assumes "content v = content (moneyJson m)"
  shows "readMoney (Some v) = Inr m"
proof -
  note v = assms [unfolded moneyJson_def]
  have "text_at (Some v) ''currency'' = Inr (tm_currency m)" by (rule read_text [OF v]) simp_all
  moreover obtain y where "get_prop (Some v) ''minor_units'' = Inr (Some y)" "content y = content (JStr (string_of_int (tm_minorUnits m)))"
    using read_prop [OF v, of "''minor_units''"] by auto
  ultimately show ?thesis
    by (simp add: readMoney_def content_leaf js_bigint_def js_string_def bigint_of_printed)
qed

lemma read_money_at:
  assumes "content v = content (JObj es)" "distinct (map fst es)" "map_of es k = Some (moneyJson m)"
  shows "money_at (Some v) k = Inr m"
  using read_prop [OF assms] read_money by (auto simp: money_at_def)

lemma read_fee_back:
  assumes "content v = content (fee_json f)"
  shows "read_fee (Some v) = Inr f"
proof -
  note v = assms [unfolded fee_json_def]
  have "text_at (Some v) ''code'' = Inr (tf_code f)" "text_at (Some v) ''label'' = Inr (tf_label f)"
    by (rule read_text [OF v]; simp)+
  moreover have "money_at (Some v) ''amount'' = Inr (tf_amount f)" by (rule read_money_at [OF v]) simp_all
  ultimately show ?thesis by (simp add: read_fee_def)
qed

lemma read_fee_list: "map content vs = map (content \<circ> fee_json) fs \<Longrightarrow> collect_readings (map (\<lambda>f. read_fee (Some f)) vs) = Inr fs"
proof (induction vs arbitrary: fs)
  case (Cons v vs)
  then obtain f fs' where "fs = f # fs'" "content v = content (fee_json f)" "map content vs = map (content \<circ> fee_json) fs'"
    by (cases fs) auto
  with Cons.IH [of fs'] show ?case by (simp add: read_fee_back)
qed simp

lemma read_fees_back:
  assumes "content v = content (JArr (map fee_json fs))"
  shows "read_fees (Some v) = Inr fs"
  using assms by (cases v) (simp_all add: read_fees_def read_fee_list)

definition scales_known :: "instruction \<Rightarrow> bool" where
  "scales_known i \<longleftrightarrow> tr_scale (at_fxRate (in_terms i)) \<noteq> None \<and> te_scale (at_roundingResidual (in_terms i)) \<noteq> None"

definition in_canonical_order :: "instruction \<Rightarrow> instruction" where
  "in_canonical_order i = i\<lparr>in_terms := (in_terms i)\<lparr>at_feeComponents := canonical_fees (at_feeComponents (in_terms i))\<rparr>\<rparr>"

lemma read_rate_back:
  assumes "content v = content (rate_json r)" "tr_scale r = Some n"
  shows "read_rate (Some v) = Inr r"
proof -
  note v = assms(1) [unfolded rate_json_def]
  have "text_at (Some v) ''pair'' = Inr (tr_pair r)" "text_at (Some v) ''rate_scaled'' = Inr (tr_rateScaled r)"
      "text_at (Some v) ''quoted_at'' = Inr (tr_quotedAt r)"
    by (rule read_text [OF v]; simp)+
  moreover have "number_at (Some v) ''scale'' = Inr (tr_scale r)"
    unfolding assms(2) by (rule read_number [OF v]) (simp_all add: assms(2))
  ultimately show ?thesis by (simp add: read_rate_def)
qed

lemma read_residual_back:
  assumes "content v = content (residual_json e)" "te_scale e = Some n"
  shows "read_residual (Some v) = Inr e"
proof -
  note v = assms(1) [unfolded residual_json_def]
  have "text_at (Some v) ''currency'' = Inr (te_currency e)" "text_at (Some v) ''amount'' = Inr (te_amount e)"
    by (rule read_text [OF v]; simp)+
  moreover have "number_at (Some v) ''scale'' = Inr (te_scale e)"
    unfolding assms(2) by (rule read_number [OF v]) (simp_all add: assms(2))
  ultimately show ?thesis by (simp add: read_residual_def)
qed

lemma read_terms_back:
  assumes "content v = content (terms_json t)" "tr_scale (at_fxRate t) = Some n" "te_scale (at_roundingResidual t) = Some m"
  obtains fx residual where "get_prop (Some v) ''fx_rate'' = Inr fx" "get_prop (Some v) ''rounding_residual'' = Inr residual"
    "fx \<noteq> None" "residual \<noteq> None"
    "read_terms (Some v) fx residual = Inr (t\<lparr>at_feeComponents := canonical_fees (at_feeComponents t)\<rparr>)"
proof -
  note v = assms(1) [unfolded terms_json_def]
  have texts: "text_at (Some v) ''quote_id'' = Inr (at_quoteId t)" "text_at (Some v) ''direction'' = Inr (at_direction t)"
      "text_at (Some v) ''quoted_at'' = Inr (at_quotedAt t)" "text_at (Some v) ''expires_at'' = Inr (at_expiresAt t)"
    by (rule read_text [OF v]; simp)+
  have moneys: "money_at (Some v) ''recipient_amount'' = Inr (at_recipientAmount t)"
      "money_at (Some v) ''funding_amount'' = Inr (at_fundingAmount t)"
    by (rule read_money_at [OF v]; simp)+
  obtain fx where fx: "get_prop (Some v) ''fx_rate'' = Inr (Some fx)" "content fx = content (rate_json (at_fxRate t))"
    using read_prop [OF v, of "''fx_rate''"] by auto
  obtain res where res: "get_prop (Some v) ''rounding_residual'' = Inr (Some res)"
      "content res = content (residual_json (at_roundingResidual t))"
    using read_prop [OF v, of "''rounding_residual''"] by auto
  obtain fees where fees: "get_prop (Some v) ''fee_components'' = Inr (Some fees)"
      "content fees = content (JArr (map fee_json (canonical_fees (at_feeComponents t))))"
    using read_prop [OF v, of "''fee_components''"] by auto
  have "read_terms (Some v) (Some fx) (Some res) = Inr (t\<lparr>at_feeComponents := canonical_fees (at_feeComponents t)\<rparr>)"
    by (simp add: read_terms_def texts moneys fees(1) read_fees_back [OF fees(2)]
        read_rate_back [OF fx(2) assms(2)] read_residual_back [OF res(2) assms(3)])
  with fx(1) res(1) show ?thesis by (intro that) auto
qed

lemma read_instruction_parts:
  assumes v: "content stored = content (JObj es)" and distinct: "distinct (map fst es)"
    and es: "map_of es ''beneficiary_id'' = Some (JStr (in_beneficiaryId i))"
      "map_of es ''destination_id'' = Some (JStr (in_destinationId i))"
      "map_of es ''destination_version_id'' = Some (JStr (in_destinationVersionId i))"
      "map_of es ''recipient_amount'' = Some (moneyJson (in_recipientAmount i))"
      "map_of es ''funding_currency'' = Some (JStr (in_fundingCurrency i))"
      "map_of es ''terms'' = Some (terms_json (in_terms i))"
    and purpose: "text_at (Some stored) ''purpose_code'' = Inr p" and scales: "scales_known i"
  shows "instructionFromCanonicalObject (Some stored) = Inr (Some ((in_canonical_order i)\<lparr>in_purposeCode := p\<rparr>))"
proof -
  obtain n m where scales': "tr_scale (at_fxRate (in_terms i)) = Some n" "te_scale (at_roundingResidual (in_terms i)) = Some m"
    using scales by (auto simp: scales_known_def)
  have texts: "text_at (Some stored) ''beneficiary_id'' = Inr (in_beneficiaryId i)"
      "text_at (Some stored) ''destination_id'' = Inr (in_destinationId i)"
      "text_at (Some stored) ''destination_version_id'' = Inr (in_destinationVersionId i)"
      "text_at (Some stored) ''funding_currency'' = Inr (in_fundingCurrency i)"
    by (rule read_text [OF v distinct]; simp add: es)+
  have money: "money_at (Some stored) ''recipient_amount'' = Inr (in_recipientAmount i)"
    by (rule read_money_at [OF v distinct]) (simp add: es)
  obtain t where t: "get_prop (Some stored) ''terms'' = Inr (Some t)" "content t = content (terms_json (in_terms i))"
    using read_prop [OF v distinct es(6)] by auto
  from read_terms_back [OF t(2) scales'] obtain fx residual
    where "get_prop (Some t) ''fx_rate'' = Inr fx" "get_prop (Some t) ''rounding_residual'' = Inr residual"
      "read_terms (Some t) fx residual = Inr ((in_terms i)\<lparr>at_feeComponents := canonical_fees (at_feeComponents (in_terms i))\<rparr>)"
    by blast
  then have "read_instruction (Some stored) = Inr ((in_canonical_order i)\<lparr>in_purposeCode := p\<rparr>)"
    by (simp add: read_instruction_def texts money purpose t(1) in_canonical_order_def)
  then show ?thesis by (simp add: instructionFromCanonicalObject_def)
qed

lemma read_instruction_back:
  assumes "content stored = content (canonicalInstructionObject i)" "scales_known i"
  shows "instructionFromCanonicalObject (Some stored) = Inr (Some (in_canonical_order i))"
proof -
  note v = assms(1) [unfolded canonicalInstructionObject_def]
  have "text_at (Some stored) ''purpose_code'' = Inr (in_purposeCode i)" by (rule read_text [OF v]) simp_all
  from read_instruction_parts [OF v _ _ _ _ _ _ _ this assms(2)] show ?thesis
    by (simp add: in_canonical_order_def)
qed

lemma canonical_order_same_text: "canonicalInstruction (in_canonical_order i) = canonicalInstruction i"
  by (simp add: canonicalInstruction_def canonicalInstructionObject_def terms_json_def in_canonical_order_def canonical_fees_def
      sort_key_id_if_sorted [OF sorted_sort_key])

section \<open>The text identifies the instruction\<close>

lemma written_once_canonical: "written_once (canonicalInstructionObject i)"
  by (simp add: canonicalInstructionObject_def terms_json_def rate_json_def residual_json_def moneyJson_def fee_json_def
      json_opt_def list_all_iff split: option.splits)

lemma moneyJson_inj: "moneyJson a = moneyJson b \<longleftrightarrow> a = b"
  by (cases a; cases b) (simp add: moneyJson_def string_of_int_inj)

lemma fee_json_inj: "fee_json a = fee_json b \<longleftrightarrow> a = b"
  by (cases a; cases b) (simp add: fee_json_def moneyJson_inj)

lemma json_opt_inj: "json_opt JNum a = json_opt JNum b \<longleftrightarrow> a = b"
  by (cases a; cases b) (simp_all add: json_opt_def)

lemma rate_json_inj: "rate_json a = rate_json b \<longleftrightarrow> a = b"
  by (cases a; cases b) (simp add: rate_json_def json_opt_inj)

lemma residual_json_inj: "residual_json a = residual_json b \<longleftrightarrow> a = b"
  by (cases a; cases b) (simp add: residual_json_def json_opt_inj)

lemma canonical_object_inj:
  "canonicalInstructionObject a = canonicalInstructionObject b \<longleftrightarrow> in_canonical_order a = in_canonical_order b"
proof -
  have fees: "map fee_json xs = map fee_json ys \<longleftrightarrow> xs = ys" for xs ys
    by (rule inj_map_eq_map) (simp add: inj_on_def fee_json_inj)
  have terms: "terms_json s = terms_json t \<longleftrightarrow>
      s\<lparr>at_feeComponents := canonical_fees (at_feeComponents s)\<rparr> = t\<lparr>at_feeComponents := canonical_fees (at_feeComponents t)\<rparr>"
    for s t by (cases s; cases t) (simp add: terms_json_def moneyJson_inj rate_json_inj residual_json_inj fees)
  show ?thesis
    by (cases a; cases b) (auto simp: canonicalInstructionObject_def moneyJson_inj terms in_canonical_order_def)
qed

section \<open>What the commitment promises\<close>

text \<open>The canonical text is the same for two instructions exactly if they agree in every frozen value,
  the order of the fees apart: nothing that was authorized can change without the hashed text changing.\<close>

theorem canonical_text_identifies:
  "canonicalInstruction i = canonicalInstruction i' \<longleftrightarrow> in_canonical_order i = in_canonical_order i'"
  using stringify_inj [OF written_once_canonical written_once_canonical] canonical_object_inj [of i i']
    canonical_order_same_text
  by (metis canonicalInstruction_def)

text \<open>C26. The commitment survives its storage: whatever order the database keeps the object's keys in, the
  instruction read back from it is the frozen one, with its fees in order of code, and it matches the hash
  taken at authorization.\<close>

theorem commitment_survives_storage:
  assumes "freezeInstruction sha256 args = Some (i, hash)"
    and "content stored = content (canonicalInstructionObject i)"
  shows "instructionFromCanonicalObject (Some stored) = Inr (Some (in_canonical_order i)) \<and>
    instructionMatchesHash sha256 (in_canonical_order i) hash"
proof -
  from assms(1) have "scales_known i" "hash = authorizedTermsHash sha256 i"
    by (auto simp: freezeInstruction_def Let_def scales_known_def frozen_terms_def frozen_exact_def split: option.splits)
  then show ?thesis
    using read_instruction_back [OF assms(2)]
    by (simp add: instructionMatchesHash_def authorizedTermsHash_def canonical_order_same_text)
qed

definition sample_quote :: quote_t where
  "sample_quote =
     \<lparr>q_id = ''qte_1'', q_workspaceId = ''wsp_1'', q_environment = Live, q_direction = RECIPIENT_FIRST,
      q_recipientAmount = money INR 10000000, q_fundingAmount = money USD 120000,
      q_fxRate = \<lparr>fx_pair = ''USD/INR'', rateScaled = 835000000000, fx_scale = 10, quotedAt = 1754037000000, fx_source = ''desk''\<rparr>,
      q_feeComponents = [\<lparr>fee_code = ''platform'', fee_label = ''Platform fee'', fee_amount = money USD 240\<rparr>,
        \<lparr>fee_code = ''fx'', fee_label = ''FX spread'', fee_amount = money USD 60\<rparr>],
      q_roundingResidual = ZERO_RESIDUAL INR, q_estimatedDelivery = ''minutes'', q_status = Q_LOCKED,
      q_expiresAt = 1754037900000, q_createdAt = 1754037000000, q_lockedAt = Some 1754037100000,
      q_consumedBySettlementId = None, q_pricingVersion = ''v1''\<rparr>"

definition sample_freeze :: freeze_args where
  "sample_freeze =
     \<lparr>fa_beneficiaryId = ''ben_1'', fa_destinationId = ''dst_1'', fa_destinationVersionId = ''dsv_1'',
      fa_purposeCode = ''P0103'', fa_quote = sample_quote\<rparr>"

definition sample_instruction :: instruction where
  "sample_instruction = fst (the (freezeInstruction id sample_freeze))"

lemma sample_dates:
  "toISOString 1754037000000 = Some ''2025-08-01T08:30:00.000Z''" "toISOString 1754037900000 = Some ''2025-08-01T08:45:00.000Z''"
  by code_simp+

lemma sample_frozen: "freezeInstruction id sample_freeze = Some (sample_instruction, canonicalInstruction sample_instruction)"
  by (simp add: sample_instruction_def freezeInstruction_def sample_freeze_def sample_quote_def sample_dates authorizedTermsHash_def Let_def)

theorem commitment_survives_storage_witness:
  "instructionFromCanonicalObject (Some (content (canonicalInstructionObject sample_instruction))) =
      Inr (Some (in_canonical_order sample_instruction)) \<and>
    instructionMatchesHash id (in_canonical_order sample_instruction) (canonicalInstruction sample_instruction)"
  by (rule commitment_survives_storage [OF sample_frozen]) (rule content_twice)

section \<open>What the reader lets through\<close>

text \<open>A field that is missing is not refused: it is read as the text \<open>undefined\<close>.\<close>

lemma missing_text_is_undefined:
  assumes "map_of es key = None"
  shows "text_at (Some (JObj es)) key = Inr ''undefined''"
  using assms by (simp add: text_at_def get_prop_def js_string_def)

definition without_key :: "string \<Rightarrow> json \<Rightarrow> json" where
  "without_key key j = (case j of JObj es \<Rightarrow> JObj (filter (\<lambda>(k, v). k \<noteq> key) es) | _ \<Rightarrow> j)"

lemma missing_purpose_accepted:
  assumes "scales_known i"
  shows "instructionFromCanonicalObject (Some (without_key ''purpose_code'' (canonicalInstructionObject i))) =
    Inr (Some ((in_canonical_order i)\<lparr>in_purposeCode := ''undefined''\<rparr>))"
  unfolding canonicalInstructionObject_def without_key_def json.case
  by (rule read_instruction_parts [OF refl _ _ _ _ _ _ _ missing_text_is_undefined assms]) simp_all

end
