(* ===== verification/Beneficiaries.thy ===== *)
theory Beneficiaries
  imports Strict_Json Money Complex_Main
begin

text \<open>
  Beneficiaries and where they are paid: \<open>packages/domain/src/beneficiaries/beneficiary.ts\<close>,
  \<open>destination.ts\<close> and \<open>name-match.ts\<close>. Case mapping and white space are those of ASCII text. A
  score is a rational number or \<open>NaN\<close>; the messages of a decision are left out, its outcome, basis and
  score are kept. The fingerprint of details is keyed outside the domain and is a parameter.
\<close>

section \<open>Text\<close>

definition upper_char :: "char \<Rightarrow> char" where
  "upper_char c = (let n = of_char c :: nat in if 97 \<le> n \<and> n \<le> 122 then char_of (n - 32) else c)"

definition lower_char :: "char \<Rightarrow> char" where
  "lower_char c = (let n = of_char c :: nat in if 65 \<le> n \<and> n \<le> 90 then char_of (n + 32) else c)"

definition is_upper :: "char \<Rightarrow> bool" where
  "is_upper c \<longleftrightarrow> (let n = of_char c :: nat in 65 \<le> n \<and> n \<le> 90)"

definition is_letter :: "char \<Rightarrow> bool" where
  "is_letter c \<longleftrightarrow> (let n = of_char c :: nat in (65 \<le> n \<and> n \<le> 90) \<or> (97 \<le> n \<and> n \<le> 122))"

text \<open>On the bits of a character, for evaluation.\<close>

lemma letter_code [code]:
  "is_letter (Char b0 b1 b2 b3 b4 b5 b6 b7) \<longleftrightarrow>
     b6 \<and> \<not> b7 \<and> (b0 \<or> b1 \<or> b2 \<or> b3 \<or> b4) \<and> \<not> (b4 \<and> b3 \<and> (b2 \<or> b1 \<and> b0))"
  "is_upper (Char b0 b1 b2 b3 b4 b5 b6 b7) \<longleftrightarrow> \<not> b5 \<and> is_letter (Char b0 b1 b2 b3 b4 b5 b6 b7)"
  by (cases b0; cases b1; cases b2; cases b3; cases b4; cases b5; cases b6; cases b7,
    simp_all add: is_letter_def is_upper_def)+

lemma case_code [code]:
  "lower_char (Char b0 b1 b2 b3 b4 b5 b6 b7) =
     (if is_letter (Char b0 b1 b2 b3 b4 b5 b6 b7) then Char b0 b1 b2 b3 b4 True b6 b7 else Char b0 b1 b2 b3 b4 b5 b6 b7)"
  "upper_char (Char b0 b1 b2 b3 b4 b5 b6 b7) =
     (if is_letter (Char b0 b1 b2 b3 b4 b5 b6 b7) then Char b0 b1 b2 b3 b4 False b6 b7 else Char b0 b1 b2 b3 b4 b5 b6 b7)"
  by (cases b0; cases b1; cases b2; cases b3; cases b4; cases b5; cases b6; cases b7,
    simp_all add: lower_char_def upper_char_def letter_code char_of_def bit_0)+

text \<open>\<open>s.replace(/\s+/g, ' ')\<close>\<close>

fun collapse_white :: "string \<Rightarrow> string" where
  "collapse_white [] = []"
| "collapse_white [c] = (if is_white c then '' '' else [c])"
| "collapse_white (c # d # s) =
     (if is_white c then (if is_white d then collapse_white (d # s) else CHR '' '' # collapse_white (d # s))
      else c # collapse_white (d # s))"

section \<open>Payout destinations\<close>

datatype destination_kind = Bank_Account | Upi
datatype account_type = Savings | Current
datatype verification_status = V_unverified | V_verifying | V_verified | V_failed
datatype verification_method = Penny_Drop | Provider_Lookup | Manual

datatype payout_details =
    Bank_Details string string account_type string
  | Upi_Details string

definition is_ifsc :: "string \<Rightarrow> bool" where
  "is_ifsc s \<longleftrightarrow>
     length s = 11 \<and> list_all is_upper (take 4 s) \<and> s ! 4 = CHR ''0'' \<and>
     list_all (\<lambda>c. is_upper c \<or> is_digit c) (drop 5 s)"

definition is_vpa :: "string \<Rightarrow> bool" where
  "is_vpa s \<longleftrightarrow>
     (let handle = takeWhile (\<lambda>c. c \<noteq> CHR ''@'') s; psp = drop (length handle + 1) s in
      2 \<le> length handle \<and> length handle \<le> 64 \<and>
      list_all (\<lambda>c. is_letter c \<or> is_digit c \<or> c \<in> set ''.-_'') handle \<and>
      2 \<le> length psp \<and> length psp \<le> 64 \<and> is_letter (hd psp) \<and>
      list_all (\<lambda>c. is_letter c \<or> is_digit c \<or> c \<in> set ''.-'') (tl psp))"

definition is_account_number :: "string \<Rightarrow> bool" where
  "is_account_number s \<longleftrightarrow> 6 \<le> length s \<and> length s \<le> 20 \<and> list_all is_digit s"

datatype details_problem =
    Account_Number_Invalid | Ifsc_Invalid | Account_Holder_Name_Missing | Vpa_Invalid

primrec normalisePayoutDetails :: "payout_details \<Rightarrow> payout_details" where
  "normalisePayoutDetails (Bank_Details accountNumber ifsc accountType accountHolderName) =
     Bank_Details (trim accountNumber) (map upper_char (trim ifsc)) accountType (collapse_white (trim accountHolderName))"
| "normalisePayoutDetails (Upi_Details vpa) = Upi_Details (map lower_char (trim vpa))"

definition validatePayoutDetails :: "payout_details \<Rightarrow> details_problem list" where
  "validatePayoutDetails raw =
     (case normalisePayoutDetails raw of
        Bank_Details accountNumber ifsc accountType accountHolderName \<Rightarrow>
          (if is_account_number accountNumber then [] else [Account_Number_Invalid]) @
          (if is_ifsc ifsc then [] else [Ifsc_Invalid]) @
          (if accountHolderName = [] then [Account_Holder_Name_Missing] else [])
      | Upi_Details vpa \<Rightarrow> (if is_vpa vpa then [] else [Vpa_Invalid]))"

primrec account_type_string :: "account_type \<Rightarrow> string" where
  "account_type_string Savings = ''savings''"
| "account_type_string Current = ''current''"

primrec details_json :: "payout_details \<Rightarrow> json" where
  "details_json (Bank_Details accountNumber ifsc accountType accountHolderName) =
     JObj [(''kind'', JStr ''bank_account''), (''accountNumber'', JStr accountNumber), (''ifsc'', JStr ifsc),
       (''accountType'', JStr (account_type_string accountType)), (''accountHolderName'', JStr accountHolderName)]"
| "details_json (Upi_Details vpa) = JObj [(''kind'', JStr ''upi''), (''vpa'', JStr vpa)]"

definition canonicalDetails :: "payout_details \<Rightarrow> string" where
  "canonicalDetails raw = stringify (details_json (normalisePayoutDetails raw))"

definition detailsChanged ::
    "('scope \<Rightarrow> payout_details \<Rightarrow> string) \<Rightarrow> 'scope \<Rightarrow> payout_details \<Rightarrow> payout_details \<Rightarrow> bool" where
  "detailsChanged fingerprint scope a b = (fingerprint scope a \<noteq> fingerprint scope b)"

definition maskAccountNumber :: "string \<Rightarrow> string" where
  "maskAccountNumber accountNumber = slice_back 4 accountNumber"

definition INITIAL_VERSION_VERIFICATION :: verification_status where
  "INITIAL_VERSION_VERIFICATION = V_unverified"

record version_verification =
  vv_destinationVersionId :: string
  vv_status :: verification_status
  vv_method :: "verification_method option"
  vv_nameMatchScore :: "int option"
  vv_verifiedAt :: "int option"

definition isVersionVerified :: "version_verification option \<Rightarrow> bool" where
  "isVersionVerified v = (case v of None \<Rightarrow> False | Some x \<Rightarrow> vv_status x = V_verified)"

section \<open>Beneficiaries\<close>

datatype beneficiary_type = Individual | Business
datatype beneficiary_status = B_draft | B_pending_verification | B_verified | B_rejected | B_disabled

record beneficiary_identity =
  bi_displayName :: string
  bi_legalName :: "string option"
  bi_type :: beneficiary_type
  bi_taxId :: "string option"

definition is_pan :: "string \<Rightarrow> bool" where
  "is_pan s \<longleftrightarrow>
     length s = 10 \<and> list_all is_upper (take 5 s) \<and> list_all is_digit (take 4 (drop 5 s)) \<and> is_upper (s ! 9)"

datatype identity_problem = Display_Name_Missing | Legal_Name_Required_For_Business | Tax_Id_Invalid

definition validateBeneficiaryIdentity :: "beneficiary_identity \<Rightarrow> identity_problem list" where
  "validateBeneficiaryIdentity b =
     (if trim (bi_displayName b) = [] then [Display_Name_Missing] else []) @
     (if bi_type b = Business \<and> (case bi_legalName b of None \<Rightarrow> True | Some n \<Rightarrow> trim n = [])
      then [Legal_Name_Required_For_Business] else []) @
     (case bi_taxId b of
        None \<Rightarrow> []
      | Some t \<Rightarrow> if t \<noteq> [] \<and> \<not> is_pan t then [Tax_Id_Invalid] else [])"

definition deriveBeneficiaryStatus :: "bool \<Rightarrow> bool \<Rightarrow> nat \<Rightarrow> bool \<Rightarrow> beneficiary_status" where
  "deriveBeneficiaryStatus disabled rejected destinationCount anyCurrentVersionVerified =
     (if disabled then B_disabled
      else if rejected then B_rejected
      else if destinationCount = 0 then B_draft
      else if anyCurrentVersionVerified then B_verified
      else B_pending_verification)"

section \<open>Name matching\<close>

datatype js_score = Not_A_Number | Score rat

record name_evidence =
  ne_asserted :: "bool option"
  ne_score :: "js_score option"
  ne_registryName :: "string option"

datatype name_policy =
    Not_Required string
  | Provider_Assertion
  | Numeric_Score rat rat bool
  | Registry_Name rat

record name_policy_entry =
  np_providerId :: string
  np_method :: verification_method
  np_policy :: name_policy

datatype policy_source = Policy_Sandbox_Fixture | Policy_Provider_Documented | Policy_Ad_Bank

record name_policy_set =
  ns_version :: string
  ns_source :: policy_source
  ns_description :: string
  ns_entries :: "name_policy_entry list"

definition policyFor :: "name_policy_set \<Rightarrow> string \<Rightarrow> verification_method \<Rightarrow> name_policy option" where
  "policyFor policies providerId method =
     map_option np_policy (List.find (\<lambda>e. np_providerId e = providerId \<and> np_method e = method) (ns_entries policies))"

definition NOISE_TOKENS :: "string list" where
  "NOISE_TOKENS =
     [''MR'', ''MRS'', ''MS'', ''MISS'', ''DR'', ''SHRI'', ''SMT'', ''SRI'', ''KUMARI'',
      ''PVT'', ''PRIVATE'', ''LTD'', ''LIMITED'', ''LLP'', ''INC'', ''CO'', ''COMPANY'', ''AND'', ''THE'']"

text \<open>\<open>s.split(/\s+/)\<close>; a piece is empty only at an end.\<close>

function split_white :: "string \<Rightarrow> string \<Rightarrow> string list" where
  "split_white piece [] = [piece]"
| "split_white piece (c # s) =
     (if is_white c then piece # split_white [] (dropWhile is_white s) else split_white (piece @ [c]) s)"
  by pat_completeness auto
termination
  by (relation "measure (\<lambda>(piece, s). length s)") (auto simp: less_Suc_eq_le length_dropWhile_le)

definition normaliseName :: "string \<Rightarrow> string list" where
  "normaliseName name =
     filter (\<lambda>t. t \<noteq> [] \<and> t \<notin> set NOISE_TOKENS)
       (split_white [] (map (\<lambda>c. if is_upper c \<or> is_digit c \<or> is_white c then c else CHR '' '') (map upper_char name)))"

text \<open>\<open>findIndex\<close> and \<open>splice\<close>: the pool without the first token of the kind, if it has one.\<close>

fun take_first :: "(string \<Rightarrow> bool) \<Rightarrow> string list \<Rightarrow> string list option" where
  "take_first p [] = None"
| "take_first p (t # ts) = (if p t then Some ts else map_option (Cons t) (take_first p ts))"

definition initial_of :: "string \<Rightarrow> string \<Rightarrow> bool" where
  "initial_of token p = (if length token = 1 then take 1 p = token else length p = 1 \<and> take 1 token = p)"

fun match_tokens :: "string list \<Rightarrow> string list \<Rightarrow> nat" where
  "match_tokens pool [] = 0"
| "match_tokens pool (token # ts) =
     (case take_first (\<lambda>p. p = token) pool of
        Some rest \<Rightarrow> Suc (match_tokens rest ts)
      | None \<Rightarrow>
          (case take_first (initial_of token) pool of
             Some rest \<Rightarrow> Suc (match_tokens rest ts)
           | None \<Rightarrow> match_tokens pool ts))"

definition round_half_up :: "rat \<Rightarrow> int" where
  "round_half_up x = \<lfloor>x + 1 / 2\<rfloor>"

definition compareNames :: "string \<Rightarrow> string \<Rightarrow> int" where
  "compareNames a b =
     (let left = normaliseName a; right = normaliseName b in
      if left = [] \<or> right = [] then 0
      else let (shorter, longer) = (if length left \<le> length right then (left, right) else (right, left))
           in round_half_up (of_nat (match_tokens longer shorter) / of_nat (length shorter) * 100))"

datatype name_outcome = Satisfied | Mismatch | Insufficient_Evidence
datatype name_basis = On_Not_Required | On_Provider_Assertion | On_Numeric_Score | On_Registry_Name | On_Unregistered

record name_decision =
  nd_outcome :: name_outcome
  nd_basis :: name_basis
  nd_score :: "rat option"

definition decideNameMatch :: "name_policy option \<Rightarrow> name_evidence \<Rightarrow> string \<Rightarrow> name_decision" where
  "decideNameMatch policy evidence expectedName =
     (case policy of
        None \<Rightarrow> \<lparr>nd_outcome = Insufficient_Evidence, nd_basis = On_Unregistered, nd_score = None\<rparr>
      | Some (Not_Required reason) \<Rightarrow> \<lparr>nd_outcome = Satisfied, nd_basis = On_Not_Required, nd_score = None\<rparr>
      | Some Provider_Assertion \<Rightarrow>
          (case ne_asserted evidence of
             None \<Rightarrow> \<lparr>nd_outcome = Insufficient_Evidence, nd_basis = On_Provider_Assertion, nd_score = None\<rparr>
           | Some a \<Rightarrow> \<lparr>nd_outcome = (if a then Satisfied else Mismatch), nd_basis = On_Provider_Assertion, nd_score = None\<rparr>)
      | Some (Numeric_Score minimumScore scaleMax allowMissingScore) \<Rightarrow>
          (case ne_score evidence of
             Some (Score s) \<Rightarrow>
               if s < 0 \<or> s > scaleMax
               then \<lparr>nd_outcome = Insufficient_Evidence, nd_basis = On_Numeric_Score, nd_score = Some s\<rparr>
               else \<lparr>nd_outcome = (if s \<ge> minimumScore then Satisfied else Mismatch), nd_basis = On_Numeric_Score, nd_score = Some s\<rparr>
           | _ \<Rightarrow>
               \<lparr>nd_outcome = (if allowMissingScore then Satisfied else Insufficient_Evidence), nd_basis = On_Numeric_Score, nd_score = None\<rparr>)
      | Some (Registry_Name minimumSimilarity) \<Rightarrow>
          (if (case ne_registryName evidence of None \<Rightarrow> True | Some n \<Rightarrow> trim n = [])
           then \<lparr>nd_outcome = Insufficient_Evidence, nd_basis = On_Registry_Name, nd_score = None\<rparr>
           else let similarity = of_int (compareNames expectedName (the (ne_registryName evidence)))
                in \<lparr>nd_outcome = (if similarity \<ge> minimumSimilarity then Satisfied else Mismatch), nd_basis = On_Registry_Name,
                    nd_score = Some similarity\<rparr>))"

datatype policy_defect =
    Policy_Missing_Field string
  | Not_Required_Without_Reason string
  | Score_Outside_Scale string
  | Similarity_Outside_Range string
  | Duplicate_Policy_Entry string verification_method

primrec inspectPolicy :: "string \<Rightarrow> name_policy \<Rightarrow> policy_defect list" where
  "inspectPolicy providerId (Not_Required reason) =
     (if length (trim reason) < 12 then [Not_Required_Without_Reason providerId] else [])"
| "inspectPolicy providerId Provider_Assertion = []"
| "inspectPolicy providerId (Numeric_Score minimumScore scaleMax allowMissingScore) =
     (if scaleMax \<le> 0 \<or> minimumScore < 0 \<or> minimumScore > scaleMax then [Score_Outside_Scale providerId] else [])"
| "inspectPolicy providerId (Registry_Name minimumSimilarity) =
     (if minimumSimilarity < 0 \<or> minimumSimilarity > 100 then [Similarity_Outside_Range providerId] else [])"

fun inspect_entries :: "(string \<times> verification_method) list \<Rightarrow> name_policy_entry list \<Rightarrow> policy_defect list" where
  "inspect_entries seen [] = []"
| "inspect_entries seen (e # es) =
     (if (np_providerId e, np_method e) \<in> set seen then [Duplicate_Policy_Entry (np_providerId e) (np_method e)] else []) @
     inspectPolicy (np_providerId e) (np_policy e) @
     inspect_entries ((np_providerId e, np_method e) # seen) es"

definition validateNameMatchPolicySet :: "name_policy_set \<Rightarrow> policy_defect list" where
  "validateNameMatchPolicySet policies =
     (if ns_version policies = [] then [Policy_Missing_Field ''version''] else []) @
     (if ns_description policies = [] then [Policy_Missing_Field ''description''] else []) @
     inspect_entries [] (ns_entries policies)"

section \<open>Normal forms\<close>

lemma dropWhile_same_length: "length (dropWhile p s) = length s \<longleftrightarrow> dropWhile p s = s"
proof (cases s)
  case (Cons c r)
  then show ?thesis using length_dropWhile_le [of p r] by auto
qed simp

lemma trim_eq_iff: "trim s = s \<longleftrightarrow> s = [] \<or> \<not> is_white (hd s) \<and> \<not> is_white (last s)"
proof (cases "s = []")
  case False
  show ?thesis
  proof
    assume t: "trim s = s"
    then have "length (trim s) = length s" by simp
    then have "length (dropWhile is_white s) = length s"
      using length_dropWhile_le [of is_white s] length_dropWhile_le [of is_white "rev (dropWhile is_white s)"]
      by (simp add: trim_def)
    then have "dropWhile is_white s = s" by (simp add: dropWhile_same_length)
    with t False show "s = [] \<or> \<not> is_white (hd s) \<and> \<not> is_white (last s)"
      by (auto simp: trim_def dropWhile_eq_self_iff rev_swap hd_rev)
  next
    assume "s = [] \<or> \<not> is_white (hd s) \<and> \<not> is_white (last s)"
    then have "dropWhile is_white s = s" "dropWhile is_white (rev s) = rev s"
      by (auto simp: dropWhile_eq_self_iff hd_rev)
    then show "trim s = s" by (simp add: trim_def)
  qed
qed (simp add: trim_def)

lemma last_dropWhile: "dropWhile p s \<noteq> [] \<Longrightarrow> last (dropWhile p s) = last s"
  by (metis last_append takeWhile_dropWhile_id)

lemma trim_twice: "trim (trim s) = trim s"
proof -
  define t where "t = dropWhile is_white s"
  define u where "u = dropWhile is_white (rev t)"
  have u: "trim s = rev u" by (simp add: trim_def u_def t_def)
  have "\<not> is_white (hd u)" "\<not> is_white (last u)" if "u \<noteq> []"
  proof -
    show "\<not> is_white (hd u)" using that unfolding u_def by (rule hd_dropWhile)
    have "t \<noteq> []" using that by (auto simp: u_def)
    then have "\<not> is_white (hd t)" unfolding t_def by (rule hd_dropWhile)
    with \<open>t \<noteq> []\<close> that show "\<not> is_white (last u)"
      using last_dropWhile [of is_white "rev t"] by (simp add: u_def last_rev)
  qed
  then show ?thesis unfolding u trim_eq_iff by (auto simp: hd_rev last_rev)
qed

lemma white_case: "is_white (upper_char c) = is_white c" "is_white (lower_char c) = is_white c"
  by (auto simp: is_white_def upper_char_def lower_char_def Let_def)

lemma case_twice: "upper_char (upper_char c) = upper_char c" "lower_char (lower_char c) = lower_char c"
  by (auto simp: upper_char_def lower_char_def Let_def)

lemma trim_case:
  "trim s = s \<Longrightarrow> trim (map upper_char s) = map upper_char s" "trim s = s \<Longrightarrow> trim (map lower_char s) = map lower_char s"
  by (auto simp: trim_eq_iff white_case hd_map last_map)

lemma collapse_Cons: "\<not> is_white c \<Longrightarrow> collapse_white (c # s) = c # collapse_white s"
  by (cases s) simp_all

lemma collapse_nonempty: "collapse_white s = [] \<longleftrightarrow> s = []"
  by (induction s rule: collapse_white.induct) auto

lemma white_space [simp]: "is_white (CHR '' '')"
  by (simp add: is_white_def)

lemma collapse_space: "\<not> is_white d \<Longrightarrow> collapse_white (CHR '' '' # d # s) = CHR '' '' # d # collapse_white s"
  by (simp add: collapse_Cons)

lemma collapse_twice: "collapse_white (collapse_white s) = collapse_white s"
proof (induction s rule: collapse_white.induct)
  case (3 c d s)
  then show ?case by (cases "is_white c"; cases "is_white d") (simp_all add: collapse_Cons collapse_space)
qed simp_all

lemma collapse_hd: "s \<noteq> [] \<Longrightarrow> \<not> is_white (hd s) \<Longrightarrow> hd (collapse_white s) = hd s"
  by (cases s) (simp_all add: collapse_Cons)

lemma collapse_last: "s \<noteq> [] \<Longrightarrow> \<not> is_white (last s) \<Longrightarrow> last (collapse_white s) = last s"
  by (induction s rule: collapse_white.induct) (auto simp: collapse_nonempty)

lemma trim_collapse:
  assumes "trim s = s"
  shows "trim (collapse_white s) = collapse_white s"
  using assms collapse_hd [of s] collapse_last [of s] by (auto simp: trim_eq_iff collapse_nonempty)

lemma normalise_twice: "normalisePayoutDetails (normalisePayoutDetails d) = normalisePayoutDetails d"
  by (cases d)
    (simp_all add: trim_twice trim_case trim_collapse collapse_twice case_twice comp_def)

lemma details_json_inj: "details_json a = details_json b \<longleftrightarrow> a = b"
proof -
  have "account_type_string x = account_type_string y \<longleftrightarrow> x = y" for x y by (cases x; cases y) simp_all
  then show ?thesis by (cases a; cases b) auto
qed

text \<open>Details are compared, stored and validated in one form: putting them in that form twice changes
  nothing, validation answers the same for the form as for what was typed, and two sets of details have
  the same canonical text, the text the fingerprint is taken of, exactly if they have the same form.\<close>

theorem details_one_form:
  "normalisePayoutDetails (normalisePayoutDetails d) = normalisePayoutDetails d \<and>
   validatePayoutDetails (normalisePayoutDetails d) = validatePayoutDetails d \<and>
   (canonicalDetails d = canonicalDetails e \<longleftrightarrow> normalisePayoutDetails d = normalisePayoutDetails e)"
proof (intro conjI)
  have "written_once (details_json x)" for x by (cases x) simp_all
  then show "canonicalDetails d = canonicalDetails e \<longleftrightarrow> normalisePayoutDetails d = normalisePayoutDetails e"
    using stringify_inj by (metis canonicalDetails_def details_json_inj)
qed (simp_all add: normalise_twice validatePayoutDetails_def)

section \<open>Matching names\<close>

lemma take_first_length: "take_first p ts = Some rest \<Longrightarrow> length ts = Suc (length rest)"
  by (induction ts arbitrary: rest) (auto split: if_splits)

lemma match_tokens_le: "match_tokens pool ts \<le> length ts"
  by (induction ts arbitrary: pool) (auto split: option.splits intro: le_SucI)

lemma match_tokens_self: "match_tokens ts ts = length ts"
  by (induction ts) simp_all

lemma half_above: "\<lfloor>201 / 2 :: rat\<rfloor> = 100"
  by (rule floor_unique) simp_all

lemma percentage_bounds:
  assumes "m \<le> (n :: nat)" "0 < n"
  shows "0 \<le> round_half_up (of_nat m / of_nat n * 100)" "round_half_up (of_nat m / of_nat n * 100) \<le> 100"
proof -
  have "0 \<le> (of_nat m / of_nat n * 100 :: rat)" by simp
  then show "0 \<le> round_half_up (of_nat m / of_nat n * 100)"
    by (simp add: round_half_up_def)
  have "(of_nat m / of_nat n :: rat) \<le> 1" using assms by simp
  then have "\<lfloor>of_nat m / of_nat n * 100 + 1 / 2 :: rat\<rfloor> \<le> \<lfloor>100 + 1 / 2 :: rat\<rfloor>" by (intro floor_mono) simp
  also have "\<lfloor>100 + 1 / 2 :: rat\<rfloor> = 100" by (simp add: half_above)
  finally show "round_half_up (of_nat m / of_nat n * 100) \<le> 100" by (simp add: round_half_up_def)
qed

text \<open>A similarity lies between 0 and 100, and a name with any token that counts scores 100 against
  itself.\<close>

theorem similarity_bounds:
  "0 \<le> compareNames a b \<and> compareNames a b \<le> 100 \<and>
   compareNames a a = (if normaliseName a = [] then 0 else 100)"
proof (intro conjI)
  show "0 \<le> compareNames a b" "compareNames a b \<le> 100"
    using percentage_bounds [OF match_tokens_le] by (auto simp: compareNames_def Let_def)
  show "compareNames a a = (if normaliseName a = [] then 0 else 100)"
    by (simp add: compareNames_def match_tokens_self round_half_up_def half_above)
qed

text \<open>A name check passes only on evidence of the kind its policy names: with no policy registered it
  never passes, and missing evidence passes only where the policy says so.\<close>

theorem name_check_fails_closed:
  "nd_outcome (decideNameMatch policy evidence expectedName) = Satisfied \<longleftrightarrow>
     (case policy of
        None \<Rightarrow> False
      | Some (Not_Required reason) \<Rightarrow> True
      | Some Provider_Assertion \<Rightarrow> ne_asserted evidence = Some True
      | Some (Numeric_Score lo hi missing) \<Rightarrow>
          (\<exists>s. ne_score evidence = Some (Score s) \<and> s \<in> {0..hi} \<and> lo \<le> s) \<or>
          missing \<and> ne_score evidence \<in> {None, Some Not_A_Number}
      | Some (Registry_Name lo) \<Rightarrow>
          (\<exists>n. ne_registryName evidence = Some n \<and> trim n \<noteq> [] \<and> lo \<le> of_int (compareNames expectedName n)))"
  by (auto simp: decideNameMatch_def Let_def split: option.splits name_policy.splits js_score.splits)

text \<open>The order of the tokens can decide the score: an initial takes the token it begins, also when a later
  token of the shorter name is that token exactly.\<close>

theorem initial_consumes_exact_token:
  "compareNames ''A AARTI'' ''AARTI ANIL'' = 50 \<and> compareNames ''AARTI A'' ''AARTI ANIL'' = 100"
  by code_simp

end
