(* ===== verification/Preflight.thy ===== *)
theory Preflight
  imports Settlement_Outcomes Beneficiaries Authorized_Terms "HOL-Library.Word" "HOL-Library.Product_Lexorder"
begin

text \<open>
  The preflight rule language (\<open>packages/domain/src/preflight/rules.ts\<close>, \<open>requirement.ts\<close>): facts,
  conditions, the compiled policy rules, the evaluator and the validation of a rule set. Rule sets are
  loaded as data, so a fact, an operator and a value are what the data gives: a name the code does not
  know, or a value of the wrong shape, has the outcome it has in the code, a throw being \<open>None\<close>. Copy is
  UTF-8; the fingerprint is the code's on ASCII copy.
\<close>

section \<open>Facts\<close>

record preflight_destination =
  pd_id :: string
  pd_versionId :: string
  pd_kind :: destination_kind
  pd_verificationStatus :: verification_status
  pd_summary :: string
  pd_nameMatchScore :: "int option"

record preflight_subject =
  ps_beneficiaryId :: string
  ps_displayName :: string
  ps_legalName :: string
  ps_type :: beneficiary_type
  ps_status :: beneficiary_status
  ps_country :: string
  ps_hasTaxId :: bool
  ps_destination :: "preflight_destination option"
  ps_amount :: money
  ps_purposeCode :: "string option"
  ps_purposeLabel :: "string option"
  ps_regulatoryCode :: "string option"
  ps_hasActiveLiquidityFacility :: bool
  ps_environment :: environment
  ps_documents :: "string list"

definition FACT_NAMES :: "string list" where
  "FACT_NAMES =
     [''beneficiary_type'', ''beneficiary_status'', ''beneficiary_country'', ''beneficiary_has_tax_id'',
      ''destination_present'', ''destination_kind'', ''destination_verification_status'',
      ''amount_minor_units'', ''amount_currency'', ''purpose_code'', ''purpose_regulatory_code'',
      ''documents'', ''environment'', ''has_active_liquidity_facility'']"

datatype fact_value =
    F_Text string | F_Bool bool | F_Int int | F_List "string list" | F_Null | F_Undefined

definition text_or_null :: "string option \<Rightarrow> fact_value" where
  "text_or_null v = (case v of None \<Rightarrow> F_Null | Some s \<Rightarrow> F_Text s)"

primrec beneficiary_type_string :: "beneficiary_type \<Rightarrow> string" where
  "beneficiary_type_string Individual = ''individual''"
| "beneficiary_type_string Business = ''business''"

primrec beneficiary_status_string :: "beneficiary_status \<Rightarrow> string" where
  "beneficiary_status_string B_draft = ''draft''"
| "beneficiary_status_string B_pending_verification = ''pending_verification''"
| "beneficiary_status_string B_verified = ''verified''"
| "beneficiary_status_string B_rejected = ''rejected''"
| "beneficiary_status_string B_disabled = ''disabled''"

primrec destination_kind_string :: "destination_kind \<Rightarrow> string" where
  "destination_kind_string Bank_Account = ''bank_account''"
| "destination_kind_string Upi = ''upi''"

primrec verification_status_string :: "verification_status \<Rightarrow> string" where
  "verification_status_string V_unverified = ''unverified''"
| "verification_status_string V_verifying = ''verifying''"
| "verification_status_string V_verified = ''verified''"
| "verification_status_string V_failed = ''failed''"

primrec environment_string :: "environment \<Rightarrow> string" where
  "environment_string Sandbox = ''sandbox''"
| "environment_string Live = ''live''"

definition factOf :: "preflight_subject \<Rightarrow> string \<Rightarrow> fact_value" where
  "factOf s name =
     (if name = ''beneficiary_type'' then F_Text (beneficiary_type_string (ps_type s))
      else if name = ''beneficiary_status'' then F_Text (beneficiary_status_string (ps_status s))
      else if name = ''beneficiary_country'' then F_Text (ps_country s)
      else if name = ''beneficiary_has_tax_id'' then F_Bool (ps_hasTaxId s)
      else if name = ''destination_present'' then F_Bool (ps_destination s \<noteq> None)
      else if name = ''destination_kind''
        then text_or_null (map_option (destination_kind_string \<circ> pd_kind) (ps_destination s))
      else if name = ''destination_verification_status''
        then text_or_null (map_option (verification_status_string \<circ> pd_verificationStatus) (ps_destination s))
      else if name = ''amount_minor_units'' then F_Int (minorUnits (ps_amount s))
      else if name = ''amount_currency'' then F_Text (code_string (currency (ps_amount s)))
      else if name = ''purpose_code'' then text_or_null (ps_purposeCode s)
      else if name = ''purpose_regulatory_code'' then text_or_null (ps_regulatoryCode s)
      else if name = ''documents'' then F_List (ps_documents s)
      else if name = ''environment'' then F_Text (environment_string (ps_environment s))
      else if name = ''has_active_liquidity_facility'' then F_Bool (ps_hasActiveLiquidityFacility s)
      else F_Undefined)"

section \<open>Conditions\<close>

datatype condition =
    Compare string string "json option"
  | All_Of "condition list"
  | Any_Of "condition list"
  | Not_That condition

definition ALWAYS :: condition where
  "ALWAYS = All_Of []"

definition js_same :: "fact_value \<Rightarrow> json option \<Rightarrow> bool" where
  "js_same actual v =
     (case (actual, v) of
        (F_Text s, Some (JStr t)) \<Rightarrow> s = t
      | (F_Bool a, Some (JBool b)) \<Rightarrow> a = b
      | (F_Null, Some JNull) \<Rightarrow> True
      | (F_Undefined, None) \<Rightarrow> True
      | _ \<Rightarrow> False)"

fun begins :: "string \<Rightarrow> string \<Rightarrow> bool" where
  "begins [] s = True"
| "begins (n # needle) [] = False"
| "begins (n # needle) (c # s) = (n = c \<and> begins needle s)"

fun substring :: "string \<Rightarrow> string \<Rightarrow> bool" where
  "substring needle [] = (needle = [])"
| "substring needle (c # s) = (begins needle (c # s) \<or> substring needle s)"

text \<open>\<open>value.includes(text)\<close> and \<open>BigInt(value)\<close>.\<close>

definition js_includes :: "json option \<Rightarrow> string \<Rightarrow> bool option" where
  "js_includes v s =
     (case v of
        Some (JArr vs) \<Rightarrow> Some (JStr s \<in> set vs)
      | Some (JStr t) \<Rightarrow> Some (substring s t)
      | _ \<Rightarrow> None)"

definition to_bigint :: "json option \<Rightarrow> int option" where
  "to_bigint v =
     (case v of
        None \<Rightarrow> None
      | Some JNull \<Rightarrow> None
      | Some (JBool b) \<Rightarrow> Some (if b then 1 else 0)
      | Some (JNum n) \<Rightarrow> Some n
      | Some (JStr s) \<Rightarrow> string_to_bigint s
      | Some j \<Rightarrow> (case json_text j of Inr s \<Rightarrow> string_to_bigint s | Inl _ \<Rightarrow> None))"

definition amount_ops :: "string list" where
  "amount_ops = [''gte'', ''gt'', ''lte'', ''lt'']"

definition compare_amount :: "string \<Rightarrow> int \<Rightarrow> int \<Rightarrow> bool" where
  "compare_amount op actual rhs =
     (if op = ''gte'' then actual \<ge> rhs
      else if op = ''gt'' then actual > rhs
      else if op = ''lte'' then actual \<le> rhs
      else actual < rhs)"

definition evaluate_comparison :: "fact_value \<Rightarrow> string \<Rightarrow> json option \<Rightarrow> bool option" where
  "evaluate_comparison actual op v =
     (if op = ''eq'' then Some (js_same actual v)
      else if op = ''neq'' then Some (\<not> js_same actual v)
      else if op = ''in'' then (case actual of F_Text s \<Rightarrow> js_includes v s | _ \<Rightarrow> Some False)
      else if op = ''not_in'' then (case actual of F_Text s \<Rightarrow> map_option Not (js_includes v s) | _ \<Rightarrow> Some True)
      else if op \<in> set amount_ops
        then (case actual of F_Int n \<Rightarrow> map_option (compare_amount op n) (to_bigint v) | _ \<Rightarrow> Some False)
      else if op = ''includes''
        then Some (case (actual, v) of (F_List ds, Some (JStr s)) \<Rightarrow> s \<in> set ds | _ \<Rightarrow> False)
      else if op = ''not_includes''
        then Some (case (actual, v) of (F_List ds, Some (JStr s)) \<Rightarrow> s \<notin> set ds | (F_List ds, _) \<Rightarrow> True | _ \<Rightarrow> False)
      else if op = ''is_null'' then Some (actual = F_Null)
      else if op = ''is_not_null'' then Some (actual \<noteq> F_Null)
      else Some False)"

text \<open>\<open>every\<close> and \<open>some\<close> stop at the first answer that decides.\<close>

fun every_true :: "bool option list \<Rightarrow> bool option" where
  "every_true [] = Some True"
| "every_true (r # rs) = (case r of Some True \<Rightarrow> every_true rs | _ \<Rightarrow> r)"

fun some_true :: "bool option list \<Rightarrow> bool option" where
  "some_true [] = Some False"
| "some_true (r # rs) = (case r of Some False \<Rightarrow> some_true rs | _ \<Rightarrow> r)"

fun evaluateCondition :: "condition \<Rightarrow> preflight_subject \<Rightarrow> bool option" where
  "evaluateCondition (All_Of cs) subject = every_true (map (\<lambda>c. evaluateCondition c subject) cs)"
| "evaluateCondition (Any_Of cs) subject = some_true (map (\<lambda>c. evaluateCondition c subject) cs)"
| "evaluateCondition (Not_That c) subject = map_option Not (evaluateCondition c subject)"
| "evaluateCondition (Compare name op v) subject = evaluate_comparison (factOf subject name) op v"

section \<open>Rules\<close>

datatype rule_action =
    Do_Verify_Beneficiary
  | Do_Edit_Beneficiary string
  | Do_Add_Payout_Destination
  | Do_Upload_Document string
  | Do_Select_Purpose
  | Do_Contact_Support string
  | Do_Set_Up_Liquidity_Facility

definition COPY_TOKENS :: "string list" where
  "COPY_TOKENS = [''amount'', ''beneficiary_name'', ''destination_summary'', ''purpose_label'']"

record preflight_rule =
  pr_id :: string
  pr_when :: condition
  pr_code :: string
  pr_severity :: requirement_severity
  pr_title :: string
  pr_detail :: string
  pr_action :: rule_action

datatype rule_set_source = RS_sandbox_fixture | RS_ad_bank | RS_provider

record purpose_code =
  pc_code :: string
  pc_label :: string
  pc_regulatoryCode :: "string option"

record rule_set =
  rs_version :: string
  rs_source :: rule_set_source
  rs_description :: string
  rs_purposeCodes :: "purpose_code list"
  rs_rules :: "preflight_rule list"

section \<open>The compiled policy\<close>

definition policy_rule :: "string \<Rightarrow> condition \<Rightarrow> string \<Rightarrow> string \<Rightarrow> string \<Rightarrow> rule_action \<Rightarrow> preflight_rule" where
  "policy_rule rid cond code title detail action =
     \<lparr>pr_id = rid, pr_when = cond, pr_code = code, pr_severity = Blocking, pr_title = title, pr_detail = detail, pr_action = action\<rparr>"

definition rule_destination_missing :: preflight_rule where
  "rule_destination_missing =
     policy_rule ''policy.destination_missing''
       (Compare ''destination_present'' ''eq'' (Some (JBool False)))
       ''payout_destination_required''
       ''This beneficiary needs a payout destination''
       ''Add the bank account or UPI ID that {{beneficiary_name}} should receive funds in before you settle.''
       Do_Add_Payout_Destination"

definition rule_destination_unverified :: preflight_rule where
  "rule_destination_unverified =
     policy_rule ''policy.destination_unverified''
       (Compare ''destination_verification_status'' ''eq'' (Some (JStr ''unverified'')))
       ''beneficiary_account_unverified''
       ''Beneficiary payout details need verification''
       ''We confirm that {{destination_summary}} accepts payments and matches the beneficiary name. This takes about a minute.''
       Do_Verify_Beneficiary"

definition rule_destination_verification_failed :: preflight_rule where
  "rule_destination_verification_failed =
     policy_rule ''policy.destination_verification_failed''
       (Compare ''destination_verification_status'' ''eq'' (Some (JStr ''failed'')))
       ''beneficiary_account_verification_failed''
       ''We could not confirm these payout details''
       ''The bank did not accept {{destination_summary}}. Check the account number, IFSC and name with {{beneficiary_name}}, then save the corrected details.''
       (Do_Edit_Beneficiary ''payout_destination'')"

definition rule_destination_verifying :: preflight_rule where
  "rule_destination_verifying =
     policy_rule ''policy.destination_verifying''
       (Compare ''destination_verification_status'' ''eq'' (Some (JStr ''verifying'')))
       ''beneficiary_verification_in_progress''
       ''Beneficiary verification is still running''
       (''We are confirming {{destination_summary}} now. This usually finishes within a minute '' @ [CHR 0xE2, CHR 0x80, CHR 0x94] @ '' no action is needed from you.'')
       Do_Verify_Beneficiary"

definition rule_beneficiary_rejected :: preflight_rule where
  "rule_beneficiary_rejected =
     policy_rule ''policy.beneficiary_rejected''
       (Compare ''beneficiary_status'' ''eq'' (Some (JStr ''rejected'')))
       ''beneficiary_rejected''
       ''This beneficiary cannot receive settlements''
       ''Verification of {{beneficiary_name}} did not pass and the beneficiary was rejected. Our team can explain what was found.''
       (Do_Contact_Support ''beneficiary_rejected'')"

definition rule_beneficiary_disabled :: preflight_rule where
  "rule_beneficiary_disabled =
     policy_rule ''policy.beneficiary_disabled''
       (Compare ''beneficiary_status'' ''eq'' (Some (JStr ''disabled'')))
       ''beneficiary_disabled''
       ''This beneficiary is disabled''
       ''Someone in your workspace disabled {{beneficiary_name}}. Re-enable the beneficiary to settle to it again.''
       (Do_Edit_Beneficiary ''status'')"

definition rule_purpose_missing :: preflight_rule where
  "rule_purpose_missing =
     policy_rule ''policy.purpose_missing''
       (Compare ''purpose_code'' ''is_null'' None)
       ''purpose_required''
       ''Choose what this payment is for''
       ''Inward remittances to India are reported under a purpose. Pick the one that describes this settlement.''
       Do_Select_Purpose"

definition rule_liquidity_facility :: preflight_rule where
  "rule_liquidity_facility =
     policy_rule ''policy.liquidity_facility''
       (All_Of [Compare ''environment'' ''eq'' (Some (JStr ''live'')),
        Compare ''has_active_liquidity_facility'' ''eq'' (Some (JBool False))])
       ''liquidity_facility_required''
       ''Your workspace needs an active settlement facility''
       ''Live settlements are funded from your INR facility. We will walk you through setting one up before your first live payout.''
       Do_Set_Up_Liquidity_Facility"

definition POLICY_RULES :: "preflight_rule list" where
  "POLICY_RULES =
     [rule_destination_missing, rule_destination_unverified, rule_destination_verification_failed, rule_destination_verifying,
      rule_beneficiary_rejected, rule_beneficiary_disabled, rule_purpose_missing, rule_liquidity_facility]"

section \<open>Evaluation\<close>

definition PREFLIGHT_ENGINE_VERSION :: string where
  "PREFLIGHT_ENGINE_VERSION = ''1''"

definition materialiseAction :: "rule_action \<Rightarrow> preflight_subject \<Rightarrow> requirement_action option" where
  "materialiseAction a s =
     (case a of
        Do_Verify_Beneficiary \<Rightarrow> map_option (\<lambda>d. Verify_Beneficiary (ps_beneficiaryId s) (pd_versionId d)) (ps_destination s)
      | Do_Edit_Beneficiary field \<Rightarrow> Some (Edit_Beneficiary (ps_beneficiaryId s) field)
      | Do_Add_Payout_Destination \<Rightarrow> Some (Add_Payout_Destination (ps_beneficiaryId s))
      | Do_Upload_Document documentType \<Rightarrow> Some (Upload_Document documentType)
      | Do_Select_Purpose \<Rightarrow> Some Select_Purpose
      | Do_Contact_Support topic \<Rightarrow> Some (Contact_Support topic)
      | Do_Set_Up_Liquidity_Facility \<Rightarrow> Some Set_Up_Liquidity_Facility)"

definition tokenValues :: "preflight_subject \<Rightarrow> (string \<times> string) list" where
  "tokenValues s =
     [(''amount'', formatMoney (ps_amount s) (if currency (ps_amount s) = INR then Indian else International) True),
      (''beneficiary_name'', ps_displayName s),
      (''destination_summary'', case ps_destination s of None \<Rightarrow> ''the payout destination'' | Some d \<Rightarrow> pd_summary d),
      (''purpose_label'', case ps_purposeLabel s of None \<Rightarrow> ''the selected purpose'' | Some l \<Rightarrow> l)]"

text \<open>The matches of \<open>/\{\{([a-z_]+)\}\}/g\<close> and the characters between them, from left to right.\<close>

datatype copy_piece = Plain char | Token string

definition token_char :: "char \<Rightarrow> bool" where
  "token_char c \<longleftrightarrow> (let n = of_char c :: nat in 97 \<le> n \<and> n \<le> 122 \<or> n = 95)"

definition token_at :: "string \<Rightarrow> (string \<times> string) option" where
  "token_at s =
     (if begins ''{{'' s then
        let name = takeWhile token_char (drop 2 s); rest = dropWhile token_char (drop 2 s) in
        if name \<noteq> [] \<and> begins ''}}'' rest then Some (name, drop 2 rest) else None
      else None)"

function pieces :: "string \<Rightarrow> copy_piece list" where
  "pieces [] = []"
| "pieces (c # s) =
     (case token_at (c # s) of
        Some (name, rest) \<Rightarrow> Token name # pieces rest
      | None \<Rightarrow> Plain c # pieces s)"
  by pat_completeness auto
termination
proof (relation "measure length")
  fix c :: char and s rest name p
  assume "token_at (c # s) = Some p" "(name, rest) = p"
  then have "rest = drop 2 (dropWhile token_char (drop 2 (c # s)))"
    by (auto simp: token_at_def Let_def split: if_splits)
  moreover have "length (dropWhile token_char (drop 2 (c # s))) \<le> length (drop 2 (c # s))"
    by (rule length_dropWhile_le)
  ultimately show "(rest, c # s) \<in> measure length" by auto
qed simp_all

definition interpolate :: "string \<Rightarrow> (string \<times> string) list \<Rightarrow> string" where
  "interpolate copy values =
     concat (map (\<lambda>p. case p of
         Plain c \<Rightarrow> [c]
       | Token name \<Rightarrow> (case map_of values name of Some v \<Rightarrow> v | None \<Rightarrow> ''{{'' @ name @ ''}}'')) (pieces copy))"

definition fnv_step :: "32 word \<Rightarrow> nat \<Rightarrow> 32 word" where
  "fnv_step h code = xor h (of_nat code) * 0x01000193"

definition fnv_part :: "32 word \<Rightarrow> string \<Rightarrow> 32 word" where
  "fnv_part h part = fnv_step (foldl (\<lambda>h c. fnv_step h (of_char c)) h part) 0x1f"

definition hex_digits :: "32 word \<Rightarrow> string" where
  "hex_digits h = map (\<lambda>i. hex_digit (unat h div 16 ^ i mod 16)) (rev [0..<8])"

definition fingerprintOf :: "string list \<Rightarrow> string" where
  "fingerprintOf parts = hex_digits (foldl fnv_part 0x811c9dc5 parts)"

primrec action_json :: "requirement_action \<Rightarrow> json" where
  "action_json (Verify_Beneficiary b v) =
     JObj [(''type'', JStr ''verify_beneficiary''), (''beneficiaryId'', JStr b), (''destinationVersionId'', JStr v)]"
| "action_json (Edit_Beneficiary b f) =
     JObj [(''type'', JStr ''edit_beneficiary''), (''beneficiaryId'', JStr b), (''field'', JStr f)]"
| "action_json (Add_Payout_Destination b) =
     JObj [(''type'', JStr ''add_payout_destination''), (''beneficiaryId'', JStr b)]"
| "action_json (Upload_Document d) = JObj [(''type'', JStr ''upload_document''), (''documentType'', JStr d)]"
| "action_json Select_Purpose = JObj [(''type'', JStr ''select_purpose'')]"
| "action_json (Contact_Support t) = JObj [(''type'', JStr ''contact_support''), (''topic'', JStr t)]"
| "action_json Set_Up_Liquidity_Facility = JObj [(''type'', JStr ''set_up_liquidity_facility'')]"

primrec severity_string :: "requirement_severity \<Rightarrow> string" where
  "severity_string Blocking = ''blocking''"
| "severity_string Advisory = ''advisory''"

definition sortRequirements :: "requirement list \<Rightarrow> requirement list" where
  "sortRequirements rs = sort_key (\<lambda>r. (req_severity r = Advisory, req_code r)) rs"

definition requirement_of :: "preflight_subject \<Rightarrow> preflight_rule \<Rightarrow> requirement_action \<Rightarrow> requirement" where
  "requirement_of s r action =
     \<lparr>req_code = pr_code r, req_severity = pr_severity r, req_title = interpolate (pr_title r) (tokenValues s),
      req_detail = interpolate (pr_detail r) (tokenValues s), req_action = action\<rparr>"

fun run_rules :: "preflight_subject \<Rightarrow> string list \<Rightarrow> preflight_rule list \<Rightarrow> requirement list option" where
  "run_rules s seen [] = Some []"
| "run_rules s seen (r # rules) =
     (case evaluateCondition (pr_when r) s of
        None \<Rightarrow> None
      | Some False \<Rightarrow> run_rules s seen rules
      | Some True \<Rightarrow>
          if pr_code r \<in> set seen then run_rules s seen rules
          else
            (case materialiseAction (pr_action r) s of
               None \<Rightarrow> run_rules s seen rules
             | Some action \<Rightarrow> map_option (Cons (requirement_of s r action)) (run_rules s (pr_code r # seen) rules)))"

datatype preflight_status = Ready_To_Settle | Action_Needed

record preflight_outcome =
  po_status :: preflight_status
  po_requirements :: "requirement list"
  po_ruleSetVersion :: string
  po_ruleSetSource :: rule_set_source
  po_engineVersion :: string
  po_fingerprint :: string

definition requirement_line :: "requirement \<Rightarrow> string" where
  "requirement_line r =
     req_code r @ ''|'' @ severity_string (req_severity r) @ ''|'' @ req_title r @ ''|'' @ req_detail r @ ''|'' @
     stringify (action_json (req_action r))"

definition preflight_outcome_of :: "rule_set \<Rightarrow> requirement list \<Rightarrow> preflight_outcome" where
  "preflight_outcome_of ruleSet ordered =
     \<lparr>po_status = (if filter (\<lambda>r. req_severity r = Blocking) ordered = [] then Ready_To_Settle else Action_Needed),
      po_requirements = ordered, po_ruleSetVersion = rs_version ruleSet, po_ruleSetSource = rs_source ruleSet,
      po_engineVersion = PREFLIGHT_ENGINE_VERSION,
      po_fingerprint = fingerprintOf (PREFLIGHT_ENGINE_VERSION # rs_version ruleSet # map requirement_line ordered)\<rparr>"

definition runPreflight :: "preflight_subject \<Rightarrow> rule_set \<Rightarrow> preflight_outcome option" where
  "runPreflight subject ruleSet =
     map_option (\<lambda>rs. preflight_outcome_of ruleSet (sortRequirements rs))
       (run_rules subject [] (POLICY_RULES @ rs_rules ruleSet))"

section \<open>Validation\<close>

definition BANNED_COPY :: "string list" where
  "BANNED_COPY =
     [''validation failed'', ''invalid input'', ''bad request'', ''an error occurred'', ''something went wrong'', ''unknown error'']"

definition REQUIREMENT_ACTION_TYPES :: "string list" where
  "REQUIREMENT_ACTION_TYPES =
     [''verify_beneficiary'', ''edit_beneficiary'', ''add_payout_destination'', ''upload_document'',
      ''select_purpose'', ''contact_support'', ''set_up_liquidity_facility'']"

datatype requirement_problem =
    Code_Missing | Code_Malformed | Title_Missing | Title_Not_A_Sentence | Detail_Missing | Detail_Too_Short
  | Action_Missing | Action_Unknown_Type | Generic_Copy string

text \<open>A requirement in the making: each part may be missing; the action is given by its type.\<close>

record requirement_draft =
  dr_code :: "string option"
  dr_title :: "string option"
  dr_detail :: "string option"
  dr_action_type :: "string option"

definition is_lower :: "char \<Rightarrow> bool" where
  "is_lower c \<longleftrightarrow> (let n = of_char c :: nat in 97 \<le> n \<and> n \<le> 122)"

lemma is_lower_code [code]:
  "is_lower (Char b0 b1 b2 b3 b4 b5 b6 b7) \<longleftrightarrow> b5 \<and> is_letter (Char b0 b1 b2 b3 b4 b5 b6 b7)"
  by (cases b0; cases b1; cases b2; cases b3; cases b4; cases b5; cases b6; cases b7)
    (simp_all add: is_lower_def is_letter_def)

definition code_pattern :: "string \<Rightarrow> bool" where
  "code_pattern s \<longleftrightarrow>
     (case s of
        [] \<Rightarrow> False
      | c # r \<Rightarrow> is_lower c \<and> 2 \<le> length r \<and> length r \<le> 63 \<and> list_all (\<lambda>d. is_lower d \<or> is_digit d \<or> d = CHR ''_'') r)"

definition text_of :: "string option \<Rightarrow> string" where
  "text_of t = (case t of None \<Rightarrow> [] | Some s \<Rightarrow> s)"

definition code_problems :: "string \<Rightarrow> (string \<times> requirement_problem) list" where
  "code_problems code =
     (if trim code = [] then [(''(unnamed)'', Code_Missing)]
      else if \<not> code_pattern code then [(code, Code_Malformed)] else [])"

definition title_problems :: "string \<Rightarrow> requirement_problem list" where
  "title_problems title =
     (if title = [] then [Title_Missing]
      else if length title < 12 \<or> \<not> list_ex is_lower title then [Title_Not_A_Sentence] else [])"

definition detail_problems :: "string \<Rightarrow> requirement_problem list" where
  "detail_problems detail =
     (if detail = [] then [Detail_Missing] else if length detail < 24 then [Detail_Too_Short] else [])"

definition action_problems :: "string option \<Rightarrow> requirement_problem list" where
  "action_problems type =
     (case type of
        None \<Rightarrow> [Action_Missing]
      | Some t \<Rightarrow> if t \<in> set REQUIREMENT_ACTION_TYPES then [] else [Action_Unknown_Type])"

definition generic_copy :: "string \<Rightarrow> requirement_problem list" where
  "generic_copy copy = map Generic_Copy (filter (\<lambda>phrase. substring phrase copy) BANNED_COPY)"

definition inspectRequirement :: "requirement_draft \<Rightarrow> (string \<times> requirement_problem) list" where
  "inspectRequirement r =
     code_problems (text_of (dr_code r)) @
     map (Pair (text_of (dr_code r)))
       (title_problems (trim (text_of (dr_title r))) @
        detail_problems (trim (text_of (dr_detail r))) @
        action_problems (dr_action_type r) @
        generic_copy (map lower_char (trim (text_of (dr_title r)) @ '' '' @ trim (text_of (dr_detail r)))))"

definition isWellFormedRequirement :: "requirement_draft \<Rightarrow> bool" where
  "isWellFormedRequirement r = (inspectRequirement r = [])"

datatype rule_problem =
    Duplicate_Id | Duplicate_Code | Unknown_Fact string | Unknown_Operator string
  | Amount_Value_Not_Integer_String | Unknown_Copy_Token string | Verify_Action_Without_Destination_Guard
  | Bad_Requirement "string \<times> requirement_problem"

definition VALID_OPS :: "string list" where
  "VALID_OPS =
     [''eq'', ''neq'', ''in'', ''not_in'', ''gte'', ''gt'', ''lte'', ''lt'', ''includes'', ''not_includes'',
      ''is_null'', ''is_not_null'']"

text \<open>
  \<open>/^-?\d+$/.test(value)\<close>: the value as text. (On an object with a \<open>toString\<close> property of its own
  the code throws; here it is not an integer.)
\<close>

definition integer_text :: "json option \<Rightarrow> bool" where
  "integer_text v =
     (case js_string v of
        Inr (c # r) \<Rightarrow>
          if c = CHR ''-'' then r \<noteq> [] \<and> list_all is_digit r else list_all is_digit (c # r)
      | _ \<Rightarrow> False)"

fun inspectCondition :: "condition \<Rightarrow> rule_problem list" where
  "inspectCondition (All_Of cs) = concat (map inspectCondition cs)"
| "inspectCondition (Any_Of cs) = concat (map inspectCondition cs)"
| "inspectCondition (Not_That c) = inspectCondition c"
| "inspectCondition (Compare name op v) =
     (if name \<in> set FACT_NAMES then [] else [Unknown_Fact name]) @
     (if op \<in> set VALID_OPS then [] else [Unknown_Operator op]) @
     (if op \<in> set amount_ops \<and> \<not> integer_text v then [Amount_Value_Not_Integer_String] else [])"

definition inspectCopy :: "string \<Rightarrow> rule_problem list" where
  "inspectCopy copy =
     concat (map (\<lambda>p. case p of
         Plain c \<Rightarrow> []
       | Token name \<Rightarrow> if name \<in> set COPY_TOKENS then [] else [Unknown_Copy_Token name]) (pieces copy))"

fun guardsOnDestination :: "condition \<Rightarrow> bool" where
  "guardsOnDestination (All_Of cs) = list_ex id (map guardsOnDestination cs)"
| "guardsOnDestination (Any_Of cs) = (cs \<noteq> [] \<and> list_all id (map guardsOnDestination cs))"
| "guardsOnDestination (Not_That c) = False"
| "guardsOnDestination (Compare name op v) =
     (if name = ''destination_present'' then op = ''eq'' \<and> v = Some (JBool True)
      else if name = ''destination_kind'' \<or> name = ''destination_verification_status''
        then op = ''eq'' \<or> op = ''in'' \<or> op = ''is_not_null''
      else False)"

primrec action_type :: "rule_action \<Rightarrow> string" where
  "action_type Do_Verify_Beneficiary = ''verify_beneficiary''"
| "action_type (Do_Edit_Beneficiary f) = ''edit_beneficiary''"
| "action_type Do_Add_Payout_Destination = ''add_payout_destination''"
| "action_type (Do_Upload_Document d) = ''upload_document''"
| "action_type Do_Select_Purpose = ''select_purpose''"
| "action_type (Do_Contact_Support t) = ''contact_support''"
| "action_type Do_Set_Up_Liquidity_Facility = ''set_up_liquidity_facility''"

definition rule_problems :: "preflight_rule \<Rightarrow> rule_problem list" where
  "rule_problems r =
     inspectCondition (pr_when r) @ inspectCopy (pr_title r) @ inspectCopy (pr_detail r) @
     (if pr_action r = Do_Verify_Beneficiary \<and> \<not> guardsOnDestination (pr_when r)
      then [Verify_Action_Without_Destination_Guard] else []) @
     map Bad_Requirement
       (inspectRequirement
         \<lparr>dr_code = Some (pr_code r), dr_title = Some (pr_title r), dr_detail = Some (pr_detail r),
          dr_action_type = Some (action_type (pr_action r))\<rparr>)"

fun validate_from :: "string list \<Rightarrow> string list \<Rightarrow> preflight_rule list \<Rightarrow> (string \<times> rule_problem) list" where
  "validate_from ids codes [] = []"
| "validate_from ids codes (r # rules) =
     map (Pair (pr_id r))
       ((if pr_id r \<in> set ids then [Duplicate_Id] else []) @
        (if pr_code r \<in> set codes then [Duplicate_Code] else []) @
        rule_problems r) @
     validate_from (pr_id r # ids) (pr_code r # codes) rules"

definition validateRules :: "preflight_rule list \<Rightarrow> (string \<times> rule_problem) list" where
  "validateRules rules = validate_from [] [] rules"

definition validateRuleSet :: "rule_set \<Rightarrow> (string \<times> rule_problem) list" where
  "validateRuleSet ruleSet = validateRules (POLICY_RULES @ rs_rules ruleSet)"

section \<open>Conditions of the types the language declares\<close>

definition typed_value :: "string \<Rightarrow> json option \<Rightarrow> bool" where
  "typed_value op v =
     (if op = ''eq'' \<or> op = ''neq'' then (case v of Some (JStr s) \<Rightarrow> True | Some (JBool b) \<Rightarrow> True | _ \<Rightarrow> False)
      else if op = ''in'' \<or> op = ''not_in'' then (case v of Some (JArr vs) \<Rightarrow> True | _ \<Rightarrow> False)
      else if op \<in> set amount_ops then (case v of Some (JStr s) \<Rightarrow> True | _ \<Rightarrow> False)
      else True)"

fun typed_condition :: "condition \<Rightarrow> bool" where
  "typed_condition (All_Of cs) = list_all id (map typed_condition cs)"
| "typed_condition (Any_Of cs) = list_all id (map typed_condition cs)"
| "typed_condition (Not_That c) = typed_condition c"
| "typed_condition (Compare name op v) = typed_value op v"

lemma integer_text_bigint: "integer_text (Some (JStr s)) \<Longrightarrow> string_to_bigint s \<noteq> None"
proof -
  assume "integer_text (Some (JStr s))"
  then obtain c r where s: "s = c # r" and form: "if c = CHR ''-'' then r \<noteq> [] \<and> list_all is_digit r else list_all is_digit (c # r)"
    by (auto simp: integer_text_def js_string_def split: list.splits)
  have minus: "\<not> js_blank (CHR ''-'')" by (simp add: js_blank_def)
  have tl: "list_all is_digit (tl s)" using form by (cases "c = CHR ''-''") (simp_all add: s)
  then have "list_all (\<lambda>c. \<not> js_blank c) (tl s)" by (auto simp: list_all_iff digit_facts)
  moreover have "\<not> js_blank c" using form minus digit_facts(1) by (cases "c = CHR ''-''") simp_all
  ultimately have trim: "js_trim s = s" by (intro trim_id) (simp add: s)
  show ?thesis
  proof (cases "c = CHR ''-''")
    case True
    then have "radix_number 10 (tl s) \<noteq> None" using form radix_digits [of r] by (simp add: s)
    moreover have "s \<noteq> []" "hd s = CHR ''-''" by (simp_all add: s True)
    ultimately show ?thesis using no_radix_prefix [OF tl] by (simp add: string_to_bigint_def trim)
  next
    case False
    then have "radix_number 10 s \<noteq> None" using form radix_digits [of s] by (simp add: s)
    moreover have "s \<noteq> []" "hd s \<noteq> CHR ''-''" by (simp_all add: s False)
    moreover have "hd s \<noteq> CHR ''+''" using form False by (auto simp: s is_digit_of_char)
    ultimately show ?thesis using no_radix_prefix [OF tl] by (simp add: string_to_bigint_def trim)
  qed
qed

lemma every_true_values:
  "\<forall>r\<in>set rs. r \<noteq> None \<Longrightarrow> every_true rs \<noteq> None" "every_true rs = Some True \<longleftrightarrow> (\<forall>r\<in>set rs. r = Some True)"
  by (induction rs) (auto split: option.splits bool.splits)

lemma some_true_values:
  "\<forall>r\<in>set rs. r \<noteq> None \<Longrightarrow> some_true rs \<noteq> None" "some_true rs = Some True \<Longrightarrow> \<exists>r\<in>set rs. r = Some True"
  by (induction rs) (auto split: option.splits bool.splits)

text \<open>A condition that is typed and passes the inspection always has an answer.\<close>

lemma evaluate_membership:
  "evaluate_comparison actual ''in'' v = (case actual of F_Text s \<Rightarrow> js_includes v s | _ \<Rightarrow> Some False)"
  "evaluate_comparison actual ''not_in'' v = (case actual of F_Text s \<Rightarrow> map_option Not (js_includes v s) | _ \<Rightarrow> Some True)"
  by (simp_all add: evaluate_comparison_def)

lemma inspected_comparison:
  assumes "typed_value op v" "op \<in> set amount_ops \<longrightarrow> integer_text v"
  shows "\<exists>b. evaluate_comparison actual op v = Some b"
proof -
  consider (same) "op = ''eq'' \<or> op = ''neq''" | (member) "op = ''in'' \<or> op = ''not_in''" | (amount) "op \<in> set amount_ops"
    | (other) "op \<notin> {''eq'', ''neq'', ''in'', ''not_in''}" "op \<notin> set amount_ops"
    by blast
  then show ?thesis
  proof cases
    case same
    then show ?thesis by (auto simp: evaluate_comparison_def)
  next
    case member
    then obtain vs where "v = Some (JArr vs)"
      using assms(1) by (cases v; cases "the v") (auto simp: typed_value_def)
    then have "\<exists>b. js_includes v t = Some b" for t by (simp add: js_includes_def)
    with member show ?thesis by (cases actual) (auto simp: evaluate_membership)
  next
    case amount
    then have op: "op \<noteq> ''eq''" "op \<noteq> ''neq''" "op \<noteq> ''in''" "op \<noteq> ''not_in''" by (auto simp: amount_ops_def)
    with amount assms(1) obtain t where "v = Some (JStr t)"
      by (auto simp: typed_value_def split: option.splits json.splits)
    with amount assms(2) integer_text_bigint [of t] obtain n where "to_bigint v = Some n" by (auto simp: to_bigint_def)
    with amount op show ?thesis by (cases actual) (auto simp: evaluate_comparison_def)
  next
    case other
    then show ?thesis by (auto simp: evaluate_comparison_def)
  qed
qed

lemma inspected_condition:
  "inspectCondition c = [] \<Longrightarrow> typed_condition c \<Longrightarrow> \<exists>b. evaluateCondition c s = Some b"
proof (induction c)
  case (All_Of cs)
  then have "\<forall>r\<in>set (map (\<lambda>c. evaluateCondition c s) cs). r \<noteq> None" by (fastforce simp: list_all_iff)
  from every_true_values(1) [OF this] show ?case by simp
next
  case (Any_Of cs)
  then have "\<forall>r\<in>set (map (\<lambda>c. evaluateCondition c s) cs). r \<noteq> None" by (fastforce simp: list_all_iff)
  from some_true_values(1) [OF this] show ?case by simp
next
  case (Compare name op v)
  then show ?case using inspected_comparison [of op v] by (auto split: if_splits)
next
  case (Not_That c)
  then show ?case by auto
qed

text \<open>The guard is sound: a typed condition it accepts holds only where there is a destination.\<close>

lemma destination_guard:
  "guardsOnDestination c \<Longrightarrow> typed_condition c \<Longrightarrow> evaluateCondition c s = Some True \<Longrightarrow> ps_destination s \<noteq> None"
proof (induction c)
  case (All_Of cs)
  then obtain c where c: "c \<in> set cs" "guardsOnDestination c" "typed_condition c" "evaluateCondition c s = Some True"
    by (fastforce simp: list_all_iff list_ex_iff every_true_values(2))
  from All_Of.IH [OF this] show ?case .
next
  case (Any_Of cs)
  then obtain c where c: "c \<in> set cs" "evaluateCondition c s = Some True"
    using some_true_values(2) [of "map (\<lambda>c. evaluateCondition c s) cs"] by fastforce
  with Any_Of.prems(1,2) have "guardsOnDestination c" "typed_condition c" by (auto simp: list_all_iff)
  from Any_Of.IH [OF c(1) this c(2)] show ?case .
next
  case (Compare name op v)
  consider "name = ''destination_present''" "op = ''eq''" "v = Some (JBool True)"
    | "name = ''destination_kind'' \<or> name = ''destination_verification_status''" "op = ''eq'' \<or> op = ''in'' \<or> op = ''is_not_null''"
    using Compare(1) by (auto split: if_splits)
  then show ?case
  proof cases
    case 1
    with Compare(3) show ?thesis by (simp add: evaluate_comparison_def factOf_def js_same_def)
  next
    case 2
    have "evaluate_comparison F_Null op v \<noteq> Some True"
    proof (cases "op = ''eq''")
      case True
      with Compare(2) have "v \<noteq> Some JNull" by (auto simp: typed_value_def)
      then have "\<not> js_same F_Null v" by (cases v; cases "the v") (auto simp: js_same_def)
      with True show ?thesis by (simp add: evaluate_comparison_def)
    next
      case False
      with 2(2) show ?thesis by (auto simp: evaluate_comparison_def amount_ops_def)
    qed
    then show ?thesis
      using 2(1) Compare(3) by (cases "ps_destination s") (auto simp: factOf_def text_or_null_def)
  qed
qed simp_all

section \<open>The requirements of a run\<close>

definition matched :: "preflight_subject \<Rightarrow> preflight_rule \<Rightarrow> bool" where
  "matched s r \<longleftrightarrow> evaluateCondition (pr_when r) s = Some True"

definition rule_requirement :: "preflight_subject \<Rightarrow> preflight_rule \<Rightarrow> requirement" where
  "rule_requirement s r = requirement_of s r (the (materialiseAction (pr_action r) s))"

definition answers :: "preflight_subject \<Rightarrow> preflight_rule \<Rightarrow> bool" where
  "answers s r \<longleftrightarrow>
     (\<exists>b. evaluateCondition (pr_when r) s = Some b) \<and> (matched s r \<longrightarrow> materialiseAction (pr_action r) s \<noteq> None)"

lemma rule_requirement_simps [simp]:
  "req_code (rule_requirement s r) = pr_code r" "req_severity (rule_requirement s r) = pr_severity r"
  by (simp_all add: rule_requirement_def requirement_of_def)

lemma run_rules_exact:
  assumes "distinct (map pr_code rules)" "set (map pr_code rules) \<inter> set seen = {}" "\<forall>r\<in>set rules. answers s r"
  shows "run_rules s seen rules = Some (map (rule_requirement s) (filter (matched s) rules))"
  using assms
proof (induction rules arbitrary: seen)
  case (Cons r rules)
  then have "run_rules s seen rules = Some (map (rule_requirement s) (filter (matched s) rules))"
      "run_rules s (pr_code r # seen) rules = Some (map (rule_requirement s) (filter (matched s) rules))"
    by (auto intro!: Cons.IH)
  moreover obtain b where "evaluateCondition (pr_when r) s = Some b" "b \<longrightarrow> materialiseAction (pr_action r) s \<noteq> None"
    using Cons.prems(3) by (auto simp: answers_def matched_def)
  moreover have "pr_code r \<notin> set seen" using Cons.prems(2) by simp
  ultimately show ?case
    by (cases b) (simp_all add: matched_def [of s r] rule_requirement_def [of s r], auto)
qed simp

lemma run_rules_prefix:
  "run_rules s seen (as @ bs) = Some reqs \<Longrightarrow> \<exists>xs ys. run_rules s seen as = Some xs \<and> reqs = xs @ ys"
proof (induction as arbitrary: seen reqs)
  case (Cons r as)
  have drop: "\<exists>xs ys. run_rules s seen as = Some xs \<and> reqs = xs @ ys" if "run_rules s seen (as @ bs) = Some reqs"
    using that by (rule Cons.IH)
  have keep: "\<exists>xs ys. run_rules s (pr_code r # seen) as = Some xs \<and> reqs' = xs @ ys"
    if "run_rules s (pr_code r # seen) (as @ bs) = Some reqs'" for reqs'
    using that by (rule Cons.IH)
  show ?case
    using Cons.prems drop keep
    by (auto split: option.splits bool.splits if_splits)
qed simp

lemma validate_from_empty:
  "validate_from ids codes rules = [] \<Longrightarrow>
     distinct (map pr_code rules) \<and> set (map pr_code rules) \<inter> set codes = {} \<and> (\<forall>r\<in>set rules. rule_problems r = [])"
  by (induction ids codes rules rule: validate_from.induct) (auto split: if_splits)

definition typed_rules :: "preflight_rule list \<Rightarrow> bool" where
  "typed_rules rules = list_all (\<lambda>r. typed_condition (pr_when r)) rules"

lemma materialises: "a = Do_Verify_Beneficiary \<longrightarrow> ps_destination s \<noteq> None \<Longrightarrow> materialiseAction a s \<noteq> None"
  by (cases a) (auto simp: materialiseAction_def)

lemma rule_answers:
  assumes "inspectCondition (pr_when r) = []" "typed_condition (pr_when r)"
    "pr_action r = Do_Verify_Beneficiary \<longrightarrow> guardsOnDestination (pr_when r)"
  shows "answers s r"
  unfolding answers_def matched_def
  using inspected_condition [OF assms(1,2)] destination_guard [OF _ assms(2)] assms(3) materialises by blast

lemma policy_answers: "r \<in> set POLICY_RULES \<Longrightarrow> answers s r"
  by (rule rule_answers)
    (auto simp: POLICY_RULES_def policy_rule_def rule_destination_missing_def rule_destination_unverified_def
      rule_destination_verification_failed_def rule_destination_verifying_def rule_beneficiary_rejected_def
      rule_beneficiary_disabled_def rule_purpose_missing_def rule_liquidity_facility_def
      FACT_NAMES_def VALID_OPS_def amount_ops_def typed_value_def)

lemma policy_codes: "distinct (map pr_code POLICY_RULES)" "\<forall>r\<in>set POLICY_RULES. pr_severity r = Blocking"
  by (simp_all add: POLICY_RULES_def policy_rule_def rule_destination_missing_def rule_destination_unverified_def
      rule_destination_verification_failed_def rule_destination_verifying_def rule_beneficiary_rejected_def
      rule_beneficiary_disabled_def rule_purpose_missing_def rule_liquidity_facility_def)

definition settleable :: "preflight_subject \<Rightarrow> bool" where
  "settleable s \<longleftrightarrow>
     (case ps_destination s of None \<Rightarrow> False | Some d \<Rightarrow> pd_verificationStatus d = V_verified) \<and>
     ps_status s \<notin> {B_rejected, B_disabled} \<and> ps_purposeCode s \<noteq> None \<and>
     (ps_environment s = Live \<longrightarrow> ps_hasActiveLiquidityFacility s)"

lemmas policy_rule_defs = policy_rule_def rule_destination_missing_def rule_destination_unverified_def
  rule_destination_verification_failed_def rule_destination_verifying_def rule_beneficiary_rejected_def
  rule_beneficiary_disabled_def rule_purpose_missing_def rule_liquidity_facility_def

lemma status_facts:
  "js_same (factOf s ''destination_present'') (Some (JBool b)) \<longleftrightarrow> (ps_destination s \<noteq> None) = b"
  "js_same (factOf s ''destination_verification_status'') (Some (JStr t)) \<longleftrightarrow>
     (\<exists>d. ps_destination s = Some d \<and> verification_status_string (pd_verificationStatus d) = t)"
  "js_same (factOf s ''beneficiary_status'') (Some (JStr t)) \<longleftrightarrow> beneficiary_status_string (ps_status s) = t"
  "js_same (factOf s ''environment'') (Some (JStr t)) \<longleftrightarrow> environment_string (ps_environment s) = t"
  "js_same (factOf s ''has_active_liquidity_facility'') (Some (JBool b)) \<longleftrightarrow> ps_hasActiveLiquidityFacility s = b"
  "factOf s ''purpose_code'' = F_Null \<longleftrightarrow> ps_purposeCode s = None"
  by (auto simp: factOf_def js_same_def text_or_null_def split: option.splits)

lemma evaluate_eq: "evaluate_comparison actual ''eq'' v = Some (js_same actual v)"
  by (simp add: evaluate_comparison_def)

lemma evaluate_is_null: "evaluate_comparison actual ''is_null'' v = Some (actual = F_Null)"
  by (simp add: evaluate_comparison_def amount_ops_def)

lemma policy_matches:
  "matched s rule_destination_missing \<longleftrightarrow> ps_destination s = None"
  "matched s rule_destination_unverified \<longleftrightarrow> (\<exists>d. ps_destination s = Some d \<and> pd_verificationStatus d = V_unverified)"
  "matched s rule_destination_verification_failed \<longleftrightarrow> (\<exists>d. ps_destination s = Some d \<and> pd_verificationStatus d = V_failed)"
  "matched s rule_destination_verifying \<longleftrightarrow> (\<exists>d. ps_destination s = Some d \<and> pd_verificationStatus d = V_verifying)"
  "matched s rule_beneficiary_rejected \<longleftrightarrow> ps_status s = B_rejected"
  "matched s rule_beneficiary_disabled \<longleftrightarrow> ps_status s = B_disabled"
  "matched s rule_purpose_missing \<longleftrightarrow> ps_purposeCode s = None"
  "matched s rule_liquidity_facility \<longleftrightarrow> ps_environment s = Live \<and> \<not> ps_hasActiveLiquidityFacility s"
proof -
  have v: "verification_status_string x = ''unverified'' \<longleftrightarrow> x = V_unverified"
      "verification_status_string x = ''failed'' \<longleftrightarrow> x = V_failed"
      "verification_status_string x = ''verifying'' \<longleftrightarrow> x = V_verifying" for x
    by (cases x; simp)+
  have b: "beneficiary_status_string x = ''rejected'' \<longleftrightarrow> x = B_rejected"
      "beneficiary_status_string x = ''disabled'' \<longleftrightarrow> x = B_disabled" for x
    by (cases x; simp)+
  have e: "environment_string x = ''live'' \<longleftrightarrow> x = Live" for x by (cases x) simp_all
  note simps = matched_def policy_rule_defs evaluate_eq evaluate_is_null status_facts v b e
  show "matched s rule_destination_missing \<longleftrightarrow> ps_destination s = None" by (simp add: simps)
  show "matched s rule_destination_unverified \<longleftrightarrow> (\<exists>d. ps_destination s = Some d \<and> pd_verificationStatus d = V_unverified)"
    "matched s rule_destination_verification_failed \<longleftrightarrow> (\<exists>d. ps_destination s = Some d \<and> pd_verificationStatus d = V_failed)"
    "matched s rule_destination_verifying \<longleftrightarrow> (\<exists>d. ps_destination s = Some d \<and> pd_verificationStatus d = V_verifying)"
    by (simp_all add: simps)
  show "matched s rule_beneficiary_rejected \<longleftrightarrow> ps_status s = B_rejected"
    "matched s rule_beneficiary_disabled \<longleftrightarrow> ps_status s = B_disabled"
    "matched s rule_purpose_missing \<longleftrightarrow> ps_purposeCode s = None"
    by (simp_all add: simps)
  show "matched s rule_liquidity_facility \<longleftrightarrow> ps_environment s = Live \<and> \<not> ps_hasActiveLiquidityFacility s"
    by (cases "ps_environment s = Live"; cases "ps_hasActiveLiquidityFacility s") (simp_all add: simps)
qed

lemma policy_silent_iff: "filter (matched s) POLICY_RULES = [] \<longleftrightarrow> settleable s"
proof (cases "ps_destination s")
  case None
  then show ?thesis by (simp add: POLICY_RULES_def policy_matches settleable_def)
next
  case (Some d)
  then show ?thesis
    by (cases "pd_verificationStatus d") (auto simp: POLICY_RULES_def policy_matches settleable_def)
qed

section \<open>What preflight promises\<close>

lemma requirements_blocking:
  "po_status (preflight_outcome_of rs (sortRequirements reqs)) = Ready_To_Settle \<longleftrightarrow> (\<forall>q\<in>set reqs. req_severity q \<noteq> Blocking)"
  by (auto simp: preflight_outcome_of_def sortRequirements_def filter_empty_conv)

text \<open>C24. Ready means ready: whatever rule set is in force, well formed or not, a run that says ready is on a
  subject with a verified destination, a beneficiary neither rejected nor disabled, a purpose, and, in
  live, an active liquidity facility.\<close>

theorem ready_is_settleable:
  assumes "runPreflight s ruleSet = Some out" "po_status out = Ready_To_Settle"
  shows "settleable s"
proof -
  obtain reqs where run: "run_rules s [] (POLICY_RULES @ rs_rules ruleSet) = Some reqs"
    and out: "out = preflight_outcome_of ruleSet (sortRequirements reqs)"
    using assms(1) by (auto simp: runPreflight_def)
  from run_rules_prefix [OF run] obtain xs ys where xs: "run_rules s [] POLICY_RULES = Some xs" "reqs = xs @ ys" by blast
  have "xs = map (rule_requirement s) (filter (matched s) POLICY_RULES)"
    using run_rules_exact [of POLICY_RULES "[]" s] policy_codes(1) policy_answers xs(1) by simp
  moreover have "\<forall>q\<in>set reqs. req_severity q \<noteq> Blocking"
    using assms(2) by (simp add: out requirements_blocking)
  ultimately have "\<forall>q\<in>set (map (rule_requirement s) (filter (matched s) POLICY_RULES)). req_severity q \<noteq> Blocking"
    using xs(2) by auto
  then have "\<forall>r\<in>set (filter (matched s) POLICY_RULES). pr_severity r \<noteq> Blocking"
    by (simp only: set_map ball_simps rule_requirement_simps)
  with policy_codes(2) have "filter (matched s) POLICY_RULES = []" by (auto simp: filter_empty_conv)
  then show ?thesis by (simp add: policy_silent_iff)
qed

lemma valid_rules_answer:
  assumes "validateRuleSet ruleSet = []" "typed_rules (rs_rules ruleSet)"
  shows "distinct (map pr_code (POLICY_RULES @ rs_rules ruleSet))" "\<forall>r\<in>set (POLICY_RULES @ rs_rules ruleSet). answers s r"
proof -
  have valid: "distinct (map pr_code (POLICY_RULES @ rs_rules ruleSet))" "\<forall>r\<in>set (POLICY_RULES @ rs_rules ruleSet). rule_problems r = []"
    using validate_from_empty assms(1) unfolding validateRuleSet_def validateRules_def by blast+
  show "distinct (map pr_code (POLICY_RULES @ rs_rules ruleSet))" by (rule valid(1))
  have "answers s r" if "r \<in> set (rs_rules ruleSet)" for r
    using that valid(2) assms(2)
    by (intro rule_answers) (auto simp: rule_problems_def typed_rules_def list_all_iff split: if_splits)
  then show "\<forall>r\<in>set (POLICY_RULES @ rs_rules ruleSet). answers s r" using policy_answers by auto
qed

text \<open>C25. A rule set that passes validation, with values of the declared types, is evaluated completely: the
  run always ends in an outcome, every rule whose condition holds gives its requirement and no other rule
  does, and the subject is ready exactly if no blocking rule holds.\<close>

theorem valid_rules_complete:
  assumes "validateRuleSet ruleSet = []" "typed_rules (rs_rules ruleSet)"
  shows "\<exists>out. runPreflight s ruleSet = Some out \<and>
    set (po_requirements out) = rule_requirement s ` {r \<in> set (POLICY_RULES @ rs_rules ruleSet). matched s r} \<and>
    (po_status out = Ready_To_Settle \<longleftrightarrow>
      (\<forall>r\<in>set (POLICY_RULES @ rs_rules ruleSet). matched s r \<longrightarrow> pr_severity r \<noteq> Blocking))"
proof -
  define rules where "rules = POLICY_RULES @ rs_rules ruleSet"
  have run: "run_rules s [] rules = Some (map (rule_requirement s) (filter (matched s) rules))"
    unfolding rules_def using valid_rules_answer [OF assms] by (intro run_rules_exact) simp_all
  let ?reqs = "map (rule_requirement s) (filter (matched s) rules)"
  have "runPreflight s ruleSet = Some (preflight_outcome_of ruleSet (sortRequirements ?reqs))"
    by (simp add: runPreflight_def run flip: rules_def)
  moreover have "set (po_requirements (preflight_outcome_of ruleSet (sortRequirements ?reqs))) = rule_requirement s ` {r \<in> set rules. matched s r}"
    by (simp add: preflight_outcome_of_def sortRequirements_def)
  moreover have "(\<forall>q\<in>set ?reqs. req_severity q \<noteq> Blocking) \<longleftrightarrow> (\<forall>r\<in>set rules. matched s r \<longrightarrow> pr_severity r \<noteq> Blocking)"
    by auto
  ultimately show ?thesis
    unfolding rules_def [symmetric] requirements_blocking [symmetric, of _ ruleSet] by blast
qed

text \<open>The order of the rules does not reach the result: two valid rule sets that hold the same rules in
  different orders give the same outcome, fingerprint included.\<close>

theorem rule_order_irrelevant:
  assumes "validateRuleSet ruleSet = []" "typed_rules (rs_rules ruleSet)" "mset rules = mset (rs_rules ruleSet)"
  shows "runPreflight s (ruleSet\<lparr>rs_rules := rules\<rparr>) = runPreflight s ruleSet"
proof -
  let ?old = "POLICY_RULES @ rs_rules ruleSet" and ?new = "POLICY_RULES @ rules"
  have same: "mset ?new = mset ?old" using assms(3) by simp
  then have codes: "mset (map pr_code ?new) = mset (map pr_code ?old)" by (simp only: mset_map)
  have "distinct (map pr_code ?new)"
    using valid_rules_answer(1) [OF assms(1,2)] mset_eq_imp_distinct_iff [OF codes] by blast
  moreover have "\<forall>r\<in>set ?new. answers s r"
    using valid_rules_answer(2) [OF assms(1,2)] mset_eq_setD [OF same] by blast
  ultimately have new: "run_rules s [] ?new = Some (map (rule_requirement s) (filter (matched s) ?new))"
    by (intro run_rules_exact) simp_all
  have old: "run_rules s [] ?old = Some (map (rule_requirement s) (filter (matched s) ?old))"
    using valid_rules_answer [OF assms(1,2)] by (intro run_rules_exact) simp_all
  let ?reqs = "\<lambda>rules. map (rule_requirement s) (filter (matched s) rules)"
  have reqs: "mset (?reqs ?new) = mset (?reqs ?old)"
    using same by (simp only: mset_map mset_filter)
  have "distinct (map req_code (?reqs ?old))"
    using valid_rules_answer(1) [OF assms(1,2)] by (simp add: comp_def distinct_map_filter del: map_append filter_append)
  then have inj: "inj_on (\<lambda>r. (req_severity r = Advisory, req_code r)) (set (?reqs ?old))"
    unfolding distinct_map inj_on_def by (metis prod.inject)
  have "sortRequirements (?reqs ?new) = sortRequirements (?reqs ?old)"
    unfolding sortRequirements_def
    by (rule sort_key_inj_key_eq) (use reqs inj mset_eq_setD [OF reqs] in simp_all)
  then show ?thesis by (simp add: runPreflight_def new [simplified] old [simplified] preflight_outcome_of_def)
qed

section \<open>A sandbox rule set\<close>

definition sample_rules :: rule_set where
  "sample_rules =
     \<lparr>rs_version = ''sandbox'', rs_source = RS_sandbox_fixture, rs_description = ''test rules'', rs_purposeCodes = [],
      rs_rules =
        [\<lparr>pr_id = ''sandbox.invoice'',
          pr_when = All_Of [Compare ''purpose_code'' ''in'' (Some (JArr [JStr ''SOFTWARE_SERVICES''])),
            Compare ''amount_minor_units'' ''gte'' (Some (JStr ''100000000'')),
            Compare ''documents'' ''not_includes'' (Some (JStr ''commercial_invoice''))],
          pr_code = ''invoice_required'', pr_severity = Blocking, pr_title = ''Attach the commercial invoice'',
          pr_detail = ''The bank asks for the invoice behind {{amount}} before it pays.'',
          pr_action = Do_Upload_Document ''commercial_invoice''\<rparr>,
         \<lparr>pr_id = ''sandbox.check'', pr_when = Compare ''destination_kind'' ''eq'' (Some (JStr ''upi'')),
          pr_code = ''upi_recheck'', pr_severity = Advisory, pr_title = ''Consider checking the UPI handle again'',
          pr_detail = ''A handle can be given up and taken by another person.'', pr_action = Do_Verify_Beneficiary\<rparr>]\<rparr>"

definition sample_subject :: preflight_subject where
  "sample_subject =
     \<lparr>ps_beneficiaryId = ''ben_1'', ps_displayName = ''Aarti'', ps_legalName = ''Aarti Sharma'', ps_type = Individual,
      ps_status = B_verified, ps_country = ''IN'', ps_hasTaxId = True,
      ps_destination = Some \<lparr>pd_id = ''dst_1'', pd_versionId = ''dsv_1'', pd_kind = Bank_Account,
        pd_verificationStatus = V_verified, pd_summary = ''HDFC'', pd_nameMatchScore = Some 100\<rparr>,
      ps_amount = money INR 5000000, ps_purposeCode = Some ''FAMILY_MAINTENANCE'', ps_purposeLabel = None,
      ps_regulatoryCode = None, ps_hasActiveLiquidityFacility = True, ps_environment = Live, ps_documents = []\<rparr>"

lemma sample_problems: "\<forall>r\<in>set (POLICY_RULES @ rs_rules sample_rules). rule_problems r = []"
  by code_simp

lemma sample_rules_valid: "validateRuleSet sample_rules = []"
proof -
  have free: "validate_from ids codes rules = []"
    if "distinct (map pr_id rules)" "distinct (map pr_code rules)" "set (map pr_id rules) \<inter> set ids = {}"
      "set (map pr_code rules) \<inter> set codes = {}" "\<forall>r\<in>set rules. rule_problems r = []" for ids codes rules
    using that by (induction ids codes rules rule: validate_from.induct) auto
  note sample_problems
  moreover have "distinct (map pr_id (POLICY_RULES @ rs_rules sample_rules))"
    "distinct (map pr_code (POLICY_RULES @ rs_rules sample_rules))"
    by (simp_all add: POLICY_RULES_def policy_rule_defs sample_rules_def)
  ultimately show ?thesis
    unfolding validateRuleSet_def validateRules_def
    by (intro free) simp_all
qed

lemma sample_rules_typed: "typed_rules (rs_rules sample_rules)"
  by (simp add: sample_rules_def typed_rules_def typed_value_def amount_ops_def)

theorem valid_rules_complete_witness:
  "\<exists>out. runPreflight sample_subject sample_rules = Some out \<and>
    set (po_requirements out) = rule_requirement sample_subject `
      {r \<in> set (POLICY_RULES @ rs_rules sample_rules). matched sample_subject r} \<and>
    (po_status out = Ready_To_Settle \<longleftrightarrow>
      list_all (\<lambda>r. pr_severity r = Advisory) (filter (matched sample_subject) (POLICY_RULES @ rs_rules sample_rules)))"
proof -
  have adv: "(\<forall>r\<in>set rules. matched s r \<longrightarrow> pr_severity r \<noteq> Blocking) \<longleftrightarrow>
      list_all (\<lambda>r. pr_severity r = Advisory) (filter (matched s) rules)" for s rules
    using requirement_severity.exhaust by (auto simp: list_all_iff)
  show ?thesis
    using valid_rules_complete [OF sample_rules_valid sample_rules_typed, of sample_subject] unfolding adv .
qed

theorem rule_order_irrelevant_witness:
  "runPreflight sample_subject (sample_rules\<lparr>rs_rules := rev (rs_rules sample_rules)\<rparr>) = runPreflight sample_subject sample_rules"
  using rule_order_irrelevant [OF sample_rules_valid sample_rules_typed mset_rev] .

lemma sample_run:
  "run_rules sample_subject [] (POLICY_RULES @ rs_rules sample_rules) = Some []"
proof -
  have "filter (matched sample_subject) (POLICY_RULES @ rs_rules sample_rules) = []"
  proof -
    have "filter (matched sample_subject) POLICY_RULES = []"
      unfolding policy_silent_iff by (simp add: settleable_def sample_subject_def)
    moreover have "filter (matched sample_subject) (rs_rules sample_rules) = []"
      by (simp add: sample_rules_def sample_subject_def matched_def evaluate_membership evaluate_eq js_same_def js_includes_def
          factOf_def text_or_null_def)
    ultimately show ?thesis by simp
  qed
  moreover have "run_rules sample_subject [] (POLICY_RULES @ rs_rules sample_rules) =
      Some (map (rule_requirement sample_subject) (filter (matched sample_subject) (POLICY_RULES @ rs_rules sample_rules)))"
    by (rule run_rules_exact [OF valid_rules_answer(1) [OF sample_rules_valid sample_rules_typed] _
        valid_rules_answer(2) [OF sample_rules_valid sample_rules_typed]]) (simp only: list.set Int_empty_right)
  ultimately show ?thesis by (simp only: list.map)
qed

theorem ready_is_settleable_witness: "settleable sample_subject"
proof (rule ready_is_settleable)
  show "runPreflight sample_subject sample_rules = Some (preflight_outcome_of sample_rules [])"
    by (simp add: runPreflight_def sample_run sortRequirements_def del: run_rules.simps)
  show "po_status (preflight_outcome_of sample_rules []) = Ready_To_Settle"
    by (simp add: preflight_outcome_of_def)
qed

section \<open>What the guard lets through\<close>

text \<open>
  Loaded data may compare with \<open>null\<close>, which the declared type of a value leaves out: such a condition
  passes as a guard and holds where there is no destination.
\<close>

lemma null_comparison_passes_guard:
  "guardsOnDestination (Compare ''destination_kind'' ''eq'' (Some JNull)) \<and>
   inspectCondition (Compare ''destination_kind'' ''eq'' (Some JNull)) = [] \<and>
   evaluateCondition (Compare ''destination_kind'' ''eq'' (Some JNull)) (s\<lparr>ps_destination := None\<rparr>) = Some True"
  by (simp add: FACT_NAMES_def VALID_OPS_def amount_ops_def evaluate_comparison_def factOf_def js_same_def text_or_null_def)

text \<open>The validation does not look at the value of a membership test, whose evaluation then throws.\<close>

lemma missing_list_is_not_reported:
  "inspectCondition (Compare ''purpose_code'' ''in'' None) = [] \<and>
   evaluateCondition (Compare ''purpose_code'' ''in'' None) (s\<lparr>ps_purposeCode := Some p\<rparr>) = None"
  by (simp add: FACT_NAMES_def VALID_OPS_def amount_ops_def evaluate_comparison_def factOf_def text_or_null_def js_includes_def)

end
