(* ===== verification/Batch_Csv.thy ===== *)
theory Batch_Csv
  imports Beneficiaries Webhooks
begin

text \<open>
  The two ways into a batch (\<open>packages/domain/src/batches/csv.ts\<close>, and the rendering of API rows in
  \<open>createBatchFromRows\<close> of \<open>packages/app/src/batch.service.ts\<close>): the reader of the grid, the validation of
  each row, the amounts. Texts are UTF-8; the sentences of a problem and its fix are determined by the
  problem and left out. The values of a row are an association list by column, \<open>__proto__\<close> being a name
  that an object literal does not store.
\<close>

section \<open>The grid\<close>

definition quote_mark :: char where "quote_mark = CHR 0x22"
definition newline :: char where "newline = CHR 0x0A"
definition carriage :: char where "carriage = CHR 0x0D"

definition byte_order_mark :: string where
  "byte_order_mark = [CHR 0xEF, CHR 0xBB, CHR 0xBF]"

definition without_prefix :: "string \<Rightarrow> string \<Rightarrow> string" where
  "without_prefix p s = (if take (length p) s = p then drop (length p) s else s)"

text \<open>
  The loop of \<open>parseCsvGrid\<close>: whether a quoted field is open, the field and the row so far, the rest of
  the input.
\<close>

fun read_csv :: "bool \<Rightarrow> string \<Rightarrow> string list \<Rightarrow> string \<Rightarrow> string list list" where
  "read_csv quoted field row [] = (if field \<noteq> [] \<or> row \<noteq> [] then [row @ [field]] else [])"
| "read_csv True field row (c # s) =
     (if c = quote_mark
      then (case s of
              d # s' \<Rightarrow> if d = quote_mark then read_csv True (field @ [quote_mark]) row s' else read_csv False field row s
            | [] \<Rightarrow> read_csv False field row [])
      else read_csv True (field @ [c]) row s)"
| "read_csv False field row (c # s) =
     (if c = quote_mark \<and> field = [] then read_csv True field row s
      else if c = CHR '','' then read_csv False [] (row @ [field]) s
      else if c = carriage \<and> take 1 s = [newline] then (row @ [field]) # read_csv False [] [] (drop 1 s)
      else if c = newline \<or> c = carriage then (row @ [field]) # read_csv False [] [] s
      else read_csv False (field @ [c]) row s)"

definition blank_row :: "string list \<Rightarrow> bool" where
  "blank_row r \<longleftrightarrow> (case r of [f] \<Rightarrow> trim f = [] | _ \<Rightarrow> False)"

definition parseCsvGrid :: "string \<Rightarrow> string list list" where
  "parseCsvGrid t = filter (\<lambda>r. \<not> blank_row r) (read_csv False [] [] (without_prefix byte_order_mark t))"

section \<open>Amounts\<close>

datatype rupee_problem =
  Amount_Empty | Amount_Negative string | Amount_Too_Precise string | Amount_Malformed string | Amount_Zero

text \<open>The digits before and after the point: \<open>/^\d+(\.\d+)?$/\<close>.\<close>

definition decimal_parts :: "string \<Rightarrow> (string \<times> string) option" where
  "decimal_parts s =
     (case match_unsigned s of
        Some (whole, fr) \<Rightarrow> if fr = [] \<and> CHR ''.'' \<in> set s then None else Some (whole, fr)
      | None \<Rightarrow> None)"

definition cleaned_amount :: "string \<Rightarrow> string" where
  "cleaned_amount input = trim (strip_commas (without_prefix rupee (trim input)))"

definition parseRupees :: "string \<Rightarrow> (rupee_problem, int) result" where
  "parseRupees input =
     (let cleaned = cleaned_amount input in
      if cleaned = [] then Inl Amount_Empty
      else case decimal_parts cleaned of
        Some (whole, fr) \<Rightarrow>
          if length fr \<le> 2
          then (let minorUnits = int (nat_of_digits whole) * 100 + int (nat_of_digits (pad_end 2 (CHR ''0'') fr)) in
                if minorUnits = 0 then Inl Amount_Zero else Inr minorUnits)
          else Inl (Amount_Too_Precise (trim input))
      | None \<Rightarrow>
          if hd cleaned = CHR ''-'' then Inl (Amount_Negative (trim input)) else Inl (Amount_Malformed (trim input)))"

section \<open>Rows\<close>

datatype batch_column = Col_beneficiary_id | Col_amount_inr | Col_purpose_code | Col_external_reference

primrec column_name :: "batch_column \<Rightarrow> string" where
  "column_name Col_beneficiary_id = ''beneficiary_id''"
| "column_name Col_amount_inr = ''amount_inr''"
| "column_name Col_purpose_code = ''purpose_code''"
| "column_name Col_external_reference = ''external_reference''"

definition BATCH_CSV_COLUMNS :: "batch_column list" where
  "BATCH_CSV_COLUMNS = [Col_beneficiary_id, Col_amount_inr, Col_purpose_code, Col_external_reference]"

definition REQUIRED_COLUMNS :: "batch_column list" where
  "REQUIRED_COLUMNS = [Col_beneficiary_id, Col_amount_inr, Col_purpose_code]"

datatype row_problem =
    File_Empty | Column_Absent | Column_Repeated string | No_Rows | Too_Many_Rows nat nat
  | Beneficiary_Missing | Beneficiary_Malformed string | Amount_Problem rupee_problem
  | Purpose_Missing | Purpose_Unknown string

type_synonym row_error = "batch_column option \<times> row_problem"

record parsed_row =
  pw_line :: nat
  pw_raw :: "(string \<times> string) list"
  pw_beneficiaryId :: string
  pw_amountMinor :: int
  pw_purposeCode :: string
  pw_externalReference :: "string option"

record invalid_row =
  iw_line :: nat
  iw_raw :: "(string \<times> string) list"
  iw_errors :: "row_error list"

type_synonym row_result = "(invalid_row, parsed_row) result"

text \<open>\<open>/^ben_[A-Za-z0-9]+$/\<close>\<close>

definition is_beneficiary_id :: "string \<Rightarrow> bool" where
  "is_beneficiary_id s \<longleftrightarrow>
     take 4 s = ''ben_'' \<and> drop 4 s \<noteq> [] \<and> list_all (\<lambda>c. is_letter c \<or> is_digit c) (drop 4 s)"

fun row_values :: "string list \<Rightarrow> string list \<Rightarrow> (string \<times> string) list" where
  "row_values [] cells = []"
| "row_values (name # names) cells =
     (if name = [] \<or> name = ''__proto__'' then [] else [(name, trim (case cells of [] \<Rightarrow> [] | c # _ \<Rightarrow> c))]) @
     row_values names (drop 1 cells)"

definition row_value :: "(string \<times> string) list \<Rightarrow> batch_column \<Rightarrow> string" where
  "row_value raw col = (case map_of raw (column_name col) of None \<Rightarrow> [] | Some v \<Rightarrow> v)"

definition beneficiary_errors :: "string \<Rightarrow> row_error list" where
  "beneficiary_errors beneficiaryId =
     (if beneficiaryId = [] then [(Some Col_beneficiary_id, Beneficiary_Missing)]
      else if \<not> is_beneficiary_id beneficiaryId then [(Some Col_beneficiary_id, Beneficiary_Malformed beneficiaryId)]
      else [])"

definition amount_errors :: "(rupee_problem, int) result \<Rightarrow> row_error list" where
  "amount_errors amount = (case amount of Inl p \<Rightarrow> [(Some Col_amount_inr, Amount_Problem p)] | Inr _ \<Rightarrow> [])"

definition purpose_errors :: "string list \<Rightarrow> string \<Rightarrow> row_error list" where
  "purpose_errors purposeCodes purposeCode =
     (if purposeCode = [] then [(Some Col_purpose_code, Purpose_Missing)]
      else if purposeCode \<notin> set purposeCodes then [(Some Col_purpose_code, Purpose_Unknown purposeCode)] else [])"

definition check_row :: "string list \<Rightarrow> string list \<Rightarrow> nat \<Rightarrow> string list \<Rightarrow> row_result" where
  "check_row header purposeCodes line cells =
     (let raw = row_values header cells;
          beneficiaryId = row_value raw Col_beneficiary_id;
          amount = parseRupees (row_value raw Col_amount_inr);
          purposeCode = row_value raw Col_purpose_code;
          reference = row_value raw Col_external_reference;
          errors = beneficiary_errors beneficiaryId @ amount_errors amount @ purpose_errors purposeCodes purposeCode
      in if errors \<noteq> [] then Inl \<lparr>iw_line = line, iw_raw = raw, iw_errors = errors\<rparr>
         else Inr \<lparr>pw_line = line, pw_raw = raw, pw_beneficiaryId = beneficiaryId,
                pw_amountMinor = (case amount of Inr m \<Rightarrow> m | Inl _ \<Rightarrow> 0), pw_purposeCode = purposeCode,
                pw_externalReference = (if reference \<noteq> [] then Some reference else None)\<rparr>)"

fun repeated_names :: "string list \<Rightarrow> string list \<Rightarrow> string list" where
  "repeated_names before [] = []"
| "repeated_names before (h # hs) =
     (if h \<noteq> [] \<and> h \<in> set before then h # repeated_names (before @ [h]) hs else repeated_names (before @ [h]) hs)"

text \<open>\<open>[...new Set(xs)]\<close>: the first occurrence of each.\<close>

fun first_occurrences :: "string list \<Rightarrow> string list \<Rightarrow> string list" where
  "first_occurrences seen [] = []"
| "first_occurrences seen (x # xs) =
     (if x \<in> set seen then first_occurrences seen xs else x # first_occurrences (x # seen) xs)"

definition header_errors :: "string list \<Rightarrow> row_error list" where
  "header_errors header =
     map (\<lambda>c. (Some c, Column_Absent)) (filter (\<lambda>c. column_name c \<notin> set header) REQUIRED_COLUMNS) @
     map (\<lambda>d. (List.find (\<lambda>c. column_name c = d) BATCH_CSV_COLUMNS, Column_Repeated d))
       (first_occurrences [] (repeated_names [] header))"

definition DEFAULT_MAX_ROWS :: nat where "DEFAULT_MAX_ROWS = 10000"

definition parseBatchCsv ::
    "string list \<Rightarrow> nat option \<Rightarrow> string \<Rightarrow> (row_error list, row_result list) result" where
  "parseBatchCsv purposeCodes maxRows t =
     (case parseCsvGrid t of
        [] \<Rightarrow> Inl [(None, File_Empty)]
      | first # body \<Rightarrow>
          let header = map (map lower_char \<circ> trim) first;
              max = (case maxRows of None \<Rightarrow> DEFAULT_MAX_ROWS | Some m \<Rightarrow> m)
          in if header_errors header \<noteq> [] then Inl (header_errors header)
             else if body = [] then Inl [(None, No_Rows)]
             else if length body > max then Inl [(None, Too_Many_Rows (length body) max)]
             else Inr (map (\<lambda>(i, cells). check_row header purposeCodes (i + 2) cells) (zip [0..<length body] body)))"

section \<open>Rows from the API\<close>









section \<open>Reading what was written\<close>

lemma marks_distinct [simp]:
  "quote_mark \<noteq> CHR '',''" "quote_mark \<noteq> newline" "quote_mark \<noteq> carriage" "newline \<noteq> CHR '',''" "carriage \<noteq> CHR '',''"
  "newline \<noteq> carriage" "CHR '','' \<noteq> quote_mark" "newline \<noteq> quote_mark" "carriage \<noteq> quote_mark" "CHR '','' \<noteq> newline"
  "CHR '','' \<noteq> carriage" "carriage \<noteq> newline"
  by (simp_all add: quote_mark_def newline_def carriage_def)
















lemma zip_map_from:
  "map (\<lambda>(i, x). f (i + k) (g x)) (zip [0..<length xs] (map h xs)) = map (\<lambda>(i, x). f (i + k) (g (h x))) (zip [0..<length xs] xs)"
  by (simp add: zip_map2 comp_def case_prod_beta)





section \<open>Every row has its own answer\<close>

lemma accepted_row:
  assumes "check_row header codes line cells = Inr r"
  shows "pw_line r = line \<and> is_beneficiary_id (pw_beneficiaryId r) \<and> pw_purposeCode r \<in> set codes \<and> 0 < pw_amountMinor r \<and>
    parseRupees (row_value (row_values header cells) Col_amount_inr) = Inr (pw_amountMinor r)"
proof -
  have "0 < m" if "parseRupees s = Inr m" for s m
    using that by (auto simp: parseRupees_def Let_def split: if_splits option.splits)
  with assms show ?thesis
    by (auto simp: check_row_def Let_def beneficiary_errors_def amount_errors_def purpose_errors_def
        split: if_splits sum.splits)
qed

text \<open>
  Every row has its own answer: a file that is read has one verdict for each row of its grid after the
  header, in order, and a verdict is a function of the header and of that row alone, so no row blocks
  another. An accepted row names a well-formed beneficiary, a purpose that is known and a positive
  amount; a refused row says why.
\<close>

theorem rows_answered_alone:
  assumes "parseBatchCsv codes maxRows t = Inr results"
  shows "\<exists>first body. parseCsvGrid t = first # body \<and> length results = length body \<and>
    (\<forall>i<length body. results ! i = check_row (map (map lower_char \<circ> trim) first) codes (i + 2) (body ! i) \<and>
      (case results ! i of
         Inr r \<Rightarrow> is_beneficiary_id (pw_beneficiaryId r) \<and> pw_purposeCode r \<in> set codes \<and> 0 < pw_amountMinor r
       | Inl r \<Rightarrow> iw_errors r \<noteq> []))"
proof -
  from assms obtain first body where grid: "parseCsvGrid t = first # body"
    and results: "results = map (\<lambda>(i, cells). check_row (map (map lower_char \<circ> trim) first) codes (i + 2) cells)
      (zip [0..<length body] body)"
    by (auto simp: parseBatchCsv_def Let_def split: list.splits if_splits)
  have "results ! i = check_row (map (map lower_char \<circ> trim) first) codes (i + 2) (body ! i)" if "i < length body" for i
    using that by (simp add: results)
  moreover have "case v of Inr r \<Rightarrow> is_beneficiary_id (pw_beneficiaryId r) \<and> pw_purposeCode r \<in> set codes \<and> 0 < pw_amountMinor r
      | Inl r \<Rightarrow> iw_errors r \<noteq> []" if "v = check_row header codes line cells" for v header line cells
  proof (cases v)
    case (Inl r)
    with that show ?thesis by (auto simp: check_row_def Let_def split: if_splits)
  next
    case (Inr r)
    then have "check_row header codes line cells = Inr r" using that by simp
    from accepted_row [OF this] Inr show ?thesis by simp
  qed
  ultimately show ?thesis using grid results by auto
qed

definition sample_file :: string where
  "sample_file = ''beneficiary_id,amount_inr,purpose_code'' @ [newline] @ ''ben_1,0,P1'' @ [newline] @ ''ben_2,7.5,P1''"

theorem rows_answered_alone_witness:
  "(\<exists>results. parseBatchCsv [''P1''] None sample_file = Inr results \<and> map isl results = [True, False]) \<and>
   (\<exists>first body. parseCsvGrid sample_file = first # body \<and> length body = 2)"
proof -
  have "case parseBatchCsv [''P1''] None sample_file of Inl _ \<Rightarrow> False | Inr results \<Rightarrow> map isl results = [True, False]"
    by code_simp
  then obtain results where results: "parseBatchCsv [''P1''] None sample_file = Inr results" "map isl results = [True, False]"
    by (auto split: sum.splits)
  then have "length results = 2" by (metis length_map length_Cons list.size(3) numeral_2_eq_2)
  moreover obtain first body where "parseCsvGrid sample_file = first # body" "length results = length body"
    using rows_answered_alone [OF results(1)] by blast
  ultimately show ?thesis using results by auto
qed

section \<open>Where the file is misread\<close>

text \<open>
  The line of a row counts the rows kept, not the lines of the file: an empty line above a row makes its
  error name the line before.
\<close>

lemma blank_line_shifts_numbers:
  "parseBatchCsv [''P1''] None (''beneficiary_id,amount_inr,purpose_code'' @ [newline, newline] @ ''ben_1,0,P1'') =
   Inr [Inl \<lparr>iw_line = 2, iw_raw = [(''beneficiary_id'', ''ben_1''), (''amount_inr'', ''0''), (''purpose_code'', ''P1'')],
     iw_errors = [(Some Col_amount_inr, Amount_Problem Amount_Zero)]\<rparr>]"
  by code_simp

text \<open>
  Cells beyond the header are dropped without a word: an amount with an unquoted comma in the last
  column is read as the part before the comma.
\<close>

lemma surplus_cell_dropped:
  "parseBatchCsv [''P1''] None (''beneficiary_id,purpose_code,amount_inr'' @ [newline] @ ''ben_1,P1,12,000'') =
   Inr [Inr \<lparr>pw_line = 2, pw_raw = [(''beneficiary_id'', ''ben_1''), (''purpose_code'', ''P1''), (''amount_inr'', ''12'')],
     pw_beneficiaryId = ''ben_1'', pw_amountMinor = 1200, pw_purposeCode = ''P1'', pw_externalReference = None\<rparr>]"
  by code_simp

end
