(* ===== verification/Batches.thy ===== *)
theory Batches
  imports Batch_Csv Settlement_Outcomes
begin

text \<open>
  \<open>packages/domain/src/batches/batch.ts\<close>: the machine B01-B05 of a batch, the outcome of a row as derived
  from what the customer sees of its settlement, the counters, and the terminal state. The \<open>guard\<close> column
  of the table is prose and is left out.
\<close>

section \<open>The machine\<close>

datatype batch_status = BA_DRAFT | BA_VALIDATING | BA_READY | BA_EXECUTING | BA_COMPLETED | BA_PARTIALLY_COMPLETED

datatype batch_source = Batch_CSV | Batch_API

datatype batch_trigger =
  Begin_Validation | Validated | Begin_Execution | All_Rows_Resolved | Some_Rows_Unresolved

datatype batch_transition_id = B01 | B02 | B03 | B04 | B05

record batch_transition =
  bt_id :: batch_transition_id
  bt_from :: "batch_status list"
  bt_trigger :: batch_trigger
  bt_to :: batch_status
  bt_customerEvent :: "string option"

definition BATCH_TRANSITIONS :: "batch_transition list" where
  "BATCH_TRANSITIONS =
     [\<lparr>bt_id = B01, bt_from = [], bt_trigger = Begin_Validation, bt_to = BA_VALIDATING, bt_customerEvent = None\<rparr>,
      \<lparr>bt_id = B02, bt_from = [BA_VALIDATING], bt_trigger = Validated, bt_to = BA_READY,
       bt_customerEvent = Some ''batch.validated''\<rparr>,
      \<lparr>bt_id = B03, bt_from = [BA_READY], bt_trigger = Begin_Execution, bt_to = BA_EXECUTING, bt_customerEvent = None\<rparr>,
      \<lparr>bt_id = B04, bt_from = [BA_EXECUTING], bt_trigger = All_Rows_Resolved, bt_to = BA_COMPLETED,
       bt_customerEvent = Some ''batch.completed''\<rparr>,
      \<lparr>bt_id = B05, bt_from = [BA_EXECUTING], bt_trigger = Some_Rows_Unresolved, bt_to = BA_PARTIALLY_COMPLETED,
       bt_customerEvent = Some ''batch.partially_completed''\<rparr>]"

datatype batch_refusal = Invalid_Batch_Transition "batch_status option" batch_trigger

definition evaluateBatchTransition ::
    "batch_status option \<Rightarrow> batch_trigger \<Rightarrow> (batch_refusal, batch_transition \<times> batch_status) result" where
  "evaluateBatchTransition from t =
     (case find_row bt_trigger bt_from BATCH_TRANSITIONS from t of
        None \<Rightarrow> Inl (Invalid_Batch_Transition from t)
      | Some r \<Rightarrow> Inr (r, bt_to r))"

definition isTerminalBatchStatus :: "batch_status \<Rightarrow> bool" where
  "isTerminalBatchStatus s \<longleftrightarrow> s = BA_COMPLETED \<or> s = BA_PARTIALLY_COMPLETED"

interpretation batch: lifecycle_table bt_trigger bt_from BATCH_TRANSITIONS isTerminalBatchStatus bt_to
  by unfold_locales (auto simp: BATCH_TRANSITIONS_def isTerminalBatchStatus_def)

section \<open>The outcome of a row\<close>

datatype batch_row_outcome = Row_INVALID | Row_ACCEPTED | Row_ACTION_REQUIRED | Row_SETTLED | Row_FAILED | Row_CANCELLED

text \<open>The settlement status is absent where the row never became a settlement.\<close>

definition rowOutcomeFromCustomerStatus :: "customer_status option \<Rightarrow> settlement_status option \<Rightarrow> batch_row_outcome" where
  "rowOutcomeFromCustomerStatus customerStatus settlementStatus =
     (if settlementStatus = Some FAILED then Row_FAILED
      else case customerStatus of
        Some CS_SETTLED \<Rightarrow> Row_SETTLED
      | Some CS_ACTION_REQUIRED \<Rightarrow> Row_ACTION_REQUIRED
      | Some CS_CANCELLED \<Rightarrow> Row_CANCELLED
      | Some CS_READY \<Rightarrow> Row_ACCEPTED
      | Some CS_SETTLING \<Rightarrow> Row_ACCEPTED
      | None \<Rightarrow> if settlementStatus = None then Row_INVALID else Row_ACCEPTED)"

definition isResolvedOutcome :: "batch_row_outcome \<Rightarrow> bool" where
  "isResolvedOutcome r \<longleftrightarrow> r = Row_SETTLED \<or> r = Row_FAILED \<or> r = Row_CANCELLED \<or> r = Row_INVALID"

definition needsAttention :: "batch_row_outcome \<Rightarrow> bool" where
  "needsAttention r \<longleftrightarrow> r = Row_INVALID \<or> r = Row_ACTION_REQUIRED"

section \<open>Counters\<close>

record batch_aggregates =
  ba_rowCount :: nat
  ba_validCount :: nat
  ba_actionRequiredCount :: nat
  ba_settledCount :: nat
  ba_failedCount :: nat
  ba_total :: money

text \<open>The counters of the loop: valid, action required, settled, failed, total.\<close>

fun count_rows :: "(batch_row_outcome \<times> int option) list \<Rightarrow> nat \<times> nat \<times> nat \<times> nat \<times> int \<Rightarrow> nat \<times> nat \<times> nat \<times> nat \<times> int" where
  "count_rows [] acc = acc"
| "count_rows ((r, amountMinor) # rows) (v, a, s, f, t) =
     (if r = Row_INVALID then count_rows rows (v, a, s, f, t)
      else count_rows rows
        (v + 1, if r = Row_ACTION_REQUIRED then a + 1 else a, if r = Row_SETTLED then s + 1 else s,
         if r = Row_FAILED then f + 1 else f, case amountMinor of None \<Rightarrow> t | Some m \<Rightarrow> t + m))"

definition aggregate :: "(batch_row_outcome \<times> int option) list \<Rightarrow> currency_code \<Rightarrow> batch_aggregates" where
  "aggregate rows c =
     (let (v, a, s, f, t) = count_rows rows (0, 0, 0, 0, 0) in
      \<lparr>ba_rowCount = length rows, ba_validCount = v, ba_actionRequiredCount = a, ba_settledCount = s,
       ba_failedCount = f, ba_total = money c t\<rparr>)"

definition terminalOutcome :: "batch_row_outcome list \<Rightarrow> batch_trigger option" where
  "terminalOutcome rows =
     (if rows = [] then None
      else if list_ex (\<lambda>r. \<not> isResolvedOutcome r) rows then None
      else if list_ex needsAttention rows then Some Some_Rows_Unresolved else Some All_Rows_Resolved)"

section \<open>The batch summarises its rows\<close>

text \<open>A row as the service reads it: not a settlement, or the settlement's status and open exception.\<close>

definition outcome_of :: "(settlement_status \<times> exception_code option) option \<Rightarrow> batch_row_outcome" where
  "outcome_of row =
     (case row of
        None \<Rightarrow> Row_INVALID
      | Some (s, e) \<Rightarrow> rowOutcomeFromCustomerStatus (customerStatusColumn s e) (Some s))"

lemma outcome_resolved:
  "isResolvedOutcome (outcome_of row) \<longleftrightarrow> (case row of None \<Rightarrow> True | Some (s, _) \<Rightarrow> isTerminal s)"
proof (cases row)
  case (Some p)
  then show ?thesis
    by (cases p; cases "fst p")
      (auto simp: outcome_of_def rowOutcomeFromCustomerStatus_def isResolvedOutcome_def customerStatusColumn_def
        projectCustomerStatus_def Let_def split: option.splits)
qed (simp add: outcome_of_def isResolvedOutcome_def)

lemma outcome_invalid: "outcome_of row = Row_INVALID \<longleftrightarrow> row = None"
proof (cases row)
  case (Some p)
  then show ?thesis
    by (cases p; cases "fst p")
      (auto simp: outcome_of_def rowOutcomeFromCustomerStatus_def customerStatusColumn_def
        projectCustomerStatus_def Let_def split: option.splits)
qed (simp add: outcome_of_def)

text \<open>
  C30. A batch ends exactly when its rows have: for any rows, invalid or settlements in any status, the batch
  has a terminal trigger if and only if there is a row and every settlement among them is terminal. It
  is \<open>COMPLETED\<close> only when no row was invalid, and from \<open>EXECUTING\<close> the machine accepts that trigger and
  no later one.
\<close>

theorem batch_ends_with_rows:
  "(terminalOutcome (map outcome_of rows) = None \<longleftrightarrow> rows = [] \<or> (\<exists>s e. Some (s, e) \<in> set rows \<and> \<not> isTerminal s)) \<and>
   (case terminalOutcome (map outcome_of rows) of
      None \<Rightarrow> True
    | Some t \<Rightarrow> \<exists>r. evaluateBatchTransition (Some BA_EXECUTING) t = Inr (r, if None \<in> set rows then BA_PARTIALLY_COMPLETED else BA_COMPLETED) \<and>
        (\<forall>u. isl (evaluateBatchTransition (Some (bt_to r)) u)))"
proof
  have resolved: "list_ex (\<lambda>r. \<not> isResolvedOutcome r) (map outcome_of rows) \<longleftrightarrow> (\<exists>s e. Some (s, e) \<in> set rows \<and> \<not> isTerminal s)"
    by (force simp: list_ex_iff outcome_resolved split: option.splits)
  then show "terminalOutcome (map outcome_of rows) = None \<longleftrightarrow> rows = [] \<or> (\<exists>s e. Some (s, e) \<in> set rows \<and> \<not> isTerminal s)"
    by (auto simp: terminalOutcome_def)
  show "case terminalOutcome (map outcome_of rows) of
      None \<Rightarrow> True
    | Some t \<Rightarrow> \<exists>r. evaluateBatchTransition (Some BA_EXECUTING) t = Inr (r, if None \<in> set rows then BA_PARTIALLY_COMPLETED else BA_COMPLETED) \<and>
        (\<forall>u. isl (evaluateBatchTransition (Some (bt_to r)) u))"
  proof (cases "terminalOutcome (map outcome_of rows)")
    case (Some t)
    then have ended: "\<forall>r\<in>set rows. isResolvedOutcome (outcome_of r)"
      by (auto simp: terminalOutcome_def list_ex_iff split: if_splits)
    have "needsAttention (outcome_of r) \<longleftrightarrow> r = None" if "r \<in> set rows" for r
      using ended that outcome_invalid [of r] by (auto simp: needsAttention_def isResolvedOutcome_def)
    then have "list_ex needsAttention (map outcome_of rows) \<longleftrightarrow> None \<in> set rows" by (auto simp: list_ex_iff)
    with Some have t: "t = (if None \<in> set rows then Some_Rows_Unresolved else All_Rows_Resolved)"
      by (auto simp: terminalOutcome_def split: if_splits)
    have "isl (evaluateBatchTransition (Some s) u)" if "isTerminalBatchStatus s" for s u
      using batch.terminal_refuses [OF that] by (simp add: evaluateBatchTransition_def)
    with t Some show ?thesis
      by (auto simp: evaluateBatchTransition_def find_row_def row_accepts_def BATCH_TRANSITIONS_def isTerminalBatchStatus_def)
  qed simp
qed

lemma count_rows_sums:
  "count_rows rows (v, a, s, f, t) =
     (let valid = filter (\<lambda>p. fst p \<noteq> Row_INVALID) rows in
      (v + length valid, a + length (filter (\<lambda>p. fst p = Row_ACTION_REQUIRED) rows),
       s + length (filter (\<lambda>p. fst p = Row_SETTLED) rows), f + length (filter (\<lambda>p. fst p = Row_FAILED) rows),
       t + sum_list (map (\<lambda>p. case snd p of None \<Rightarrow> 0 | Some m \<Rightarrow> m) valid)))"
proof (induction rows arbitrary: v a s f t)
  case (Cons p rows)
  then show ?case by (cases p) (auto simp: Let_def split: option.splits)
qed simp

text \<open>
  The counters are counts: each is the number of rows with that outcome, the total is the sum over the
  rows that became settlements, and what is valid and what is invalid make up the rows.
\<close>

theorem aggregate_counts:
  "aggregate rows c =
    \<lparr>ba_rowCount = length rows, ba_validCount = length (filter (\<lambda>p. fst p \<noteq> Row_INVALID) rows),
     ba_actionRequiredCount = length (filter (\<lambda>p. fst p = Row_ACTION_REQUIRED) rows),
     ba_settledCount = length (filter (\<lambda>p. fst p = Row_SETTLED) rows),
     ba_failedCount = length (filter (\<lambda>p. fst p = Row_FAILED) rows),
     ba_total = money c (sum_list (map (\<lambda>p. case snd p of None \<Rightarrow> 0 | Some m \<Rightarrow> m)
       (filter (\<lambda>p. fst p \<noteq> Row_INVALID) rows)))\<rparr>"
  by (simp add: aggregate_def count_rows_sums Let_def)

end
