(* ===== verification/Artifacts.thy ===== *)
theory Artifacts
  imports Authorized_Terms Beneficiaries
begin

text \<open>
  Canonical JSON and the documents written in it: \<open>packages/domain/src/receipts/artifact.ts\<close> (the
  serialisation, the receipt, the return notice and the composite), \<open>receipts/hash.ts\<close> and the request
  fingerprint of \<open>api/fingerprint.ts\<close>. Finite numbers are integers; SHA-256 and the Unicode normal form
  NFC are parameters. An object is the list of its own properties, which has each key once.
\<close>

section \<open>Canonical serialisation\<close>

datatype canonical =
    CA_Null | CA_Undefined | CA_Nonfinite
  | CA_Bool bool
  | CA_Num int
  | CA_Big int
  | CA_Str string
  | CA_Arr "canonical list"
  | CA_Obj "(string \<times> canonical) list"

text \<open>\<open>None\<close> is the \<open>TypeError\<close> thrown for a value that has no serialisation.\<close>

fun canonicalize :: "canonical \<Rightarrow> string option" where
  "canonicalize CA_Null = Some ''null''"
| "canonicalize CA_Undefined = None"
| "canonicalize CA_Nonfinite = None"
| "canonicalize (CA_Bool b) = Some (if b then ''true'' else ''false'')"
| "canonicalize (CA_Num n) = Some (string_of_int n)"
| "canonicalize (CA_Big n) = Some (quote_string (string_of_int n))"
| "canonicalize (CA_Str s) = Some (quote_string s)"
| "canonicalize (CA_Arr vs) =
     map_option (\<lambda>ts. CHR ''['' # comma_join ts @ '']'') (those (map canonicalize vs))"
| "canonicalize (CA_Obj es) =
     map_option (\<lambda>ts. CHR ''{'' # comma_join ts @ ''}'')
       (those (map (\<lambda>(k, t). map_option (\<lambda>x. quote_string k @ CHR '':'' # x) t)
         (sort_key fst (map (\<lambda>(k, v). (k, canonicalize v)) es))))"

section \<open>Documents\<close>

datatype artifact_kind = Settlement_Receipt | Return_Notice | Receipt_Composite

primrec artifact_kind_string :: "artifact_kind \<Rightarrow> string" where
  "artifact_kind_string Settlement_Receipt = ''settlement_receipt''"
| "artifact_kind_string Return_Notice = ''return_notice''"
| "artifact_kind_string Receipt_Composite = ''receipt_composite''"

definition ARTIFACT_SCHEMA_VERSION :: string where "ARTIFACT_SCHEMA_VERSION = ''v1''"

record canonical_artifact =
  art_kind :: artifact_kind
  art_document :: "(string \<times> canonical) list"

record artifact_money =
  am_currency :: string
  am_minorUnits :: int

definition moneyDoc :: "artifact_money \<Rightarrow> canonical" where
  "moneyDoc m = CA_Obj [(''currency'', CA_Str (am_currency m)), (''minor_units'', CA_Big (am_minorUnits m))]"

definition text_or_none :: "string option \<Rightarrow> canonical" where
  "text_or_none t = (case t of None \<Rightarrow> CA_Null | Some s \<Rightarrow> CA_Str s)"

record beneficiary_snapshot =
  bs_displayName :: string
  bs_legalName :: "string option"
  bs_country :: string
  bs_destinationKind :: string
  bs_accountNumberLast4 :: "string option"
  bs_ifsc :: "string option"
  bs_vpa :: "string option"
  bs_accountHolderName :: "string option"
  bs_destinationVersionId :: string

record receipt_content =
  rc_receiptId :: string
  rc_settlementId :: string
  rc_settlementIdDisplay :: string
  rc_workspaceId :: string
  rc_environment :: string
  rc_beneficiarySnapshot :: beneficiary_snapshot
  rc_recipientAmount :: artifact_money
  rc_deliveredAmount :: "artifact_money option"
  rc_fundingAmount :: artifact_money
  rc_fxRate :: string
  rc_feeComponents :: "(string \<times> artifact_money) list"
  rc_roundingResidual :: artifact_money
  rc_purpose :: string
  rc_externalReference :: "string option"
  rc_payoutReference :: string
  rc_rail :: string
  rc_reconciliationResult :: string
  rc_finalStatus :: string
  rc_authorizedTermsHash :: string
  rc_createdAt :: string
  rc_authorizedAt :: string
  rc_creditedAt :: string
  rc_settledAt :: string

definition snapshot_doc :: "beneficiary_snapshot \<Rightarrow> canonical" where
  "snapshot_doc b =
     CA_Obj
       [(''display_name'', CA_Str (bs_displayName b)), (''legal_name'', text_or_none (bs_legalName b)),
        (''country'', CA_Str (bs_country b)), (''destination_kind'', CA_Str (bs_destinationKind b)),
        (''account_number_last4'', text_or_none (bs_accountNumberLast4 b)), (''ifsc'', text_or_none (bs_ifsc b)),
        (''vpa'', text_or_none (bs_vpa b)), (''account_holder_name'', text_or_none (bs_accountHolderName b)),
        (''destination_version_id'', CA_Str (bs_destinationVersionId b))]"

definition receiptDocument :: "receipt_content \<Rightarrow> canonical_artifact" where
  "receiptDocument c =
     \<lparr>art_kind = Settlement_Receipt,
      art_document =
        [(''artifact'', CA_Str ''settlement_receipt''), (''schema'', CA_Str ARTIFACT_SCHEMA_VERSION),
         (''id'', CA_Str (rc_receiptId c)), (''settlement_id'', CA_Str (rc_settlementId c)),
         (''settlement_id_display'', CA_Str (rc_settlementIdDisplay c)),
         (''workspace_id'', CA_Str (rc_workspaceId c)), (''environment'', CA_Str (rc_environment c)),
         (''beneficiary_snapshot'', snapshot_doc (rc_beneficiarySnapshot c)),
         (''recipient_amount'', moneyDoc (rc_recipientAmount c)),
         (''delivered_amount'', case rc_deliveredAmount c of None \<Rightarrow> CA_Null | Some m \<Rightarrow> moneyDoc m),
         (''funding_amount'', moneyDoc (rc_fundingAmount c)), (''fx_rate'', CA_Str (rc_fxRate c)),
         (''fee_components'', CA_Arr (map (\<lambda>(k, m). CA_Obj [(''kind'', CA_Str k), (''amount'', moneyDoc m)]) (rc_feeComponents c))),
         (''rounding_residual'', moneyDoc (rc_roundingResidual c)), (''purpose'', CA_Str (rc_purpose c)),
         (''external_reference'', text_or_none (rc_externalReference c)),
         (''payout_reference'', CA_Str (rc_payoutReference c)), (''rail'', CA_Str (rc_rail c)),
         (''reconciliation_result'', CA_Str (rc_reconciliationResult c)), (''final_status'', CA_Str (rc_finalStatus c)),
         (''authorized_terms_hash'', CA_Str (rc_authorizedTermsHash c)), (''created_at'', CA_Str (rc_createdAt c)),
         (''authorized_at'', CA_Str (rc_authorizedAt c)), (''credited_at'', CA_Str (rc_creditedAt c)),
         (''settled_at'', CA_Str (rc_settledAt c))]\<rparr>"

record return_notice_content =
  rn_noticeId :: string
  rn_returnId :: string
  rn_settlementId :: string
  rn_receiptId :: string
  rn_workspaceId :: string
  rn_environment :: string
  rn_amount :: artifact_money
  rn_reasonCode :: string
  rn_reasonMessage :: string
  rn_returnStatusAtIssue :: string
  rn_providerReturnReference :: string
  rn_createdAt :: string

definition returnNoticeDocument :: "return_notice_content \<Rightarrow> string \<Rightarrow> canonical_artifact" where
  "returnNoticeDocument c receiptContentHash =
     \<lparr>art_kind = Return_Notice,
      art_document =
        [(''artifact'', CA_Str ''return_notice''), (''schema'', CA_Str ARTIFACT_SCHEMA_VERSION),
         (''id'', CA_Str (rn_noticeId c)), (''return_id'', CA_Str (rn_returnId c)),
         (''settlement_id'', CA_Str (rn_settlementId c)), (''receipt_id'', CA_Str (rn_receiptId c)),
         (''receipt_content_hash'', CA_Str receiptContentHash), (''workspace_id'', CA_Str (rn_workspaceId c)),
         (''environment'', CA_Str (rn_environment c)), (''amount'', moneyDoc (rn_amount c)),
         (''reason_code'', CA_Str (rn_reasonCode c)), (''reason_message'', CA_Str (rn_reasonMessage c)),
         (''return_status_at_issue'', CA_Str (rn_returnStatusAtIssue c)),
         (''provider_return_reference'', CA_Str (rn_providerReturnReference c)),
         (''created_at'', CA_Str (rn_createdAt c))]\<rparr>"

type_synonym source_document = "(string \<times> canonical) list \<times> string"

record composite_input =
  ci_compositeId :: string
  ci_settlementId :: string
  ci_workspaceId :: string
  ci_environment :: string
  ci_createdAt :: string
  ci_receipt :: source_document
  ci_notices :: "source_document list"

definition source_doc :: "source_document \<Rightarrow> canonical" where
  "source_doc s = CA_Obj [(''content_hash'', CA_Str (snd s)), (''document'', CA_Obj (fst s))]"

text \<open>
  \<open>String(document['id'] ?? '')\<close>. The documents are those of the two builders above, whose \<open>id\<close> is a text;
  on a document whose \<open>id\<close> is anything else the key here is the empty text.
\<close>

definition document_key :: "source_document \<Rightarrow> string" where
  "document_key s = (case map_of (fst s) ''id'' of Some (CA_Str i) \<Rightarrow> i | _ \<Rightarrow> [])"

definition compositeDocument :: "composite_input \<Rightarrow> canonical_artifact" where
  "compositeDocument input =
     \<lparr>art_kind = Receipt_Composite,
      art_document =
        [(''artifact'', CA_Str ''receipt_composite''), (''schema'', CA_Str ARTIFACT_SCHEMA_VERSION),
         (''id'', CA_Str (ci_compositeId input)), (''settlement_id'', CA_Str (ci_settlementId input)),
         (''workspace_id'', CA_Str (ci_workspaceId input)), (''environment'', CA_Str (ci_environment input)),
         (''created_at'', CA_Str (ci_createdAt input)), (''receipt'', source_doc (ci_receipt input)),
         (''return_notices'', CA_Arr (map source_doc (sort_key document_key (ci_notices input))))]\<rparr>"

section \<open>Hashes\<close>

definition CONTENT_HASH_PREFIX :: string where "CONTENT_HASH_PREFIX = ''sha256:''"

definition canonicalBytes :: "canonical_artifact \<Rightarrow> string option" where
  "canonicalBytes a = canonicalize (CA_Obj (art_document a))"

definition contentHash :: "(string \<Rightarrow> string) \<Rightarrow> canonical_artifact \<Rightarrow> string option" where
  "contentHash sha256 a = map_option (\<lambda>b. CONTENT_HASH_PREFIX @ sha256 b) (canonicalBytes a)"

definition verifyContentHash :: "(string \<Rightarrow> string) \<Rightarrow> canonical_artifact \<Rightarrow> string \<Rightarrow> bool option" where
  "verifyContentHash sha256 a expected = map_option (\<lambda>h. h = expected) (contentHash sha256 a)"

section \<open>The request fingerprint\<close>

definition FINGERPRINT_VERSION :: string where "FINGERPRINT_VERSION = ''v1''"

record fingerprint_input =
  fp_method :: string
  fp_path :: string
  fp_apiVersion :: string
  fp_body :: "canonical option"

text \<open>\<open>out[k] = v\<close> on an object literal: an own property, unless the key is \<open>__proto__\<close>.\<close>

fun store_property :: "string \<Rightarrow> 'a \<Rightarrow> (string \<times> 'a) list \<Rightarrow> (string \<times> 'a) list" where
  "store_property k v [] = (if k = ''__proto__'' then [] else [(k, v)])"
| "store_property k v ((k', v') # es) =
     (if k = k' then (k, v) # es else (k', v') # store_property k v es)"

fun normalise :: "(string \<Rightarrow> string) \<Rightarrow> canonical \<Rightarrow> canonical" where
  "normalise nfc (CA_Str s) = CA_Str (nfc s)"
| "normalise nfc (CA_Arr vs) = CA_Arr (map (normalise nfc) vs)"
| "normalise nfc (CA_Obj es) =
     CA_Obj (foldl (\<lambda>out (k, v). store_property (nfc k) v out) [] (map (\<lambda>(k, v). (k, normalise nfc v)) es))"
| "normalise nfc v = v"

definition fingerprintPreimage :: "(string \<Rightarrow> string) \<Rightarrow> fingerprint_input \<Rightarrow> string option" where
  "fingerprintPreimage nfc i =
     canonicalize (normalise nfc (CA_Obj
       [(''v'', CA_Str FINGERPRINT_VERSION), (''method'', CA_Str (map upper_char (fp_method i))),
        (''path'', CA_Str (fp_path i)), (''api_version'', CA_Str (fp_apiVersion i)),
        (''body'', case fp_body i of None \<Rightarrow> CA_Null | Some b \<Rightarrow> b)]))"

section \<open>What the text says\<close>

text \<open>
  The content of a value: the JSON value with sorted keys, big integers as their digits; none where the
  value has no serialisation.
\<close>

fun canonical_json :: "canonical \<Rightarrow> json option" where
  "canonical_json CA_Null = Some JNull"
| "canonical_json CA_Undefined = None"
| "canonical_json CA_Nonfinite = None"
| "canonical_json (CA_Bool b) = Some (JBool b)"
| "canonical_json (CA_Num n) = Some (JNum n)"
| "canonical_json (CA_Big n) = Some (JStr (string_of_int n))"
| "canonical_json (CA_Str s) = Some (JStr s)"
| "canonical_json (CA_Arr vs) = map_option JArr (those (map canonical_json vs))"
| "canonical_json (CA_Obj es) =
     map_option JObj (those (map (\<lambda>(k, t). map_option (Pair k) t) (sort_key fst (map (\<lambda>(k, v). (k, canonical_json v)) es))))"

lemma those_map_option: "those (map (\<lambda>x. map_option f (g x)) xs) = map_option (map f) (those (map g xs))"
  by (induction xs) (auto simp: option.map_comp comp_def split: option.splits)

lemma insort_map: "insort_key f (g x) (map g xs) = map g (insort_key (\<lambda>y. f (g y)) x xs)"
  by (induction xs) simp_all

lemma sort_map: "sort_key f (map g xs) = map g (sort_key (\<lambda>y. f (g y)) xs)"
  by (induction xs) (simp_all add: insort_map)

lemma sort_entries: "sort_key fst (map (\<lambda>(k, v). (k, g v)) es) = map (\<lambda>(k, v). (k, g v)) (sort_key fst es)"
  by (simp add: sort_map comp_def case_prod_unfold)

lemma object_entries:
  "canonicalize (CA_Obj es) = map_option (\<lambda>ts. CHR ''{'' # comma_join ts @ ''}'')
     (those (map (\<lambda>(k, v). map_option (\<lambda>x. quote_string k @ CHR '':'' # x) (canonicalize v)) (sort_key fst es)))"
  "canonical_json (CA_Obj es) =
     map_option JObj (those (map (\<lambda>(k, v). map_option (Pair k) (canonical_json v)) (sort_key fst es)))"
  unfolding canonicalize.simps canonical_json.simps sort_entries by (simp_all add: comp_def case_prod_unfold)

lemma canonicalize_writes: "canonicalize v = map_option stringify (canonical_json v)"
proof (induction v rule: canonicalize.induct)
  case (8 vs)
  then have "map canonicalize vs = map (\<lambda>v. map_option stringify (canonical_json v)) vs" by simp
  then show ?case by (simp only: canonicalize.simps canonical_json.simps those_map_option option.map_comp comp_def stringify.simps)
next
  case (9 es)
  let ?sorted = "sort_key fst es"
  have IH: "canonicalize v = map_option stringify (canonical_json v)" if "(k, v) \<in> set ?sorted" for k v
    using 9 that by (simp add: case_prod_unfold)
  have "map (\<lambda>(k, v). map_option (\<lambda>x. quote_string k @ CHR '':'' # x) (canonicalize v)) ?sorted =
      map (\<lambda>e. map_option (\<lambda>(k, v). quote_string k @ CHR '':'' # stringify v) ((\<lambda>(k, v). map_option (Pair k) (canonical_json v)) e)) ?sorted"
    using IH by (auto simp: option.map_comp comp_def)
  then have "those (map (\<lambda>(k, v). map_option (\<lambda>x. quote_string k @ CHR '':'' # x) (canonicalize v)) ?sorted) =
      map_option (map (\<lambda>(k, v). quote_string k @ CHR '':'' # stringify v))
        (those (map (\<lambda>(k, v). map_option (Pair k) (canonical_json v)) ?sorted))"
    by (simp only: those_map_option)
  then show ?case by (simp only: object_entries option.map_comp comp_def stringify.simps)
qed simp_all

text \<open>An object is the same whatever the order of its keys.\<close>

lemma canonical_order:
  assumes "mset es = mset fs" "distinct (map fst fs)"
  shows "canonical_json (CA_Obj es) = canonical_json (CA_Obj fs)"
proof -
  have "inj_on fst (set fs)" using assms(2) by (simp add: distinct_map)
  then have "sort_key fst es = sort_key fst fs"
    using assms(1) mset_eq_setD [OF assms(1)] by (intro sort_key_inj_key_eq) simp_all
  then show ?thesis by (simp only: object_entries)
qed

primrec one_key_each :: "canonical \<Rightarrow> bool" where
  "one_key_each CA_Null = True"
| "one_key_each CA_Undefined = True"
| "one_key_each CA_Nonfinite = True"
| "one_key_each (CA_Bool b) = True"
| "one_key_each (CA_Num n) = True"
| "one_key_each (CA_Big n) = True"
| "one_key_each (CA_Str s) = True"
| "one_key_each (CA_Arr vs) = list_all id (map one_key_each vs)"
| "one_key_each (CA_Obj es) = (distinct (map fst es) \<and> list_all snd (map (map_prod id one_key_each) es))"

lemma those_Some: "those xs = Some ys \<longleftrightarrow> xs = map Some ys"
proof (induction xs arbitrary: ys)
  case (Cons x xs)
  then show ?case by (cases ys) (auto split: option.splits)
qed auto

lemma entries_those:
  assumes "map (\<lambda>(k, v). map_option (Pair k) (g v)) es = map Some fs"
  shows "map fst fs = map fst es" "\<forall>f\<in>set fs. \<exists>v. (fst f, v) \<in> set es \<and> g v = Some (snd f)"
proof -
  have "\<exists>v. e = (fst f, v) \<and> g v = Some (snd f)" if "i < length es" "e = es ! i" "f = fs ! i" for i e f
  proof -
    have "length fs = length es" using arg_cong [OF assms, of length] by simp
    with that arg_cong [OF assms, of "\<lambda>l. l ! i"] have "(\<lambda>(k, v). map_option (Pair k) (g v)) e = Some f" by simp
    then show ?thesis by (cases e) auto
  qed
  moreover have len: "length fs = length es" using arg_cong [OF assms, of length] by simp
  ultimately have each: "\<exists>v. es ! i = (fst (fs ! i), v) \<and> g v = Some (snd (fs ! i))" if "i < length es" for i
    using that by blast
  then show "map fst fs = map fst es" using len by (intro nth_equalityI) (auto, metis fst_conv)
  show "\<forall>f\<in>set fs. \<exists>v. (fst f, v) \<in> set es \<and> g v = Some (snd f)"
    using each len by (metis in_set_conv_nth nth_mem)
qed

lemma content_written_once: "one_key_each v \<Longrightarrow> canonical_json v = Some j \<Longrightarrow> written_once j"
proof (induction v arbitrary: j)
  case (CA_Arr vs)
  then obtain js where js: "j = JArr js" "map canonical_json vs = map Some js" by (auto simp: those_Some)
  have "written_once x" if "x \<in> set js" for x
  proof -
    from that js(2) have "Some x \<in> set (map canonical_json vs)" by simp
    then obtain v where "v \<in> set vs" "canonical_json v = Some x" by auto
    with CA_Arr show ?thesis by (simp add: list_all_iff)
  qed
  then show ?case by (simp add: js(1) list_all_iff)
next
  case (CA_Obj es)
  then obtain js where js: "j = JObj js" "map (\<lambda>(k, v). map_option (Pair k) (canonical_json v)) (sort_key fst es) = map Some js"
    unfolding object_entries by (auto simp: those_Some)
  from entries_those [OF js(2)] have keys: "map fst js = map fst (sort_key fst es)"
    and vals: "\<forall>f\<in>set js. \<exists>v. (fst f, v) \<in> set es \<and> canonical_json v = Some (snd f)" by simp_all
  have "mset (map fst (sort_key fst es)) = mset (map fst es)" by simp
  then have "distinct (map fst js)"
    using CA_Obj.prems(1) mset_eq_imp_distinct_iff [of "map fst (sort_key fst es)" "map fst es"] by (simp add: keys)
  moreover have "written_once (snd f)" if f: "f \<in> set js" for f
  proof -
    from vals f obtain v where v: "(fst f, v) \<in> set es" "canonical_json v = Some (snd f)" by blast
    then have "one_key_each v" using CA_Obj.prems(1) by (force simp: list_all_iff)
    with CA_Obj.IH [OF v(1) _ _ v(2)] show ?thesis by simp
  qed
  ultimately show ?case by (auto simp: js(1) list_all_iff)
qed auto

lemma same_text_same_content:
  assumes "one_key_each v" "one_key_each w"
  shows "canonicalize v = canonicalize w \<longleftrightarrow> canonical_json v = canonical_json w"
proof
  assume eq: "canonicalize v = canonicalize w"
  show "canonical_json v = canonical_json w"
  proof (cases "canonical_json v")
    case None
    with eq show ?thesis by (simp add: canonicalize_writes)
  next
    case (Some a)
    with eq obtain b where "canonical_json w = Some b" "stringify a = stringify b"
      by (cases "canonical_json w") (simp_all add: canonicalize_writes)
    with Some content_written_once [OF assms(1) Some] content_written_once [OF assms(2)] stringify_inj [of a b] show ?thesis by simp
  qed
qed (simp add: canonicalize_writes)

section \<open>What the documents promise\<close>

text \<open>
  Bytes are content: two values whose objects have each key once get the same text exactly if they have
  the same content, where the order of keys is no content; and the hash of an artifact is the hash of
  that text, so a stored artifact verifies against a hash exactly if its content was hashed to it.
\<close>

theorem canonical_bytes_are_content:
  assumes "one_key_each (CA_Obj (art_document a))" "one_key_each (CA_Obj (art_document b))"
  shows "(canonicalBytes a = canonicalBytes b \<longleftrightarrow>
      canonical_json (CA_Obj (art_document a)) = canonical_json (CA_Obj (art_document b))) \<and>
    (mset (art_document a) = mset (art_document b) \<longrightarrow> canonicalBytes a = canonicalBytes b \<and>
      verifyContentHash h a x = verifyContentHash h b x)"
proof -
  have "distinct (map fst (art_document b))" using assms(2) by simp
  with canonical_order [of "art_document a" "art_document b"] same_text_same_content [OF assms]
  show ?thesis by (auto simp: canonicalBytes_def verifyContentHash_def contentHash_def simp del: canonicalize.simps canonical_json.simps)
qed

definition sample_artifact :: canonical_artifact where
  "sample_artifact = \<lparr>art_kind = Return_Notice, art_document = [(''id'', CA_Str ''rn_1''), (''amount'', moneyDoc \<lparr>am_currency = ''INR'', am_minorUnits = 5\<rparr>)]\<rparr>"

theorem canonical_bytes_are_content_witness:
  "canonicalBytes (sample_artifact\<lparr>art_document := rev (art_document sample_artifact)\<rparr>) = canonicalBytes sample_artifact"
proof -
  let ?a = "sample_artifact\<lparr>art_document := rev (art_document sample_artifact)\<rparr>"
  have "one_key_each (CA_Obj (art_document ?a))" "one_key_each (CA_Obj (art_document sample_artifact))"
    by (simp_all add: sample_artifact_def moneyDoc_def)
  from canonical_bytes_are_content [OF this] show ?thesis by (simp add: sample_artifact_def)
qed

text \<open>
  The composite is the same artifact however the caller ordered the notices, as long as no two of them
  have one id.
\<close>

theorem composite_order_irrelevant:
  assumes "mset notices = mset (ci_notices input)" "distinct (map document_key notices)"
  shows "compositeDocument (input\<lparr>ci_notices := notices\<rparr>) = compositeDocument input"
proof -
  have "inj_on document_key (set notices)" using assms(2) by (simp add: distinct_map)
  then have "sort_key document_key notices = sort_key document_key (ci_notices input)"
    using assms(1) mset_eq_setD [OF assms(1)] by (intro sort_key_inj_key_eq) simp_all
  then show ?thesis by (simp add: compositeDocument_def)
qed

section \<open>What the fingerprint promises\<close>

lemma store_property_keys:
  "distinct (map fst es) \<Longrightarrow> distinct (map fst (store_property k v es))"
  "set (map fst (store_property k v es)) \<subseteq> insert k (set (map fst es))"
  "e \<in> set (store_property k v es) \<Longrightarrow> e = (k, v) \<or> e \<in> set es"
  by (induction k v es rule: store_property.induct) (auto split: if_splits)

lemma stored_entries:
  assumes "distinct (map fst out)" "\<forall>e\<in>set out. P (snd e)" "\<forall>e\<in>set es. P (snd e)"
  shows "distinct (map fst (foldl (\<lambda>out (k, v). store_property (nfc k) v out) out es)) \<and>
    (\<forall>e\<in>set (foldl (\<lambda>out (k, v). store_property (nfc k) v out) out es). P (snd e))"
  using assms
proof (induction es arbitrary: out)
  case (Cons e es)
  obtain k v where e: "e = (k, v)" by (cases e)
  have "distinct (map fst (store_property (nfc k) v out))" using Cons.prems(1) by (rule store_property_keys(1))
  moreover have "\<forall>e\<in>set (store_property (nfc k) v out). P (snd e)"
    using Cons.prems(2,3) store_property_keys(3) [of _ "nfc k" v out] by (fastforce simp: e)
  ultimately show ?case using Cons.IH Cons.prems(3) by (simp add: e)
qed simp

lemma normalised_keys: "one_key_each (normalise nfc v)"
proof (induction nfc v rule: normalise.induct)
  case (3 nfc es)
  have "\<forall>e\<in>set (map (\<lambda>(k, v). (k, normalise nfc v)) es). one_key_each (snd e)"
    using 3 by auto
  from stored_entries [of "[]", OF _ _ this, of nfc] show ?case by (simp add: list_all_iff)
qed (simp_all add: list_all_iff)

text \<open>
  No false replay: two requests with one preimage agree in their method, their path, their version and the
  content of their bodies, each after normalisation. Equal contents give equal preimages.
\<close>

theorem fingerprint_identifies_request:
  assumes ascii: "\<forall>s \<in> {''v'', ''method'', ''path'', ''api_version'', ''body''}. nfc s = s"
  shows "fingerprintPreimage nfc a = fingerprintPreimage nfc b \<and> fingerprintPreimage nfc b \<noteq> None \<longleftrightarrow>
    nfc (map upper_char (fp_method a)) = nfc (map upper_char (fp_method b)) \<and> nfc (fp_path a) = nfc (fp_path b) \<and>
    nfc (fp_apiVersion a) = nfc (fp_apiVersion b) \<and>
    canonical_json (normalise nfc (case fp_body a of None \<Rightarrow> CA_Null | Some v \<Rightarrow> v)) =
      canonical_json (normalise nfc (case fp_body b of None \<Rightarrow> CA_Null | Some v \<Rightarrow> v)) \<and>
    canonical_json (normalise nfc (case fp_body b of None \<Rightarrow> CA_Null | Some v \<Rightarrow> v)) \<noteq> None"
proof -
  define body where "body i = normalise nfc (case fp_body i of None \<Rightarrow> CA_Null | Some v \<Rightarrow> v)" for i :: fingerprint_input
  define doc where "doc i = normalise nfc (CA_Obj
       [(''v'', CA_Str FINGERPRINT_VERSION), (''method'', CA_Str (map upper_char (fp_method i))),
        (''path'', CA_Str (fp_path i)), (''api_version'', CA_Str (fp_apiVersion i)),
        (''body'', case fp_body i of None \<Rightarrow> CA_Null | Some v \<Rightarrow> v)])" for i :: fingerprint_input
  have pre: "fingerprintPreimage nfc i = canonicalize (doc i)" for i by (simp only: fingerprintPreimage_def doc_def)
  have keys: "nfc ''v'' = ''v''" "nfc ''method'' = ''method''" "nfc ''path'' = ''path''" "nfc ''api_version'' = ''api_version''"
      "nfc ''body'' = ''body''"
    using ascii by blast+
  have doc: "doc i = CA_Obj [(''v'', CA_Str (nfc FINGERPRINT_VERSION)), (''method'', CA_Str (nfc (map upper_char (fp_method i)))),
      (''path'', CA_Str (nfc (fp_path i))), (''api_version'', CA_Str (nfc (fp_apiVersion i))), (''body'', body i)]" for i
    by (simp add: doc_def body_def keys)
  have "canonical_json (doc i) = map_option (\<lambda>j. JObj [(''api_version'', JStr (nfc (fp_apiVersion i))), (''body'', j),
      (''method'', JStr (nfc (map upper_char (fp_method i)))), (''path'', JStr (nfc (fp_path i))),
      (''v'', JStr (nfc FINGERPRINT_VERSION))]) (canonical_json (body i))" for i
    by (cases "canonical_json (body i)") (simp_all add: doc)
  moreover have "canonicalize (doc a) = canonicalize (doc b) \<longleftrightarrow> canonical_json (doc a) = canonical_json (doc b)"
    unfolding doc_def by (intro same_text_same_content normalised_keys)
  moreover have "canonicalize (doc b) = None \<longleftrightarrow> canonical_json (doc b) = None" by (simp add: canonicalize_writes)
  ultimately show ?thesis
    unfolding pre body_def [symmetric] by (cases "canonical_json (body a)"; cases "canonical_json (body b)") auto
qed

definition sample_fingerprint :: fingerprint_input where
  "sample_fingerprint =
     \<lparr>fp_method = ''post'', fp_path = ''/v1/settlements'', fp_apiVersion = ''2026-08-31'',
      fp_body = Some (CA_Obj [(''b'', CA_Num 1), (''a'', CA_Str ''x'')])\<rparr>"

theorem fingerprint_identifies_request_witness:
  "fingerprintPreimage id sample_fingerprint =
   fingerprintPreimage id (sample_fingerprint\<lparr>fp_method := ''POST'', fp_body := Some (CA_Obj [(''a'', CA_Str ''x''), (''b'', CA_Num 1)])\<rparr>)"
proof -
  let ?b = "sample_fingerprint\<lparr>fp_method := ''POST'', fp_body := Some (CA_Obj [(''a'', CA_Str ''x''), (''b'', CA_Num 1)])\<rparr>"
  have "\<forall>s \<in> {''v'', ''method'', ''path'', ''api_version'', ''body''}. id s = s" by simp
  then show ?thesis
    by (rule fingerprint_identifies_request [THEN iffD2, THEN conjunct1]) (simp add: sample_fingerprint_def case_code letter_code)
qed

text \<open>
  A key the normalisation loses: bodies that differ in a property \<open>__proto__\<close> have one fingerprint, so the
  second is answered as a replay of the first.
\<close>

lemma proto_not_fingerprinted:
  "nfc ''__proto__'' = ''__proto__'' \<Longrightarrow>
   fingerprintPreimage nfc (i\<lparr>fp_body := Some (CA_Obj [(''__proto__'', v)])\<rparr>) =
   fingerprintPreimage nfc (i\<lparr>fp_body := Some (CA_Obj [])\<rparr>)"
  by (simp add: fingerprintPreimage_def)

end
