(* ===== verification/Receipt_Template.thy ===== *)
theory Receipt_Template
  imports Artifacts Webhooks
begin

text \<open>
  The receipt template (\<open>packages/domain/src/receipts/template.ts\<close>): a document becomes HTML, every value
  escaped. \<open>None\<close> is the \<open>TypeError\<close> of a value that is no document value; the text of a number that is not
  finite is left to that case, as such a document has no serialisation. The nesting depth the code passes
  along is read by nothing and left out.
\<close>

section \<open>Escaping\<close>

definition replace_char :: "char \<Rightarrow> string \<Rightarrow> string \<Rightarrow> string" where
  "replace_char c r s = concat (map (\<lambda>x. if x = c then r else [x]) s)"

definition escapeHtml :: "string \<Rightarrow> string" where
  "escapeHtml value =
     replace_char (CHR 0x27) ''&#39;''
       (replace_char (CHR 0x22) ''&quot;''
         (replace_char (CHR ''>'') ''&gt;''
           (replace_char (CHR ''<'') ''&lt;''
             (replace_char (CHR ''&'') ''&amp;'' value))))"

section \<open>Fields\<close>

definition humanLabel :: "string \<Rightarrow> string" where
  "humanLabel key =
     (let spaced = map (\<lambda>c. if c = CHR ''_'' then CHR '' '' else c) key in
      map upper_char (take 1 spaced) @ drop 1 spaced)"

definition asMoney :: "canonical \<Rightarrow> money option" where
  "asMoney v =
     (case v of
        CA_Obj es \<Rightarrow>
          (case map_of es ''currency'' of
             Some (CA_Str c) \<Rightarrow>
               (case code_of_string c of
                  None \<Rightarrow> None
                | Some code \<Rightarrow>
                    (case map_of es ''minor_units'' of
                       Some (CA_Str u) \<Rightarrow> map_option (money code) (string_to_bigint u)
                     | Some (CA_Big n) \<Rightarrow> Some (money code n)
                     | _ \<Rightarrow> None))
           | _ \<Rightarrow> None)
      | _ \<Rightarrow> None)"

definition HASH_FIELDS :: "string list" where
  "HASH_FIELDS = [''content_hash'', ''receipt_content_hash'', ''source_content_hash'', ''authorized_terms_hash'']"

definition SUPPRESSED :: "string list" where
  "SUPPRESSED = [''artifact'', ''schema'', ''workspace_id'', ''environment'']"

definition quoted_attribute :: "string \<Rightarrow> string \<Rightarrow> string" where
  "quoted_attribute name v = name @ ''='' @ [CHR 0x22] @ v @ [CHR 0x22]"

definition span_of :: "string \<Rightarrow> string \<Rightarrow> string" where
  "span_of cls body = ''<span '' @ quoted_attribute ''class'' cls @ ''>'' @ body @ ''</span>''"

definition div_of :: "string \<Rightarrow> string \<Rightarrow> string" where
  "div_of cls body = ''<div '' @ quoted_attribute ''class'' cls @ ''>'' @ body @ ''</div>''"

definition is_nested :: "canonical \<Rightarrow> bool" where
  "is_nested v = (case v of CA_Arr _ \<Rightarrow> True | CA_Obj _ \<Rightarrow> True | _ \<Rightarrow> False)"

definition row_markup :: "string \<Rightarrow> bool \<Rightarrow> string \<Rightarrow> string" where
  "row_markup key nested field =
     ''<div '' @ quoted_attribute ''class'' (''row'' @ (if nested then '' row-block'' else [])) @ '' '' @
     quoted_attribute ''data-field'' (escapeHtml key) @ ''>'' @
     div_of ''label'' (escapeHtml (humanLabel key)) @ div_of ''field'' field @ ''</div>''"

definition money_markup :: "money \<Rightarrow> string" where
  "money_markup m = span_of ''money'' (escapeHtml (formatMoney m (if currency m = INR then Indian else International) True))"

text \<open>The field of a value, as a function of the key it stands under; and the rows of a list or an object.\<close>

fun renderValue :: "canonical \<Rightarrow> (string \<Rightarrow> string) option" where
  "renderValue CA_Null = Some (\<lambda>key. span_of ''empty'' ''&mdash;'')"
| "renderValue CA_Undefined = None"
| "renderValue CA_Nonfinite = None"
| "renderValue (CA_Big n) = Some (\<lambda>key. escapeHtml (string_of_int n))"
| "renderValue (CA_Bool b) = Some (\<lambda>key. if b then ''Yes'' else ''No'')"
| "renderValue (CA_Num n) = Some (\<lambda>key. escapeHtml (string_of_int n))"
| "renderValue (CA_Str s) =
     Some (\<lambda>key. span_of (if key \<in> set HASH_FIELDS then ''mono wrap'' else ''value'') (escapeHtml s))"
| "renderValue (CA_Arr vs) =
     (if vs = [] then Some (\<lambda>key. span_of ''empty'' ''None'')
      else map_option (\<lambda>fs key. div_of ''nested'' (concat (map (\<lambda>(i, nested, f).
               row_markup (digits_of_nat (i + 1)) nested (f (digits_of_nat (i + 1)))) (zip [0..<length fs] fs))))
             (those (map (\<lambda>v. map_option (Pair (is_nested v)) (renderValue v)) vs)))"
| "renderValue (CA_Obj es) =
     (case asMoney (CA_Obj es) of
        Some m \<Rightarrow> Some (\<lambda>key. money_markup m)
      | None \<Rightarrow>
          map_option (\<lambda>fs key. div_of ''nested'' (concat (map (\<lambda>(k, nested, f). row_markup k nested (f k)) fs)))
            (those (map (\<lambda>(k, v). map_option (\<lambda>f. (k, is_nested v, f)) (renderValue v)) es)))"

definition renderRow :: "string \<Rightarrow> canonical \<Rightarrow> string option" where
  "renderRow key v = map_option (\<lambda>f. row_markup key (is_nested v) (f key)) (renderValue v)"

section \<open>The document\<close>

primrec TITLES :: "artifact_kind \<Rightarrow> string" where
  "TITLES Settlement_Receipt = ''Settlement receipt''"
| "TITLES Return_Notice = ''Return notice''"
| "TITLES Receipt_Composite = ''Settlement receipt and return notices''"

definition STYLE_LINES :: "string list" where
  \<open>STYLE_LINES =
    [[],
     '':root { color-scheme: light; }'',
     ''* { box-sizing: border-box; }'',
     ''body {'',
     ''  margin: 0; padding: 32px 40px;'',
     ''  font: 10.5px/1.55 -apple-system, "Segoe UI", Roboto, "Helvetica Neue", Arial, sans-serif;'',
     ''  color: #16181d; background: #fff;'',
     ''}'',
     ''header { border-bottom: 2px solid #16181d; padding-bottom: 12px; margin-bottom: 20px; }'',
     ''h1 { margin: 0; font-size: 17px; letter-spacing: -0.01em; }'',
     ''.subject { margin-top: 4px; font-size: 11px; color: #5a6070; }'',
     ''.row { display: flex; gap: 16px; padding: 4px 0; align-items: baseline; }'',
     ''.row-block { display: block; padding-top: 10px; }'',
     ''.label { flex: 0 0 190px; color: #5a6070; }'',
     ''.row-block > .label {'',
     ''  flex: none; font-weight: 600; color: #16181d; text-transform: uppercase;'',
     ''  font-size: 9px; letter-spacing: 0.07em; margin-bottom: 4px;'',
     ''  border-bottom: 1px solid #e3e6ec; padding-bottom: 4px;'',
     ''}'',
     ''.field { flex: 1 1 auto; min-width: 0; }'',
     ''.nested { margin-left: 0; }'',
     ''.nested .label { flex-basis: 174px; }'',
     ''.money { font-variant-numeric: tabular-nums; font-weight: 600; }'',
     ''.mono { font-family: ui-monospace, "SF Mono", Menlo, Consolas, monospace; font-size: 9.5px; }'',
     ''.wrap { overflow-wrap: anywhere; }'',
     ''.empty { color: #9aa1b1; }'',
     ''footer {'',
     ''  margin-top: 24px; padding-top: 12px; border-top: 1px solid #e3e6ec;'',
     ''  font-size: 9.5px; color: #5a6070;'',
     ''}'',
     ''footer .mono { display: block; margin-top: 3px; color: #16181d; }'',
     ''@page { size: A4; margin: 14mm; }'',
     ''@media print { body { padding: 0; } }'',
     []]\<close>

definition STYLE :: string where
  "STYLE = join_with [CHR 0x0A] STYLE_LINES"

definition subject_of :: "(string \<times> canonical) list \<Rightarrow> string" where
  "subject_of doc = (case map_of doc ''settlement_id'' of Some (CA_Str s) \<Rightarrow> s | _ \<Rightarrow> [])"

definition document_head :: "artifact_kind \<Rightarrow> string" where
  "document_head kind =
     ''<!doctype html><html '' @ quoted_attribute ''lang'' ''en'' @ ''><head><meta '' @ quoted_attribute ''charset'' ''utf-8'' @
     ''>'' @ ''<title>'' @ escapeHtml (TITLES kind) @ ''</title>'' @ ''<style>'' @ STYLE @ ''</style></head><body>'' @
     ''<header><h1>'' @ escapeHtml (TITLES kind) @ ''</h1>''"

definition renderReceiptTemplate :: "canonical_artifact \<Rightarrow> string \<Rightarrow> string option" where
  "renderReceiptTemplate a hash =
     map_option (\<lambda>rows.
         document_head (art_kind a) @
         (if subject_of (art_document a) \<noteq> []
          then div_of ''subject'' (''Settlement '' @ escapeHtml (subject_of (art_document a))) else []) @
         ''</header>'' @ ''<main>'' @ concat rows @ ''</main>'' @
         ''<footer>This document is identified by the hash of its canonical serialisation.'' @
         span_of ''mono'' (escapeHtml hash) @ ''</footer>'' @ ''</body></html>'')
       (those (map (\<lambda>(k, v). renderRow k v) (filter (\<lambda>(k, v). k \<notin> set SUPPRESSED) (art_document a))))"

section \<open>Nothing escapes\<close>

definition html_char :: "char \<Rightarrow> string" where
  "html_char c =
     (if c = CHR ''&'' then ''&amp;'' else if c = CHR ''<'' then ''&lt;'' else if c = CHR ''>'' then ''&gt;''
      else if c = CHR 0x22 then ''&quot;'' else if c = CHR 0x27 then ''&#39;'' else [c])"

lemma replace_char_simps:
  "replace_char c r [] = []" "replace_char c r (x # s) = (if x = c then r else [x]) @ replace_char c r s"
  "replace_char c r (s @ t) = replace_char c r s @ replace_char c r t"
  by (simp_all add: replace_char_def)

lemma escape_once: "escapeHtml s = concat (map html_char s)"
  by (induction s) (auto simp: escapeHtml_def html_char_def replace_char_simps)

lemma html_char_first: "html_char a @ x = html_char b @ y \<Longrightarrow> a = b \<and> x = y"
  by (auto simp: html_char_def split: if_splits)

text \<open>Different values stay different on the page, and a value is shown without a mark of the markup.\<close>

theorem escape_faithful:
  "(escapeHtml s = escapeHtml t \<longleftrightarrow> s = t) \<and> set (escapeHtml s) \<inter> {CHR ''<'', CHR ''>'', CHR 0x22, CHR 0x27} = {}"
proof
  have "html_char c \<noteq> []" for c by (simp add: html_char_def)
  then have "concat (map html_char s) = concat (map html_char t) \<Longrightarrow> s = t"
  proof (induction s arbitrary: t)
    case (Cons c s)
    then show ?case by (cases t) (auto dest!: html_char_first)
  qed auto
  then show "escapeHtml s = escapeHtml t \<longleftrightarrow> s = t" by (auto simp: escape_once)
  have "set (html_char c) \<inter> {CHR ''<'', CHR ''>'', CHR 0x22, CHR 0x27} = {}" for c by (auto simp: html_char_def)
  then show "set (escapeHtml s) \<inter> {CHR ''<'', CHR ''>'', CHR 0x22, CHR 0x27} = {}" by (auto simp: escape_once)
qed

text \<open>The markup of a page: its text from each opening to the next closing bracket.\<close>

fun tags :: "bool \<Rightarrow> string \<Rightarrow> string" where
  "tags inside [] = []"
| "tags inside (c # s) =
     (if inside then c # tags (c \<noteq> CHR ''>'') s else if c = CHR ''<'' then c # tags True s else tags False s)"

fun open_after :: "bool \<Rightarrow> string \<Rightarrow> bool" where
  "open_after inside [] = inside"
| "open_after inside (c # s) = open_after (if inside then c \<noteq> CHR ''>'' else c = CHR ''<'') s"

lemma tags_append: "tags i (s @ t) = tags i s @ tags (open_after i s) t"
  by (induction s arbitrary: i) simp_all

lemma open_append: "open_after i (s @ t) = open_after (open_after i s) t"
  by (induction s arbitrary: i) simp_all

lemma plain_text: "CHR ''<'' \<notin> set s \<Longrightarrow> tags False s = [] \<and> \<not> open_after False s"
  by (induction s) auto

lemma inside_text: "CHR ''>'' \<notin> set s \<Longrightarrow> tags True s = s \<and> open_after True s"
  by (induction s) auto

lemma escaped_text:
  "tags False (escapeHtml s) = []" "\<not> open_after False (escapeHtml s)"
  "tags True (escapeHtml s) = escapeHtml s" "open_after True (escapeHtml s)"
  using plain_text [of "escapeHtml s"] inside_text [of "escapeHtml s"] escape_faithful [of s s] by auto

definition same_markup :: "string \<Rightarrow> string \<Rightarrow> bool" where
  "same_markup s t \<longleftrightarrow> \<not> open_after False s \<and> \<not> open_after False t \<and> tags False s = tags False t"

lemma same_markup_append: "same_markup s t \<Longrightarrow> same_markup s' t' \<Longrightarrow> same_markup (s @ s') (t @ t')"
  by (simp add: same_markup_def tags_append open_append)

lemma same_markup_concat: "list_all2 same_markup ss ts \<Longrightarrow> same_markup (concat ss) (concat ts)"
proof (induction rule: list_all2_induct)
  case Nil
  then show ?case by (simp add: same_markup_def)
qed (simp add: same_markup_append)

lemma same_markup_plain: "CHR ''<'' \<notin> set s \<Longrightarrow> CHR ''<'' \<notin> set t \<Longrightarrow> same_markup s t"
  by (simp add: same_markup_def plain_text)

lemma same_markup_escaped: "same_markup (escapeHtml s) (escapeHtml t)"
  by (simp add: same_markup_def escaped_text)

lemma same_markup_wrap:
  assumes "same_markup s t" "CHR ''>'' \<notin> set cls"
  shows "same_markup (span_of cls s) (span_of cls t)" "same_markup (div_of cls s) (div_of cls t)"
  using assms inside_text [OF assms(2)]
  by (simp_all add: same_markup_def span_of_def div_of_def quoted_attribute_def tags_append open_append)

lemma same_markup_row: "same_markup s t \<Longrightarrow> same_markup (row_markup key nested s) (row_markup key nested t)"
  by (simp add: row_markup_def same_markup_def div_of_def quoted_attribute_def tags_append open_append escaped_text)

text \<open>The layout of a value: its keys and which of its parts are lists, objects, texts or amounts.\<close>

fun layout :: "canonical \<Rightarrow> canonical" where
  "layout (CA_Bool b) = CA_Bool False"
| "layout (CA_Num n) = CA_Num 0"
| "layout (CA_Big n) = CA_Big 0"
| "layout (CA_Str s) = CA_Str []"
| "layout (CA_Arr vs) = CA_Arr (map layout vs)"
| "layout (CA_Obj es) =
     (case asMoney (CA_Obj es) of
        Some m \<Rightarrow> moneyDoc \<lparr>am_currency = ''INR'', am_minorUnits = 0\<rparr>
      | None \<Rightarrow> CA_Obj (map (\<lambda>(k, v). (k, layout v)) es))"
| "layout v = v"

lemma layout_nested [simp]: "is_nested (layout v) = is_nested v"
  by (cases v) (auto simp: is_nested_def moneyDoc_def split: option.splits)

lemma layout_not_money: "asMoney (CA_Obj (map (\<lambda>(k, v). (k, layout v)) es)) = None"
proof -
  have "code_of_string [] = None" by (simp add: code_of_string_def CURRENCIES_def)
  moreover have "map_of (map (\<lambda>(k, v). (k, layout v)) es) k = map_option layout (map_of es k)" for k
    by (simp add: map_of_map)
  moreover have "layout v = CA_Str c \<longleftrightarrow> c = [] \<and> (\<exists>s. v = CA_Str s)" for v c
    by (cases v) (auto simp: moneyDoc_def split: option.splits)
  ultimately show ?thesis by (auto simp: asMoney_def split: option.splits canonical.splits)
qed

lemma those_rel: "list_all2 (rel_option R) xs ys \<Longrightarrow> rel_option (list_all2 R) (those xs) (those ys)"
proof (induction rule: list_all2_induct)
  case (Cons x xs y ys)
  then show ?case by (cases x; cases y; cases "those xs"; cases "those ys") simp_all
qed simp

lemma money_markup_plain: "same_markup (money_markup m) (money_markup n)"
  unfolding money_markup_def by (intro same_markup_wrap same_markup_escaped) simp

abbreviation same_fields :: "(string \<Rightarrow> string) option \<Rightarrow> (string \<Rightarrow> string) option \<Rightarrow> bool" where
  "same_fields \<equiv> rel_option (\<lambda>f g. \<forall>key. same_markup (f key) (g key))"

lemma list_fields:
  assumes "list_all2 (\<lambda>(a, f) (b, g). a = b \<and> (\<forall>key. same_markup (f key) (g key))) fs gs"
  shows "same_markup (concat (map (\<lambda>(i, nested, f). row_markup (digits_of_nat (Suc i)) nested (f (digits_of_nat (Suc i)))) (zip [0..<length fs] fs)))
    (concat (map (\<lambda>(i, nested, f). row_markup (digits_of_nat (Suc i)) nested (f (digits_of_nat (Suc i)))) (zip [0..<length gs] gs)))"
proof (rule same_markup_concat)
  have "length fs = length gs" using assms by (rule list_all2_lengthD)
  with assms show "list_all2 same_markup
      (map (\<lambda>(i, nested, f). row_markup (digits_of_nat (Suc i)) nested (f (digits_of_nat (Suc i)))) (zip [0..<length fs] fs))
      (map (\<lambda>(i, nested, f). row_markup (digits_of_nat (Suc i)) nested (f (digits_of_nat (Suc i)))) (zip [0..<length gs] gs))"
    by (auto simp: list_all2_conv_all_nth case_prod_unfold intro!: same_markup_row)
qed

lemma object_fields:
  assumes "list_all2 (\<lambda>(k, a, f) (l, b, g). k = l \<and> a = b \<and> (\<forall>key. same_markup (f key) (g key))) fs gs"
  shows "same_markup (concat (map (\<lambda>(k, nested, f). row_markup k nested (f k)) fs)) (concat (map (\<lambda>(k, nested, f). row_markup k nested (f k)) gs))"
  using assms
  by (intro same_markup_concat) (auto simp: list_all2_conv_all_nth case_prod_unfold intro!: same_markup_row)

lemma rel_map_option: "rel_option R x y \<Longrightarrow> (\<And>a b. R a b \<Longrightarrow> S (f a) (g b)) \<Longrightarrow> rel_option S (map_option f x) (map_option g y)"
  by (cases x; cases y) simp_all

lemma layout_same_markup: "same_fields (renderValue v) (renderValue (layout v))"
proof (induction v rule: renderValue.induct)
  case (8 vs)
  show ?case
  proof (cases "vs = []")
    case False
    have "list_all2 (rel_option (\<lambda>(a, f) (b, g). a = b \<and> (\<forall>key. same_markup (f key) (g key))))
        (map (\<lambda>v. map_option (Pair (is_nested v)) (renderValue v)) vs)
        (map (\<lambda>v. map_option (Pair (is_nested v)) (renderValue v)) (map layout vs))"
      using 8 False by (auto simp: list_all2_map1 list_all2_map2 intro!: list.rel_refl_strong rel_map_option)
    from those_rel [OF this] False show ?thesis
      by (auto simp del: list.map_comp map_map intro!: rel_map_option same_markup_wrap list_fields)
  qed (simp add: same_markup_wrap(1) same_markup_plain)
next
  case (9 es)
  show ?case
  proof (cases "asMoney (CA_Obj es)")
    case None
    have "list_all2 (rel_option (\<lambda>(k, a, f) (l, b, g). k = l \<and> a = b \<and> (\<forall>key. same_markup (f key) (g key))))
        (map (\<lambda>(k, v). map_option (\<lambda>f. (k, is_nested v, f)) (renderValue v)) es)
        (map (\<lambda>(k, v). map_option (\<lambda>f. (k, is_nested v, f)) (renderValue v)) (map (\<lambda>(k, v). (k, layout v)) es))"
      using 9 None by (force simp: list_all2_map1 list_all2_map2 intro!: list.rel_refl_strong rel_map_option)
    from those_rel [OF this] None show ?thesis
      by (auto simp del: list.map_comp map_map simp: layout_not_money intro!: rel_map_option same_markup_wrap object_fields)
  next
    case (Some m)
    have "asMoney (moneyDoc \<lparr>am_currency = ''INR'', am_minorUnits = 0\<rparr>) = Some (money INR 0)"
      by (simp add: asMoney_def moneyDoc_def code_of_string_def CURRENCIES_def)
    with Some show ?thesis by (simp add: moneyDoc_def money_markup_plain)
  qed
qed (simp_all add: same_markup_wrap(1) same_markup_escaped same_markup_plain)

lemma row_same_markup: "rel_option same_markup (renderRow key v) (renderRow key (layout v))"
  unfolding renderRow_def layout_nested by (rule rel_map_option [OF layout_same_markup]) (simp add: same_markup_row)

lemma rel_same: "rel_option same_markup x y \<Longrightarrow> map_option (tags False) x = map_option (tags False) y"
  by (cases x; cases y) (auto simp: same_markup_def)

lemma same_markup_sym: "same_markup s t \<Longrightarrow> same_markup t s"
  by (simp add: same_markup_def)

lemma same_markup_trans: "same_markup s t \<Longrightarrow> same_markup t u \<Longrightarrow> same_markup s u"
  by (simp add: same_markup_def)

lemma rows_same_markup:
  assumes "map (map_prod id layout) es = map (map_prod id layout) fs"
  shows "rel_option (list_all2 same_markup)
    (those (map (\<lambda>(k, v). renderRow k v) (filter (\<lambda>(k, v). k \<notin> set SUPPRESSED) es)))
    (those (map (\<lambda>(k, v). renderRow k v) (filter (\<lambda>(k, v). k \<notin> set SUPPRESSED) fs)))"
proof (rule those_rel)
  have row: "rel_option same_markup (renderRow k v) (renderRow k w)" if "layout v = layout w" for k v w
  proof -
    have "rel_option same_markup (renderRow k v) (renderRow k (layout w))" using row_same_markup [of k v] by (simp only: that)
    moreover have "rel_option same_markup (renderRow k (layout w)) (renderRow k w)"
      using row_same_markup [of k w] by (cases "renderRow k w"; cases "renderRow k (layout w)") (simp_all add: same_markup_sym)
    ultimately show ?thesis
      by (cases "renderRow k v"; cases "renderRow k w"; cases "renderRow k (layout w)") (auto intro: same_markup_trans)
  qed
  from assms show "list_all2 (rel_option same_markup)
      (map (\<lambda>(k, v). renderRow k v) (filter (\<lambda>(k, v). k \<notin> set SUPPRESSED) es))
      (map (\<lambda>(k, v). renderRow k v) (filter (\<lambda>(k, v). k \<notin> set SUPPRESSED) fs))"
  proof (induction es arbitrary: fs)
    case (Cons e es)
    then obtain f fs' where fs: "fs = f # fs'" by (cases fs) simp_all
    from Cons.prems have "fst e = fst f" "layout (snd e) = layout (snd f)" by (simp_all add: fs map_prod_def case_prod_unfold)
    with Cons.IH [of fs'] Cons.prems row show ?case by (auto simp: fs case_prod_unfold)
  qed simp
qed

text \<open>
  C32. No value can write markup: the tags of a rendered artifact are a function of its kind and its layout.
  Two artifacts of one kind whose documents have the same keys, lists, objects and amounts render to the
  same tags in the same order, whatever their texts and hashes say.
\<close>

theorem markup_is_the_templates:
  assumes "art_kind a = art_kind b" "map (map_prod id layout) (art_document a) = map (map_prod id layout) (art_document b)"
    and "subject_of (art_document a) = [] \<longleftrightarrow> subject_of (art_document b) = []"
  shows "map_option (tags False) (renderReceiptTemplate a h) = map_option (tags False) (renderReceiptTemplate b k)"
proof -
  have fixed: "same_markup s s" if "\<not> open_after False s" for s using that by (simp add: same_markup_def)
  have style: "CHR ''<'' \<notin> set STYLE" by (simp add: STYLE_def STYLE_LINES_def)
  have "\<not> open_after False (document_head kind)" for kind
    using plain_text [OF style]
    by (simp add: document_head_def quoted_attribute_def tags_append open_append escaped_text)
  then have head: "same_markup (document_head (art_kind a)) (document_head (art_kind b))" using assms(1) by (simp add: fixed)
  have subject: "same_markup
      (if subject_of (art_document a) \<noteq> [] then div_of ''subject'' (''Settlement '' @ escapeHtml (subject_of (art_document a))) else [])
      (if subject_of (art_document b) \<noteq> [] then div_of ''subject'' (''Settlement '' @ escapeHtml (subject_of (art_document b))) else [])"
    using assms(3) same_markup_append [OF same_markup_plain [of "''Settlement ''" "''Settlement ''"] same_markup_escaped]
    by (simp add: same_markup_wrap(2) same_markup_plain)
  have foot: "same_markup (span_of ''mono'' (escapeHtml h)) (span_of ''mono'' (escapeHtml k))"
    by (intro same_markup_wrap same_markup_escaped) simp
  show ?thesis
    unfolding renderReceiptTemplate_def
    by (intro rel_same rel_map_option [OF rows_same_markup [OF assms(2)]] same_markup_append head subject foot same_markup_concat)
      (simp_all add: fixed)
qed

definition sample_notice :: "string \<Rightarrow> canonical_artifact" where
  "sample_notice message = \<lparr>art_kind = Return_Notice,
     art_document = [(''settlement_id'', CA_Str ''stl_1''), (''reason_message'', CA_Str message),
       (''amount'', moneyDoc \<lparr>am_currency = ''INR'', am_minorUnits = 5\<rparr>)]\<rparr>"

theorem markup_is_the_templates_witness:
  "map_option (tags False) (renderReceiptTemplate (sample_notice ''<script>alert(1)</script>'') ''sha256:1'') =
   map_option (tags False) (renderReceiptTemplate (sample_notice ''wrong account'') ''sha256:2'')"
  by (rule markup_is_the_templates) (simp_all add: sample_notice_def subject_of_def)

end
