(* ===== verification/Public_Api.thy ===== *)
theory Public_Api
  imports Beneficiaries Store_Tables
begin

text \<open>
  The public API's domain rules (\<open>packages/domain/src/api\<close>): versions (\<open>version.ts\<close>), error types and
  their statuses (\<open>errors.ts\<close>), rate limits (\<open>rate-limit.ts\<close>) with the rows that hold the windows
  (\<open>packages/app/src/api/rate-limit.service.ts\<close>). The sentences of the errors are left out.
\<close>

section \<open>Versions\<close>

definition API_VERSIONS :: "string list" where "API_VERSIONS = [''2026-08-31'']"

definition DEFAULT_API_VERSION :: string where "DEFAULT_API_VERSION = ''2026-08-31''"

definition isApiVersion :: "string \<Rightarrow> bool" where
  "isApiVersion v \<longleftrightarrow> v \<in> set API_VERSIONS"

datatype version_origin = From_Header | From_Workspace

text \<open>\<open>Inl\<close> of the version that was asked for and is not supported.\<close>

definition resolveApiVersion :: "string option \<Rightarrow> string \<Rightarrow> (string, string \<times> version_origin) result" where
  "resolveApiVersion header workspacePin =
     (case header of
        Some h \<Rightarrow>
          if h \<noteq> [] then (if isApiVersion h then Inr (h, From_Header) else Inl h)
          else if isApiVersion workspacePin then Inr (workspacePin, From_Workspace) else Inr (DEFAULT_API_VERSION, From_Workspace)
      | None \<Rightarrow>
          if isApiVersion workspacePin then Inr (workspacePin, From_Workspace) else Inr (DEFAULT_API_VERSION, From_Workspace))"

section \<open>Errors\<close>

datatype api_error_type =
    Invalid_Request_Error | Authentication_Error | Permission_Error | Not_Found_Error | Conflict_Error | Rate_Limit_Error
  | Provider_Error | Api_Error

primrec API_ERROR_STATUS :: "api_error_type \<Rightarrow> nat" where
  "API_ERROR_STATUS Invalid_Request_Error = 400"
| "API_ERROR_STATUS Authentication_Error = 401"
| "API_ERROR_STATUS Permission_Error = 403"
| "API_ERROR_STATUS Not_Found_Error = 404"
| "API_ERROR_STATUS Conflict_Error = 409"
| "API_ERROR_STATUS Rate_Limit_Error = 429"
| "API_ERROR_STATUS Provider_Error = 502"
| "API_ERROR_STATUS Api_Error = 500"

definition statusForErrorType :: "api_error_type \<Rightarrow> nat" where
  "statusForErrorType type = API_ERROR_STATUS type"

primrec error_type_string :: "api_error_type \<Rightarrow> string" where
  "error_type_string Invalid_Request_Error = ''invalid_request_error''"
| "error_type_string Authentication_Error = ''authentication_error''"
| "error_type_string Permission_Error = ''permission_error''"
| "error_type_string Not_Found_Error = ''not_found_error''"
| "error_type_string Conflict_Error = ''conflict_error''"
| "error_type_string Rate_Limit_Error = ''rate_limit_error''"
| "error_type_string Provider_Error = ''provider_error''"
| "error_type_string Api_Error = ''api_error''"

definition API_ERROR_CODES :: "string list" where
  "API_ERROR_CODES =
     [''invalid_body'', ''invalid_json'', ''duplicate_json_key'', ''missing_parameter'', ''invalid_parameter'',
      ''unsupported_api_version'', ''idempotency_key_required'', ''idempotency_key_invalid'', ''unknown_event_type'',
      ''missing_authorization'', ''malformed_authorization'', ''invalid_api_key'', ''session_credentials_not_accepted'',
      ''insufficient_scope'', ''not_found'', ''idempotency_key_reuse'', ''idempotency_in_progress'', ''invalid_transition'',
      ''past_point_of_no_return'', ''beneficiary_not_verified'', ''quote_expired'', ''receipt_not_ready'',
      ''rate_limit_exceeded'', ''provider_unavailable'', ''internal_error'']"

record api_error =
  ae_type :: api_error_type
  ae_code :: string
  ae_message :: string
  ae_detail :: "string option"
  ae_param :: "string option"

definition ERROR_DOC_BASE :: string where "ERROR_DOC_BASE = ''https://docs.inrsettle.com/errors''"

definition docUrlFor :: "string \<Rightarrow> string" where
  "docUrlFor code = ERROR_DOC_BASE @ ''/'' @ code"

definition optional_entry :: "string \<Rightarrow> string option \<Rightarrow> (string \<times> json) list" where
  "optional_entry key v = (case v of None \<Rightarrow> [] | Some s \<Rightarrow> [(key, JStr s)])"

definition envelope :: "api_error \<Rightarrow> string \<Rightarrow> json" where
  "envelope e requestId =
     JObj [(''error'', JObj
       ([(''type'', JStr (error_type_string (ae_type e))), (''code'', JStr (ae_code e)), (''message'', JStr (ae_message e))] @
        optional_entry ''detail'' (ae_detail e) @ optional_entry ''param'' (ae_param e) @
        [(''doc_url'', JStr (docUrlFor (ae_code e))), (''request_id'', JStr requestId)]))]"

section \<open>Rate limits\<close>

datatype rate_limit_bucket = Bucket_read | Bucket_write | Bucket_batch

record rate_limit_policy =
  rp_limit :: int
  rp_windowSeconds :: int

definition bucketFor :: "string \<Rightarrow> string \<Rightarrow> rate_limit_bucket" where
  "bucketFor method path =
     (if take (length ''/v1/batches'') path = ''/v1/batches'' \<and> method \<noteq> ''GET'' then Bucket_batch
      else if method = ''GET'' then Bucket_read else Bucket_write)"

record rate_limit_decision =
  rd_allowed :: bool
  rd_limit :: int
  rd_remaining :: int
  rd_resetAtSeconds :: int
  rd_retryAfterSeconds :: int
  rd_newWindowStartSeconds :: int
  rd_newCount :: int

definition evaluateRateLimit :: "rate_limit_policy \<Rightarrow> int \<Rightarrow> int option \<Rightarrow> int \<Rightarrow> rate_limit_decision" where
  "evaluateRateLimit policy nowSeconds windowStartSeconds countSoFar =
     (let expired = (case windowStartSeconds of None \<Rightarrow> True | Some s \<Rightarrow> nowSeconds - s \<ge> rp_windowSeconds policy);
          windowStart = (if expired then nowSeconds else the windowStartSeconds);
          used = (if expired then 0 else countSoFar);
          resetAt = windowStart + rp_windowSeconds policy;
          allowed = used < rp_limit policy;
          newCount = (if allowed then used + 1 else used)
      in \<lparr>rd_allowed = allowed, rd_limit = rp_limit policy, rd_remaining = max 0 (rp_limit policy - newCount),
          rd_resetAtSeconds = resetAt, rd_retryAfterSeconds = max 1 (resetAt - nowSeconds),
          rd_newWindowStartSeconds = windowStart, rd_newCount = newCount\<rparr>)"

definition rateLimitHeaders :: "rate_limit_decision \<Rightarrow> (string \<times> string) list" where
  "rateLimitHeaders d =
     [(''INRSettle-RateLimit-Limit'', string_of_int (rd_limit d)),
      (''INRSettle-RateLimit-Remaining'', string_of_int (rd_remaining d)),
      (''INRSettle-RateLimit-Reset'', string_of_int (rd_resetAtSeconds d))]"

definition SANDBOX_RATE_LIMITS :: "rate_limit_bucket \<Rightarrow> rate_limit_policy" where
  "SANDBOX_RATE_LIMITS b =
     (case b of
        Bucket_read \<Rightarrow> \<lparr>rp_limit = 100, rp_windowSeconds = 60\<rparr>
      | Bucket_write \<Rightarrow> \<lparr>rp_limit = 50, rp_windowSeconds = 60\<rparr>
      | Bucket_batch \<Rightarrow> \<lparr>rp_limit = 10, rp_windowSeconds = 60\<rparr>)"

text \<open>The rows of \<open>api_rate_limits\<close>: for each key, scope and bucket the start of the window and its count.\<close>

type_synonym rate_key = "tenant_scope \<times> string \<times> rate_limit_bucket"
type_synonym rate_rows = "rate_key \<Rightarrow> (int \<times> int) option"

definition consume ::
    "(rate_limit_bucket \<Rightarrow> rate_limit_policy) \<Rightarrow> rate_key \<Rightarrow> int \<Rightarrow> rate_rows \<Rightarrow> rate_limit_decision \<times> rate_rows" where
  "consume config key nowSeconds rows =
     (let (scope, apiKeyId, bucket) = key;
          decision = evaluateRateLimit (config bucket) nowSeconds (map_option fst (rows key))
            (case rows key of None \<Rightarrow> 0 | Some r \<Rightarrow> snd r)
      in (decision, rows(key \<mapsto> (rd_newWindowStartSeconds decision, rd_newCount decision))))"

fun consume_all ::
    "(rate_limit_bucket \<Rightarrow> rate_limit_policy) \<Rightarrow> (rate_key \<times> int) list \<Rightarrow> rate_rows \<Rightarrow> bool list" where
  "consume_all config [] rows = []"
| "consume_all config ((key, now) # rs) rows =
     (let (d, rows') = consume config key now rows in rd_allowed d # consume_all config rs rows')"

section \<open>What the limits promise\<close>

text \<open>The requests of one key, and how many of them are let through at a time.\<close>

definition granted :: "(rate_limit_bucket \<Rightarrow> rate_limit_policy) \<Rightarrow> (rate_key \<times> int) list \<Rightarrow> rate_rows \<Rightarrow> rate_key \<Rightarrow> int \<Rightarrow> int \<Rightarrow> nat" where
  "granted config rs rows key a b =
     length (filter (\<lambda>((k, t), ok). ok \<and> k = key \<and> a \<le> t \<and> t < b) (zip rs (consume_all config rs rows)))"

lemma granted_step:
  "granted config ((k, t) # rs) rows key a b =
     (let (d, rows') = consume config k t rows in
      (if rd_allowed d \<and> k = key \<and> a \<le> t \<and> t < b then 1 else 0) + granted config rs rows' key a b)"
  by (simp add: granted_def case_prod_unfold Let_def)

lemma consume_other: "k \<noteq> key \<Longrightarrow> snd (consume config k t rows) key = rows key"
  by (simp add: consume_def Let_def case_prod_unfold)

lemma consume_own:
  "snd (consume config (s, i, b) t rows) (s, i, b) =
     (case rows (s, i, b) of
        Some (start, count) \<Rightarrow>
          if t - start < rp_windowSeconds (config b)
          then Some (start, if count < rp_limit (config b) then count + 1 else count)
          else Some (t, if 0 < rp_limit (config b) then 1 else 0)
      | None \<Rightarrow> Some (t, if 0 < rp_limit (config b) then 1 else 0))"
  "rd_allowed (fst (consume config (s, i, b) t rows)) \<longleftrightarrow>
     (case rows (s, i, b) of
        Some (start, count) \<Rightarrow> (if t - start < rp_windowSeconds (config b) then count else 0) < rp_limit (config b)
      | None \<Rightarrow> 0 < rp_limit (config b))"
  by (auto simp: consume_def evaluateRateLimit_def Let_def split: option.splits)

locale rate_limited =
  fixes config :: "rate_limit_bucket \<Rightarrow> rate_limit_policy" and s :: tenant_scope and i :: string
    and bucket :: rate_limit_bucket and a :: int
  assumes window: "0 < rp_windowSeconds (config bucket)" and limit: "0 \<le> rp_limit (config bucket)"
begin

abbreviation key :: rate_key where "key \<equiv> (s, i, bucket)"
abbreviation W :: int where "W \<equiv> rp_windowSeconds (config bucket)"
abbreviation L :: int where "L \<equiv> rp_limit (config bucket)"

lemma window_from_inside:
  "rows key = Some (start, count) \<Longrightarrow> a \<le> start \<Longrightarrow> count \<le> L \<Longrightarrow> sorted (map snd rs) \<Longrightarrow>
     int (granted config rs rows key a (a + W)) \<le> L - count"
proof (induction rs arbitrary: rows start count)
  case Nil
  then show ?case by (simp add: granted_def)
next
  case (Cons r rs)
  obtain k t where r: "r = (k, t)" by (cases r)
  show ?case
  proof (cases "k = key")
    case False
    have "snd (consume config k t rows) key = Some (start, count)"
      using consume_other [OF False, of config t rows] Cons.prems(1) by simp
    from Cons.IH [of "snd (consume config k t rows)", OF this Cons.prems(2,3)] Cons.prems(4) False show ?thesis
      by (simp add: r granted_step case_prod_unfold Let_def)
  next
    case True
    note own = consume_own [of config s i bucket t rows]
    show ?thesis
    proof (cases "t - start < W")
      case inside: True
      have row: "snd (consume config key t rows) key = Some (start, if count < L then count + 1 else count)"
        using own(1) Cons.prems(1) inside by simp
      have "int (granted config rs (snd (consume config key t rows)) key a (a + W)) \<le> L - (if count < L then count + 1 else count)"
        using Cons.prems by (intro Cons.IH [of "snd (consume config key t rows)", OF row]) simp_all
      moreover have "rd_allowed (fst (consume config key t rows)) \<longleftrightarrow> count < L" using own(2) Cons.prems(1) inside by simp
      ultimately show ?thesis using Cons.prems(3) by (auto simp: r True granted_step case_prod_unfold Let_def)
    next
      case False
      with Cons.prems(2) have late: "a + W \<le> t" by simp
      have "granted config rs rows' key a (a + W) = 0" for rows'
        using Cons.prems(4) late
        by (auto simp: granted_def r filter_empty_conv dest!: set_zip_leftD)
      with late Cons.prems(3) show ?thesis by (simp add: r granted_step case_prod_unfold Let_def)
    qed
  qed
qed

lemma window_outside:
  "\<forall>r\<in>set rs. b \<le> snd r \<Longrightarrow> granted config rs rows k c b = 0"
  by (auto simp: granted_def filter_empty_conv dest!: set_zip_leftD)

lemma window_across:
  "\<forall>r\<in>set rs. a \<le> snd r \<Longrightarrow> rows key = Some (start, count) \<Longrightarrow> 0 \<le> count \<Longrightarrow> count \<le> L \<Longrightarrow> sorted (map snd rs) \<Longrightarrow>
     int (granted config rs rows key a (a + W)) \<le> (L - count) + L"
proof (induction rs arbitrary: rows count)
  case Nil
  then show ?case using limit by (simp add: granted_def)
next
  case (Cons r rs)
  obtain k t where r: "r = (k, t)" by (cases r)
  show ?case
  proof (cases "k = key")
    case False
    have "snd (consume config k t rows) key = Some (start, count)"
      using consume_other [OF False, of config t rows] Cons.prems(2) by simp
    from Cons.IH [of "snd (consume config k t rows)", OF _ this] Cons.prems False show ?thesis
      by (simp add: r granted_step case_prod_unfold Let_def)
  next
    case True
    note own = consume_own [of config s i bucket t rows]
    let ?rows = "snd (consume config key t rows)"
    show ?thesis
    proof (cases "t - start < W")
      case inside: True
      have "int (granted config rs ?rows key a (a + W)) \<le> (L - (if count < L then count + 1 else count)) + L"
        using Cons.prems own(1) inside by (intro Cons.IH [of ?rows]) simp_all
      moreover have "rd_allowed (fst (consume config key t rows)) \<longleftrightarrow> count < L" using own(2) Cons.prems(2) inside by simp
      ultimately show ?thesis using Cons.prems(4) limit by (auto simp: r True granted_step case_prod_unfold Let_def)
    next
      case False
      have row: "?rows key = Some (t, if 0 < L then 1 else 0)" using own(1) Cons.prems(2) False by simp
      have "int (granted config rs ?rows key a (a + W)) \<le> L - (if 0 < L then 1 else 0)"
        using Cons.prems limit by (intro window_from_inside [where rows = ?rows, OF row]) (simp_all add: r)
      moreover have "rd_allowed (fst (consume config key t rows)) \<longleftrightarrow> 0 < L" using own(2) Cons.prems(2) False by simp
      ultimately show ?thesis using Cons.prems(3,4) limit by (auto simp: r True granted_step case_prod_unfold Let_def)
    qed
  qed
qed

text \<open>Any window, wherever it begins: at most twice the limit.\<close>

lemma window_bound:
  assumes "sorted (map snd rs)" "case rows key of None \<Rightarrow> True | Some (start, count) \<Rightarrow> 0 \<le> count \<and> count \<le> L"
  shows "int (granted config rs rows key a (a + W)) \<le> 2 * L"
  using assms
proof (induction rs arbitrary: rows)
  case Nil
  then show ?case using limit by (simp add: granted_def)
next
  case (Cons r rs)
  obtain k t where r: "r = (k, t)" by (cases r)
  let ?rows = "snd (consume config k t rows)"
  have kept: "case ?rows key of None \<Rightarrow> True | Some (start, count) \<Rightarrow> 0 \<le> count \<and> count \<le> L"
  proof (cases "k = key")
    case True
    then show ?thesis
      using Cons.prems(2) limit consume_own(1) [of config s i bucket t rows] by (auto split: option.splits if_splits)
  next
    case False
    then show ?thesis using Cons.prems(2) consume_other [OF False] by simp
  qed
  show ?case
  proof (cases "t < a")
    case True
    with Cons.IH [of ?rows] Cons.prems(1) kept show ?thesis
      by (simp add: r granted_step case_prod_unfold Let_def)
  next
    case False
    with Cons.prems(1) have late: "\<forall>q\<in>set (r # rs). a \<le> snd q" by (auto simp: r)
    show ?thesis
    proof (cases "rows key")
      case (Some p)
      obtain start count where "p = (start, count)" by (cases p)
      with Some Cons.prems window_across [OF late, of rows start count] show ?thesis by auto
    next
      case None
      show ?thesis
      proof (cases "k = key")
        case True
        note own = consume_own [of config s i bucket t rows]
        have row: "?rows key = Some (t, if 0 < L then 1 else 0)" using own(1) None True by simp
        have "int (granted config rs ?rows key a (a + W)) \<le> L - (if 0 < L then 1 else 0)"
          using Cons.prems limit False by (intro window_from_inside [where rows = ?rows, OF row]) (simp_all add: r)
        moreover have "rd_allowed (fst (consume config k t rows)) \<longleftrightarrow> 0 < L" using own(2) None True by simp
        ultimately show ?thesis using limit by (auto simp: r granted_step case_prod_unfold Let_def)
      next
        case other: False
        with Cons.IH [of ?rows] Cons.prems(1) kept show ?thesis by (simp add: r granted_step case_prod_unfold Let_def)
      qed
    qed
  qed
qed

end

interpretation sandbox: rate_limited SANDBOX_RATE_LIMITS s i bucket a for s i bucket a
  by unfold_locales (simp_all add: SANDBOX_RATE_LIMITS_def split: rate_limit_bucket.splits)

lemma sandbox_batches:
  "sorted (map snd rs) \<Longrightarrow> granted SANDBOX_RATE_LIMITS rs Map.empty (s, i, Bucket_batch) a (a + 60) \<le> 20"
  using sandbox.window_bound [where rows = Map.empty and bucket = Bucket_batch and s = s and i = i and a = a and rs = rs] by (simp add: SANDBOX_RATE_LIMITS_def)

definition sample_rate_scope :: tenant_scope where
  "sample_rate_scope = \<lparr>ts_workspace = ''ws_1'', ts_environment = Sandbox\<rparr>"

text \<open>
  C31. A key gets at most twice its limit in any stretch of time as long as the window, wherever that begins and
  whatever other keys do; and a refused request that waits as long as it is told is let through, if no
  other has come.
\<close>

theorem rate_limit_bounds:
  assumes "0 < rp_windowSeconds (config bucket)" "0 < rp_limit (config bucket)" "sorted (map snd rs)"
  shows "int (granted config rs Map.empty (s, i, bucket) a (a + rp_windowSeconds (config bucket))) \<le> 2 * rp_limit (config bucket) \<and>
    (let (d, rows') = consume config (s, i, bucket) now rows in
     1 \<le> rd_retryAfterSeconds d \<and>
     rd_allowed (fst (consume config (s, i, bucket) (now + rd_retryAfterSeconds d) rows')))"
proof
  have "rate_limited config bucket" using assms(1,2) by (simp add: rate_limited_def)
  from rate_limited.window_bound [OF this assms(3), where rows = Map.empty and s = s and i = i and a = a]
  show "int (granted config rs Map.empty (s, i, bucket) a (a + rp_windowSeconds (config bucket))) \<le> 2 * rp_limit (config bucket)"
    by simp
  show "let (d, rows') = consume config (s, i, bucket) now rows in
     1 \<le> rd_retryAfterSeconds d \<and> rd_allowed (fst (consume config (s, i, bucket) (now + rd_retryAfterSeconds d) rows'))"
    using assms(1,2) by (auto simp: consume_def evaluateRateLimit_def Let_def)
qed

theorem rate_limit_bounds_witness:
  "granted SANDBOX_RATE_LIMITS (map (Pair (sample_rate_scope, ''key_1'', Bucket_batch)) [0..100]) Map.empty
     (sample_rate_scope, ''key_1'', Bucket_batch) 30 90 \<le> 20"
  using rate_limit_bounds [of SANDBOX_RATE_LIMITS Bucket_batch "map (Pair (sample_rate_scope, ''key_1'', Bucket_batch)) [0..100]"
      sample_rate_scope "''key_1''" 30 0 Map.empty]
  by (simp add: SANDBOX_RATE_LIMITS_def comp_def)

end
