(* ===== verification/Idempotency_Claims.thy ===== *)
theory Idempotency_Claims
  imports Artifacts Public_Api
begin

text \<open>
  Idempotency claims of the public API: \<open>packages/app/src/api/idempotency.ts\<close> over the table
  \<open>idempotency_claims\<close> of \<open>0012_public_api.sql\<close>. What a request does is a parameter, an operation on the
  state of the platform that succeeds with a value and the response to replay, or fails. The claim, the
  operation and the response are one transaction: a failure leaves claims and platform as they were.
  Whether another transaction holds the slot of the key is a flag of the call; with the slot held the insert
  times out. SHA-256, NFC and the identifiers are parameters.
\<close>

section \<open>The table\<close>

record claim_row =
  cl_id :: string
  cl_scope :: tenant_scope
  cl_endpoint :: string
  cl_key :: string
  cl_fingerprint :: string
  cl_version :: string
  cl_requestId :: string
  cl_subjectId :: "string option"
  cl_status :: "int option"
  cl_body :: "string option"
  cl_createdAt :: int
  cl_completedAt :: "int option"
  cl_expiresAt :: int

type_synonym claim_slot = "tenant_scope \<times> string \<times> string"

definition slot_of :: "claim_row \<Rightarrow> claim_slot" where
  "slot_of c = (cl_scope c, cl_endpoint c, cl_key c)"

text \<open>The checks of the table: printable ASCII keys of 1 to 255 characters, and no half-written claim.\<close>

definition claim_checks :: "claim_row \<Rightarrow> bool" where
  "claim_checks c \<longleftrightarrow>
     1 \<le> length (cl_key c) \<and> length (cl_key c) \<le> 255 \<and>
     list_all (\<lambda>x. 0x20 \<le> (of_char x :: nat) \<and> (of_char x :: nat) \<le> 0x7E) (cl_key c) \<and>
     (cl_status c = None) = (cl_completedAt c = None) \<and> (cl_status c = None) = (cl_body c = None)"

definition RETENTION_MS :: int where "RETENTION_MS = 24 * 60 * 60 * 1000"

section \<open>A claim\<close>

record claim_request =
  cq_method :: string
  cq_path :: string
  cq_apiVersion :: string
  cq_idempotencyKey :: string
  cq_body :: "canonical option"
  cq_requestId :: string
  cq_subjectId :: "string option"

record stored_response =
  sr_status :: int
  sr_body :: string

datatype 'v claim_outcome = Performed 'v | Replayed stored_response

datatype 'e claim_error =
    Idempotency_Key_Reuse string
  | Idempotency_In_Progress "string option"
  | Claim_Check_Failed
  | Not_Serialisable
  | Operation_Failed 'e

type_synonym ('s, 'e, 'v) operation = "'s \<Rightarrow> ('e, ('v \<times> stored_response \<times> string option) \<times> 's) result"

record ('s, 'e, 'v) claim_call =
  cc_scope :: tenant_scope
  cc_request :: claim_request
  cc_operation :: "('s, 'e, 'v) operation"
  cc_slot_held :: bool
  cc_newId :: string
  cc_now :: int

definition requestFingerprint :: "(string \<Rightarrow> string) \<Rightarrow> (string \<Rightarrow> string) \<Rightarrow> claim_request \<Rightarrow> string option" where
  "requestFingerprint sha256 nfc r =
     map_option sha256 (fingerprintPreimage nfc
       \<lparr>fp_method = cq_method r, fp_path = cq_path r, fp_apiVersion = cq_apiVersion r, fp_body = cq_body r\<rparr>)"

definition endpoint_of :: "claim_request \<Rightarrow> string" where
  "endpoint_of r = map upper_char (cq_method r) @ '' '' @ cq_path r"

definition call_slot :: "('s, 'e, 'v) claim_call \<Rightarrow> claim_slot" where
  "call_slot c = (cc_scope c, endpoint_of (cc_request c), cq_idempotencyKey (cc_request c))"

definition new_claim :: "('s, 'e, 'v) claim_call \<Rightarrow> string \<Rightarrow> claim_row" where
  "new_claim c fingerprint =
     \<lparr>cl_id = cc_newId c, cl_scope = cc_scope c, cl_endpoint = endpoint_of (cc_request c),
      cl_key = cq_idempotencyKey (cc_request c), cl_fingerprint = fingerprint, cl_version = FINGERPRINT_VERSION,
      cl_requestId = cq_requestId (cc_request c), cl_subjectId = cq_subjectId (cc_request c), cl_status = None,
      cl_body = None, cl_createdAt = cc_now c, cl_completedAt = None, cl_expiresAt = cc_now c + RETENTION_MS\<rparr>"

definition complete_claim :: "int \<Rightarrow> stored_response \<Rightarrow> string option \<Rightarrow> claim_row \<Rightarrow> claim_row" where
  "complete_claim now response subjectId c =
     c\<lparr>cl_status := Some (sr_status response), cl_body := Some (sr_body response),
       cl_subjectId := (case cl_subjectId c of None \<Rightarrow> subjectId | Some x \<Rightarrow> Some x), cl_completedAt := Some now\<rparr>"

text \<open>What a request is answered whose key has a row.\<close>

definition replay_claim :: "claim_request \<Rightarrow> string \<Rightarrow> claim_row \<Rightarrow> ('e claim_error, 'v claim_outcome) result" where
  "replay_claim r fingerprint existing =
     (if cl_version existing = FINGERPRINT_VERSION \<and> cl_fingerprint existing \<noteq> fingerprint
        then Inl (Idempotency_Key_Reuse (endpoint_of r))
      else if cq_subjectId r \<noteq> None \<and> cl_subjectId existing \<noteq> None \<and> cl_subjectId existing \<noteq> cq_subjectId r
        then Inl (Idempotency_Key_Reuse (endpoint_of r))
      else case (cl_status existing, cl_body existing) of
        (Some status, Some written) \<Rightarrow> Inr (Replayed \<lparr>sr_status = status, sr_body = written\<rparr>)
      | _ \<Rightarrow> Inl (Idempotency_In_Progress (cl_subjectId existing)))"

type_synonym 's claim_state = "claim_row list \<times> 's"

text \<open>
  \<open>withIdempotencyClaim\<close> in its transaction. The branch of the code in which the row was neither inserted nor
  found is unreachable here: the insert conflicts with a row or makes one.
\<close>

definition withIdempotencyClaim ::
    "(string \<Rightarrow> string) \<Rightarrow> (string \<Rightarrow> string) \<Rightarrow> ('s, 'e, 'v) claim_call \<Rightarrow> 's claim_state \<Rightarrow>
     ('e claim_error, 'v claim_outcome \<times> 's claim_state) result" where
  "withIdempotencyClaim sha256 nfc c st =
     (case requestFingerprint sha256 nfc (cc_request c) of
        None \<Rightarrow> Inl Not_Serialisable
      | Some fingerprint \<Rightarrow>
          let (claims, s) = st; row = new_claim c fingerprint in
          if \<not> claim_checks row then Inl Claim_Check_Failed
          else if cc_slot_held c then Inl (Idempotency_In_Progress None)
          else case List.find (\<lambda>x. slot_of x = call_slot c) claims of
            Some existing \<Rightarrow> map_sum id (\<lambda>o'. (o', st)) (replay_claim (cc_request c) fingerprint existing)
          | None \<Rightarrow>
              (case cc_operation c s of
                 Inl e \<Rightarrow> Inl (Operation_Failed e)
               | Inr ((v, response, subjectId), s') \<Rightarrow>
                   Inr (Performed v,
                     map (\<lambda>x. if slot_of x = call_slot c then complete_claim (cc_now c) response subjectId x else x) (claims @ [row]),
                     s')))"

text \<open>The transaction of a call: an error rolls it back.\<close>

definition serve ::
    "(string \<Rightarrow> string) \<Rightarrow> (string \<Rightarrow> string) \<Rightarrow> ('s, 'e, 'v) claim_call \<Rightarrow> 's claim_state \<Rightarrow>
     ('e claim_error, 'v claim_outcome) result \<times> 's claim_state" where
  "serve sha256 nfc c st =
     (case withIdempotencyClaim sha256 nfc c st of
        Inl e \<Rightarrow> (Inl e, st)
      | Inr (out, st') \<Rightarrow> (Inr out, st'))"

definition sweepExpiredIdempotencyClaims :: "tenant_scope \<Rightarrow> int \<Rightarrow> claim_row list \<Rightarrow> nat \<times> claim_row list" where
  "sweepExpiredIdempotencyClaims scope now claims =
     (let gone = (\<lambda>c. cl_scope c = scope \<and> cl_expiresAt c < now) in
      (length (filter gone claims), filter (\<lambda>c. \<not> gone c) claims))"

fun serve_all ::
    "(string \<Rightarrow> string) \<Rightarrow> (string \<Rightarrow> string) \<Rightarrow> ('s, 'e, 'v) claim_call list \<Rightarrow> 's claim_state \<Rightarrow>
     ('e claim_error, 'v claim_outcome) result list \<times> 's claim_state" where
  "serve_all sha256 nfc [] st = ([], st)"
| "serve_all sha256 nfc (c # cs) st =
     (let (out, st') = serve sha256 nfc c st; (outs, st'') = serve_all sha256 nfc cs st' in (out # outs, st''))"

section \<open>At most once\<close>

text \<open>Committed claims are complete, and no two hold one slot.\<close>

definition claims_ok :: "claim_row list \<Rightarrow> bool" where
  "claims_ok claims \<longleftrightarrow>
     distinct (map slot_of claims) \<and> list_all (\<lambda>c. cl_status c \<noteq> None \<and> cl_body c \<noteq> None \<and> claim_checks c) claims"

lemma slot_of_new [simp]: "slot_of (new_claim c f) = call_slot c"
  by (simp add: slot_of_def new_claim_def call_slot_def)

lemma slot_of_complete [simp]: "slot_of (complete_claim now r s c) = slot_of c"
  by (simp add: slot_of_def complete_claim_def)

text \<open>A call performs on a free slot and leaves its completed claim there, or changes nothing.\<close>

lemma serve_cases:
  obtains (performed) v response subjectId fingerprint s' where
      "serve sha256 nfc c (claims, s) =
        (Inr (Performed v), claims @ [complete_claim (cc_now c) response subjectId (new_claim c fingerprint)], s')"
      "cc_operation c s = Inr ((v, response, subjectId), s')" "call_slot c \<notin> slot_of ` set claims"
      "requestFingerprint sha256 nfc (cc_request c) = Some fingerprint" "claim_checks (new_claim c fingerprint)"
    | (replayed) existing response fingerprint where "serve sha256 nfc c (claims, s) = (Inr (Replayed response), claims, s)"
      "existing \<in> set claims" "slot_of existing = call_slot c" "cl_status existing = Some (sr_status response)"
      "cl_body existing = Some (sr_body response)" "requestFingerprint sha256 nfc (cc_request c) = Some fingerprint"
      "cl_version existing = FINGERPRINT_VERSION \<Longrightarrow> cl_fingerprint existing = fingerprint"
    | (refused) e where "serve sha256 nfc c (claims, s) = (Inl e, claims, s)"
proof (cases "withIdempotencyClaim sha256 nfc c (claims, s)")
  case (Inl e)
  then show thesis by (intro refused) (simp add: serve_def)
next
  case (Inr p)
  obtain out st' where p: "p = (out, st')" by (cases p)
  from Inr have run: "withIdempotencyClaim sha256 nfc c (claims, s) = Inr (out, st')" by (simp add: p)
  then obtain f where f: "requestFingerprint sha256 nfc (cc_request c) = Some f" "claim_checks (new_claim c f)"
    by (auto simp: withIdempotencyClaim_def Let_def split: option.splits if_splits)
  show thesis
  proof (cases "List.find (\<lambda>x. slot_of x = call_slot c) claims")
    case (Some existing)
    then have ex: "existing \<in> set claims" "slot_of existing = call_slot c" by (auto simp: find_Some_iff)
    from run Some f obtain status written where "st' = (claims, s)" "out = Replayed \<lparr>sr_status = status, sr_body = written\<rparr>"
        "cl_status existing = Some status" "cl_body existing = Some written"
        "cl_version existing = FINGERPRINT_VERSION \<longrightarrow> cl_fingerprint existing = f"
      by (auto simp: withIdempotencyClaim_def Let_def map_sum_def replay_claim_def split: if_splits sum.splits option.splits)
    with ex f(1) run show thesis
      by (intro replayed [of "\<lparr>sr_status = status, sr_body = written\<rparr>" existing f]) (simp_all add: serve_def)
  next
    case None
    then have free: "call_slot c \<notin> slot_of ` set claims" by (auto simp: find_None_iff)
    from run None f obtain v response subj s' where op: "cc_operation c s = Inr ((v, response, subj), s')" "out = Performed v"
      and st': "st' = (map (\<lambda>x. if slot_of x = call_slot c then complete_claim (cc_now c) response subj x else x)
        (claims @ [new_claim c f]), s')"
      by (auto simp: withIdempotencyClaim_def Let_def split: if_splits sum.splits prod.splits)
    have "map (\<lambda>x. if slot_of x = call_slot c then complete_claim (cc_now c) response subj x else x) claims = claims"
      using free by (intro map_idI) (metis imageI)
    with st' have "st' = (claims @ [complete_claim (cc_now c) response subj (new_claim c f)], s')" by simp
    with op run f free show thesis by (intro performed) (simp_all add: serve_def)
  qed
qed

primrec is_performed :: "('e claim_error, 'v claim_outcome) result \<Rightarrow> bool" where
  "is_performed (Inl e) = False"
| "is_performed (Inr out) = (case out of Performed v \<Rightarrow> True | Replayed r \<Rightarrow> False)"

lemma serve_claims_ok:
  assumes "claims_ok claims" "serve sha256 nfc c (claims, s) = (out, claims', s')"
  shows "claims_ok claims' \<and>
    (if is_performed out then slot_of ` set claims' = insert (call_slot c) (slot_of ` set claims) \<and> call_slot c \<notin> slot_of ` set claims
     else claims' = claims \<and> s' = s)"
proof (cases rule: serve_cases [of sha256 nfc c claims s])
  case (performed v response subjectId fingerprint s'')
  then have "claim_checks (complete_claim (cc_now c) response subjectId (new_claim c fingerprint))"
    by (simp add: claim_checks_def complete_claim_def new_claim_def)
  moreover have "cl_status (complete_claim (cc_now c) response subjectId (new_claim c fingerprint)) \<noteq> None \<and>
      cl_body (complete_claim (cc_now c) response subjectId (new_claim c fingerprint)) \<noteq> None"
    by (simp add: complete_claim_def)
  ultimately show ?thesis using assms performed(1,3) by (auto simp: claims_ok_def)
qed (use assms in auto)

lemma serve_all_once:
  "claims_ok claims \<Longrightarrow> serve_all sha256 nfc cs (claims, s) = (outs, claims', s') \<Longrightarrow>
     claims_ok claims' \<and> length outs = length cs \<and>
     length (filter (\<lambda>(c, out). call_slot c = k \<and> is_performed out) (zip cs outs)) \<le> (if k \<in> slot_of ` set claims then 0 else 1)"
proof (induction cs arbitrary: claims s outs)
  case (Cons c cs)
  obtain out claims1 s1 where one: "serve sha256 nfc c (claims, s) = (out, claims1, s1)" by (cases "serve sha256 nfc c (claims, s)") auto
  with Cons.prems(2) obtain outs1 where rest: "serve_all sha256 nfc cs (claims1, s1) = (outs1, claims', s')" and outs: "outs = out # outs1"
    by (auto split: prod.splits)
  note ok = serve_claims_ok [OF Cons.prems(1) one]
  from Cons.IH [OF _ rest] ok show ?case by (auto simp: outs split: if_splits)
qed simp

text \<open>
  C27. At most once: however often a request is sent, with whatever bodies and among whatever other requests,
  its operation is performed at most once for its key, scope and endpoint, and not at all where the key has a
  claim; and every claim that is committed is complete.
\<close>

theorem performed_at_most_once:
  assumes "claims_ok claims" "serve_all sha256 nfc cs (claims, s) = (outs, claims', s')"
  shows "claims_ok claims' \<and> length outs = length cs \<and>
    length (filter (\<lambda>(c, out). call_slot c = k \<and> is_performed out) (zip cs outs)) \<le> (if k \<in> slot_of ` set claims then 0 else 1)"
  by (rule serve_all_once [OF assms])




section \<open>A request sent three times\<close>

definition count_up :: "(nat, string, nat) operation" where
  "count_up n = Inr ((n, \<lparr>sr_status = 201, sr_body = digits_of_nat n\<rparr>, None), n + 1)"

definition sample_call :: "string \<Rightarrow> (nat, string, nat) claim_call" where
  "sample_call path =
     \<lparr>cc_scope = sample_rate_scope,
      cc_request = \<lparr>cq_method = ''POST'', cq_path = path, cq_apiVersion = ''2026-08-31'', cq_idempotencyKey = ''k1'',
        cq_body = None, cq_requestId = ''req_1'', cq_subjectId = None\<rparr>,
      cc_operation = count_up, cc_slot_held = False, cc_newId = ''idc_1'', cc_now = 0\<rparr>"

definition sample_calls :: "(nat, string, nat) claim_call list" where
  "sample_calls = [sample_call ''/v1/quotes'', sample_call ''/v1/quotes'', sample_call ''/v1/settlements'']"

lemma sample_served:
  "serve_all (\<lambda>s. s) (\<lambda>s. s) sample_calls ([], 7) =
    ([Inr (Performed 7), Inr (Replayed \<lparr>sr_status = 201, sr_body = ''7''\<rparr>), Inr (Performed 8)],
     fst (snd (serve_all (\<lambda>s. s) (\<lambda>s. s) sample_calls ([], 7))), 9)"
  by code_simp

theorem performed_at_most_once_witness:
  "length (filter (\<lambda>(c, out). call_slot c = call_slot (sample_call ''/v1/quotes'') \<and> is_performed out)
     (zip sample_calls (fst (serve_all (\<lambda>s. s) (\<lambda>s. s) sample_calls ([], 7))))) \<le> 1"
proof -
  have "claims_ok []" by (simp add: claims_ok_def)
  from performed_at_most_once [OF this sample_served, of "call_slot (sample_call ''/v1/quotes'')"]
  show ?thesis by (subst sample_served) simp
qed


text \<open>The sweep takes claims of its scope whose time has passed, and no other.\<close>

lemma sweep_keeps_live:
  "x \<in> set (snd (sweepExpiredIdempotencyClaims scope now claims)) \<longleftrightarrow>
     x \<in> set claims \<and> (cl_scope x = scope \<longrightarrow> now \<le> cl_expiresAt x)"
  by (auto simp: sweepExpiredIdempotencyClaims_def Let_def)

end
