(* ===== verification/Rule_Set_Io.thy ===== *)
theory Rule_Set_Io
  imports Preflight
begin

text \<open>
  Rule sets as data (\<open>packages/domain/src/preflight/rule-set-io.ts\<close>): the reader of a stored rule set,
  which answers with every defect it finds, the writer, and the checksum. An object read from the
  database or a file has each key once; the keys read here are no keys of \<open>Object.prototype\<close>. SHA-256 is a
  parameter.
\<close>

section \<open>Reading\<close>

datatype rule_set_defect =
    Not_An_Object
  | Missing_Field string
  | Unknown_Source string
  | Rules_Not_An_Array
  | Purpose_Codes_Not_An_Array
  | Purpose_Code_Invalid nat
  | Sandbox_Fixture_Claims_Regulatory_Code string
  | Rule_Not_An_Object nat
  | Rule_Missing_Field nat string
  | Rule_Invalid_Condition nat
  | Rule_Invalid_Action nat
  | Invalid_Rule "string \<times> rule_problem"

primrec source_string :: "rule_set_source \<Rightarrow> string" where
  "source_string RS_sandbox_fixture = ''sandbox_fixture''"
| "source_string RS_ad_bank = ''ad_bank''"
| "source_string RS_provider = ''provider''"

definition SOURCES :: "rule_set_source list" where
  "SOURCES = [RS_sandbox_fixture, RS_ad_bank, RS_provider]"

definition string_at :: "(string \<times> json) list \<Rightarrow> string \<Rightarrow> string option" where
  "string_at es key = (case map_of es key of Some (JStr s) \<Rightarrow> Some s | _ \<Rightarrow> None)"

definition array_at :: "(string \<times> json) list \<Rightarrow> string \<Rightarrow> json list option" where
  "array_at es key = (case map_of es key of Some (JArr vs) \<Rightarrow> Some vs | _ \<Rightarrow> None)"

lemma member_smaller: "map_of es k = Some v \<Longrightarrow> size v \<le> size_list (size_prod (\<lambda>_. 0) size) es"
  by (induction es) (auto split: if_splits)

lemma element_smaller: "array_at es k = Some vs \<Longrightarrow> v \<in> set vs \<Longrightarrow> size v \<le> size_list (size_prod (\<lambda>_. 0) size) es"
proof -
  assume "array_at es k = Some vs" "v \<in> set vs"
  then have "map_of es k = Some (JArr vs)" by (auto simp: array_at_def split: option.splits json.splits)
  from member_smaller [OF this] size_list_estimation' [OF \<open>v \<in> set vs\<close>, of "size v" size] show ?thesis by simp
qed

declare option.case_cong [fundef_cong]

function (sequential) parseCondition :: "json \<Rightarrow> condition option" where
  "parseCondition (JObj es) =
     (case array_at es ''all'' of
        Some vs \<Rightarrow> map_option All_Of (those (map parseCondition vs))
      | None \<Rightarrow>
        (case array_at es ''any'' of
           Some vs \<Rightarrow> map_option Any_Of (those (map parseCondition vs))
         | None \<Rightarrow>
           (case map_of es ''not'' of
              Some v \<Rightarrow> map_option Not_That (parseCondition v)
            | None \<Rightarrow>
              (case (string_at es ''fact'', string_at es ''op'') of
                 (Some f, Some p) \<Rightarrow> Some (Compare f p (map_of es ''value''))
               | _ \<Rightarrow> None))))"
| "parseCondition v = None"
  by pat_completeness auto

termination
  by (relation "measure size") (auto dest: member_smaller element_smaller)

definition parseAction :: "json option \<Rightarrow> rule_action option" where
  "parseAction v =
     (case v of
        Some (JObj es) \<Rightarrow>
          (case string_at es ''type'' of
             None \<Rightarrow> None
           | Some t \<Rightarrow>
               if t = ''verify_beneficiary'' then Some Do_Verify_Beneficiary
               else if t = ''add_payout_destination'' then Some Do_Add_Payout_Destination
               else if t = ''select_purpose'' then Some Do_Select_Purpose
               else if t = ''set_up_liquidity_facility'' then Some Do_Set_Up_Liquidity_Facility
               else if t = ''edit_beneficiary'' then map_option Do_Edit_Beneficiary (string_at es ''field'')
               else if t = ''upload_document'' then map_option Do_Upload_Document (string_at es ''document_type'')
               else if t = ''contact_support'' then map_option Do_Contact_Support (string_at es ''topic'')
               else None)
      | _ \<Rightarrow> None)"

text \<open>
  One entry of \<open>purpose_codes\<close>. The code also keeps an entry that claims a regulatory code in a sandbox
  fixture, but a defect is enough for the whole set to be refused.
\<close>

definition parse_purpose :: "json option \<Rightarrow> nat \<Rightarrow> json \<Rightarrow> (rule_set_defect list, purpose_code) result" where
  "parse_purpose source index raw =
     (case raw of
        JObj es \<Rightarrow>
          (case (string_at es ''code'', string_at es ''label'', map_of es ''regulatory_code'') of
             (Some code, Some label, Some JNull) \<Rightarrow> Inr \<lparr>pc_code = code, pc_label = label, pc_regulatoryCode = None\<rparr>
           | (Some code, Some label, Some (JStr r)) \<Rightarrow>
               if source = Some (JStr ''sandbox_fixture'') then Inl [Sandbox_Fixture_Claims_Regulatory_Code code]
               else Inr \<lparr>pc_code = code, pc_label = label, pc_regulatoryCode = Some r\<rparr>
           | _ \<Rightarrow> Inl [Purpose_Code_Invalid index])
      | _ \<Rightarrow> Inl [Purpose_Code_Invalid index])"

definition rule_fields :: "string list" where
  "rule_fields = [''id'', ''code'', ''severity'', ''title'', ''detail'']"

text \<open>One entry of \<open>rules\<close>; a rule with a defect is kept by the code when it can be built, and never seen.\<close>

definition parse_rule :: "nat \<Rightarrow> json \<Rightarrow> (rule_set_defect list, preflight_rule) result" where
  "parse_rule index raw =
     (case raw of
        JObj es \<Rightarrow>
          (let missing = map (Rule_Missing_Field index) (filter (\<lambda>k. string_at es k = None) rule_fields);
               cond = Option.bind (map_of es ''when'') parseCondition;
               action = parseAction (map_of es ''action'');
               defects = missing @ (if cond = None then [Rule_Invalid_Condition index] else []) @
                 (if action = None then [Rule_Invalid_Action index] else [])
           in if defects \<noteq> [] then Inl defects
              else Inr \<lparr>pr_id = the (string_at es ''id''), pr_when = the cond, pr_code = the (string_at es ''code''),
                pr_severity = (if string_at es ''severity'' = Some ''advisory'' then Advisory else Blocking),
                pr_title = the (string_at es ''title''), pr_detail = the (string_at es ''detail''), pr_action = the action\<rparr>)
      | _ \<Rightarrow> Inl [Rule_Not_An_Object index])"

fun gather :: "('d list, 'a) result list \<Rightarrow> 'd list \<times> 'a list" where
  "gather [] = ([], [])"
| "gather (Inl ds # rs) = (let (ds', xs) = gather rs in (ds @ ds', xs))"
| "gather (Inr x # rs) = (let (ds', xs) = gather rs in (ds', x # xs))"

definition numbered :: "(nat \<Rightarrow> 'a \<Rightarrow> 'b) \<Rightarrow> 'a list \<Rightarrow> 'b list" where
  "numbered f xs = map (\<lambda>(i, x). f i x) (zip [0..<length xs] xs)"

section \<open>Writing\<close>

primrec condition_json :: "condition \<Rightarrow> json" where
  "condition_json (Compare f p v) =
     JObj ([(''fact'', JStr f), (''op'', JStr p)] @ (case v of None \<Rightarrow> [] | Some x \<Rightarrow> [(''value'', x)]))"
| "condition_json (All_Of cs) = JObj [(''all'', JArr (map condition_json cs))]"
| "condition_json (Any_Of cs) = JObj [(''any'', JArr (map condition_json cs))]"
| "condition_json (Not_That c) = JObj [(''not'', condition_json c)]"

fun actionToJson :: "rule_action \<Rightarrow> json" where
  "actionToJson (Do_Upload_Document d) = JObj [(''type'', JStr ''upload_document''), (''document_type'', JStr d)]"
| "actionToJson (Do_Edit_Beneficiary f) = JObj [(''type'', JStr ''edit_beneficiary''), (''field'', JStr f)]"
| "actionToJson (Do_Contact_Support t) = JObj [(''type'', JStr ''contact_support''), (''topic'', JStr t)]"
| "actionToJson a = JObj [(''type'', JStr (action_type a))]"

definition toRuleJson :: "preflight_rule \<Rightarrow> json" where
  "toRuleJson r =
     JObj [(''id'', JStr (pr_id r)), (''when'', condition_json (pr_when r)), (''code'', JStr (pr_code r)),
       (''severity'', JStr (severity_string (pr_severity r))), (''title'', JStr (pr_title r)),
       (''detail'', JStr (pr_detail r)), (''action'', actionToJson (pr_action r))]"

definition purpose_json :: "purpose_code \<Rightarrow> json" where
  "purpose_json p =
     JObj [(''code'', JStr (pc_code p)), (''label'', JStr (pc_label p)), (''regulatory_code'', json_opt JStr (pc_regulatoryCode p))]"

definition toRuleSetJson :: "rule_set \<Rightarrow> json" where
  "toRuleSetJson rs =
     JObj [(''version'', JStr (rs_version rs)), (''source'', JStr (source_string (rs_source rs))),
       (''description'', JStr (rs_description rs)), (''purpose_codes'', JArr (map purpose_json (rs_purposeCodes rs))),
       (''rules'', JArr (map toRuleJson (rs_rules rs)))]"

text \<open>The text the checksum is taken of. An action is written with the field names of the code here.\<close>

fun action_checksum_json :: "rule_action \<Rightarrow> json" where
  "action_checksum_json (Do_Upload_Document d) = JObj [(''type'', JStr ''upload_document''), (''documentType'', JStr d)]"
| "action_checksum_json a = actionToJson a"

definition purpose_checksum_json :: "purpose_code \<Rightarrow> json" where
  "purpose_checksum_json p =
     JObj [(''code'', JStr (pc_code p)), (''label'', JStr (pc_label p)), (''regulatoryCode'', json_opt JStr (pc_regulatoryCode p))]"

definition rule_checksum_json :: "preflight_rule \<Rightarrow> json" where
  "rule_checksum_json r =
     JObj [(''id'', JStr (pr_id r)), (''code'', JStr (pr_code r)), (''severity'', JStr (severity_string (pr_severity r))),
       (''title'', JStr (pr_title r)), (''detail'', JStr (pr_detail r)), (''action'', action_checksum_json (pr_action r)),
       (''when'', condition_json (pr_when r))]"

definition checksum_json :: "rule_set \<Rightarrow> json" where
  "checksum_json rs =
     JObj [(''version'', JStr (rs_version rs)), (''source'', JStr (source_string (rs_source rs))),
       (''purposeCodes'', JArr (map purpose_checksum_json (rs_purposeCodes rs))),
       (''rules'', JArr (map rule_checksum_json (rs_rules rs)))]"

definition ruleSetChecksum :: "(string \<Rightarrow> string) \<Rightarrow> rule_set \<Rightarrow> string" where
  "ruleSetChecksum sha256 rs = sha256 (stringify (checksum_json rs))"

definition parseRuleSet :: "(string \<Rightarrow> string) \<Rightarrow> json \<Rightarrow> (rule_set_defect list, rule_set \<times> string) result" where
  "parseRuleSet sha256 input =
     (case input of
        JObj es \<Rightarrow>
          (let source = map_of es ''source'';
               known = List.find (\<lambda>s. source = Some (JStr (source_string s))) SOURCES;
               head_defects = map Missing_Field (filter (\<lambda>k. string_at es k = None) [''version'', ''source'', ''description'']) @
                 (case string_at es ''source'' of None \<Rightarrow> [] | Some s \<Rightarrow> if known = None then [Unknown_Source s] else [])
           in case map_of es ''rules'' of
                Some (JArr raw_rules) \<Rightarrow>
                  (let (purpose_defects, purposes) =
                         (case map_of es ''purpose_codes'' of
                            Some (JArr raw) \<Rightarrow> gather (numbered (parse_purpose source) raw)
                          | _ \<Rightarrow> ([Purpose_Codes_Not_An_Array], []));
                       (rule_defects, rules) = gather (numbered parse_rule raw_rules);
                       defects = head_defects @ purpose_defects @ rule_defects;
                       ruleSet = \<lparr>rs_version = the (string_at es ''version''), rs_source = the known,
                         rs_description = the (string_at es ''description''), rs_purposeCodes = sort_key pc_code purposes,
                         rs_rules = rules\<rparr>
                   in if defects \<noteq> [] then Inl defects
                      else if validateRuleSet ruleSet \<noteq> [] then Inl (map Invalid_Rule (validateRuleSet ruleSet))
                      else Inr (ruleSet, ruleSetChecksum sha256 ruleSet))
              | _ \<Rightarrow> Inl (head_defects @ [Rules_Not_An_Array]))
      | _ \<Rightarrow> Inl [Not_An_Object])"

section \<open>Storage and loading are symmetric\<close>

lemma those_back: "(\<And>x. x \<in> set xs \<Longrightarrow> f (g x) = Some x) \<Longrightarrow> those (map (f \<circ> g) xs) = Some xs"
  by (induction xs) auto

lemma condition_read_back: "parseCondition (condition_json c) = Some c"
proof (induction c)
  case (Compare f p v)
  then show ?case by (cases v) (simp_all add: array_at_def string_at_def)
next
  case (All_Of cs)
  then show ?case using those_back [of cs parseCondition condition_json] by (simp add: array_at_def)
next
  case (Any_Of cs)
  then show ?case using those_back [of cs parseCondition condition_json] by (simp add: array_at_def)
next
  case (Not_That c)
  then show ?case by (simp add: array_at_def)
qed

lemma action_read_back: "parseAction (Some (actionToJson a)) = Some a"
  by (cases a) (simp_all add: parseAction_def string_at_def)

lemma rule_read_back: "parse_rule i (toRuleJson r) = Inr r"
  by (cases "pr_severity r")
    (simp_all add: parse_rule_def toRuleJson_def rule_fields_def string_at_def condition_read_back action_read_back)

lemma purpose_read_back:
  "source = Some (JStr ''sandbox_fixture'') \<Longrightarrow> pc_regulatoryCode p = None \<Longrightarrow> parse_purpose source i (purpose_json p) = Inr p"
  "source \<noteq> Some (JStr ''sandbox_fixture'') \<Longrightarrow> parse_purpose source i (purpose_json p) = Inr p"
  by (cases "pc_regulatoryCode p"; simp add: parse_purpose_def purpose_json_def string_at_def json_opt_def)+

lemma gather_read_back: "(\<And>i x. x \<in> set xs \<Longrightarrow> f i (g x) = Inr x) \<Longrightarrow> gather (numbered f (map g xs)) = ([], xs)"
proof -
  assume reads: "\<And>i x. x \<in> set xs \<Longrightarrow> f i (g x) = Inr x"
  have "gather (map (\<lambda>(i, x). f i x) (zip ns (map g xs))) = ([], xs)" if "length ns = length xs" for ns
    using that reads
  proof (induction xs arbitrary: ns)
    case (Cons x xs)
    then obtain j js where "ns = j # js" by (cases ns) auto
    with Cons show ?case by simp
  qed simp
  from this [of "[0..<length xs]"] show ?thesis by (simp add: numbered_def)
qed

text \<open>What \<open>parseRuleSet\<close> asks of a rule set.\<close>

definition storable :: "rule_set \<Rightarrow> bool" where
  "storable rs \<longleftrightarrow> validateRuleSet rs = [] \<and> sorted (map pc_code (rs_purposeCodes rs)) \<and>
     (rs_source rs = RS_sandbox_fixture \<longrightarrow> list_all (\<lambda>p. pc_regulatoryCode p = None) (rs_purposeCodes rs))"

lemma stored_read_back:
  assumes "storable rs"
  shows "parseRuleSet sha256 (toRuleSetJson rs) = Inr (rs, ruleSetChecksum sha256 rs)"
proof -
  let ?source = "Some (JStr (source_string (rs_source rs)))"
  have rules: "gather (numbered parse_rule (map toRuleJson (rs_rules rs))) = ([], rs_rules rs)"
    by (rule gather_read_back) (rule rule_read_back)
  have purposes: "gather (numbered (parse_purpose ?source) (map purpose_json (rs_purposeCodes rs))) = ([], rs_purposeCodes rs)"
  proof (rule gather_read_back)
    fix i p
    assume "p \<in> set (rs_purposeCodes rs)"
    with assms show "parse_purpose ?source i (purpose_json p) = Inr p"
      using purpose_read_back(1) [of ?source p i] purpose_read_back(2) [of ?source i p]
      by (cases "rs_source rs") (auto simp: storable_def list_all_iff)
  qed
  have known: "List.find (\<lambda>x. ?source = Some (JStr (source_string x))) SOURCES = Some (rs_source rs)"
    by (cases "rs_source rs") (simp_all add: SOURCES_def)
  have "sort_key pc_code (rs_purposeCodes rs) = rs_purposeCodes rs"
    using assms by (simp add: storable_def sort_key_id_if_sorted)
  moreover have same: "\<lparr>rs_version = rs_version rs, rs_source = rs_source rs, rs_description = rs_description rs,
      rs_purposeCodes = rs_purposeCodes rs, rs_rules = rs_rules rs\<rparr> = rs"
    by (rule rule_set.equality) simp_all
  ultimately show ?thesis
    using assms rules purposes known
    by (simp add: parseRuleSet_def toRuleSetJson_def string_at_def storable_def Let_def same)
qed

lemma gather_values: "x \<in> set (snd (gather rs)) \<Longrightarrow> Inr x \<in> set rs"
  by (induction rs rule: gather.induct) (auto simp: case_prod_unfold Let_def)

lemma sandbox_purpose: "parse_purpose (Some (JStr ''sandbox_fixture'')) i raw = Inr p \<Longrightarrow> pc_regulatoryCode p = None"
  by (auto simp: parse_purpose_def split: json.splits option.splits)

lemma known_source: "List.find (\<lambda>x. source = Some (JStr (source_string x))) SOURCES = Some y \<Longrightarrow> source = Some (JStr (source_string y))"
  by (auto simp: find_Some_iff)

text \<open>
  C12. Storing and loading are symmetric: a rule set the reader accepts, from whatever object, is valid, has
  its purposes in order and claims no regulatory code as a sandbox fixture; and written back and read
  again it is the same rule set with the same checksum.
\<close>

theorem rule_set_storage:
  assumes "parseRuleSet sha256 input = Inr (rs, c)"
  shows "storable rs \<and> c = ruleSetChecksum sha256 rs \<and> parseRuleSet sha256 (toRuleSetJson rs) = Inr (rs, c)"
proof -
  from assms obtain es raw_rules raw_purposes where input: "input = JObj es" "map_of es ''rules'' = Some (JArr raw_rules)"
    and purposes: "map_of es ''purpose_codes'' = Some (JArr raw_purposes)"
    by (auto simp: parseRuleSet_def Let_def split: json.splits option.splits prod.splits if_splits)
  define source where "source = map_of es ''source''"
  define known where "known = List.find (\<lambda>x. source = Some (JStr (source_string x))) SOURCES"
  define read where "read = gather (numbered (parse_purpose source) raw_purposes)"
  from assms input purposes have rs: "rs_purposeCodes rs = sort_key pc_code (snd read)" "rs_source rs = the known"
      "validateRuleSet rs = []" "c = ruleSetChecksum sha256 rs" and found: "known \<noteq> None"
    by (auto simp: parseRuleSet_def Let_def read_def source_def known_def string_at_def
        split: prod.splits if_splits option.splits json.splits)
  have "pc_regulatoryCode p = None" if "rs_source rs = RS_sandbox_fixture" "p \<in> set (rs_purposeCodes rs)" for p
  proof -
    from found rs(2) that(1) have "source = Some (JStr ''sandbox_fixture'')"
      using known_source [of source RS_sandbox_fixture] by (auto simp: known_def)
    moreover have "p \<in> set (snd read)" using that(2) by (simp add: rs(1))
    then have "Inr p \<in> set (numbered (parse_purpose source) raw_purposes)" unfolding read_def by (rule gather_values)
    then obtain i raw where "parse_purpose source i raw = Inr p" by (auto simp: numbered_def)
    ultimately show ?thesis using sandbox_purpose by simp
  qed
  moreover have "sorted (map pc_code (rs_purposeCodes rs))" by (simp add: rs(1))
  ultimately have "storable rs" using rs(3) by (auto simp: storable_def list_all_iff)
  with rs(4) stored_read_back show ?thesis by simp
qed

theorem rule_set_storage_witness:
  "parseRuleSet id (toRuleSetJson sample_rules) = Inr (sample_rules, stringify (checksum_json sample_rules)) \<and> storable sample_rules"
proof -
  have "storable sample_rules" using sample_rules_valid by (simp add: storable_def) (simp add: sample_rules_def)
  from stored_read_back [OF this] have "parseRuleSet id (toRuleSetJson sample_rules) = Inr (sample_rules, ruleSetChecksum id sample_rules)" .
  from rule_set_storage [OF this] show ?thesis by (simp add: ruleSetChecksum_def)
qed

section \<open>What the checksum is taken of\<close>

definition written_conditions :: "rule_set \<Rightarrow> bool" where
  "written_conditions rs \<longleftrightarrow> list_all (\<lambda>r. written_once (condition_json (pr_when r))) (rs_rules rs)"

lemma condition_json_inj: "condition_json c = condition_json d \<longleftrightarrow> c = d"
  by (metis condition_read_back option.inject)

lemma action_checksum_inj: "action_checksum_json a = action_checksum_json b \<longleftrightarrow> a = b"
  by (cases a; cases b) simp_all

lemma source_string_inj: "source_string a = source_string b \<longleftrightarrow> a = b"
  by (cases a; cases b) simp_all

lemma severity_string_inj: "severity_string x = severity_string y \<longleftrightarrow> x = y"
  by (cases x; cases y) simp_all

lemma text_json_inj: "json_opt JStr v = json_opt JStr w \<longleftrightarrow> v = w"
  by (cases v; cases w) (simp_all add: json_opt_def)

lemmas strings_inj = source_string_inj severity_string_inj text_json_inj

lemma checksum_json_inj:
  "checksum_json a = checksum_json b \<longleftrightarrow> a = b\<lparr>rs_description := rs_description a\<rparr>"
proof
  assume eq: "checksum_json a = checksum_json b"
  have "inj purpose_checksum_json"
    by (intro injI purpose_code.equality) (simp_all add: purpose_checksum_json_def strings_inj)
  moreover have "inj rule_checksum_json"
    by (intro injI preflight_rule.equality)
      (simp_all add: rule_checksum_json_def strings_inj condition_json_inj action_checksum_inj)
  ultimately show "a = b\<lparr>rs_description := rs_description a\<rparr>"
    using eq by (intro rule_set.equality) (simp_all add: checksum_json_def strings_inj inj_map_eq_map)
next
  assume "a = b\<lparr>rs_description := rs_description a\<rparr>"
  then obtain d where "a = b\<lparr>rs_description := d\<rparr>" by blast
  then show "checksum_json a = checksum_json b" by (simp add: checksum_json_def)
qed

lemma checksum_written_once: "written_conditions rs \<Longrightarrow> written_once (checksum_json rs)"
proof -
  have "written_once (action_checksum_json a)" for a by (cases a) simp_all
  moreover have "written_once (json_opt JStr v)" for v by (cases v) (simp_all add: json_opt_def)
  ultimately show "written_conditions rs \<Longrightarrow> written_once (checksum_json rs)"
    by (simp add: checksum_json_def purpose_checksum_json_def rule_checksum_json_def written_conditions_def list_all_iff)
qed

text \<open>
  The checksum is taken of everything but the description: two rule sets have the same text exactly if
  they agree in all the rest. So a checksum cannot tell that a loaded rule set has the description of the
  file it came from.
\<close>

theorem checksum_text_identifies:
  assumes "written_conditions a" "written_conditions b"
  shows "stringify (checksum_json a) = stringify (checksum_json b) \<longleftrightarrow> a = b\<lparr>rs_description := rs_description a\<rparr>"
  using stringify_inj [OF checksum_written_once [OF assms(1)] checksum_written_once [OF assms(2)]]
  unfolding checksum_json_inj [symmetric] by auto

end
