(* ===== verification/Payout_Tables.thy ===== *)
theory Payout_Tables
  imports Transition_Service Payout_Attempt Provider_Mapping
begin

text \<open>
  The database of the payout services: the tables of \<open>Store\<close>, and beside them the payout attempts, the
  exceptions of settlements and the events of providers, with what the migrations
  \<open>0004_beneficiaries.sql\<close>, \<open>0005_settlements.sql\<close>, \<open>0007_payouts.sql\<close>, \<open>0008_payout_credited_amount.sql\<close> and
  \<open>0009_reconciliation_finality_returns.sql\<close> enforce on them; and the record of what operators did
  (\<open>0017_internal_operations.sql\<close>), which has no update. A service of \<open>Store\<close> runs in it through \<open>core\<close>.
  The destination versions with a \<open>verified\<close> verification are those of \<open>pd_verified\<close>.
\<close>

section \<open>Rows\<close>

datatype payout_rail = NEFT | RTGS | IMPS | UPI

record attempt_row =
  pa_id :: string
  pa_scope :: tenant_scope
  pa_settlementId :: string
  pa_destinationVersionId :: string
  pa_attemptNumber :: int
  pa_status :: payout_attempt_status
  pa_idempotencyKey :: string
  pa_providerReference :: "string option"
  pa_utr :: "string option"
  pa_dispatchedAt :: int
  pa_dispatchedBy :: string
  pa_resolvedAt :: "int option"
  pa_providerId :: "string option"
  pa_rail :: "payout_rail option"
  pa_amountMinor :: "int option"
  pa_amountCurrency :: "string option"
  pa_rawCode :: "string option"
  pa_mappingVersion :: "string option"
  pa_submittedAt :: "int option"
  pa_creditedAt :: "int option"
  pa_returnedAt :: "int option"
  pa_slaSeconds :: "int option"
  pa_creditedMinor :: "int option"
  pa_returnedTotalMinor :: int

record exception_row =
  sx_id :: string
  sx_scope :: tenant_scope
  sx_settlementId :: string
  sx_code :: exception_code
  sx_enteredFrom :: settlement_status
  sx_openedAt :: int
  sx_resolvedAt :: "int option"
  sx_resolvedBy :: "string option"
  sx_resolutionReason :: "string option"

record provider_event_row =
  pe_id :: string
  pe_scope :: tenant_scope
  pe_providerId :: string
  pe_providerEventId :: string
  pe_eventType :: string
  pe_payload :: json
  pe_signatureValid :: bool
  pe_receivedAt :: int
  pe_interpretedAt :: "int option"
  pe_interpretation :: "string option"
  pe_subjectId :: "string option"
  pe_unmappedCode :: "string option"

datatype action_kind = Kind_read | Kind_write

record operator_action_row =
  oa_id :: string
  oa_operatorId :: string
  oa_sessionId :: "string option"
  oa_kind :: action_kind
  oa_action :: string
  oa_scope :: tenant_scope
  oa_subject :: "(string \<times> string) option"
  oa_reason :: string
  oa_requestId :: "string option"
  oa_ip :: "string option"
  oa_userAgent :: "string option"
  oa_createdAt :: int

record payout_db =
  pd_core :: db
  pd_attempts :: "attempt_row list"
  pd_exceptions :: "exception_row list"
  pd_events :: "provider_event_row list"
  pd_verified :: "(tenant_scope \<times> string) list"
  pd_operatorActions :: "operator_action_row list"

section \<open>Transactions\<close>

type_synonym 'a ptx = "payout_db \<Rightarrow> (exn, 'a \<times> payout_db) result"

definition give :: "'a \<Rightarrow> 'a ptx" where
  "give x s = Inr (x, s)"

definition chain :: "'a ptx \<Rightarrow> ('a \<Rightarrow> 'b ptx) \<Rightarrow> 'b ptx" where
  "chain m f s = bind_result (m s) (\<lambda>(x, s'). f x s')"

definition look :: "(payout_db \<Rightarrow> 'a) \<Rightarrow> 'a ptx" where
  "look f s = Inr (f s, s)"

definition core :: "'a tx \<Rightarrow> 'a ptx" where
  "core m s = bind_result (m (pd_core s)) (\<lambda>(x, d). Inr (x, s\<lparr>pd_core := d\<rparr>))"

definition bound_scope :: "payout_db \<Rightarrow> tenant_scope" where
  "bound_scope s = db_scope (pd_core s)"

lemma give_Inr [simp]: "give x s = Inr (y, t) \<longleftrightarrow> y = x \<and> t = s"
  by (auto simp: give_def)

lemma look_Inr [simp]: "look f s = Inr (y, t) \<longleftrightarrow> y = f s \<and> t = s"
  by (auto simp: look_def)

lemma chain_Inr: "chain m f s = Inr (y, u) \<longleftrightarrow> (\<exists>x t. m s = Inr (x, t) \<and> f x t = Inr (y, u))"
  by (auto simp: chain_def bind_result_Inr)

lemma core_Inr: "core m s = Inr (y, t) \<longleftrightarrow> (\<exists>d. m (pd_core s) = Inr (y, d) \<and> t = s\<lparr>pd_core := d\<rparr>)"
  by (auto simp: core_def bind_result_Inr)

text \<open>The transaction of a tenant over the larger database.\<close>

definition with_tenant_payout :: "tenant_scope \<Rightarrow> int \<Rightarrow> int \<Rightarrow> 'a ptx \<Rightarrow> payout_db \<Rightarrow> (exn, 'a) result \<times> payout_db" where
  "with_tenant_payout scope now clock work s =
     (let rolled_back = s\<lparr>pd_core := (pd_core s)\<lparr>db_txid := db_txid (pd_core s) + 1\<rparr>\<rparr>
      in case work (s\<lparr>pd_core := begin_tenant scope now clock (pd_core s)\<rparr>) of
           Inl e \<Rightarrow> (Inl e, rolled_back)
         | Inr (x, s') \<Rightarrow> if commit_checks (pd_core s') then (Inr x, s') else (Inl Deferred_Violation, rolled_back))"

section \<open>Attempts\<close>

definition in_flight :: "attempt_row \<Rightarrow> bool" where
  "in_flight a \<longleftrightarrow> pa_status a \<notin> {P_CREDITED, P_REJECTED, P_RETURNED}"

definition not_positive :: "int option \<Rightarrow> bool" where
  "not_positive v = (case v of None \<Rightarrow> False | Some n \<Rightarrow> n \<le> 0)"

definition attempt_violation :: "payout_db \<Rightarrow> attempt_row \<Rightarrow> exn option" where
  "attempt_violation s a =
     (let others = filter (\<lambda>b. pa_id b \<noteq> pa_id a) (pd_attempts s) in
      first_violation
       [(pa_scope a \<noteq> bound_scope s, Row_Security),
        (\<not> in_integer (pa_attemptNumber a) \<or> \<not> list_all in_bigint (map the (filter (\<lambda>v. v \<noteq> None) [pa_amountMinor a, pa_creditedMinor a])) \<or>
          \<not> list_all in_integer (map the (filter (\<lambda>v. v \<noteq> None) [pa_slaSeconds a])), Out_Of_Range),
        (pa_attemptNumber a < 1 \<or> not_positive (pa_amountMinor a) \<or> not_positive (pa_slaSeconds a), Check_Violation),
        (pa_status a = P_CREDITED \<and> (pa_utr a = None \<or> pa_utr a = Some [] \<or> pa_creditedAt a = None), Check_Violation),
        (pa_status a = P_RETURNED \<and> (pa_utr a = None \<or> pa_creditedAt a = None \<or> pa_returnedAt a = None), Check_Violation),
        (not_positive (pa_creditedMinor a), Check_Violation),
        (pa_creditedMinor a \<noteq> None \<and> pa_status a \<noteq> P_CREDITED \<and> pa_status a \<noteq> P_RETURNED, Check_Violation),
        (pa_returnedTotalMinor a < 0, Check_Violation),
        (pa_returnedTotalMinor a \<noteq> 0 \<and> (case pa_creditedMinor a of None \<Rightarrow> True | Some c \<Rightarrow> pa_returnedTotalMinor a > c), Check_Violation),
        (list_ex (\<lambda>b. pa_settlementId b = pa_settlementId a \<and> pa_attemptNumber b = pa_attemptNumber a) others, Duplicate_Key),
        (in_flight a \<and> list_ex (\<lambda>b. pa_settlementId b = pa_settlementId a \<and> in_flight b) others, Duplicate_Key),
        (list_ex (\<lambda>b. pa_idempotencyKey b = pa_idempotencyKey a) others, Duplicate_Key),
        (\<not> references_settlement (pd_core s) (pa_settlementId a), Foreign_Key_Violation)])"

definition protect_payout_attempt :: "attempt_row \<Rightarrow> attempt_row \<Rightarrow> (exn, attempt_row) result" where
  "protect_payout_attempt old new =
     bind_result (refused_if (pa_settlementId new \<noteq> pa_settlementId old \<or> pa_attemptNumber new \<noteq> pa_attemptNumber old \<or>
       pa_idempotencyKey new \<noteq> pa_idempotencyKey old \<or> pa_destinationVersionId new \<noteq> pa_destinationVersionId old \<or>
       pa_dispatchedAt new \<noteq> pa_dispatchedAt old) new) (\<lambda>new.
     refused_if (\<not> in_flight old \<and> pa_status new \<noteq> pa_status old \<and>
       \<not> (pa_status old = P_CREDITED \<and> pa_status new = P_RETURNED)) new)"

definition insert_attempt :: "attempt_row \<Rightarrow> unit ptx" where
  "insert_attempt a s =
     (case attempt_violation s a of
        Some e \<Rightarrow> Inl e
      | None \<Rightarrow> if pa_id a \<in> pa_id ` set (pd_attempts s) then Inl Duplicate_Key
                else Inr ((), s\<lparr>pd_attempts := pd_attempts s @ [a]\<rparr>))"

definition update_attempts :: "(attempt_row \<Rightarrow> bool) \<Rightarrow> (attempt_row \<Rightarrow> attempt_row) \<Rightarrow> unit ptx" where
  "update_attempts p patch s =
     bind_result (update_rows (\<lambda>a. pa_scope a = bound_scope s \<and> p a)
       (guarded protect_payout_attempt (attempt_violation s) patch) (pd_attempts s)) (\<lambda>rs.
     Inr ((), s\<lparr>pd_attempts := rs\<rparr>))"

definition visible_attempts :: "string \<Rightarrow> payout_db \<Rightarrow> attempt_row list" where
  "visible_attempts settlementId s =
     filter (\<lambda>a. pa_scope a = bound_scope s \<and> pa_settlementId a = settlementId) (pd_attempts s)"

text \<open>\<open>ORDER BY attempt_number DESC LIMIT 1\<close>.\<close>

definition latest_visible :: "string \<Rightarrow> payout_db \<Rightarrow> attempt_row option" where
  "latest_visible settlementId s =
     (case sort_key (\<lambda>a. - pa_attemptNumber a) (visible_attempts settlementId s) of
        [] \<Rightarrow> None
      | a # _ \<Rightarrow> Some a)"

section \<open>Exceptions of settlements\<close>

definition exception_violation :: "payout_db \<Rightarrow> exception_row \<Rightarrow> exn option" where
  "exception_violation s x =
     first_violation
       [(sx_scope x \<noteq> bound_scope s, Row_Security),
        (sx_resolvedAt x \<noteq> None \<and> (sx_resolvedBy x = None \<or> sx_resolutionReason x = None \<or> sx_resolutionReason x = Some []),
         Check_Violation),
        (sx_resolvedAt x = None \<and>
          list_ex (\<lambda>y. sx_id y \<noteq> sx_id x \<and> sx_settlementId y = sx_settlementId x \<and> sx_resolvedAt y = None) (pd_exceptions s),
         Duplicate_Key),
        (\<not> references_settlement (pd_core s) (sx_settlementId x), Foreign_Key_Violation)]"

definition insert_exception :: "exception_row \<Rightarrow> unit ptx" where
  "insert_exception x s =
     (case exception_violation s x of
        Some e \<Rightarrow> Inl e
      | None \<Rightarrow> if sx_id x \<in> sx_id ` set (pd_exceptions s) then Inl Duplicate_Key
                else Inr ((), s\<lparr>pd_exceptions := pd_exceptions s @ [x]\<rparr>))"

definition update_exceptions :: "(exception_row \<Rightarrow> bool) \<Rightarrow> (exception_row \<Rightarrow> exception_row) \<Rightarrow> unit ptx" where
  "update_exceptions p patch s =
     bind_result (update_rows (\<lambda>x. sx_scope x = bound_scope s \<and> p x)
       (guarded (\<lambda>_ new. Inr new) (exception_violation s) patch) (pd_exceptions s)) (\<lambda>rs.
     Inr ((), s\<lparr>pd_exceptions := rs\<rparr>))"

section \<open>Events of providers\<close>

definition provider_event_violation :: "payout_db \<Rightarrow> provider_event_row \<Rightarrow> exn option" where
  "provider_event_violation s e =
     first_violation
       [(pe_scope e \<noteq> bound_scope s, Row_Security),
        (list_ex (\<lambda>f. pe_id f \<noteq> pe_id e \<and> pe_providerId f = pe_providerId e \<and> pe_providerEventId f = pe_providerEventId e)
          (pd_events s), Duplicate_Key)]"

definition protect_provider_event :: "provider_event_row \<Rightarrow> provider_event_row \<Rightarrow> (exn, provider_event_row) result" where
  "protect_provider_event old new =
     refused_if (pe_providerId new \<noteq> pe_providerId old \<or> pe_providerEventId new \<noteq> pe_providerEventId old \<or>
       pe_eventType new \<noteq> pe_eventType old \<or> pe_payload new \<noteq> pe_payload old \<or>
       pe_signatureValid new \<noteq> pe_signatureValid old \<or> pe_receivedAt new \<noteq> pe_receivedAt old) new"

definition insert_provider_event :: "provider_event_row \<Rightarrow> unit ptx" where
  "insert_provider_event e s =
     (case provider_event_violation s e of
        Some x \<Rightarrow> Inl x
      | None \<Rightarrow> if pe_id e \<in> pe_id ` set (pd_events s) then Inl Duplicate_Key
                else Inr ((), s\<lparr>pd_events := pd_events s @ [e]\<rparr>))"

definition update_provider_events :: "(provider_event_row \<Rightarrow> bool) \<Rightarrow> (provider_event_row \<Rightarrow> provider_event_row) \<Rightarrow> unit ptx" where
  "update_provider_events p patch s =
     bind_result (update_rows (\<lambda>e. pe_scope e = bound_scope s \<and> p e)
       (guarded protect_provider_event (provider_event_violation s) patch) (pd_events s)) (\<lambda>rs.
     Inr ((), s\<lparr>pd_events := rs\<rparr>))"

section \<open>What operators did\<close>

text \<open>\<open>btrim\<close> strips spaces only.\<close>

definition btrim :: "string \<Rightarrow> string" where
  "btrim s = rev (dropWhile (\<lambda>c. c = CHR '' '') (rev (dropWhile (\<lambda>c. c = CHR '' '') s)))"

definition operator_action_violation :: "payout_db \<Rightarrow> operator_action_row \<Rightarrow> exn option" where
  "operator_action_violation s a =
     first_violation
       [(oa_scope a \<noteq> bound_scope s, Row_Security),
        (length (btrim (oa_reason a)) < 8, Check_Violation)]"

definition insert_operator_action :: "operator_action_row \<Rightarrow> unit ptx" where
  "insert_operator_action a s =
     (case operator_action_violation s a of
        Some e \<Rightarrow> Inl e
      | None \<Rightarrow> if oa_id a \<in> oa_id ` set (pd_operatorActions s) then Inl Duplicate_Key
                else Inr ((), s\<lparr>pd_operatorActions := pd_operatorActions s @ [a]\<rparr>))"

end
