(* ===== verification/Payout_Service.thy ===== *)
theory Payout_Service
  imports Payout_Tables
begin

text \<open>
  Payout execution (\<open>packages/app/src/payout.service.ts\<close>) with the provider port it calls
  (\<open>packages/domain/src/payouts/provider.ts\<close>). The provider and the resolver of destinations are parameters:
  a call is its answer, a timeout or another error. A function that opens its own transactions is a function
  on the committed database; what may happen between two of its transactions is kept apart
  (\<open>record_acknowledgement\<close>), so that other transactions can run in between.
\<close>

section \<open>The port\<close>

datatype payout_destination_kind = To_Bank_Account | To_Vpa

record rail_capability =
  rc_rail :: payout_rail
  rc_minMinor :: "int option"
  rc_maxMinor :: "int option"
  rc_destinationKinds :: "payout_destination_kind list"
  rc_open :: bool
  rc_slaSeconds :: int

record payout_destination =
  dn_destinationVersionId :: string
  dn_kind :: payout_destination_kind
  dn_accountNumber :: "string option"
  dn_ifsc :: "string option"
  dn_vpa :: "string option"
  dn_holder :: string

record payout_command =
  cm_settlementId :: string
  cm_attemptNumber :: int
  cm_idempotencyKey :: string
  cm_rail :: payout_rail
  cm_amountMinor :: int
  cm_destination :: payout_destination

datatype ack_status = Ack_SUBMITTED | Ack_ACCEPTED | Ack_CREDITED | Ack_REJECTED

record payout_ack =
  ak_providerReference :: string
  ak_status :: ack_status
  ak_utr :: "string option"
  ak_rawCode :: "string option"
  ak_creditedMinor :: "int option"

datatype submit_error = Payout_Timeout string | Submit_Error

record payout_found =
  pf_status :: payout_attempt_status
  pf_providerReference :: string
  pf_utr :: "string option"
  pf_rawCode :: "string option"
  pf_creditedMinor :: "int option"

datatype payout_query = Query_Found payout_found | Query_Not_Found | Query_Failed string

datatype rail_refusal = No_Rail_For_Destination | No_Rail_For_Amount | All_Rails_Closed

definition RAIL_PREFERENCE :: "payout_rail list" where
  "RAIL_PREFERENCE = [UPI, IMPS, RTGS, NEFT]"

definition selectRail :: "rail_capability list \<Rightarrow> payout_destination_kind \<Rightarrow> int \<Rightarrow>
    (rail_refusal \<times> payout_rail list, payout_rail) result" where
  "selectRail rails kind amountMinor =
     (let forDestination = filter (\<lambda>r. kind \<in> set (rc_destinationKinds r)) rails;
          forAmount = filter (\<lambda>r. (case rc_minMinor r of None \<Rightarrow> True | Some m \<Rightarrow> amountMinor \<ge> m) \<and>
            (case rc_maxMinor r of None \<Rightarrow> True | Some m \<Rightarrow> amountMinor \<le> m)) forDestination;
          usable = filter rc_open forAmount
      in if forDestination = [] then Inl (No_Rail_For_Destination, map rc_rail rails)
         else if forAmount = [] then Inl (No_Rail_For_Amount, map rc_rail forDestination)
         else if usable = [] then Inl (All_Rails_Closed, map rc_rail forAmount)
         else case List.find (\<lambda>c. c \<noteq> None) (map (\<lambda>rail. List.find (\<lambda>r. rc_rail r = rail) usable) RAIL_PREFERENCE) of
           Some (Some r) \<Rightarrow> Inr (rc_rail r)
         | _ \<Rightarrow> Inr (rc_rail (hd usable)))"

definition chooseRail :: "rail_capability list \<Rightarrow> payout_destination_kind \<Rightarrow> int \<Rightarrow>
    (rail_refusal \<times> payout_rail list, payout_rail \<times> int) result" where
  "chooseRail rails kind amountMinor =
     bind_result (selectRail rails kind amountMinor) (\<lambda>rail.
     Inr (rail, rc_slaSeconds (the (List.find (\<lambda>r. rc_rail r = rail) rails))))"

definition utr_char :: "char \<Rightarrow> bool" where
  "utr_char c \<longleftrightarrow> is_digit c \<or> (CHR ''A'' \<le> c \<and> c \<le> CHR ''Z'') \<or> (CHR ''a'' \<le> c \<and> c \<le> CHR ''z'')"

definition isWellFormedUtr :: "string option \<Rightarrow> bool" where
  "isWellFormedUtr utr = (case utr of None \<Rightarrow> False | Some u \<Rightarrow> 12 \<le> length u \<and> length u \<le> 22 \<and> list_all utr_char u)"

section \<open>Answers\<close>

primrec exception_code_string :: "exception_code \<Rightarrow> string" where
  "exception_code_string LIQUIDITY_UNAVAILABLE = ''LIQUIDITY_UNAVAILABLE''"
| "exception_code_string FACILITY_SUSPENDED = ''FACILITY_SUSPENDED''"
| "exception_code_string DRAWDOWN_FAILED = ''DRAWDOWN_FAILED''"
| "exception_code_string DRAWDOWN_STATUS_UNKNOWN = ''DRAWDOWN_STATUS_UNKNOWN''"
| "exception_code_string PAYOUT_REJECTED_DESTINATION = ''PAYOUT_REJECTED_DESTINATION''"
| "exception_code_string PAYOUT_REJECTED_COMPLIANCE = ''PAYOUT_REJECTED_COMPLIANCE''"
| "exception_code_string PAYOUT_REJECTED_PROVIDER = ''PAYOUT_REJECTED_PROVIDER''"
| "exception_code_string PAYOUT_STATUS_UNKNOWN = ''PAYOUT_STATUS_UNKNOWN''"
| "exception_code_string RECONCILIATION_MISMATCH = ''RECONCILIATION_MISMATCH''"
| "exception_code_string FINALITY_EVIDENCE_MISSING = ''FINALITY_EVIDENCE_MISSING''"

datatype payout_failure =
    Attempt_Not_Found
  | Attempt_Not_Awaiting_Submission payout_attempt_status
  | Destination_Version_Not_Found
  | Provider_Timeout string
  | Untrusted_Evidence
  | Utr_Missing_Or_Malformed "string option"
  | Invalid_Attempt_Transition payout_attempt_status
  | Return_Requires_Credit payout_attempt_status
  | Unknown_Outcome_Is_Not_Applied
  | Transition_Refused transition_failure
  | Attempt_Not_In_Flight payout_attempt_status
  | Sla_Not_Elapsed int
  | Pull_Failed string
  | Still_In_Flight payout_attempt_status
  | Retry_Requires_Authoritative_Rejection payout_attempt_status

record payout_done =
  do_attemptNumber :: int
  do_status :: payout_attempt_status
  do_providerReference :: "string option"
  do_utr :: "string option"
  do_creditedMinor :: "int option"
  do_awaitingResolution :: bool
  do_idempotent :: bool
  do_idempotencyKey :: "string option"

type_synonym payout_result = "(payout_failure, payout_done) result"

definition answered :: "attempt_row \<Rightarrow> payout_attempt_status \<Rightarrow> payout_done" where
  "answered a s =
     \<lparr>do_attemptNumber = pa_attemptNumber a, do_status = s, do_providerReference = None, do_utr = None,
      do_creditedMinor = None, do_awaitingResolution = False, do_idempotent = False, do_idempotencyKey = None\<rparr>"

text \<open>\<open>...(v ? {column: v} : {})\<close>: an absent or empty text leaves the column.\<close>

definition given :: "string option \<Rightarrow> string option \<Rightarrow> string option" where
  "given v old = (case v of None \<Rightarrow> old | Some [] \<Rightarrow> old | Some x \<Rightarrow> Some x)"

section \<open>Applying an outcome\<close>

record outcome_input =
  oi_settlementId :: string
  oi_outcome :: provider_outcome
  oi_actor :: principal
  oi_trusted :: bool
  oi_utr :: "string option"
  oi_rawCode :: "string option"
  oi_exceptionCode :: "exception_code option"
  oi_providerReference :: "string option"
  oi_mappingVersion :: "string option"
  oi_creditedMinor :: "int option"

definition guards_of :: "guard list \<Rightarrow> guard_context" where
  "guards_of gs g = (if g \<in> set gs then Some True else None)"

text \<open>The transition of the settlement that goes with a change of the attempt.\<close>

definition move_settlement :: "tenant_scope \<Rightarrow> apply_input \<Rightarrow> payout_done \<Rightarrow> payout_result ptx" where
  "move_settlement scope input d =
     chain (core (applyTransition scope input)) (\<lambda>r. give (case r of Inl f \<Rightarrow> Inl (Transition_Refused f) | Inr _ \<Rightarrow> Inr d))"

definition payout_transition_input ::
    "outcome_input \<Rightarrow> trigger \<Rightarrow> guard list \<Rightarrow> exception_code option \<Rightarrow> (string \<times> json) list \<Rightarrow> apply_input" where
  "payout_transition_input i t gs code payload =
     \<lparr>ai_settlementId = oi_settlementId i, ai_trigger = t, ai_actor = oi_actor i, ai_guards = guards_of gs,
      ai_expectedVersion = None, ai_companions = [], ai_patch = None, ai_statusEventPayload = payload,
      ai_exceptionCode = code, ai_reason = None\<rparr>"

definition settlement_in_exception :: "string \<Rightarrow> payout_db \<Rightarrow> bool" where
  "settlement_in_exception i s =
     (case find_visible db_settlements stl_scope (\<lambda>r. stl_id r = i) (pd_core s) of
        [] \<Rightarrow> False
      | r # _ \<Rightarrow> stl_status r = EXCEPTION)"

definition apply_credit :: "tenant_scope \<Rightarrow> outcome_input \<Rightarrow> attempt_row \<Rightarrow> int \<Rightarrow> bool \<Rightarrow> payout_result ptx" where
  "apply_credit scope i a now inException =
     (if \<not> isWellFormedUtr (oi_utr i) then give (Inl (Utr_Missing_Or_Malformed (oi_utr i)))
      else if pa_status a = P_CREDITED then give (Inr ((answered a P_CREDITED)\<lparr>do_idempotent := True\<rparr>))
      else if \<not> in_flight a then give (Inl (Invalid_Attempt_Transition (pa_status a)))
      else chain (update_attempts (\<lambda>b. pa_id b = pa_id a) (\<lambda>b. b\<lparr>
             pa_status := P_CREDITED, pa_utr := oi_utr i, pa_creditedAt := Some now, pa_resolvedAt := Some now,
             pa_creditedMinor := (case oi_creditedMinor i of None \<Rightarrow> pa_creditedMinor b | Some m \<Rightarrow> Some m),
             pa_providerReference := given (oi_providerReference i) (pa_providerReference b),
             pa_rawCode := given (oi_rawCode i) (pa_rawCode b),
             pa_mappingVersion := given (oi_mappingVersion i) (pa_mappingVersion b)\<rparr>)) (\<lambda>_.
           if inException
           then give (Inr ((answered a P_CREDITED)\<lparr>do_utr := oi_utr i, do_awaitingResolution := True\<rparr>))
           else move_settlement scope
             (payout_transition_input i T_payout_credited [G_trusted_provider_event, G_utr_present_and_well_formed] None
               [(''utr'', JStr (the (oi_utr i))), (''attempt_number'', JNum (pa_attemptNumber a))])
             ((answered a P_CREDITED)\<lparr>do_utr := oi_utr i, do_creditedMinor := oi_creditedMinor i\<rparr>)))"

definition apply_rejection :: "tenant_scope \<Rightarrow> outcome_input \<Rightarrow> attempt_row \<Rightarrow> int \<Rightarrow> bool \<Rightarrow> payout_result ptx" where
  "apply_rejection scope i a now inException =
     (if pa_status a = P_REJECTED then give (Inr ((answered a P_REJECTED)\<lparr>do_idempotent := True\<rparr>))
      else if \<not> in_flight a then give (Inl (Invalid_Attempt_Transition (pa_status a)))
      else chain (update_attempts (\<lambda>b. pa_id b = pa_id a) (\<lambda>b. b\<lparr>
             pa_status := P_REJECTED, pa_resolvedAt := Some now,
             pa_providerReference := given (oi_providerReference i) (pa_providerReference b),
             pa_rawCode := given (oi_rawCode i) (pa_rawCode b),
             pa_mappingVersion := given (oi_mappingVersion i) (pa_mappingVersion b)\<rparr>)) (\<lambda>_.
           if inException then give (Inr ((answered a P_REJECTED)\<lparr>do_awaitingResolution := True\<rparr>))
           else move_settlement scope
             (payout_transition_input i T_payout_rejected [G_trusted_provider_event]
               (Some (case oi_exceptionCode i of None \<Rightarrow> PAYOUT_REJECTED_PROVIDER | Some c \<Rightarrow> c))
               [(''attempt_number'', JNum (pa_attemptNumber a)), (''raw_code'', json_opt JStr (oi_rawCode i))])
             (answered a P_REJECTED)))"

definition apply_acceptance :: "outcome_input \<Rightarrow> attempt_row \<Rightarrow> payout_result ptx" where
  "apply_acceptance i a =
     (if pa_status a = P_SUBMITTED
      then chain (update_attempts (\<lambda>b. pa_id b = pa_id a) (\<lambda>b. b\<lparr>pa_status := P_ACCEPTED,
             pa_providerReference := given (oi_providerReference i) (pa_providerReference b)\<rparr>)) (\<lambda>_.
           give (Inr (answered a P_ACCEPTED)))
      else give (Inr ((answered a (pa_status a))\<lparr>do_idempotent := True\<rparr>)))"

definition apply_return :: "outcome_input \<Rightarrow> attempt_row \<Rightarrow> int \<Rightarrow> payout_result ptx" where
  "apply_return i a now =
     (if pa_status a \<noteq> P_CREDITED \<and> pa_status a \<noteq> P_RETURNED then give (Inl (Return_Requires_Credit (pa_status a)))
      else if pa_status a = P_RETURNED then give (Inr ((answered a P_RETURNED)\<lparr>do_idempotent := True\<rparr>))
      else chain (update_attempts (\<lambda>b. pa_id b = pa_id a) (\<lambda>b. b\<lparr>pa_status := P_RETURNED, pa_returnedAt := Some now,
             pa_rawCode := given (oi_rawCode i) (pa_rawCode b)\<rparr>)) (\<lambda>_.
           give (Inr (answered a P_RETURNED))))"

definition applyPayoutOutcome :: "tenant_scope \<Rightarrow> outcome_input \<Rightarrow> payout_result ptx" where
  "applyPayoutOutcome scope i =
     (if \<not> oi_trusted i then give (Inl Untrusted_Evidence)
      else chain (look (latest_visible (oi_settlementId i))) (\<lambda>found.
        case found of
          None \<Rightarrow> give (Inl Attempt_Not_Found)
        | Some a \<Rightarrow>
            chain (look (\<lambda>s. (db_now (pd_core s), settlement_in_exception (oi_settlementId i) s))) (\<lambda>(now, inException).
            case oi_outcome i of
              O_credited \<Rightarrow> apply_credit scope i a now inException
            | O_rejected \<Rightarrow> apply_rejection scope i a now inException
            | O_accepted \<Rightarrow> apply_acceptance i a
            | O_returned \<Rightarrow> apply_return i a now
            | O_unknown \<Rightarrow> give (Inl Unknown_Outcome_Is_Not_Applied))))"

section \<open>The sweeper\<close>

definition sweepPayoutSla :: "tenant_scope \<Rightarrow> string \<Rightarrow> principal \<Rightarrow> payout_result ptx" where
  "sweepPayoutSla scope settlementId actor =
     chain (look (latest_visible settlementId)) (\<lambda>found.
     case found of
       None \<Rightarrow> give (Inl Attempt_Not_Found)
     | Some a \<Rightarrow>
         if pa_status a \<noteq> P_SUBMITTED \<and> pa_status a \<noteq> P_ACCEPTED then give (Inl (Attempt_Not_In_Flight (pa_status a)))
         else chain (look (\<lambda>s. db_now (pd_core s))) (\<lambda>now.
           let elapsed = now - pa_dispatchedAt a in
           if (case pa_slaSeconds a of None \<Rightarrow> True | Some sla \<Rightarrow> elapsed < sla * 1000)
           then give (Inl (Sla_Not_Elapsed elapsed))
           else chain (update_attempts (\<lambda>b. pa_id b = pa_id a \<and> pa_status b = pa_status a) (\<lambda>b. b\<lparr>pa_status := P_UNKNOWN\<rparr>)) (\<lambda>_.
             move_settlement scope
               \<lparr>ai_settlementId = settlementId, ai_trigger = T_payout_timeout, ai_actor = actor,
                ai_guards = guards_of [G_rail_sla_elapsed], ai_expectedVersion = None, ai_companions = [], ai_patch = None,
                ai_statusEventPayload = [(''attempt_number'', JNum (pa_attemptNumber a))],
                ai_exceptionCode = Some PAYOUT_STATUS_UNKNOWN, ai_reason = None\<rparr>
               (answered a P_UNKNOWN))))"

section \<open>Retry\<close>

record retry_input =
  ry_settlementId :: string
  ry_actor :: principal
  ry_rail :: payout_rail
  ry_slaSeconds :: int
  ry_providerId :: string
  ry_reason :: string

definition attempt_status_string :: "payout_attempt_status \<Rightarrow> string" where
  "attempt_status_string s =
     (case s of P_SUBMITTED \<Rightarrow> ''SUBMITTED'' | P_ACCEPTED \<Rightarrow> ''ACCEPTED'' | P_CREDITED \<Rightarrow> ''CREDITED''
      | P_REJECTED \<Rightarrow> ''REJECTED'' | P_RETURNED \<Rightarrow> ''RETURNED'' | P_UNKNOWN \<Rightarrow> ''UNKNOWN'')"

definition retried_attempt :: "tenant_scope \<Rightarrow> retry_input \<Rightarrow> attempt_row \<Rightarrow> string \<Rightarrow> string \<Rightarrow> int \<Rightarrow> attempt_row" where
  "retried_attempt scope i previous attemptId key now =
     \<lparr>pa_id = attemptId, pa_scope = scope, pa_settlementId = ry_settlementId i,
      pa_destinationVersionId = pa_destinationVersionId previous, pa_attemptNumber = pa_attemptNumber previous + 1,
      pa_status = P_SUBMITTED, pa_idempotencyKey = key, pa_providerReference = None, pa_utr = None,
      pa_dispatchedAt = now, pa_dispatchedBy = pr_id (ry_actor i), pa_resolvedAt = None,
      pa_providerId = Some (ry_providerId i), pa_rail = Some (ry_rail i), pa_amountMinor = pa_amountMinor previous,
      pa_amountCurrency = pa_amountCurrency previous, pa_rawCode = None, pa_mappingVersion = None, pa_submittedAt = None,
      pa_creditedAt = None, pa_returnedAt = None, pa_slaSeconds = Some (ry_slaSeconds i), pa_creditedMinor = None,
      pa_returnedTotalMinor = 0\<rparr>"

definition retryPayout :: "tenant_scope \<Rightarrow> retry_input \<Rightarrow> payout_result ptx" where
  "retryPayout scope i =
     chain (look (latest_visible (ry_settlementId i))) (\<lambda>found.
     case found of
       None \<Rightarrow> give (Inl Attempt_Not_Found)
     | Some previous \<Rightarrow>
         if pa_status previous \<noteq> P_REJECTED then give (Inl (Retry_Requires_Authoritative_Rejection (pa_status previous)))
         else (case payoutIdempotencyKey (ry_settlementId i) (pa_attemptNumber previous + 1) of
             Inl _ \<Rightarrow> (\<lambda>s. Inl JS_Range_Error)
           | Inr key \<Rightarrow>
               chain (core (new_id K_payoutAttempt)) (\<lambda>attemptId.
               chain (look (\<lambda>s. db_now (pd_core s))) (\<lambda>now.
               let fresh = retried_attempt scope i previous attemptId key now in
               chain (insert_attempt fresh) (\<lambda>_.
               chain (core (write_audit scope
                 \<lparr>au_actor = ry_actor i, au_action = ''payout.retry_allocated'', au_subjectType = ''settlement'',
                  au_subjectId = ry_settlementId i,
                  au_before = JObj [(''attempt_number'', JNum (pa_attemptNumber previous)),
                    (''status'', JStr (attempt_status_string (pa_status previous)))],
                  au_after = JObj [(''attempt_number'', JNum (pa_attemptNumber fresh)), (''idempotency_key'', JStr key)],
                  au_reason = Some (ry_reason i)\<rparr>)) (\<lambda>_.
               give (Inr ((answered fresh P_SUBMITTED)\<lparr>do_idempotencyKey := Some key\<rparr>))))))))"

section \<open>The outbound call\<close>

definition command_of :: "attempt_row \<Rightarrow> string \<Rightarrow> payout_destination \<Rightarrow> payout_command" where
  "command_of a key destination =
     \<lparr>cm_settlementId = pa_settlementId a, cm_attemptNumber = pa_attemptNumber a, cm_idempotencyKey = key,
      cm_rail = (case pa_rail a of None \<Rightarrow> NEFT | Some r \<Rightarrow> r),
      cm_amountMinor = (case pa_amountMinor a of None \<Rightarrow> 0 | Some m \<Rightarrow> m),
      cm_destination = destination\<lparr>dn_destinationVersionId := pa_destinationVersionId a\<rparr>\<rparr>"

text \<open>What is done with the answer, in a transaction of its own, for the attempt as it was read before the call.\<close>

definition record_acknowledgement :: "attempt_row \<Rightarrow> payout_ack \<Rightarrow> unit ptx" where
  "record_acknowledgement a k =
     chain (look (\<lambda>s. db_now (pd_core s))) (\<lambda>now.
     update_attempts (\<lambda>b. pa_id b = pa_id a) (\<lambda>b. b\<lparr>
       pa_providerReference := Some (ak_providerReference k), pa_submittedAt := Some now,
       pa_status := (if ak_status k = Ack_ACCEPTED then P_ACCEPTED else pa_status b),
       pa_rawCode := given (ak_rawCode k) (pa_rawCode b)\<rparr>))"

definition record_timeout :: "tenant_scope \<Rightarrow> principal \<Rightarrow> attempt_row \<Rightarrow> string \<Rightarrow> unit ptx" where
  "record_timeout scope actor a key =
     core (write_audit scope
       \<lparr>au_actor = actor, au_action = ''payout.submit_timeout'', au_subjectType = ''settlement'',
        au_subjectId = pa_settlementId a, au_before = JNull,
        au_after = JObj [(''attempt_number'', JNum (pa_attemptNumber a)), (''idempotency_key'', JStr key)],
        au_reason = Some ''provider did not answer; status is unknown, not failed''\<rparr>)"

definition ack_attempt_status :: "ack_status \<Rightarrow> payout_attempt_status" where
  "ack_attempt_status s = (case s of Ack_SUBMITTED \<Rightarrow> P_SUBMITTED | Ack_ACCEPTED \<Rightarrow> P_ACCEPTED
     | Ack_CREDITED \<Rightarrow> P_CREDITED | Ack_REJECTED \<Rightarrow> P_REJECTED)"

text \<open>The attempt the service submits, and the command it presents to the provider.\<close>

definition prepare_submission ::
    "(string \<Rightarrow> payout_destination option) \<Rightarrow> attempt_row option \<Rightarrow>
     (exn, (payout_failure, attempt_row \<times> payout_command) result) result" where
  "prepare_submission resolveDestination found =
     (case found of
        None \<Rightarrow> Inr (Inl Attempt_Not_Found)
      | Some a \<Rightarrow>
          if pa_status a \<noteq> P_SUBMITTED then Inr (Inl (Attempt_Not_Awaiting_Submission (pa_status a)))
          else case resolveDestination (pa_destinationVersionId a) of
            None \<Rightarrow> Inr (Inl Destination_Version_Not_Found)
          | Some destination \<Rightarrow>
              (case payoutIdempotencyKey (pa_settlementId a) (pa_attemptNumber a) of
                 Inl _ \<Rightarrow> Inl JS_Range_Error
               | Inr key \<Rightarrow> Inr (Inr (a, command_of a key destination))))"

definition acknowledged :: "attempt_row \<Rightarrow> payout_ack \<Rightarrow> payout_done" where
  "acknowledged a k =
     (answered a (ack_attempt_status (ak_status k)))\<lparr>do_providerReference := Some (ak_providerReference k),
       do_utr := ak_utr k, do_creditedMinor := ak_creditedMinor k\<rparr>"

definition submitDispatchedPayout ::
    "tenant_scope \<Rightarrow> int \<Rightarrow> int \<Rightarrow> (payout_command \<Rightarrow> (submit_error, payout_ack) result) \<Rightarrow>
     (string \<Rightarrow> payout_destination option) \<Rightarrow> string \<Rightarrow> principal \<Rightarrow> payout_db \<Rightarrow>
     (exn, payout_result) result \<times> payout_db" where
  "submitDispatchedPayout scope now clock submitPayout resolveDestination settlementId actor s =
     (case with_tenant_payout scope now clock (look (latest_visible settlementId)) s of
        (Inl e, s1) \<Rightarrow> (Inl e, s1)
      | (Inr found, s1) \<Rightarrow>
          (case prepare_submission resolveDestination found of
             Inl e \<Rightarrow> (Inl e, s1)
           | Inr (Inl f) \<Rightarrow> (Inr (Inl f), s1)
           | Inr (Inr (a, cmd)) \<Rightarrow>
               (case submitPayout cmd of
                  Inl (Payout_Timeout _) \<Rightarrow>
                    with_tenant_payout scope now clock
                      (chain (record_timeout scope actor a (cm_idempotencyKey cmd)) (\<lambda>_.
                       give (Inl (Provider_Timeout (cm_idempotencyKey cmd))))) s1
                | Inl Submit_Error \<Rightarrow> (Inl JS_Error, s1)
                | Inr k \<Rightarrow>
                    with_tenant_payout scope now clock
                      (chain (record_acknowledgement a k) (\<lambda>_. give (Inr (acknowledged a k)))) s1)))"

section \<open>The pull\<close>

definition pulled_outcome :: "provider_mapping_table \<Rightarrow> string \<Rightarrow> principal \<Rightarrow> payout_query \<Rightarrow> (payout_failure, outcome_input) result" where
  "pulled_outcome mapping settlementId actor answer =
     (case answer of
        Query_Failed e \<Rightarrow> Inl (Pull_Failed e)
      | Query_Not_Found \<Rightarrow>
          Inr \<lparr>oi_settlementId = settlementId, oi_outcome = O_rejected, oi_actor = actor, oi_trusted = True, oi_utr = None,
            oi_rawCode = Some ''PULL_NOT_FOUND'', oi_exceptionCode = Some PAYOUT_REJECTED_PROVIDER,
            oi_providerReference = None, oi_mappingVersion = Some (mt_version mapping), oi_creditedMinor = None\<rparr>
      | Query_Found p \<Rightarrow>
          if pf_status p = P_SUBMITTED \<or> pf_status p = P_ACCEPTED then Inl (Still_In_Flight (pf_status p))
          else
            (let outcome = (if pf_status p = P_CREDITED then O_credited else if pf_status p = P_RETURNED then O_returned else O_rejected);
                 reading = (case pf_rawCode p of None \<Rightarrow> None | Some [] \<Rightarrow> None | Some code \<Rightarrow> Some (interpretProviderCode mapping code outcome))
             in Inr \<lparr>oi_settlementId = settlementId, oi_outcome = outcome, oi_actor = actor, oi_trusted = True,
               oi_utr = pf_utr p, oi_rawCode = pf_rawCode p,
               oi_exceptionCode = (case reading of Some (Mapped _ c _ _) \<Rightarrow> c | Some (Unmapped _ c _ _) \<Rightarrow> Some c | None \<Rightarrow> None),
               oi_providerReference = Some (pf_providerReference p), oi_mappingVersion = Some (mt_version mapping),
               oi_creditedMinor = pf_creditedMinor p\<rparr>))"

definition pullPayoutStatus ::
    "tenant_scope \<Rightarrow> int \<Rightarrow> int \<Rightarrow> (string \<Rightarrow> payout_query) \<Rightarrow> provider_mapping_table \<Rightarrow> string \<Rightarrow> principal \<Rightarrow>
     payout_db \<Rightarrow> (exn, payout_result) result \<times> payout_db" where
  "pullPayoutStatus scope now clock getPayout mapping settlementId actor s =
     (case with_tenant_payout scope now clock (look (latest_visible settlementId)) s of
        (Inl e, s1) \<Rightarrow> (Inl e, s1)
      | (Inr None, s1) \<Rightarrow> (Inr (Inl Attempt_Not_Found), s1)
      | (Inr (Some a), s1) \<Rightarrow>
          (case payoutIdempotencyKey (pa_settlementId a) (pa_attemptNumber a) of
             Inl _ \<Rightarrow> (Inl JS_Range_Error, s1)
           | Inr key \<Rightarrow>
               (case pulled_outcome mapping settlementId actor (getPayout key) of
                  Inl f \<Rightarrow> (Inr (Inl f), s1)
                | Inr i \<Rightarrow> with_tenant_payout scope now clock (applyPayoutOutcome scope i) s1)))"

end
