(* ===== verification/Settlement_Service.thy ===== *)
theory Settlement_Service
  imports Payout_Service Identity
begin

text \<open>
  The dispatch boundary and the ways round it (\<open>packages/app/src/settlement.service.ts\<close>): cancelling, asking
  for a cancellation and honouring it, dispatching the payout, opening and resolving exceptions. The row locks are taken in
  the order of the transactions, which run one after another.
\<close>

section \<open>Reading\<close>

definition getSettlement :: "string \<Rightarrow> payout_db \<Rightarrow> settlement_row option" where
  "getSettlement i s =
     (case find_visible db_settlements stl_scope (\<lambda>r. stl_id r = i) (pd_core s) of [] \<Rightarrow> None | r # _ \<Rightarrow> Some r)"

datatype service_refusal =
    Past_Point_Of_No_Return
  | Not_Found
  | Machine_Refused transition_failure

definition run_transition :: "tenant_scope \<Rightarrow> apply_input \<Rightarrow> (service_refusal, transition_outcome) result ptx" where
  "run_transition scope i =
     chain (core (applyTransition scope i)) (\<lambda>r. give (case r of Inl f \<Rightarrow> Inl (Machine_Refused f) | Inr out \<Rightarrow> Inr out))"

definition answers_guards :: "(guard \<times> bool) list \<Rightarrow> guard_context" where
  "answers_guards gs = map_of gs"

definition plain_input :: "string \<Rightarrow> trigger \<Rightarrow> principal \<Rightarrow> (guard \<times> bool) list \<Rightarrow> apply_input" where
  "plain_input i t actor gs =
     \<lparr>ai_settlementId = i, ai_trigger = t, ai_actor = actor, ai_guards = answers_guards gs, ai_expectedVersion = None,
      ai_companions = [], ai_patch = None, ai_statusEventPayload = [], ai_exceptionCode = None, ai_reason = None\<rparr>"

definition about_settlement :: "companion_event \<Rightarrow> string \<Rightarrow> companion_emission" where
  "about_settlement c i = \<lparr>ce_type = c, ce_subjectType = ''settlement'', ce_subjectId = i, ce_payload = []\<rparr>"

text \<open>\<open>...(input.reason ? {reason: input.reason} : {})\<close>\<close>

definition reason_given :: "string option \<Rightarrow> string option" where
  "reason_given r = (if r = Some [] then None else r)"

section \<open>Cancellation\<close>

definition requestCancellation ::
    "tenant_scope \<Rightarrow> string \<Rightarrow> principal \<Rightarrow> bool \<Rightarrow> string option \<Rightarrow> (service_refusal, transition_outcome) result ptx" where
  "requestCancellation scope i actor mayCancel reason =
     chain (look (getSettlement i)) (\<lambda>found.
     case found of
       None \<Rightarrow> give (Inl Not_Found)
     | Some current \<Rightarrow>
         if stl_pointOfNoReturnAt current \<noteq> None
         then chain (core (write_audit scope
             \<lparr>au_actor = actor, au_action = ''settlement.cancellation_refused'', au_subjectType = ''settlement'',
              au_subjectId = i, au_before = JNull, au_after = JObj [(''reason'', JStr ''past_point_of_no_return'')],
              au_reason = None\<rparr>)) (\<lambda>_. give (Inl Past_Point_Of_No_Return))
         else chain (look (\<lambda>s. db_now (pd_core s))) (\<lambda>now.
           run_transition scope ((plain_input i T_request_cancellation actor
               [(G_before_point_of_no_return, True), (G_actor_may_cancel, mayCancel)])
             \<lparr>ai_patch := Some [CW_cancellationRequestedAt (Some now), CW_cancellationRequestedBy (Some (pr_id actor))],
              ai_companions := [about_settlement C_settlement_cancellation_requested i],
              ai_reason := reason_given reason\<rparr>)))"

definition cancelSettlement ::
    "tenant_scope \<Rightarrow> string \<Rightarrow> principal \<Rightarrow> workspace_role list \<Rightarrow> string option \<Rightarrow>
     (service_refusal, transition_outcome) result ptx" where
  "cancelSettlement scope i actor roles reason =
     (let mayCancel = list_ex (\<lambda>r. roleHas r Settlement_Cancel) roles in
      chain (look (getSettlement i)) (\<lambda>found.
      case found of
        None \<Rightarrow> give (Inl Not_Found)
      | Some settlement \<Rightarrow>
          if stl_status settlement \<in> {DRAFT, READY, QUOTED, ACTION_REQUIRED}
          then run_transition scope ((plain_input i T_cancel actor [(G_actor_may_cancel, mayCancel)])
            \<lparr>ai_companions := (case stl_quoteId settlement of
                None \<Rightarrow> [] | Some [] \<Rightarrow> []
              | Some q \<Rightarrow> [\<lparr>ce_type = C_quote_expired, ce_subjectType = ''quote'', ce_subjectId = q, ce_payload = []\<rparr>]),
             ai_reason := reason_given reason\<rparr>)
          else requestCancellation scope i actor mayCancel reason))"

datatype compensation = By_Release | By_Repayment

definition compensation_event :: "compensation \<Rightarrow> companion_event" where
  "compensation_event c = (case c of By_Release \<Rightarrow> C_facility_reservation_released | By_Repayment \<Rightarrow> C_facility_repayment_requested)"

definition honourCancellation ::
    "tenant_scope \<Rightarrow> string \<Rightarrow> principal \<Rightarrow> compensation option \<Rightarrow> (service_refusal, transition_outcome) result ptx" where
  "honourCancellation scope i actor facilityCompensation =
     chain (look (getSettlement i)) (\<lambda>found.
     case found of
       None \<Rightarrow> give (Inl Not_Found)
     | Some settlement \<Rightarrow>
         (let comp = (case facilityCompensation of
                Some c \<Rightarrow> c
              | None \<Rightarrow> if stl_status settlement = DRAWDOWN_CONFIRMED then By_Repayment else By_Release)
          in run_transition scope ((plain_input i T_cancellation_honoured actor
               [(G_cancellation_pending, stl_cancellationRequestedAt settlement \<noteq> None), (G_at_checkpoint, True),
                (G_before_point_of_no_return, stl_pointOfNoReturnAt settlement = None)])
             \<lparr>ai_companions := (if stl_status settlement = AUTHORIZED then []
                else [about_settlement (compensation_event comp) i])\<rparr>)))"

section \<open>Dispatch\<close>

record dispatch_input =
  di_settlementId :: string
  di_actor :: principal
  di_railSelected :: bool
  di_rail :: "payout_rail option"
  di_slaSeconds :: "int option"
  di_providerId :: "string option"
  di_fundingAmountMinor :: "int option"

datatype dispatch_refusal =
    Dispatch_Settlement_Not_Found
  | Cancellation_Pending
  | Not_Authorized
  | Attempt_Refused allocation_refusal
  | Already_Dispatched allocation
  | Attempt_State_Inconsistent
  | Dispatch_Transition_Refused transition_failure

record dispatched =
  ds_payoutAttemptId :: string
  ds_attemptNumber :: int
  ds_idempotencyKey :: string
  ds_pointOfNoReturnAt :: int
  ds_reused :: bool

definition dispatched_attempt :: "tenant_scope \<Rightarrow> dispatch_input \<Rightarrow> string \<Rightarrow> string \<Rightarrow> string \<Rightarrow> int \<Rightarrow> attempt_row" where
  "dispatched_attempt scope i destinationVersionId attemptId key now =
     \<lparr>pa_id = attemptId, pa_scope = scope, pa_settlementId = di_settlementId i,
      pa_destinationVersionId = destinationVersionId, pa_attemptNumber = 1, pa_status = P_SUBMITTED,
      pa_idempotencyKey = key, pa_providerReference = None, pa_utr = None, pa_dispatchedAt = now,
      pa_dispatchedBy = pr_id (di_actor i), pa_resolvedAt = None, pa_providerId = given (di_providerId i) None,
      pa_rail = di_rail i, pa_amountMinor = di_fundingAmountMinor i,
      pa_amountCurrency = (if di_fundingAmountMinor i = None then None else Some ''INR''), pa_rawCode = None,
      pa_mappingVersion = None, pa_submittedAt = None, pa_creditedAt = None, pa_returnedAt = None,
      pa_slaSeconds = di_slaSeconds i, pa_creditedMinor = None, pa_returnedTotalMinor = 0\<rparr>"

definition summary_of :: "attempt_row \<Rightarrow> attempt_summary" where
  "summary_of a = \<lparr>as_attemptNumber = pa_attemptNumber a, as_status = pa_status a\<rparr>"

definition missing_text :: "string option \<Rightarrow> bool" where
  "missing_text v = (case v of None \<Rightarrow> True | Some x \<Rightarrow> x = [])"

text \<open>A settlement that has crossed the boundary already: the same answer again, or a refusal.\<close>

definition dispatched_before :: "dispatch_input \<Rightarrow> allocation \<Rightarrow> int \<Rightarrow> payout_db \<Rightarrow> (dispatch_refusal, dispatched) result" where
  "dispatched_before i allocation ponr s =
     (case allocation of
        Reuse_In_Flight n \<Rightarrow>
          (case filter (\<lambda>a. pa_attemptNumber a = n) (visible_attempts (di_settlementId i) s) of
             [] \<Rightarrow> Inl Attempt_State_Inconsistent
           | a # _ \<Rightarrow> Inr \<lparr>ds_payoutAttemptId = pa_id a, ds_attemptNumber = pa_attemptNumber a,
               ds_idempotencyKey = pa_idempotencyKey a, ds_pointOfNoReturnAt = ponr, ds_reused = True\<rparr>)
      | _ \<Rightarrow> Inl (Already_Dispatched allocation))"

definition cross_boundary ::
    "tenant_scope \<Rightarrow> dispatch_input \<Rightarrow> string \<Rightarrow> (dispatch_refusal, dispatched) result ptx" where
  "cross_boundary scope i destinationVersionId =
     chain (look (\<lambda>s. (db_now (pd_core s), (bound_scope s, destinationVersionId) \<in> set (pd_verified s)))) (\<lambda>(now, verified).
     chain (core (new_id K_payoutAttempt)) (\<lambda>attemptId.
     case payoutIdempotencyKey (di_settlementId i) 1 of
       Inl _ \<Rightarrow> (\<lambda>s. Inl JS_Range_Error)
     | Inr key \<Rightarrow>
         chain (core (applyTransition scope ((plain_input (di_settlementId i) T_dispatch_payout (di_actor i)
             [(G_rail_selected, di_railSelected i), (G_destination_version_verified, verified),
              (G_no_cancellation_pending, True), (G_before_point_of_no_return, True)])
           \<lparr>ai_patch := Some [CW_pointOfNoReturnAt (Some now), CW_payoutAttemptId (Some attemptId)],
            ai_statusEventPayload := [(''payout_attempt_id'', JStr attemptId)]\<rparr>))) (\<lambda>r.
         case r of
           Inl f \<Rightarrow> give (Inl (Dispatch_Transition_Refused f))
         | Inr _ \<Rightarrow>
             chain (insert_attempt (dispatched_attempt scope i destinationVersionId attemptId key now)) (\<lambda>_.
             give (Inr \<lparr>ds_payoutAttemptId = attemptId, ds_attemptNumber = 1, ds_idempotencyKey = key,
               ds_pointOfNoReturnAt = now, ds_reused = False\<rparr>)))))"

definition dispatchPayout :: "tenant_scope \<Rightarrow> dispatch_input \<Rightarrow> (dispatch_refusal, dispatched) result ptx" where
  "dispatchPayout scope i =
     chain (look (\<lambda>s. (getSettlement (di_settlementId i) s, visible_attempts (di_settlementId i) s))) (\<lambda>(found, attempts).
     case found of
       None \<Rightarrow> give (Inl Dispatch_Settlement_Not_Found)
     | Some current \<Rightarrow>
         if stl_cancellationRequestedAt current \<noteq> None then give (Inl Cancellation_Pending)
         else if missing_text (stl_destinationVersionId current) \<or> missing_text (stl_authorizedTermsHash current)
         then give (Inl Not_Authorized)
         else (case allocateAttemptNumber (map summary_of attempts) of
             Inl f \<Rightarrow> give (Inl (Attempt_Refused f))
           | Inr allocation \<Rightarrow>
               (case stl_pointOfNoReturnAt current of
                  Some ponr \<Rightarrow> look (dispatched_before i allocation ponr)
                | None \<Rightarrow>
                    if allocation \<noteq> First_Attempt then give (Inl Attempt_State_Inconsistent)
                    else cross_boundary scope i (the (stl_destinationVersionId current)))))"

section \<open>Exceptions\<close>

definition opening_companions :: "trigger \<Rightarrow> string \<Rightarrow> companion_emission list" where
  "opening_companions t i =
     (if t = T_drawdown_failed then [about_settlement C_facility_reservation_released i]
      else if t = T_reservation_expired then [about_settlement C_facility_reservation_expired i]
      else if t = T_reconciled_mismatch then [about_settlement C_settlement_reconciled i] else [])"

definition openException ::
    "tenant_scope \<Rightarrow> string \<Rightarrow> trigger \<Rightarrow> exception_code \<Rightarrow> principal \<Rightarrow> (guard \<times> bool) list \<Rightarrow>
     (service_refusal, transition_outcome) result ptx" where
  "openException scope i t code actor gs =
     chain (look (getSettlement i)) (\<lambda>found.
     case found of
       None \<Rightarrow> give (Inl Not_Found)
     | Some settlement \<Rightarrow>
         chain (run_transition scope ((plain_input i t actor gs)
           \<lparr>ai_exceptionCode := Some code, ai_companions := opening_companions t i\<rparr>)) (\<lambda>r.
         case r of
           Inl f \<Rightarrow> give (Inl f)
         | Inr out \<Rightarrow>
             chain (core (new_id K_settlementException)) (\<lambda>x.
             chain (look (\<lambda>s. db_now (pd_core s))) (\<lambda>now.
             chain (insert_exception
               \<lparr>sx_id = x, sx_scope = scope, sx_settlementId = i, sx_code = code, sx_enteredFrom = stl_status settlement,
                sx_openedAt = now, sx_resolvedAt = None, sx_resolvedBy = None, sx_resolutionReason = None\<rparr>) (\<lambda>_.
             give (Inr out))))))"

datatype exception_resolution = Resolve_Resume | Resolve_Fail | Resolve_Cancel

definition resolution_trigger :: "exception_resolution \<Rightarrow> trigger" where
  "resolution_trigger r = (case r of Resolve_Resume \<Rightarrow> T_resolve_resume | Resolve_Fail \<Rightarrow> T_resolve_fail | Resolve_Cancel \<Rightarrow> T_resolve_cancel)"

text \<open>No value was delivered, and the boundary is ahead, exactly while the settlement was not dispatched.\<close>

definition resolution_input ::
    "settlement_row \<Rightarrow> string \<Rightarrow> exception_resolution \<Rightarrow> principal \<Rightarrow> string \<Rightarrow> compensation option \<Rightarrow> apply_input" where
  "resolution_input settlement i resolution actor reason facilityCompensation =
     (let before = (stl_pointOfNoReturnAt settlement = None);
          comp = (case facilityCompensation of None \<Rightarrow> By_Release | Some c \<Rightarrow> c)
      in (plain_input i (resolution_trigger resolution) actor
           [(G_resolution_attributed, trim reason \<noteq> []), (G_no_value_delivered, before), (G_before_point_of_no_return, before)])
         \<lparr>ai_companions := (if resolution = Resolve_Resume then [] else [about_settlement (compensation_event comp) i]),
          ai_reason := Some reason\<rparr>)"

definition record_resolution ::
    "string \<Rightarrow> principal \<Rightarrow> string \<Rightarrow> (service_refusal, transition_outcome) result \<Rightarrow> (service_refusal, transition_outcome) result ptx" where
  "record_resolution i actor reason r =
     (case r of
        Inl f \<Rightarrow> give (Inl f)
      | Inr out \<Rightarrow>
          chain (look (\<lambda>s. db_now (pd_core s))) (\<lambda>now.
          chain (update_exceptions (\<lambda>x. sx_settlementId x = i \<and> sx_resolvedAt x = None)
            (\<lambda>x. x\<lparr>sx_resolvedAt := Some now, sx_resolvedBy := Some (pr_id actor), sx_resolutionReason := Some reason\<rparr>)) (\<lambda>_.
          give (Inr out))))"

definition resolveException ::
    "tenant_scope \<Rightarrow> string \<Rightarrow> exception_resolution \<Rightarrow> principal \<Rightarrow> string \<Rightarrow> compensation option \<Rightarrow>
     (service_refusal, transition_outcome) result ptx" where
  "resolveException scope i resolution actor reason facilityCompensation =
     chain (look (getSettlement i)) (\<lambda>found.
     case found of
       None \<Rightarrow> give (Inl Not_Found)
     | Some settlement \<Rightarrow>
         chain (run_transition scope (resolution_input settlement i resolution actor reason facilityCompensation))
           (record_resolution i actor reason))"

end
