(* ===== verification/Payout_Safety.thy ===== *)
theory Payout_Safety
  imports Settlement_Service Platform
begin

text \<open>
  What the payout services keep over every sequence of transactions: which attempts a settlement may have,
  and where a settlement may go once its payout was dispatched. The operations are those of
  \<open>Payout_Service\<close> and \<open>Settlement_Service\<close>, acknowledgements that arrive at any later time, and any other
  transition of a settlement.
\<close>

section \<open>The operations\<close>

datatype payout_operation =
    Op_dispatch dispatch_input
  | Op_outcome outcome_input
  | Op_sweep string principal
  | Op_retry retry_input
  | Op_acknowledge attempt_row payout_ack
  | Op_timed_out principal attempt_row string
  | Op_cancel string principal "workspace_role list" "string option"
  | Op_honour string principal "compensation option"
  | Op_open string trigger exception_code principal "(guard \<times> bool) list"
  | Op_resolve string exception_resolution principal string "compensation option"
  | Op_create create_input
  | Op_transition apply_input

definition ignoring :: "'a ptx \<Rightarrow> unit ptx" where
  "ignoring m = chain m (\<lambda>_. give ())"

primrec run_payout_operation :: "tenant_scope \<Rightarrow> payout_operation \<Rightarrow> unit ptx" where
  "run_payout_operation scope (Op_dispatch i) = ignoring (dispatchPayout scope i)"
| "run_payout_operation scope (Op_outcome i) = ignoring (applyPayoutOutcome scope i)"
| "run_payout_operation scope (Op_sweep i actor) = ignoring (sweepPayoutSla scope i actor)"
| "run_payout_operation scope (Op_retry i) = ignoring (retryPayout scope i)"
| "run_payout_operation scope (Op_acknowledge a k) = record_acknowledgement a k"
| "run_payout_operation scope (Op_timed_out actor a key) = record_timeout scope actor a key"
| "run_payout_operation scope (Op_cancel i actor roles reason) = ignoring (cancelSettlement scope i actor roles reason)"
| "run_payout_operation scope (Op_honour i actor c) = ignoring (honourCancellation scope i actor c)"
| "run_payout_operation scope (Op_open i t code actor gs) = ignoring (openException scope i t code actor gs)"
| "run_payout_operation scope (Op_resolve i r actor reason c) = ignoring (resolveException scope i r actor reason c)"
| "run_payout_operation scope (Op_create i) = ignoring (core (createSettlement scope i))"
| "run_payout_operation scope (Op_transition i) = ignoring (core (applyTransition scope i))"

text \<open>
  The two resolutions that end a settlement are taken through \<open>resolveException\<close>, which answers their guards
  from the row; \<open>openException\<close> is declared for the triggers that open an exception.
\<close>

definition OPENING_TRIGGERS :: "trigger list" where
  "OPENING_TRIGGERS =
     [T_reservation_failed, T_drawdown_failed, T_payout_rejected, T_payout_timeout, T_reconciled_mismatch,
      T_reservation_expired, T_drawdown_timeout, T_reconciliation_stalled]"

definition allowed :: "payout_operation \<Rightarrow> bool" where
  "allowed op =
     (case op of
        Op_open i t code actor gs \<Rightarrow> t \<in> set OPENING_TRIGGERS
      | Op_transition i \<Rightarrow> ai_trigger i \<noteq> T_resolve_fail \<and> ai_trigger i \<noteq> T_resolve_cancel
      | _ \<Rightarrow> True)"

fun run_payout_operations :: "tenant_scope \<Rightarrow> payout_operation list \<Rightarrow> unit ptx" where
  "run_payout_operations scope [] = give ()"
| "run_payout_operations scope (op # ops) = chain (run_payout_operation scope op) (\<lambda>_. run_payout_operations scope ops)"

inductive payout_transaction :: "payout_db \<Rightarrow> payout_db \<Rightarrow> bool" where
  transacted: "list_all allowed ops \<Longrightarrow>
     payout_transaction s (snd (with_tenant_payout scope now clock (run_payout_operations scope ops) s))"

inductive_cases payout_transactionE: "payout_transaction s s'"

section \<open>The invariant\<close>

text \<open>A settlement past the boundary: it can go on to be settled, or wait in an exception it leaves by resuming.\<close>

definition dispatched_row :: "settlement_row \<Rightarrow> bool" where
  "dispatched_row r \<longleftrightarrow> stl_pointOfNoReturnAt r \<noteq> None \<and>
     stl_status r \<in> {PAYOUT_SUBMITTED, PAYOUT_CONFIRMED, RECONCILING, SETTLED, EXCEPTION} \<and>
     (stl_status r = EXCEPTION \<longrightarrow> stl_exceptionEnteredFrom r \<in> {Some PAYOUT_SUBMITTED, Some PAYOUT_CONFIRMED, Some RECONCILING})"

definition attempt_slot :: "attempt_row \<Rightarrow> string \<times> int" where
  "attempt_slot a = (pa_settlementId a, pa_attemptNumber a)"

definition dispatched_in :: "settlement_row list \<Rightarrow> attempt_row \<Rightarrow> bool" where
  "dispatched_in rows a \<longleftrightarrow> (\<exists>r\<in>set rows. stl_id r = pa_settlementId a \<and> stl_scope r = pa_scope a \<and> dispatched_row r)"

definition superseded_rejected :: "attempt_row list \<Rightarrow> bool" where
  "superseded_rejected as \<longleftrightarrow> (\<forall>a\<in>set as. \<forall>b\<in>set as.
     pa_settlementId a = pa_settlementId b \<and> pa_attemptNumber a < pa_attemptNumber b \<longrightarrow> pa_status a = P_REJECTED)"

definition payouts_ok :: "payout_db \<Rightarrow> bool" where
  "payouts_ok s \<longleftrightarrow> keyed db_settlements stl_id (pd_core s) \<and> distinct (map attempt_slot (pd_attempts s)) \<and>
     superseded_rejected (pd_attempts s) \<and> (\<forall>a\<in>set (pd_attempts s). dispatched_in (db_settlements (pd_core s)) a)"

definition maintains :: "'a ptx \<Rightarrow> bool" where
  "maintains m \<longleftrightarrow> (\<forall>s x s'. m s = Inr (x, s') \<longrightarrow> payouts_ok s \<longrightarrow> payouts_ok s')"

named_theorems maintained

lemma maintainsI: "(\<And>s x s'. m s = Inr (x, s') \<Longrightarrow> payouts_ok s \<Longrightarrow> payouts_ok s') \<Longrightarrow> maintains m"
  by (auto simp: maintains_def)

lemma maintainsD: "maintains m \<Longrightarrow> m s = Inr (x, s') \<Longrightarrow> payouts_ok s \<Longrightarrow> payouts_ok s'"
  by (auto simp: maintains_def)

lemma maintains_give [maintained]: "maintains (give x)"
  by (simp add: maintains_def)

lemma maintains_look [maintained]: "maintains (look f)"
  by (simp add: maintains_def)

lemma maintains_chain [maintained]: "maintains m \<Longrightarrow> (\<And>x. maintains (f x)) \<Longrightarrow> maintains (chain m f)"
  unfolding maintains_def chain_Inr by blast

lemma maintains_raise [maintained]: "maintains (\<lambda>s. Inl e)"
  by (simp add: maintains_def)

section \<open>Operations on the core tables\<close>

definition same_settlements :: "'a tx \<Rightarrow> bool" where
  "same_settlements m \<longleftrightarrow> (\<forall>d x d'. m d = Inr (x, d') \<longrightarrow> db_settlements d' = db_settlements d)"

lemma maintains_same [maintained]: "same_settlements m \<Longrightarrow> maintains (core m)"
  by (auto simp: maintains_def core_Inr same_settlements_def payouts_ok_def keyed_def)

lemma same_new_id [maintained]: "same_settlements (new_id k)"
  by (auto simp: same_settlements_def new_id_def)

lemma same_audit [maintained]: "same_settlements (write_audit scope a)"
  by (auto simp: same_settlements_def elim!: write_audit_effect)

lemma dispatched_moves:
  assumes ev: "evaluateTransition (transition_request_of i r) = Inr ok" and f: "follows_table ok r r'" and old: "respects_row r r'"
    and d: "dispatched_row r" and safe: "ai_trigger i = T_resolve_fail \<Longrightarrow> ai_guards i G_no_value_delivered \<noteq> Some True"
      "ai_trigger i = T_resolve_cancel \<Longrightarrow> ai_guards i G_before_point_of_no_return \<noteq> Some True"
  shows "dispatched_row r'"
proof -
  have "stl_pointOfNoReturnAt r' = stl_pointOfNoReturnAt r"
    using old d by (auto simp: respects_row_def dispatched_row_def)
  then show ?thesis
    using ev f d safe
    by (cases "ai_trigger i")
      (auto simp: evaluateTransition_Inr row_defs row_accepts_def transition_request_of_def follows_table_def dispatched_row_def
        split: if_splits)
qed

text \<open>A transition whose guards are answered truly for a settlement past the boundary.\<close>

definition truthful :: "apply_input \<Rightarrow> db \<Rightarrow> bool" where
  "truthful i d \<longleftrightarrow> (\<forall>r\<in>set (find_visible db_settlements stl_scope (\<lambda>r. stl_id r = ai_settlementId i) d). stl_pointOfNoReturnAt r \<noteq> None \<longrightarrow>
     (ai_trigger i = T_resolve_fail \<longrightarrow> ai_guards i G_no_value_delivered \<noteq> Some True) \<and>
     (ai_trigger i = T_resolve_cancel \<longrightarrow> ai_guards i G_before_point_of_no_return \<noteq> Some True))"

lemma transition_keeps_dispatched:
  assumes run: "applyTransition scope i d = Inr (x, d')" and keyed: "keyed db_settlements stl_id d" and safe: "truthful i d"
  shows "keyed db_settlements stl_id d' \<and> (\<forall>a. dispatched_in (db_settlements d) a \<longrightarrow> dispatched_in (db_settlements d') a)"
proof (cases x)
  case (Inl failure)
  with run keyed applyTransition_refused [of scope i d failure d'] show ?thesis by simp
next
  case (Inr out)
  with run have "applyTransition scope i d = Inr (Inr out, d')" by simp
  from applyTransition_applied [OF this keyed] obtain current ok xs ys row where
      current: "stl_id current = ai_settlementId i" "stl_scope current = db_scope d" "decide i current = Inr ok"
    and rows: "db_settlements d = xs @ current # ys" "db_settlements d' = xs @ row # ys"
    and moved: "follows_table ok current row" "respects_row current row"
    by metis
  have same: "stl_id row = stl_id current" "stl_scope row = stl_scope current"
    using moved(1) by (simp_all add: follows_table_def)
  have "dispatched_row row" if d: "dispatched_row current"
  proof (rule dispatched_moves [OF decide_Inr(1) [OF current(3)] moved d])
    have "current \<in> set (find_visible db_settlements stl_scope (\<lambda>r. stl_id r = ai_settlementId i) d)"
      using current(1,2) rows(1) by (simp add: find_visible_def)
    with safe d show "ai_trigger i = T_resolve_fail \<Longrightarrow> ai_guards i G_no_value_delivered \<noteq> Some True"
      "ai_trigger i = T_resolve_cancel \<Longrightarrow> ai_guards i G_before_point_of_no_return \<noteq> Some True"
      by (auto simp: truthful_def dispatched_row_def)
  qed
  with rows same keyed show ?thesis by (auto simp: dispatched_in_def keyed_def)
qed

lemma core_transition_ok:
  assumes "core (applyTransition scope i) s = Inr (x, s')" "payouts_ok s" "truthful i (pd_core s)"
  shows "payouts_ok s'"
  using assms transition_keeps_dispatched by (fastforce simp: core_Inr payouts_ok_def)

lemma maintains_transition [maintained]:
  "ai_trigger i \<noteq> T_resolve_fail \<Longrightarrow> ai_trigger i \<noteq> T_resolve_cancel \<Longrightarrow> maintains (core (applyTransition scope i))"
  by (rule maintainsI) (erule (1) core_transition_ok, simp add: truthful_def)

lemma maintains_run_transition [maintained]:
  "ai_trigger i \<noteq> T_resolve_fail \<Longrightarrow> ai_trigger i \<noteq> T_resolve_cancel \<Longrightarrow> maintains (run_transition scope i)"
  unfolding run_transition_def by (intro maintained)

lemma maintains_create [maintained]: "maintains (core (createSettlement scope i))"
proof (rule maintainsI)
  fix s x s'
  assume run: "core (createSettlement scope i) s = Inr (x, s')" and ok: "payouts_ok s"
  then obtain d where d: "createSettlement scope i (pd_core s) = Inr (x, d)" "s' = s\<lparr>pd_core := d\<rparr>" by (auto simp: core_Inr)
  from d(1) have "\<exists>row. db_settlements d = db_settlements (pd_core s) @ [row] \<and> stl_id row \<notin> stl_id ` set (db_settlements (pd_core s))"
    by (rule create_settlement_steps) (auto elim!: emit_event_effect write_audit_effect simp: new_settlement_def)
  with ok have "keyed db_settlements stl_id d \<and> set (db_settlements (pd_core s)) \<subseteq> set (db_settlements d)"
    by (auto simp: payouts_ok_def keyed_def)
  with ok d(2) show "payouts_ok s'" by (simp add: payouts_ok_def dispatched_in_def) blast
qed

section \<open>Operations on the attempts\<close>

lemma protect_attempt_Inr:
  "protect_payout_attempt old new = Inr r \<longleftrightarrow> r = new \<and> attempt_slot new = attempt_slot old \<and>
     pa_idempotencyKey new = pa_idempotencyKey old \<and> pa_destinationVersionId new = pa_destinationVersionId old \<and>
     pa_dispatchedAt new = pa_dispatchedAt old \<and>
     (in_flight old \<or> pa_status new = pa_status old \<or> pa_status old = P_CREDITED \<and> pa_status new = P_RETURNED)"
  by (auto simp: protect_payout_attempt_def bind_result_Inr attempt_slot_def)

text \<open>What an update may do to an attempt.\<close>

definition attempt_kept :: "attempt_row \<Rightarrow> attempt_row \<Rightarrow> bool" where
  "attempt_kept old new \<longleftrightarrow> attempt_slot new = attempt_slot old \<and> pa_scope new = pa_scope old \<and>
     (pa_status old = P_REJECTED \<longrightarrow> pa_status new = P_REJECTED)"

lemma updated_rows:
  assumes "update_rows (\<lambda>a. pa_scope a = bound_scope s \<and> p a) (guarded protect_payout_attempt (attempt_violation s) patch) rows = Inr rows'"
  shows "list_all2 attempt_kept rows rows'"
  using assms
proof (induction rows arbitrary: rows')
  case (Cons a rows)
  then obtain b bs where b: "rows' = b # bs" "list_all2 attempt_kept rows bs"
    and new: "(if pa_scope a = bound_scope s \<and> p a then guarded protect_payout_attempt (attempt_violation s) patch a else Inr a) = Inr b"
    by (auto simp: bind_result_Inr)
  have "attempt_kept a b"
  proof (cases "pa_scope a = bound_scope s \<and> p a")
    case True
    with new have "protect_payout_attempt a (patch a) = Inr b" "attempt_violation s b = None" by (simp_all add: guarded_Inr)
    moreover from this(2) have "pa_scope b = bound_scope s" by (simp add: attempt_violation_def Let_def)
    ultimately show ?thesis using True by (auto simp: protect_attempt_Inr attempt_kept_def in_flight_def)
  next
    case False
    with new have "b = a" by auto
    then show ?thesis by (simp add: attempt_kept_def)
  qed
  with b show ?case by simp
qed simp

lemma kept_slots: "list_all2 attempt_kept as bs \<Longrightarrow> map attempt_slot bs = map attempt_slot as"
  by (induction as bs rule: list_all2_induct) (simp_all add: attempt_kept_def)

lemma kept_from: "list_all2 attempt_kept as bs \<Longrightarrow> b \<in> set bs \<Longrightarrow> \<exists>a\<in>set as. attempt_kept a b"
  by (induction as bs rule: list_all2_induct) auto

lemma kept_ok:
  assumes "list_all2 attempt_kept (pd_attempts s) bs" "payouts_ok s"
  shows "payouts_ok (s\<lparr>pd_attempts := bs\<rparr>)"
proof -
  have "superseded_rejected bs"
    unfolding superseded_rejected_def
  proof (intro ballI impI)
    fix a b
    assume "a \<in> set bs" "b \<in> set bs" and less: "pa_settlementId a = pa_settlementId b \<and> pa_attemptNumber a < pa_attemptNumber b"
    then obtain a' b' where old: "a' \<in> set (pd_attempts s)" "b' \<in> set (pd_attempts s)" "attempt_kept a' a" "attempt_kept b' b"
      using kept_from [OF assms(1)] by blast
    with less have "pa_settlementId a' = pa_settlementId b' \<and> pa_attemptNumber a' < pa_attemptNumber b'"
      by (simp add: attempt_kept_def attempt_slot_def)
    with old assms(2) show "pa_status a = P_REJECTED" by (auto simp: payouts_ok_def superseded_rejected_def attempt_kept_def)
  qed
  moreover have "dispatched_in rows b" if "\<forall>a\<in>set (pd_attempts s). dispatched_in rows a" "b \<in> set bs" for rows b
    using that kept_from [OF assms(1) that(2)] by (fastforce simp: dispatched_in_def attempt_kept_def attempt_slot_def)
  ultimately show ?thesis
    using assms(2) kept_slots [OF assms(1)] by (simp add: payouts_ok_def)
qed

lemma maintains_update [maintained]: "maintains (update_attempts p patch)"
  by (rule maintainsI) (auto simp: update_attempts_def bind_result_Inr dest!: updated_rows intro: kept_ok)

lemma inserted_scope: "insert_attempt a s = Inr r \<Longrightarrow> pa_scope a = bound_scope s"
proof (cases "attempt_violation s a")
  case None
  then show ?thesis by (simp add: attempt_violation_def Let_def)
qed (simp add: insert_attempt_def)

lemma insert_ok:
  assumes run: "insert_attempt a s = Inr (u, s')" and ok: "payouts_ok s" and linked: "dispatched_in (db_settlements (pd_core s)) a"
    and before: "\<forall>b\<in>set (pd_attempts s). pa_settlementId b = pa_settlementId a \<longrightarrow> pa_attemptNumber b < pa_attemptNumber a \<and> pa_status b = P_REJECTED"
  shows "payouts_ok s'"
proof -
  from run have s': "s' = s\<lparr>pd_attempts := pd_attempts s @ [a]\<rparr>"
    by (auto simp: insert_attempt_def split: option.splits if_splits)
  have "attempt_slot a \<notin> set (map attempt_slot (pd_attempts s))"
    using before by (auto simp: attempt_slot_def)
  with ok before show ?thesis
    by (auto simp: s' payouts_ok_def superseded_rejected_def linked)
qed

lemma latest_visible_max:
  assumes "latest_visible i s = Some a"
  shows "a \<in> set (visible_attempts i s) \<and> (\<forall>b\<in>set (visible_attempts i s). pa_attemptNumber b \<le> pa_attemptNumber a)"
proof -
  let ?k = "\<lambda>a. - pa_attemptNumber a"
  from assms obtain as where "sort_key ?k (visible_attempts i s) = a # as"
    by (auto simp: latest_visible_def split: list.splits)
  moreover have "sorted (map ?k (sort_key ?k (visible_attempts i s)))" by simp
  moreover have "set (sort_key ?k (visible_attempts i s)) = set (visible_attempts i s)" by simp
  ultimately show ?thesis by auto
qed

text \<open>The attempts of a settlement carry the scope of the settlement, so who sees one sees them all.\<close>

lemma attempts_of_settlement:
  assumes "payouts_ok s" "a \<in> set (pd_attempts s)" "b \<in> set (pd_attempts s)" "pa_settlementId a = pa_settlementId b"
  shows "pa_scope a = pa_scope b"
  using assms unfolding payouts_ok_def dispatched_in_def keyed_def distinct_map by (metis inj_onD)

lemma latest_is_last:
  assumes ok: "payouts_ok s" and latest: "latest_visible i s = Some a" and b: "b \<in> set (pd_attempts s)" "pa_settlementId b = i"
  shows "b = a \<or> pa_attemptNumber b < pa_attemptNumber a \<and> pa_status b = P_REJECTED"
proof -
  from latest_visible_max [OF latest] have a: "a \<in> set (pd_attempts s)" "pa_scope a = bound_scope s" "pa_settlementId a = i"
      "\<forall>b\<in>set (visible_attempts i s). pa_attemptNumber b \<le> pa_attemptNumber a"
    by (simp_all add: visible_attempts_def)
  with attempts_of_settlement [OF ok a(1) b(1)] b have "b \<in> set (visible_attempts i s)" by (simp add: visible_attempts_def)
  with a(4) have "pa_attemptNumber b \<le> pa_attemptNumber a" by blast
  moreover have "b = a" if "pa_attemptNumber b = pa_attemptNumber a"
    using that ok a(1,3) b unfolding payouts_ok_def distinct_map by (metis attempt_slot_def inj_onD)
  moreover have "pa_status b = P_REJECTED" if "pa_attemptNumber b < pa_attemptNumber a"
    using that ok a(1,3) b by (auto simp: payouts_ok_def superseded_rejected_def)
  ultimately show ?thesis by fastforce
qed

lemma maintains_retry [maintained]: "maintains (retryPayout scope i)"
proof (rule maintainsI)
  fix s x s'
  assume run: "retryPayout scope i s = Inr (x, s')" and ok: "payouts_ok s"
  show "payouts_ok s'"
  proof (cases "\<exists>previous. latest_visible (ry_settlementId i) s = Some previous \<and> pa_status previous = P_REJECTED")
    case True
    then obtain previous where previous: "latest_visible (ry_settlementId i) s = Some previous" "pa_status previous = P_REJECTED"
      by blast
    with run obtain key attemptId d fresh s2 u d2 where
        new: "new_id K_payoutAttempt (pd_core s) = Inr (attemptId, d)"
      and fresh: "fresh = retried_attempt scope i previous attemptId key (db_now d)"
      and ins: "insert_attempt fresh (s\<lparr>pd_core := d\<rparr>) = Inr (u, s2)"
      and audit: "\<exists>y a. core (write_audit scope a) s2 = Inr (y, s')"
      by (fastforce simp: retryPayout_def chain_Inr core_Inr Let_def split: sum.splits)
    have last: "b = previous \<or> pa_attemptNumber b < pa_attemptNumber previous \<and> pa_status b = P_REJECTED"
      if "b \<in> set (pd_attempts s)" "pa_settlementId b = ry_settlementId i" for b
      using latest_is_last [OF ok previous(1) that] .
    from latest_visible_max [OF previous(1)] have p: "previous \<in> set (pd_attempts s)" "pa_scope previous = bound_scope s"
        "pa_settlementId previous = ry_settlementId i"
      by (simp_all add: visible_attempts_def)
    have ok1: "payouts_ok (s\<lparr>pd_core := d\<rparr>)"
      using maintainsD [OF maintains_same [OF same_new_id]] new ok by (fastforce simp: core_Inr)
    have scope: "pa_scope fresh = bound_scope s"
      using inserted_scope [OF ins] new by (auto simp: bound_scope_def new_id_def)
    have same: "db_settlements d = db_settlements (pd_core s)" using new same_new_id by (auto simp: same_settlements_def)
    have slot: "pa_settlementId fresh = ry_settlementId i" "pa_attemptNumber fresh = pa_attemptNumber previous + 1"
      by (simp_all add: fresh retried_attempt_def)
    have "payouts_ok s2"
    proof (rule insert_ok [OF ins ok1])
      have "dispatched_in (db_settlements (pd_core s)) previous" using ok p(1) by (simp add: payouts_ok_def)
      then show "dispatched_in (db_settlements (pd_core (s\<lparr>pd_core := d\<rparr>))) fresh"
        unfolding dispatched_in_def using same slot scope p by simp
      show "\<forall>b\<in>set (pd_attempts (s\<lparr>pd_core := d\<rparr>)). pa_settlementId b = pa_settlementId fresh \<longrightarrow>
          pa_attemptNumber b < pa_attemptNumber fresh \<and> pa_status b = P_REJECTED"
        using last previous(2) slot by fastforce
    qed
    with audit maintainsD [OF maintains_same [OF same_audit]] show ?thesis by blast
  next
    case False
    with run ok show ?thesis by (auto simp: retryPayout_def chain_Inr split: option.splits if_splits)
  qed
qed

lemma maintains_move [maintained]:
  "ai_trigger i \<noteq> T_resolve_fail \<Longrightarrow> ai_trigger i \<noteq> T_resolve_cancel \<Longrightarrow> maintains (move_settlement scope i d)"
  unfolding move_settlement_def by (intro maintained)

lemma maintains_if [maintained]: "maintains m \<Longrightarrow> maintains n \<Longrightarrow> maintains (if b then m else n)"
  by simp

lemma maintains_outcome [maintained]: "maintains (applyPayoutOutcome scope i)"
proof -
  have "maintains (apply_credit scope i a now e)" "maintains (apply_rejection scope i a now e)"
    "maintains (apply_acceptance i a)" "maintains (apply_return i a now)" for a now e
    unfolding apply_credit_def apply_rejection_def apply_acceptance_def apply_return_def
    by (intro maintained; simp add: payout_transition_input_def)+
  then show ?thesis
    unfolding applyPayoutOutcome_def
    by (auto intro!: maintained split: option.split prod.split provider_outcome.split)
qed

lemma maintains_sweep [maintained]: "maintains (sweepPayoutSla scope i actor)"
  unfolding sweepPayoutSla_def Let_def by (auto intro!: maintained split: option.split)

lemma maintains_acknowledgement [maintained]: "maintains (record_acknowledgement a k)" "maintains (record_timeout scope actor a key)"
  unfolding record_acknowledgement_def record_timeout_def by (intro maintained)+

lemma maintains_request [maintained]: "maintains (requestCancellation scope i actor may reason)"
  unfolding requestCancellation_def by (auto intro!: maintained simp: plain_input_def split: option.split)

lemma maintains_cancel [maintained]: "maintains (cancelSettlement scope i actor roles reason)"
  unfolding cancelSettlement_def Let_def by (auto intro!: maintained simp: plain_input_def split: option.split)

lemma maintains_honour [maintained]: "maintains (honourCancellation scope i actor c)"
  unfolding honourCancellation_def Let_def by (auto intro!: maintained simp: plain_input_def split: option.split)

lemma maintains_exceptions [maintained]: "maintains (insert_exception x)" "maintains (update_exceptions p f)"
  by (auto simp: maintains_def insert_exception_def update_exceptions_def bind_result_Inr payouts_ok_def split: option.splits if_splits)

lemma maintains_open [maintained]: "t \<in> set OPENING_TRIGGERS \<Longrightarrow> maintains (openException scope i t code actor gs)"
  unfolding openException_def by (auto intro!: maintained simp: plain_input_def OPENING_TRIGGERS_def split: option.split sum.split)

lemma getSettlement_visible:
  "getSettlement i s = Some r \<Longrightarrow> r \<in> set (db_settlements (pd_core s)) \<and> stl_scope r = bound_scope s \<and> stl_id r = i"
proof -
  assume "getSettlement i s = Some r"
  then have "r \<in> set (find_visible db_settlements stl_scope (\<lambda>r. stl_id r = i) (pd_core s))"
    by (auto simp: getSettlement_def split: list.splits)
  then show ?thesis by (auto simp: find_visible_def bound_scope_def)
qed

lemma maintains_resolve [maintained]: "maintains (resolveException scope i resolution actor reason c)"
proof (rule maintainsI)
  fix s x s'
  assume run: "resolveException scope i resolution actor reason c s = Inr (x, s')" and ok: "payouts_ok s"
  show "payouts_ok s'"
  proof (cases "getSettlement i s")
    case (Some r)
    let ?input = "resolution_input r i resolution actor reason c"
    from run Some obtain y s1 where t: "run_transition scope ?input s = Inr (y, s1)" "record_resolution i actor reason y s1 = Inr (x, s')"
      by (auto simp: resolveException_def chain_Inr)
    have input: "ai_settlementId ?input = i" "ai_guards ?input G_no_value_delivered = Some (stl_pointOfNoReturnAt r = None)"
        "ai_guards ?input G_before_point_of_no_return = Some (stl_pointOfNoReturnAt r = None)"
      by (simp_all add: resolution_input_def plain_input_def answers_guards_def Let_def)
    have same: "stl_pointOfNoReturnAt r' = stl_pointOfNoReturnAt r"
      if "r' \<in> set (find_visible db_settlements stl_scope (\<lambda>r. stl_id r = i) (pd_core s))" for r'
      using that getSettlement_visible [OF Some] ok
      by (auto simp: find_visible_def payouts_ok_def keyed_def distinct_map intro!: arg_cong [where f = stl_pointOfNoReturnAt] dest: inj_onD)
    have "truthful ?input (pd_core s)"
      unfolding truthful_def input by (intro ballI impI conjI) (simp_all add: same)
    with t(1) ok have "payouts_ok s1"
      by (auto simp: run_transition_def chain_Inr intro: core_transition_ok)
    moreover have "maintains (record_resolution i actor reason y)"
      unfolding record_resolution_def by (auto intro!: maintained split: sum.split)
    ultimately show ?thesis using t(2) by (blast intro: maintainsD)
  qed (use run ok in \<open>auto simp: resolveException_def chain_Inr\<close>)
qed


section \<open>Crossing the boundary\<close>

text \<open>A dispatch that is applied leaves the settlement submitted and past the point of no return, in one write.\<close>

lemma submitted_by_dispatch:
  assumes "decide input current = Inr ok" "ai_trigger input = T_dispatch_payout"
  shows "ok_to ok = Some PAYOUT_SUBMITTED"
  using decide_Inr(1) [OF assms(1)] assms(2)
  by (auto simp: evaluateTransition_Inr row_defs row_accepts_def transition_request_of_def)

lemma dispatch_write:
  assumes w: "write_settlement input current ok d = Inr (v, d')" and keyed: "keyed db_settlements stl_id d"
    and ok: "ok_to ok = Some PAYOUT_SUBMITTED" and patch: "ai_patch input = Some [CW_pointOfNoReturnAt (Some t), CW_payoutAttemptId x]"
    and current: "current \<in> set (find_visible db_settlements stl_scope (\<lambda>r. stl_id r = ai_settlementId input) d)"
  shows "\<exists>r\<in>set (db_settlements d'). stl_id r = ai_settlementId input \<and> stl_scope r = db_scope d \<and> dispatched_row r"
proof -
  let ?p = "\<lambda>r. stl_id r = ai_settlementId input \<and> stl_version r = stl_version current"
  let ?m = "machine_patch input current PAYOUT_SUBMITTED (db_clock d)"
  from w ok obtain u where upd: "update_settlements ?p ?m d = Inr (u, d')"
    by (auto simp: write_settlement_def bind_tx_Inr)
  have p: "\<forall>r. ?p r \<longrightarrow> stl_id r = ai_settlementId input" by simp
  have m: "stl_id (?m r) = stl_id r" "stl_status (?m r) = PAYOUT_SUBMITTED" "stl_pointOfNoReturnAt (?m r) = Some t" "stl_scope (?m r) = stl_scope r" for r
    by (simp_all add: machine_patch_def given_patch_def patch Let_def apply_writes_def)
  show ?thesis
  proof (cases rule: update_settlements_cases [OF upd keyed p])
    case 1
    with current show ?thesis by (auto simp: find_visible_def filter_empty_conv)
  next
    case (2 xs r ys row)
    from protect_settlement_row_Inr(1) [OF 2(4)] m [of r] 2(2,3)
    have "stl_id row = ai_settlementId input \<and> stl_scope row = db_scope d \<and> dispatched_row row"
      by (auto simp: dispatched_row_def)
    with 2(6) show ?thesis by auto
  qed
qed

lemma dispatch_crosses:
  assumes run: "applyTransition scope input d = Inr (Inr out, d')" and keyed: "keyed db_settlements stl_id d"
    and trigger: "ai_trigger input = T_dispatch_payout" and patch: "ai_patch input = Some [CW_pointOfNoReturnAt (Some t), CW_payoutAttemptId x]"
  shows "\<exists>r\<in>set (db_settlements d'). stl_id r = ai_settlementId input \<and> stl_scope r = db_scope d \<and> dispatched_row r"
proof -
  from run obtain current cs ok where
      rows: "find_visible db_settlements stl_scope (\<lambda>r. stl_id r = ai_settlementId input) d = current # cs"
    and ok: "decide input current = Inr ok" and c: "carry_out scope input current ok d = Inr (out, d')"
    by (auto simp: applyTransition_def Let_def bind_tx_Inr split: if_splits list.splits sum.splits)
  from c obtain v d1 where w: "write_settlement input current ok d = Inr (v, d1)" and same: "db_settlements d' = db_settlements d1"
    by (auto simp: carry_out_def bind_tx_Inr elim!: emit_status_event_effect emit_companions_effect write_audit_effect)
  have "current \<in> set (find_visible db_settlements stl_scope (\<lambda>r. stl_id r = ai_settlementId input) d)" by (simp add: rows)
  from dispatch_write [OF w keyed submitted_by_dispatch [OF ok trigger] patch this] show ?thesis by (simp add: same)
qed

lemma no_attempt_before_dispatch:
  assumes ok: "payouts_ok s" and found: "getSettlement i s = Some r" "stl_pointOfNoReturnAt r = None"
    and a: "a \<in> set (pd_attempts s)"
  shows "pa_settlementId a \<noteq> i"
proof
  assume "pa_settlementId a = i"
  with ok a obtain r' where "r' \<in> set (db_settlements (pd_core s))" "stl_id r' = i" "dispatched_row r'"
    unfolding payouts_ok_def dispatched_in_def by blast
  moreover have "r \<in> set (db_settlements (pd_core s))" "stl_id r = i" using getSettlement_visible [OF found(1)] by simp_all
  ultimately have "dispatched_row r" using ok unfolding payouts_ok_def keyed_def distinct_map by (metis inj_onD)
  with found(2) show False by (simp add: dispatched_row_def)
qed

lemma crossing_ok:
  assumes run: "cross_boundary scope i v s = Inr (x, s')" and ok: "payouts_ok s"
    and none: "\<forall>a\<in>set (pd_attempts s). pa_settlementId a \<noteq> di_settlementId i"
  shows "payouts_ok s'"
proof -
  obtain key where key: "payoutIdempotencyKey (di_settlementId i) 1 = Inr key"
    using run by (cases "payoutIdempotencyKey (di_settlementId i) 1") (simp_all add: cross_boundary_def chain_Inr)
  with run obtain attemptId d where new: "new_id K_payoutAttempt (pd_core s) = Inr (attemptId, d)"
    by (auto simp: cross_boundary_def chain_Inr core_Inr)
  let ?s = "s\<lparr>pd_core := d\<rparr>" and ?t = "db_now (pd_core s)"
  let ?input = "(plain_input (di_settlementId i) T_dispatch_payout (di_actor i)
      [(G_rail_selected, di_railSelected i), (G_destination_version_verified, (bound_scope s, v) \<in> set (pd_verified s)),
       (G_no_cancellation_pending, True), (G_before_point_of_no_return, True)])
      \<lparr>ai_patch := Some [CW_pointOfNoReturnAt (Some ?t), CW_payoutAttemptId (Some attemptId)],
       ai_statusEventPayload := [(''payout_attempt_id'', JStr attemptId)]\<rparr>"
  have ok1: "payouts_ok ?s"
    using maintainsD [OF maintains_same [OF same_new_id]] new ok by (fastforce simp: core_Inr)
  then have keyed: "keyed db_settlements stl_id d" by (simp add: payouts_ok_def)
  let ?row = "dispatched_attempt scope i v attemptId key ?t"
  from run new key obtain y d2 where t: "applyTransition scope ?input d = Inr (y, d2)"
    and after: "(case y of Inl f \<Rightarrow> give (Inl (Dispatch_Transition_Refused f))
      | Inr _ \<Rightarrow> chain (insert_attempt ?row) (\<lambda>_. give (Inr \<lparr>ds_payoutAttemptId = attemptId, ds_attemptNumber = 1,
          ds_idempotencyKey = key, ds_pointOfNoReturnAt = ?t, ds_reused = False\<rparr>))) (?s\<lparr>pd_core := d2\<rparr>) = Inr (x, s')"
    by (auto simp: cross_boundary_def chain_Inr core_Inr)
  have input: "ai_trigger ?input = T_dispatch_payout" by (simp add: plain_input_def)
  have ok2: "payouts_ok (?s\<lparr>pd_core := d2\<rparr>)"
    by (rule core_transition_ok [where s = ?s and x = y and i = ?input]) (use t ok1 input in \<open>auto simp: core_Inr truthful_def\<close>)
  show ?thesis
  proof (cases y)
    case (Inl f)
    with after ok2 show ?thesis by simp
  next
    case (Inr out)
    with after obtain u where ins: "insert_attempt ?row (?s\<lparr>pd_core := d2\<rparr>) = Inr (u, s')"
      by (auto simp: chain_Inr)
    have "\<exists>r\<in>set (db_settlements d2). stl_id r = di_settlementId i \<and> stl_scope r = db_scope d \<and> dispatched_row r"
      using dispatch_crosses [OF t [unfolded Inr] keyed input] by (simp add: plain_input_def)
    moreover have "db_scope d2 = db_scope d"
      using applyTransition_applied [OF t [unfolded Inr] keyed] by (metis funding_unchanged_def)
    moreover have "scope = db_scope d2"
      using inserted_scope [OF ins] by (simp add: bound_scope_def dispatched_attempt_def)
    ultimately have linked: "dispatched_in (db_settlements (pd_core (?s\<lparr>pd_core := d2\<rparr>))) ?row"
      by (auto simp: dispatched_in_def dispatched_attempt_def)
    show ?thesis
      by (rule insert_ok [OF ins ok2 linked]) (use none in \<open>simp add: dispatched_attempt_def\<close>)
  qed
qed

lemma maintains_dispatch [maintained]: "maintains (dispatchPayout scope i)"
proof (rule maintainsI)
  fix s x s'
  assume run: "dispatchPayout scope i s = Inr (x, s')" and ok: "payouts_ok s"
  show "payouts_ok s'"
  proof (cases "\<exists>r v. getSettlement (di_settlementId i) s = Some r \<and> stl_pointOfNoReturnAt r = None \<and> cross_boundary scope i v s = Inr (x, s')")
    case True
    then show ?thesis using crossing_ok ok no_attempt_before_dispatch by metis
  next
    case False
    with run ok show ?thesis
      by (auto simp: dispatchPayout_def chain_Inr split: option.splits if_splits sum.splits)
  qed
qed

section \<open>Every sequence of operations\<close>

lemma maintains_ignoring [maintained]: "maintains m \<Longrightarrow> maintains (ignoring m)"
  unfolding ignoring_def by (intro maintained)

lemma maintains_operation [maintained]: "allowed op \<Longrightarrow> maintains (run_payout_operation scope op)"
  by (cases op) (simp_all add: allowed_def maintained)

lemma maintains_operations: "list_all allowed ops \<Longrightarrow> maintains (run_payout_operations scope ops)"
  by (induction ops) (auto intro!: maintained)

lemma payout_transaction_ok: "payout_transaction s s' \<Longrightarrow> payouts_ok s \<Longrightarrow> payouts_ok s'"
proof (elim payout_transactionE)
  fix ops scope now clock
  assume ops: "list_all allowed ops" and ok: "payouts_ok s"
    and s': "s' = snd (with_tenant_payout scope now clock (run_payout_operations scope ops) s)"
  let ?s = "s\<lparr>pd_core := begin_tenant scope now clock (pd_core s)\<rparr>"
  from ok have "payouts_ok ?s" by (simp add: payouts_ok_def keyed_def begin_tenant_def)
  with maintainsD [OF maintains_operations [OF ops]] have "run_payout_operations scope ops ?s = Inr (u, t) \<Longrightarrow> payouts_ok t" for u t
    by blast
  with ok show "payouts_ok s'"
    by (auto simp: s' with_tenant_payout_def payouts_ok_def keyed_def Let_def split: sum.splits)
qed

lemma payout_history_ok: "payout_transaction\<^sup>*\<^sup>* s s' \<Longrightarrow> payouts_ok s \<Longrightarrow> payouts_ok s'"
  by (induction rule: rtranclp_induct) (auto intro: payout_transaction_ok)

end
