(* ===== verification/Payout_Properties.thy ===== *)
theory Payout_Properties
  imports Payout_Safety Transition_Properties
begin

text \<open>
  The properties of payout execution: which attempts can be alive, what a repeated outcome does, and what the
  services leave undone. The sample database is a settlement whose funding is confirmed.
\<close>

section \<open>A sample database\<close>

definition funded_row :: settlement_row where
  "funded_row =
     \<lparr>stl_id = ''stl_1'', stl_scope = sample_scope, stl_beneficiaryId = ''ben_1'', stl_destinationId = Some ''dst_1'',
      stl_destinationVersionId = Some ''dsv_1'', stl_recipientAmountMinor = 500000, stl_recipientAmountCurrency = INR,
      stl_fundingCurrency = ''USDT'', stl_purposeCode = Some ''P0001'', stl_quoteId = Some ''qte_1'',
      stl_authorizedTerms = Some (JObj []), stl_authorizedTermsHash = Some ''h'', stl_status = DRAWDOWN_CONFIRMED,
      stl_customerStatus = customerStatusColumn DRAWDOWN_CONFIRMED None, stl_exceptionEnteredFrom = None,
      stl_openExceptionCode = None, stl_externalReference = None, stl_idempotencyKey = None,
      stl_replacesSettlementId = None, stl_authorizedAt = Some 500, stl_authorizedBy = Some ''usr_1'',
      stl_cancellationRequestedAt = None, stl_cancellationRequestedBy = None, stl_pointOfNoReturnAt = None,
      stl_settledAt = None, stl_reservationId = None, stl_drawdownId = None, stl_payoutAttemptId = None,
      stl_receiptId = None, stl_createdAt = 100, stl_updatedAt = 900, stl_createdBy = ''usr_1'', stl_version = 7\<rparr>"

definition funded_db :: payout_db where
  "funded_db =
     \<lparr>pd_core = empty_db\<lparr>db_settlements := [funded_row]\<rparr>, pd_attempts = [], pd_exceptions = [], pd_events = [],
      pd_verified = [(sample_scope, ''dsv_1'')], pd_operatorActions = []\<rparr>"

definition sample_dispatch :: dispatch_input where
  "sample_dispatch =
     \<lparr>di_settlementId = ''stl_1'', di_actor = sample_actor, di_railSelected = True, di_rail = Some IMPS,
      di_slaSeconds = Some 60, di_providerId = Some ''mock'', di_fundingAmountMinor = Some 500000\<rparr>"

definition sample_outcome :: "provider_outcome \<Rightarrow> outcome_input" where
  "sample_outcome x =
     \<lparr>oi_settlementId = ''stl_1'', oi_outcome = x, oi_actor = sample_actor, oi_trusted = True,
      oi_utr = Some ''UTR000000001'', oi_rawCode = None, oi_exceptionCode = None, oi_providerReference = None,
      oi_mappingVersion = None, oi_creditedMinor = Some 500000\<rparr>"

definition paid_db :: payout_db where
  "paid_db = snd (with_tenant_payout sample_scope 1000 1001 (run_payout_operations sample_scope [Op_dispatch sample_dispatch]) funded_db)"

definition submitted_db :: payout_db where
  "submitted_db = funded_db
     \<lparr>pd_core := empty_db\<lparr>db_settlements := [funded_row\<lparr>stl_status := PAYOUT_SUBMITTED,
        stl_customerStatus := customerStatusColumn PAYOUT_SUBMITTED None, stl_pointOfNoReturnAt := Some 1000,
        stl_payoutAttemptId := Some ''pay_1'', stl_version := 8\<rparr>]\<rparr>,
      pd_attempts := [dispatched_attempt sample_scope sample_dispatch ''dsv_1'' ''pay_1'' ''payout:v1:stl_1:1'' 1000]\<rparr>"

lemma paid_db_attempts: "map (\<lambda>a. (pa_settlementId a, pa_status a)) (pd_attempts paid_db) = [(''stl_1'', P_SUBMITTED)]"
  by code_simp

section \<open>Which attempts can be alive\<close>

text \<open>
  C3. Money goes out once. Over any sequence of transactions - dispatches, outcomes, sweeps, retries, late
  acknowledgements, cancellations, exceptions and their resolutions, in any order - an attempt belongs to a
  settlement that is past its point of no return and is neither cancelled nor failed, and of all attempts of
  a settlement at most one is not \<open>REJECTED\<close>.
\<close>

theorem one_live_payout:
  assumes "payout_transaction\<^sup>*\<^sup>* s0 s" "pd_attempts s0 = []" "distinct (map stl_id (db_settlements (pd_core s0)))"
    and "a \<in> set (pd_attempts s)"
  shows "(\<exists>r\<in>set (db_settlements (pd_core s)). stl_id r = pa_settlementId a \<and> stl_pointOfNoReturnAt r \<noteq> None \<and>
      stl_status r \<notin> {CANCELLED, FAILED}) \<and>
    (\<forall>b\<in>set (pd_attempts s). pa_settlementId b = pa_settlementId a \<and> pa_status a \<noteq> P_REJECTED \<and> pa_status b \<noteq> P_REJECTED \<longrightarrow> b = a)"
proof -
  have "payouts_ok s0" using assms(2,3) by (simp add: payouts_ok_def keyed_def superseded_rejected_def)
  with payout_history_ok [OF assms(1)] have ok: "payouts_ok s" .
  from ok assms(4) obtain r where "r \<in> set (db_settlements (pd_core s))" "stl_id r = pa_settlementId a" "dispatched_row r"
    by (auto simp: payouts_ok_def dispatched_in_def)
  then have "\<exists>r\<in>set (db_settlements (pd_core s)). stl_id r = pa_settlementId a \<and> stl_pointOfNoReturnAt r \<noteq> None \<and>
      stl_status r \<notin> {CANCELLED, FAILED}"
    by (intro bexI [of _ r]) (auto simp: dispatched_row_def)
  moreover have "b = a" if b: "b \<in> set (pd_attempts s)" "pa_settlementId b = pa_settlementId a" "pa_status a \<noteq> P_REJECTED" "pa_status b \<noteq> P_REJECTED" for b
  proof -
    from ok assms(4) b have "\<not> pa_attemptNumber a < pa_attemptNumber b \<and> \<not> pa_attemptNumber b < pa_attemptNumber a"
      unfolding payouts_ok_def superseded_rejected_def by metis
    with b(2) have "attempt_slot b = attempt_slot a" by (simp add: attempt_slot_def)
    with ok assms(4) b(1) show ?thesis unfolding payouts_ok_def distinct_map by (metis inj_onD)
  qed
  ultimately show ?thesis by blast
qed

theorem one_live_payout_witness:
  "\<exists>a. pd_attempts paid_db = [a] \<and> pa_status a = P_SUBMITTED \<and>
     (\<exists>r\<in>set (db_settlements (pd_core paid_db)). stl_id r = pa_settlementId a \<and> stl_status r \<notin> {CANCELLED, FAILED})"
proof -
  have step: "payout_transaction funded_db paid_db"
    unfolding paid_db_def by (rule transacted) (simp add: allowed_def)
  obtain a where a: "pd_attempts paid_db = [a]" "pa_status a = P_SUBMITTED"
    using paid_db_attempts by auto
  have "pd_attempts funded_db = []" "distinct (map stl_id (db_settlements (pd_core funded_db)))" by (simp_all add: funded_db_def)
  from one_live_payout [OF r_into_rtranclp [of payout_transaction, OF step] this, of a] a show ?thesis by auto
qed

section \<open>Repeated outcomes\<close>

lemma updated_attempts:
  assumes "update_attempts p patch s = Inr (u, s')"
  shows "s' = s\<lparr>pd_attempts := map (\<lambda>b. if pa_scope b = bound_scope s \<and> p b then patch b else b) (pd_attempts s)\<rparr>"
proof -
  have "rows' = map (\<lambda>b. if pa_scope b = bound_scope s \<and> p b then patch b else b) rows"
    if "update_rows (\<lambda>a. pa_scope a = bound_scope s \<and> p a) (guarded protect_payout_attempt (attempt_violation s) patch) rows = Inr rows'"
    for rows rows'
    using that by (induction rows arbitrary: rows') (auto simp: bind_result_Inr guarded_Inr protect_attempt_Inr split: if_splits)
  with assms show ?thesis by (auto simp: update_attempts_def bind_result_Inr)
qed

lemma insort_key_map: "(\<And>x. k (f x) = k x) \<Longrightarrow> insort_key k (f x) (map f xs) = map f (insort_key k x xs)"
  by (induction xs) simp_all

lemma sort_key_map: "(\<And>x. k (f x) = k x) \<Longrightarrow> sort_key k (map f xs) = map f (sort_key k xs)"
  by (induction xs) (simp_all add: insort_key_map)

text \<open>An update that keeps number, settlement and scope leaves the same attempt the latest.\<close>

lemma latest_updated:
  assumes "\<And>b. pa_attemptNumber (f b) = pa_attemptNumber b \<and> pa_settlementId (f b) = pa_settlementId b \<and> pa_scope (f b) = pa_scope b"
    and "latest_visible i s = Some a" "pd_attempts t = map f (pd_attempts s)" "bound_scope t = bound_scope s"
  shows "latest_visible i t = Some (f a)"
proof -
  have "visible_attempts i t = map f (visible_attempts i s)"
    using assms(1,3,4) by (simp add: visible_attempts_def filter_map comp_def)
  with assms(1,2) show ?thesis by (auto simp: latest_visible_def sort_key_map split: list.splits)
qed

definition absorbed :: "outcome_input \<Rightarrow> payout_attempt_status \<Rightarrow> bool" where
  "absorbed i x \<longleftrightarrow> (case oi_outcome i of
     O_credited \<Rightarrow> x = P_CREDITED \<and> isWellFormedUtr (oi_utr i) | O_rejected \<Rightarrow> x = P_REJECTED | O_accepted \<Rightarrow> x \<noteq> P_SUBMITTED
   | O_returned \<Rightarrow> x = P_RETURNED | O_unknown \<Rightarrow> False)"

lemma absorbed_again:
  assumes "oi_trusted i" "latest_visible (oi_settlementId i) t = Some a" "absorbed i (pa_status a)"
  shows "applyPayoutOutcome scope i t = Inr (Inr ((answered a (pa_status a))\<lparr>do_idempotent := True\<rparr>), t)"
  using assms
  by (cases "oi_outcome i")
    (simp_all add: applyPayoutOutcome_def chain_def look_def give_def absorbed_def apply_credit_def apply_rejection_def apply_acceptance_def apply_return_def)

lemma core_keeps_attempts: "core m s = Inr (x, s') \<Longrightarrow> pd_attempts s' = pd_attempts s"
  by (auto simp: core_Inr)

lemma moved_scope:
  assumes "move_settlement scope input d s = Inr (x, s')" "keyed db_settlements stl_id (pd_core s)"
  shows "pd_attempts s' = pd_attempts s \<and> bound_scope s' = bound_scope s"
proof -
  from assms(1) obtain r d' where "applyTransition scope input (pd_core s) = Inr (r, d')" "s' = s\<lparr>pd_core := d'\<rparr>"
    by (auto simp: move_settlement_def chain_Inr core_Inr)
  then show ?thesis
    using applyTransition_refused [of scope input "pd_core s" _ d'] applyTransition_applied [of scope input "pd_core s" _ d', OF _ assms(2)]
    by (cases r) (auto simp: bound_scope_def funding_unchanged_def)
qed

definition takes_effect :: "outcome_input \<Rightarrow> attempt_row \<Rightarrow> payout_db \<Rightarrow> payout_db \<Rightarrow> bool" where
  "takes_effect i a s s' \<longleftrightarrow> s' = s \<and> absorbed i (pa_status a) \<or>
     (\<exists>f t u. update_attempts (\<lambda>b. pa_id b = pa_id a) f s = Inr (u, t) \<and> absorbed i (pa_status (f a)) \<and>
       (\<forall>b. pa_attemptNumber (f b) = pa_attemptNumber b \<and> pa_settlementId (f b) = pa_settlementId b \<and> pa_scope (f b) = pa_scope b) \<and>
       pd_attempts s' = pd_attempts t \<and> bound_scope s' = bound_scope t)"

lemma updated_then_moved:
  assumes "update_attempts p f s = Inr (u, t)" "move_settlement scope input d t = Inr (x, s')" "keyed db_settlements stl_id (pd_core s)"
  shows "pd_attempts s' = pd_attempts t \<and> bound_scope s' = bound_scope t"
proof -
  have "pd_core t = pd_core s" using updated_attempts [OF assms(1)] by simp
  with moved_scope [OF assms(2)] assms(3) show ?thesis by simp
qed

lemma takes_effect_credit:
  assumes "apply_credit scope i a now e s = Inr (Inr d, s')" "oi_outcome i = O_credited" "keyed db_settlements stl_id (pd_core s)"
  shows "takes_effect i a s s'"
  using assms unfolding takes_effect_def
  by (fastforce simp: apply_credit_def chain_Inr absorbed_def split: if_splits dest: updated_then_moved)

lemma takes_effect_rejection:
  assumes "apply_rejection scope i a now e s = Inr (Inr d, s')" "oi_outcome i = O_rejected" "keyed db_settlements stl_id (pd_core s)"
  shows "takes_effect i a s s'"
  using assms unfolding takes_effect_def
  by (fastforce simp: apply_rejection_def chain_Inr absorbed_def split: if_splits dest: updated_then_moved)

lemma takes_effect_acceptance:
  "apply_acceptance i a s = Inr (Inr d, s') \<Longrightarrow> oi_outcome i = O_accepted \<Longrightarrow> takes_effect i a s s'"
  unfolding takes_effect_def by (fastforce simp: apply_acceptance_def chain_Inr absorbed_def split: if_splits)

lemma takes_effect_return:
  "apply_return i a now s = Inr (Inr d, s') \<Longrightarrow> oi_outcome i = O_returned \<Longrightarrow> takes_effect i a s s'"
  unfolding takes_effect_def by (fastforce simp: apply_return_def chain_Inr absorbed_def split: if_splits)

lemma outcome_takes_effect:
  assumes run: "applyPayoutOutcome scope i s = Inr (Inr d, s')" and keyed: "keyed db_settlements stl_id (pd_core s)"
  obtains a where "oi_trusted i" "latest_visible (oi_settlementId i) s = Some a" "takes_effect i a s s'"
proof -
  from run obtain a where trusted: "oi_trusted i" and a: "latest_visible (oi_settlementId i) s = Some a"
    by (auto simp: applyPayoutOutcome_def chain_Inr split: if_splits option.splits)
  have "takes_effect i a s s'"
    using run trusted a keyed
    by (cases "oi_outcome i")
      (auto simp: applyPayoutOutcome_def chain_Inr intro: takes_effect_credit takes_effect_rejection takes_effect_acceptance takes_effect_return)
  with trusted a show ?thesis by (rule that)
qed

text \<open>
  C4. A provider says the same thing twice, by webhook, by webhook again and by the status pull: an outcome that was
  applied is absorbed for as long as the attempts stay as they are. Repeating it, whenever, answers
  \<open>idempotent\<close> and changes nothing, whatever the settlement has done since.
\<close>

theorem outcome_applied_once:
  assumes "applyPayoutOutcome scope i s = Inr (Inr d, s')" "distinct (map stl_id (db_settlements (pd_core s)))"
    and "pd_attempts t = pd_attempts s'" "bound_scope t = bound_scope s'"
  shows "\<exists>d'. applyPayoutOutcome scope i t = Inr (Inr d', t) \<and> do_idempotent d'"
proof -
  from assms(1,2) obtain a where i: "oi_trusted i" and a: "latest_visible (oi_settlementId i) s = Some a" and eff: "takes_effect i a s s'"
    by (rule outcome_takes_effect [unfolded keyed_def])
  have "\<exists>b. latest_visible (oi_settlementId i) t = Some b \<and> absorbed i (pa_status b)"
    using eff unfolding takes_effect_def
  proof (elim disjE exE conjE)
    assume "s' = s" "absorbed i (pa_status a)"
    with a assms(3,4) show ?thesis by (simp add: latest_visible_def visible_attempts_def)
  next
    fix f r u
    assume upd: "update_attempts (\<lambda>b. pa_id b = pa_id a) f s = Inr (u, r)" and ab: "absorbed i (pa_status (f a))"
      and keep: "\<forall>b. pa_attemptNumber (f b) = pa_attemptNumber b \<and> pa_settlementId (f b) = pa_settlementId b \<and> pa_scope (f b) = pa_scope b"
      and s': "pd_attempts s' = pd_attempts r" "bound_scope s' = bound_scope r"
    let ?f = "\<lambda>b. if pa_scope b = bound_scope s \<and> pa_id b = pa_id a then f b else b"
    from updated_attempts [OF upd] have r: "pd_attempts r = map ?f (pd_attempts s)" "bound_scope r = bound_scope s"
      by (simp_all add: bound_scope_def)
    have "latest_visible (oi_settlementId i) t = Some (?f a)"
      by (rule latest_updated [OF _ a]) (use keep r s' assms(3,4) in simp_all)
    moreover have "pa_scope a = bound_scope s" using latest_visible_max [OF a] by (simp add: visible_attempts_def)
    ultimately show ?thesis using ab by simp
  qed
  with absorbed_again [OF i] show ?thesis by fastforce
qed

theorem outcome_applied_once_witness:
  "\<exists>d s'. applyPayoutOutcome sample_scope (sample_outcome O_credited) submitted_db = Inr (Inr d, s') \<and> \<not> do_idempotent d \<and>
     map pa_status (pd_attempts s') = [P_CREDITED] \<and> map stl_status (db_settlements (pd_core s')) = [PAYOUT_CONFIRMED] \<and>
     (\<exists>d'. applyPayoutOutcome sample_scope (sample_outcome O_credited) s' = Inr (Inr d', s') \<and> do_idempotent d')"
proof -
  let ?run = "applyPayoutOutcome sample_scope (sample_outcome O_credited) submitted_db"
  have "(case ?run of Inr (Inr d, s') \<Rightarrow> \<not> do_idempotent d \<and> map pa_status (pd_attempts s') = [P_CREDITED] \<and>
      map stl_status (db_settlements (pd_core s')) = [PAYOUT_CONFIRMED] | _ \<Rightarrow> False)"
    by code_simp
  then obtain d s' where run: "?run = Inr (Inr d, s')" and facts: "\<not> do_idempotent d" "map pa_status (pd_attempts s') = [P_CREDITED]"
      "map stl_status (db_settlements (pd_core s')) = [PAYOUT_CONFIRMED]"
    by (auto split: sum.splits prod.splits) (metis sum.exhaust)
  have "distinct (map stl_id (db_settlements (pd_core submitted_db)))" by (simp add: submitted_db_def)
  from outcome_applied_once [OF run this, of s'] run facts show ?thesis by auto
qed


section \<open>A credit that comes too early\<close>





end
