(* ===== verification/Settlement_Funding.thy ===== *)
theory Settlement_Funding
  imports Settlement_Service Liquidity_Service
begin

text \<open>
  The funding leg of a settlement (\<open>packages/app/src/settlement-liquidity.service.ts\<close>): reserving for it, requesting
  the drawdown, what the provider answers about the drawdown, and the compensation a cancellation owes.
\<close>

section \<open>Answers\<close>

datatype evidence_direction = Under_Funded | Over_Funded

datatype evidence_refusal =
    Evidence_Required
  | Evidence_Currency_Mismatch currency_code string
  | Facility_Mismatch string string
  | Amount_Mismatch int int evidence_direction

datatype funding_refusal =
    Fund_Settlement_Not_Found
  | Fund_Facility_Not_Found
  | Fund_Transition_Refused transition_failure
  | Fund_Reserve_Refused reserve_refusal "transition_id option"
  | No_Active_Reservation
  | Drawdown_Not_Found
  | Provider_Event_Not_Verified
  | Evidence_Refused evidence_refusal
  | Drawdown_Transition_Refused drawdown_status drawdown_trigger
  | Fund_Reservation_Refused reservation_failure

record funded =
  fu_transition :: string
  fu_reservationId :: "string option"
  fu_drawdownId :: "string option"
  fu_idempotent :: bool

type_synonym funding_result = "(funding_refusal, funded) result"

definition moved :: "transition_outcome \<Rightarrow> funded" where
  "moved out = \<lparr>fu_transition = transition_name (out_transition out), fu_reservationId = None, fu_drawdownId = None, fu_idempotent = False\<rparr>"

text \<open>A transition whose refusal is the answer of the whole operation.\<close>

definition fund_transition :: "tenant_scope \<Rightarrow> apply_input \<Rightarrow> (funded \<Rightarrow> funded) \<Rightarrow> funding_result tx" where
  "fund_transition scope input f =
     bind_tx (applyTransition scope input) (\<lambda>r.
     ret (case r of Inl e \<Rightarrow> Inl (Fund_Transition_Refused e) | Inr out \<Rightarrow> Inr (f (moved out))))"

section \<open>Evidence\<close>

record drawdown_evidence =
  ev_amountMinor :: int
  ev_currency :: string
  ev_facilityId :: "string option"
  ev_providerReference :: "string option"

definition matchesDrawdown :: "drawdown_row \<Rightarrow> drawdown_evidence option \<Rightarrow> evidence_refusal option" where
  "matchesDrawdown drawdown evidence =
     (case evidence of
        None \<Rightarrow> Some Evidence_Required
      | Some e \<Rightarrow>
          if ev_currency e \<noteq> code_string (drw_amountCurrency drawdown)
          then Some (Evidence_Currency_Mismatch (drw_amountCurrency drawdown) (ev_currency e))
          else if ev_facilityId e \<noteq> None \<and> ev_facilityId e \<noteq> Some (drw_facilityId drawdown)
          then Some (Facility_Mismatch (drw_facilityId drawdown) (the (ev_facilityId e)))
          else if ev_amountMinor e \<noteq> drw_amountMinor drawdown
          then Some (Amount_Mismatch (drw_amountMinor drawdown) (ev_amountMinor e)
            (if ev_amountMinor e < drw_amountMinor drawdown then Under_Funded else Over_Funded))
          else None)"

section \<open>The reservation leg\<close>

definition lockSettlement :: "string \<Rightarrow> settlement_row option tx" where
  "lockSettlement settlementId =
     bind_tx (get_db (find_visible db_settlements stl_scope (\<lambda>r. stl_id r = settlementId))) (\<lambda>rows.
     ret (case rows of [] \<Rightarrow> None | r # _ \<Rightarrow> Some r))"

record fund_input =
  fn_settlementId :: string
  fn_facilityId :: string
  fn_fundingAmount :: money
  fn_ttlSeconds :: int
  fn_actor :: principal

definition beginReservation :: "tenant_scope \<Rightarrow> fund_input \<Rightarrow> funding_result tx" where
  "beginReservation scope input =
     bind_tx (lockSettlement (fn_settlementId input)) (\<lambda>found.
     case found of
       None \<Rightarrow> ret (Inl Fund_Settlement_Not_Found)
     | Some settlement \<Rightarrow>
         bind_tx (readFacility (fn_facilityId input)) (\<lambda>facility.
         case facility of
           None \<Rightarrow> ret (Inl Fund_Facility_Not_Found)
         | Some facility \<Rightarrow>
             fund_transition scope (plain_input (fn_settlementId input) T_begin_reservation (fn_actor input)
               [(G_facility_active, fv_status facility = F_ACTIVE),
                (G_no_cancellation_pending, stl_cancellationRequestedAt settlement = None)]) id))"

definition reservation_refused :: "tenant_scope \<Rightarrow> fund_input \<Rightarrow> reserve_refusal \<Rightarrow> funding_result tx" where
  "reservation_refused scope input e =
     bind_tx (applyTransition scope ((plain_input (fn_settlementId input) T_reservation_failed (fn_actor input) [])
       \<lparr>ai_exceptionCode := Some (if e = RR_Facility_Not_Active then FACILITY_SUSPENDED else LIQUIDITY_UNAVAILABLE)\<rparr>)) (\<lambda>failed.
     ret (Inl (Fund_Reserve_Refused e (case failed of Inl _ \<Rightarrow> None | Inr out \<Rightarrow> Some (out_transition out)))))"

definition completeReservation :: "tenant_scope \<Rightarrow> fund_input \<Rightarrow> funding_result tx" where
  "completeReservation scope input =
     bind_tx (readFacility (fn_facilityId input)) (\<lambda>facility.
     case facility of
       None \<Rightarrow> ret (Inl Fund_Facility_Not_Found)
     | Some facility \<Rightarrow>
         bind_tx (reserveLiquidity scope
           \<lparr>ri_facilityId = fn_facilityId input, ri_settlementId = fn_settlementId input, ri_amount = fn_fundingAmount input,
            ri_ttlSeconds = fn_ttlSeconds input, ri_actor = fn_actor input\<rparr>) (\<lambda>reserved.
         case reserved of
           Inl e \<Rightarrow> reservation_refused scope input e
         | Inr ok \<Rightarrow>
             fund_transition scope ((plain_input (fn_settlementId input) T_reservation_succeeded (fn_actor input)
                 [(G_sufficient_availability, True), (G_facility_active, fv_status facility = F_ACTIVE)])
               \<lparr>ai_statusEventPayload := [(''reservation_id'', JStr (rok_reservationId ok))]\<rparr>)
               (\<lambda>f. f\<lparr>fu_reservationId := Some (rok_reservationId ok)\<rparr>)))"

text \<open>The two transactions of the leg: the second runs only if the first was accepted, and may come at any later time.\<close>

definition reserveForSettlement ::
    "tenant_scope \<Rightarrow> int \<times> int \<Rightarrow> int \<times> int \<Rightarrow> fund_input \<Rightarrow> db \<Rightarrow> (exn, funding_result) result \<times> db" where
  "reserveForSettlement scope t1 t2 input db =
     (case with_tenant scope (fst t1) (snd t1) (beginReservation scope input) db of
        (Inr (Inr _), db1) \<Rightarrow> with_tenant scope (fst t2) (snd t2) (completeReservation scope input) db1
      | answer \<Rightarrow> answer)"

section \<open>The drawdown\<close>

definition new_drawdown :: "tenant_scope \<Rightarrow> string \<Rightarrow> principal \<Rightarrow> reservation_row \<Rightarrow> string \<Rightarrow> db \<Rightarrow> drawdown_row" where
  "new_drawdown scope settlementId actor reservation drawdownId db =
     \<lparr>drw_id = drawdownId, drw_scope = scope, drw_facilityId = rsv_facilityId reservation, drw_settlementId = settlementId,
      drw_reservationId = rsv_id reservation, drw_amountMinor = rsv_amountMinor reservation,
      drw_amountCurrency = rsv_amountCurrency reservation, drw_status = W_REQUESTED,
      drw_requestFingerprint = drawdownFingerprint drawdownId, drw_providerReference = None, drw_requestedAt = db_now db,
      drw_requestedBy = pr_id actor, drw_confirmedAt = None, drw_failedAt = None\<rparr>"

definition requestDrawdown :: "tenant_scope \<Rightarrow> string \<Rightarrow> principal \<Rightarrow> funding_result tx" where
  "requestDrawdown scope settlementId actor =
     bind_tx (lockSettlement settlementId) (\<lambda>found.
     case found of
       None \<Rightarrow> ret (Inl Fund_Settlement_Not_Found)
     | Some settlement \<Rightarrow>
         bind_tx (get_db (find_visible db_reservations rsv_scope
           (\<lambda>r. rsv_settlementId r = settlementId \<and> rsv_status r = V_ACTIVE))) (\<lambda>reservations.
         bind_tx (applyTransition scope (plain_input settlementId T_request_drawdown actor
           [(G_active_reservation_exists, reservations \<noteq> []),
            (G_no_cancellation_pending, stl_cancellationRequestedAt settlement = None)])) (\<lambda>outcome.
         case outcome of
           Inl e \<Rightarrow> ret (Inl (Fund_Transition_Refused e))
         | Inr out \<Rightarrow>
             (case reservations of
                [] \<Rightarrow> ret (Inl No_Active_Reservation)
              | reservation # _ \<Rightarrow>
                  bind_tx (new_id K_drawdown) (\<lambda>drawdownId.
                  bind_tx (get_db (new_drawdown scope settlementId actor reservation drawdownId)) (\<lambda>row.
                  bind_tx (insert_drawdown row) (\<lambda>_.
                  ret (Inr ((moved out)\<lparr>fu_drawdownId := Some drawdownId\<rparr>)))))))))"

text \<open>\<open>ORDER BY requested_at DESC LIMIT 1\<close>.\<close>

definition latest_drawdown :: "string \<Rightarrow> db \<Rightarrow> drawdown_row option" where
  "latest_drawdown settlementId db =
     (case sort_key (\<lambda>r. - drw_requestedAt r) (find_visible db_drawdowns drw_scope (\<lambda>r. drw_settlementId r = settlementId) db) of
        [] \<Rightarrow> None
      | r # _ \<Rightarrow> Some r)"

record resolve_input =
  rv_settlementId :: string
  rv_trigger :: drawdown_trigger
  rv_actor :: principal
  rv_providerReference :: "string option"
  rv_providerEventVerified :: bool
  rv_evidence :: "drawdown_evidence option"

definition confirming :: "drawdown_trigger \<Rightarrow> bool" where
  "confirming t = (t = W_confirmed \<or> t = W_pull_resolved_confirmed)"

definition failing :: "drawdown_trigger \<Rightarrow> bool" where
  "failing t = (t = W_failed \<or> t = W_pull_resolved_failed)"

definition drawdown_patch :: "drawdown_status \<Rightarrow> int \<Rightarrow> string option \<Rightarrow> drawdown_row \<Rightarrow> drawdown_row" where
  "drawdown_patch to now providerReference r =
     r\<lparr>drw_status := to,
       drw_confirmedAt := (if to = W_CONFIRMED then Some now else drw_confirmedAt r),
       drw_failedAt := (if to = W_FAILED then Some now else drw_failedAt r),
       drw_providerReference := given providerReference (drw_providerReference r)\<rparr>"

definition answer_transition :: "tenant_scope \<Rightarrow> resolve_input \<Rightarrow> drawdown_row \<Rightarrow> apply_input \<Rightarrow> funding_result tx" where
  "answer_transition scope input drawdown i = fund_transition scope i (\<lambda>f. f\<lparr>fu_drawdownId := Some (drw_id drawdown)\<rparr>)"

definition answer_confirmed :: "tenant_scope \<Rightarrow> resolve_input \<Rightarrow> drawdown_row \<Rightarrow> funding_result tx" where
  "answer_confirmed scope input drawdown =
     bind_tx (consumeReservation scope \<lparr>cn_settlementId = rv_settlementId input, cn_actor = rv_actor input\<rparr>) (\<lambda>consumed.
     case consumed of
       Inl e \<Rightarrow> ret (Inl (Fund_Reservation_Refused e))
     | Inr _ \<Rightarrow> answer_transition scope input drawdown
         ((plain_input (rv_settlementId input) T_drawdown_confirmed (rv_actor input)
             [(G_provider_event_verified, rv_providerEventVerified input)])
           \<lparr>ai_companions := [about_settlement C_facility_drawdown_confirmed (rv_settlementId input)]\<rparr>))"

definition answer_failed :: "tenant_scope \<Rightarrow> resolve_input \<Rightarrow> drawdown_row \<Rightarrow> funding_result tx" where
  "answer_failed scope input drawdown =
     bind_tx (releaseReservation scope \<lparr>rl_settlementId = rv_settlementId input, rl_reason = drawdown_failed,
       rl_actor = rv_actor input, rl_expired = False\<rparr>) (\<lambda>released.
     case released of
       Inl e \<Rightarrow> ret (Inl (Fund_Reservation_Refused e))
     | Inr _ \<Rightarrow> answer_transition scope input drawdown
         ((plain_input (rv_settlementId input) T_drawdown_failed (rv_actor input)
             [(G_provider_event_verified, rv_providerEventVerified input)])
           \<lparr>ai_exceptionCode := Some DRAWDOWN_FAILED,
            ai_companions := [about_settlement C_facility_reservation_released (rv_settlementId input)]\<rparr>))"

definition answer_unknown :: "tenant_scope \<Rightarrow> resolve_input \<Rightarrow> drawdown_row \<Rightarrow> funding_result tx" where
  "answer_unknown scope input drawdown =
     answer_transition scope input drawdown
       ((plain_input (rv_settlementId input) T_drawdown_timeout (rv_actor input) [(G_drawdown_sla_elapsed, True)])
         \<lparr>ai_exceptionCode := Some DRAWDOWN_STATUS_UNKNOWN\<rparr>)"

definition perform_answer :: "tenant_scope \<Rightarrow> resolve_input \<Rightarrow> drawdown_row \<Rightarrow> drawdown_status \<Rightarrow> funding_result tx" where
  "perform_answer scope input drawdown to =
     bind_tx (get_db db_now) (\<lambda>now.
     bind_tx (update_drawdowns (\<lambda>r. drw_id r = drw_id drawdown) (drawdown_patch to now (rv_providerReference input))) (\<lambda>_.
     if to = W_CONFIRMED then answer_confirmed scope input drawdown
     else if to = W_FAILED then answer_failed scope input drawdown
     else answer_unknown scope input drawdown))"

definition resolveDrawdown :: "tenant_scope \<Rightarrow> resolve_input \<Rightarrow> funding_result tx" where
  "resolveDrawdown scope input =
     bind_tx (get_db (latest_drawdown (rv_settlementId input))) (\<lambda>found.
     case found of
       None \<Rightarrow> ret (Inl Drawdown_Not_Found)
     | Some drawdown \<Rightarrow>
         if (confirming (rv_trigger input) \<or> failing (rv_trigger input)) \<and> \<not> rv_providerEventVerified input
         then ret (Inl Provider_Event_Not_Verified)
         else
           (case (if confirming (rv_trigger input) then matchesDrawdown drawdown (rv_evidence input) else None) of
              Some e \<Rightarrow> ret (Inl (Evidence_Refused e))
            | None \<Rightarrow>
                if confirming (rv_trigger input) \<and> drw_status drawdown = W_CONFIRMED
                then ret (Inr \<lparr>fu_transition = ''W02'', fu_reservationId = None, fu_drawdownId = Some (drw_id drawdown), fu_idempotent = True\<rparr>)
                else
                  (case evaluateDrawdownTransition (Some (drw_status drawdown)) (rv_trigger input) of
                     Inl _ \<Rightarrow> ret (Inl (Drawdown_Transition_Refused (drw_status drawdown) (rv_trigger input)))
                   | Inr (_, to) \<Rightarrow> perform_answer scope input drawdown to)))"

section \<open>Compensation\<close>

datatype compensated = Reservation_Released | Repayment_Requested string | Nothing_Owed

datatype compensation_refusal =
    Compensate_Settlement_Not_Found
  | Compensate_Release reservation_failure
  | Compensate_Repayment repayment_failure

text \<open>\<open>ORDER BY created_at DESC LIMIT 1\<close>.\<close>

definition newest_reservation :: "string \<Rightarrow> db \<Rightarrow> reservation_row option" where
  "newest_reservation settlementId db =
     (case sort_key (\<lambda>r. - rsv_createdAt r) (find_visible db_reservations rsv_scope (\<lambda>r. rsv_settlementId r = settlementId) db) of
        [] \<Rightarrow> None
      | r # _ \<Rightarrow> Some r)"

definition compensateCancellation :: "tenant_scope \<Rightarrow> string \<Rightarrow> principal \<Rightarrow> (compensation_refusal, compensated) result tx" where
  "compensateCancellation scope settlementId actor =
     bind_tx (lockSettlement settlementId) (\<lambda>settlement.
     if settlement = None then ret (Inl Compensate_Settlement_Not_Found)
     else bind_tx (get_db (newest_reservation settlementId)) (\<lambda>found.
     case found of
       None \<Rightarrow> ret (Inr Nothing_Owed)
     | Some reservation \<Rightarrow>
         if rsv_status reservation = V_ACTIVE
         then bind_tx (releaseReservation scope \<lparr>rl_settlementId = settlementId, rl_reason = settlement_cancelled,
             rl_actor = actor, rl_expired = False\<rparr>) (\<lambda>released.
           ret (case released of Inl e \<Rightarrow> Inl (Compensate_Release e) | Inr _ \<Rightarrow> Inr Reservation_Released))
         else if rsv_status reservation = V_CONSUMED
         then bind_tx (requestRepayment scope \<lparr>rq_facilityId = rsv_facilityId reservation, rq_amount = money_of_reservation reservation,
             rq_source = CANCELLATION_AFTER_DRAWDOWN, rq_settlementId = Some settlementId, rq_returnId = None, rq_actor = actor\<rparr>) (\<lambda>repayment.
           ret (case repayment of Inl e \<Rightarrow> Inl (Compensate_Repayment e) | Inr done \<Rightarrow> Inr (Repayment_Requested (rp_repaymentId done))))
         else ret (Inr Nothing_Owed)))"

end
