(* ===== verification/Funding_Properties.thy ===== *)
theory Funding_Properties
  imports Settlement_Funding Payout_Properties Liquidity_Properties
begin

text \<open>
  The properties of the funding leg: what moves money, and what a confirmation by status pull leaves behind. The
  sample database is a settlement whose drawdown is requested, and one whose drawdown has timed out.
\<close>

section \<open>Sample databases\<close>

definition sample_drawdown :: drawdown_row where
  "sample_drawdown =
     \<lparr>drw_id = ''drw_1'', drw_scope = sample_scope, drw_facilityId = ''fac_1'', drw_settlementId = ''stl_1'',
      drw_reservationId = ''lrs_1'', drw_amountMinor = 500, drw_amountCurrency = USDT, drw_status = W_REQUESTED,
      drw_requestFingerprint = drawdownFingerprint ''drw_1'', drw_providerReference = None, drw_requestedAt = 1500,
      drw_requestedBy = ''usr_1'', drw_confirmedAt = None, drw_failedAt = None\<rparr>"

definition drawing_db :: db where
  "drawing_db = empty_db\<lparr>
     db_settlements := [funded_row\<lparr>stl_status := DRAWDOWN_REQUESTED,
       stl_customerStatus := customerStatusColumn DRAWDOWN_REQUESTED None\<rparr>],
     db_facilities := [\<lparr>fac_id = ''fac_1'', fac_scope = sample_scope, fac_providerId = ''mock'', fac_currency = USDT,
       fac_limitMinor = 1000, fac_status = F_ACTIVE, fac_drawnMinor = 0, fac_reservedMinor = 500, fac_createdAt = 100,
       fac_updatedAt = 1000, fac_version = 1\<rparr>],
     db_reservations := [\<lparr>rsv_id = ''lrs_1'', rsv_scope = sample_scope, rsv_facilityId = ''fac_1'',
       rsv_settlementId = ''stl_1'', rsv_amountMinor = 500, rsv_amountCurrency = USDT, rsv_status = V_ACTIVE,
       rsv_expiresAt = 900000, rsv_createdAt = 1000, rsv_releasedAt = None, rsv_releasedReason = None, rsv_consumedAt = None\<rparr>],
     db_drawdowns := [sample_drawdown]\<rparr>"

definition sample_answer :: "drawdown_trigger \<Rightarrow> resolve_input" where
  "sample_answer t =
     \<lparr>rv_settlementId = ''stl_1'', rv_trigger = t, rv_actor = sample_actor, rv_providerReference = None,
      rv_providerEventVerified = True, rv_evidence = Some \<lparr>ev_amountMinor = 500, ev_currency = ''USDT'',
        ev_facilityId = None, ev_providerReference = None\<rparr>\<rparr>"

definition answered_db :: "drawdown_trigger \<Rightarrow> db \<Rightarrow> db" where
  "answered_db t db = snd (with_tenant sample_scope 2000 2001 (resolveDrawdown sample_scope (sample_answer t)) db)"


definition timed_out_db :: db where
  "timed_out_db = drawing_db\<lparr>
     db_settlements := [funded_row\<lparr>stl_status := EXCEPTION, stl_exceptionEnteredFrom := Some DRAWDOWN_REQUESTED,
       stl_openExceptionCode := Some DRAWDOWN_STATUS_UNKNOWN,
       stl_customerStatus := customerStatusColumn EXCEPTION (Some DRAWDOWN_STATUS_UNKNOWN), stl_version := 8\<rparr>],
     db_drawdowns := [sample_drawdown\<lparr>drw_status := W_UNKNOWN\<rparr>]\<rparr>"

lemma pulled_state:
  "map stl_status (db_settlements (answered_db W_pull_resolved_confirmed timed_out_db)) = [EXCEPTION] \<and>
   map_option drw_status (latest_drawdown ''stl_1'' (answered_db W_pull_resolved_confirmed timed_out_db)) = Some W_CONFIRMED"
  by code_simp

section \<open>What moves money\<close>

lemma matches_exactly:
  "matchesDrawdown d e = None \<longleftrightarrow> (\<exists>v. e = Some v \<and> ev_amountMinor v = drw_amountMinor d \<and>
     ev_currency v = code_string (drw_amountCurrency d) \<and> (ev_facilityId v = None \<or> ev_facilityId v = Some (drw_facilityId d)))"
  by (cases e) (auto simp: matchesDrawdown_def)

lemma answered_is_open: "evaluateDrawdownTransition (Some s) t = Inr p \<Longrightarrow> \<not> isDrawdownTerminal s"
  by (cases s; cases t) (auto simp: evaluateDrawdown_value isDrawdownTerminal_def TERMINAL_DRAWDOWN_STATUSES_def)

lemma resolve_drawdown_cases:
  assumes "resolveDrawdown scope input db = Inr (x, db')"
  obtains (unmoved) "db' = db"
    | (performed) d r to where "latest_drawdown (rv_settlementId input) db = Some d"
        "confirming (rv_trigger input) \<or> failing (rv_trigger input) \<longrightarrow> rv_providerEventVerified input"
        "confirming (rv_trigger input) \<longrightarrow> matchesDrawdown d (rv_evidence input) = None"
        "evaluateDrawdownTransition (Some (drw_status d)) (rv_trigger input) = Inr (r, to)"
        "perform_answer scope input d to db = Inr (x, db')"
  using assms
  by (auto simp: resolveDrawdown_def bind_tx_Inr split: option.splits if_splits sum.splits)

text \<open>
  C6. Money moves on exact evidence only. If an answer about a drawdown changes anything at all - the drawdown, the
  reservation, the facility, the settlement - then the drawdown was still open, a confirmation or a failure
  was a verified event, and a confirmation carried the amount and the currency that were asked for, and the
  facility where it names one. Every other answer is refused before the first write.
\<close>

theorem money_moves_on_exact_evidence:
  assumes "resolveDrawdown scope input db = Inr (x, db')" "db' \<noteq> db"
  shows "\<exists>d. latest_drawdown (rv_settlementId input) db = Some d \<and> \<not> isDrawdownTerminal (drw_status d) \<and>
    (confirming (rv_trigger input) \<or> failing (rv_trigger input) \<longrightarrow> rv_providerEventVerified input) \<and>
    (confirming (rv_trigger input) \<longrightarrow> (\<exists>v. rv_evidence input = Some v \<and> ev_amountMinor v = drw_amountMinor d \<and>
       ev_currency v = code_string (drw_amountCurrency d) \<and> (ev_facilityId v = None \<or> ev_facilityId v = Some (drw_facilityId d))))"
  using assms(1)
proof (cases rule: resolve_drawdown_cases)
  case (performed d r to)
  then show ?thesis by (auto simp: matches_exactly dest: answered_is_open)
qed (simp add: assms(2))

theorem money_moves_on_exact_evidence_witness:
  "\<exists>x db' d. resolveDrawdown sample_scope (sample_answer W_confirmed) (begin_tenant sample_scope 2000 2001 drawing_db) = Inr (x, db') \<and>
     latest_drawdown ''stl_1'' (begin_tenant sample_scope 2000 2001 drawing_db) = Some d \<and> drw_amountMinor d = 500 \<and>
     map drw_status (db_drawdowns db') = [W_CONFIRMED] \<and> map rsv_status (db_reservations db') = [V_CONSUMED]"
proof -
  let ?db = "begin_tenant sample_scope 2000 2001 drawing_db" and ?in = "sample_answer W_confirmed"
  have "(case resolveDrawdown sample_scope ?in ?db of Inl _ \<Rightarrow> False
      | Inr (x, db') \<Rightarrow> map drw_status (db_drawdowns db') = [W_CONFIRMED] \<and> map rsv_status (db_reservations db') = [V_CONSUMED])"
    by code_simp
  then obtain x db' where run: "resolveDrawdown sample_scope ?in ?db = Inr (x, db')"
    and facts: "map drw_status (db_drawdowns db') = [W_CONFIRMED]" "map rsv_status (db_reservations db') = [V_CONSUMED]"
    by (auto split: sum.splits)
  have "map drw_status (db_drawdowns ?db) = [W_REQUESTED]" by (simp add: begin_tenant_def drawing_db_def sample_drawdown_def)
  with facts(1) have "db' \<noteq> ?db" by auto
  from money_moves_on_exact_evidence [OF run this] obtain d where "latest_drawdown ''stl_1'' ?db = Some d"
      "\<exists>v. rv_evidence ?in = Some v \<and> ev_amountMinor v = drw_amountMinor d"
    by (auto simp: sample_answer_def confirming_def)
  with run facts show ?thesis by (auto simp: sample_answer_def)
qed

section \<open>A confirmation nobody hears\<close>

text \<open>
  C7. A confirmed drawdown answers nothing any more: whatever is said about it afterwards, the database stays as it
  is. So a confirmation that reached the drawdown while the settlement waited in \<open>EXCEPTION\<close> - the transition
  is refused, the confirmation is kept - can never take the settlement to \<open>DRAWDOWN_CONFIRMED\<close>, not even
  after it was resumed: only \<open>resolveDrawdown\<close> offers that transition.
\<close>

theorem confirmed_drawdown_is_spent:
  assumes "latest_drawdown (rv_settlementId input) db = Some d" "drw_status d = W_CONFIRMED"
  shows "\<exists>x. resolveDrawdown scope input db = Inr (x, db)"
  using assms by (cases "rv_trigger input")
    (auto simp: resolveDrawdown_def bind_tx_def get_db_def ret_def evaluateDrawdown_value confirming_def failing_def
      split: option.splits)

theorem confirmed_drawdown_is_spent_witness:
  "map stl_status (db_settlements (answered_db W_pull_resolved_confirmed timed_out_db)) = [EXCEPTION] \<and>
   (\<exists>x. resolveDrawdown sample_scope (sample_answer W_pull_resolved_confirmed)
      (answered_db W_pull_resolved_confirmed timed_out_db) =
      Inr (x, answered_db W_pull_resolved_confirmed timed_out_db))"
proof -
  let ?db = "answered_db W_pull_resolved_confirmed timed_out_db"
  from pulled_state obtain d where "latest_drawdown (rv_settlementId (sample_answer W_pull_resolved_confirmed)) ?db = Some d" "drw_status d = W_CONFIRMED"
    by (auto simp: sample_answer_def)
  from confirmed_drawdown_is_spent [OF this] pulled_state show ?thesis by blast
qed

end
