(* ===== verification/Ops_Service.thy ===== *)
theory Ops_Service
  imports Settlement_Funding
begin

text \<open>
  Internal Operations: what an operator needs to act and what is recorded of it (\<open>ops/access.service.ts\<close>), the
  resolution of an exception (\<open>ops/exception.service.ts\<close>), and facility limits, suspension and repayments
  (\<open>ops/liquidity.service.ts\<close>). An action is refused before its transaction, or is a function on the committed
  database; \<open>OperatorAccessRefused\<close> is \<open>Inl\<close> of its refusal.
\<close>

section \<open>Access\<close>

record active_operator =
  op_operatorId :: string
  op_sessionId :: string
  op_principal :: principal
  op_capabilities :: "internal_capability list"
  op_email :: string

record operator_context =
  oc_operator :: active_operator
  oc_action :: string
  oc_reason :: string
  oc_requestId :: "string option"
  oc_ip :: "string option"
  oc_userAgent :: "string option"

datatype operator_refusal = Insufficient_Capability internal_capability | Bad_Reason reason_refusal

definition requireCapability :: "operator_context \<Rightarrow> internal_capability \<Rightarrow> operator_refusal option" where
  "requireCapability ctx capability =
     (if capability \<notin> set (op_capabilities (oc_operator ctx)) then Some (Insufficient_Capability capability)
      else map_option Bad_Reason (validateReason (Some (oc_reason ctx))))"

definition action_row :: "tenant_scope \<Rightarrow> operator_context \<Rightarrow> action_kind \<Rightarrow> (string \<times> string) option \<Rightarrow> string \<Rightarrow> int \<Rightarrow> operator_action_row" where
  "action_row scope ctx kind subject i now =
     \<lparr>oa_id = i, oa_operatorId = op_operatorId (oc_operator ctx), oa_sessionId = Some (op_sessionId (oc_operator ctx)),
      oa_kind = kind, oa_action = oc_action ctx, oa_scope = scope, oa_subject = subject, oa_reason = oc_reason ctx,
      oa_requestId = oc_requestId ctx, oa_ip = oc_ip ctx, oa_userAgent = oc_userAgent ctx, oa_createdAt = now\<rparr>"

definition writeOperatorRecord ::
    "tenant_scope \<Rightarrow> operator_context \<Rightarrow> action_kind \<Rightarrow> (string \<times> string) option \<Rightarrow> string ptx" where
  "writeOperatorRecord scope ctx kind subject =
     chain (core (new_id K_operatorAction)) (\<lambda>i.
     chain (look (\<lambda>s. db_now (pd_core s))) (\<lambda>now.
     chain (insert_operator_action (action_row scope ctx kind subject i now)) (\<lambda>_.
     chain (core (write_audit scope
       \<lparr>au_actor = op_principal (oc_operator ctx), au_action = oc_action ctx,
        au_subjectType = (case subject of None \<Rightarrow> ''workspace'' | Some (t, _) \<Rightarrow> t),
        au_subjectId = (case subject of None \<Rightarrow> ts_workspace scope | Some (_, x) \<Rightarrow> x), au_before = JNull,
        au_after = JObj [(''operator'', JStr (op_email (oc_operator ctx))),
          (''kind'', JStr (case kind of Kind_read \<Rightarrow> ''read'' | Kind_write \<Rightarrow> ''write''))],
        au_reason = Some (oc_reason ctx)\<rparr>)) (\<lambda>_.
     give i))))"

definition recordOperatorAccess ::
    "tenant_scope \<Rightarrow> int \<Rightarrow> int \<Rightarrow> operator_context \<Rightarrow> action_kind \<Rightarrow> (string \<times> string) option \<Rightarrow> payout_db \<Rightarrow>
     (exn, string) result \<times> payout_db" where
  "recordOperatorAccess scope now clock ctx kind subject =
     with_tenant_payout scope now clock (writeOperatorRecord scope ctx kind subject)"

text \<open>The records of a read, each committed before the next, all before the read itself.\<close>

fun record_reads ::
    "int \<Rightarrow> int \<Rightarrow> operator_context \<Rightarrow> (string \<times> string) option \<Rightarrow> tenant_scope list \<Rightarrow> payout_db \<Rightarrow> exn option \<times> payout_db" where
  "record_reads now clock ctx subject [] s = (None, s)"
| "record_reads now clock ctx subject (scope # scopes) s =
     (case recordOperatorAccess scope now clock ctx Kind_read subject s of
        (Inl e, s') \<Rightarrow> (Some e, s')
      | (Inr _, s') \<Rightarrow> record_reads now clock ctx subject scopes s')"

definition withOperatorRead ::
    "int \<Rightarrow> int \<Rightarrow> operator_context \<Rightarrow> tenant_scope list \<Rightarrow> (string \<times> string) option \<Rightarrow> (payout_db \<Rightarrow> 'a) \<Rightarrow> payout_db \<Rightarrow>
     (operator_refusal, (exn, 'a) result) result \<times> payout_db" where
  "withOperatorRead now clock ctx scopes subject read s =
     (case requireCapability ctx Cap_ops_read of
        Some e \<Rightarrow> (Inl e, s)
      | None \<Rightarrow>
          if scopes = [] then (Inl (Insufficient_Capability Cap_ops_read), s)
          else (case record_reads now clock ctx subject scopes s of
                  (Some e, s') \<Rightarrow> (Inr (Inl e), s')
                | (None, s') \<Rightarrow> (Inr (Inr (read s')), s')))"

text \<open>A write: refused without the capability or a reason, else one transaction of the tenant.\<close>

definition as_operator ::
    "operator_context \<Rightarrow> internal_capability \<Rightarrow> tenant_scope \<Rightarrow> int \<Rightarrow> int \<Rightarrow> 'a ptx \<Rightarrow> payout_db \<Rightarrow>
     (operator_refusal, (exn, 'a) result) result \<times> payout_db" where
  "as_operator ctx capability scope now clock work s =
     (case requireCapability ctx capability of
        Some e \<Rightarrow> (Inl e, s)
      | None \<Rightarrow> (let (r, s') = with_tenant_payout scope now clock work s in (Inr r, s')))"

section \<open>Resolving an exception\<close>

definition openExceptionFor :: "string \<Rightarrow> payout_db \<Rightarrow> exception_row option" where
  "openExceptionFor i s =
     List.find (\<lambda>x. sx_scope x = bound_scope s \<and> sx_settlementId x = i \<and> sx_resolvedAt x = None) (pd_exceptions s)"

definition resolution_name :: "exception_resolution \<Rightarrow> string" where
  "resolution_name r = (case r of Resolve_Resume \<Rightarrow> ''resume'' | Resolve_Fail \<Rightarrow> ''fail'' | Resolve_Cancel \<Rightarrow> ''cancel'')"

definition compensated_name :: "compensated \<Rightarrow> string" where
  "compensated_name c =
     (case c of Reservation_Released \<Rightarrow> ''reservation_released'' | Repayment_Requested _ \<Rightarrow> ''repayment_requested'' | Nothing_Owed \<Rightarrow> ''none'')"

datatype ops_refusal =
    Ops_Settlement_Not_Found
  | No_Open_Exception
  | Ops_Past_Point_Of_No_Return
  | Value_May_Have_Been_Delivered
  | Compensation_Failed compensation_refusal
  | Ops_Transition_Refused transition_failure

record ops_resolved =
  or_resolution :: exception_resolution
  or_exceptionId :: string
  or_from :: settlement_status
  or_to :: "settlement_status option"
  or_compensation :: compensated

definition ops_companions :: "exception_resolution \<Rightarrow> compensated \<Rightarrow> string \<Rightarrow> companion_emission list" where
  "ops_companions resolution c i =
     (if resolution = Resolve_Resume then []
      else case c of
        Nothing_Owed \<Rightarrow> []
      | Repayment_Requested _ \<Rightarrow> [about_settlement C_facility_repayment_requested i]
      | Reservation_Released \<Rightarrow> [about_settlement C_facility_reservation_released i])"

definition ops_transition ::
    "operator_context \<Rightarrow> settlement_row \<Rightarrow> exception_row \<Rightarrow> exception_resolution \<Rightarrow> compensated \<Rightarrow> apply_input" where
  "ops_transition ctx settlement opened resolution c =
     (let actor = op_principal (oc_operator ctx); before = (stl_pointOfNoReturnAt settlement = None)
      in (plain_input (stl_id settlement) (resolution_trigger resolution) actor
           ((G_resolution_attributed, pr_id actor \<noteq> [] \<and> trim (oc_reason ctx) \<noteq> []) #
            (if resolution = Resolve_Fail then [(G_no_value_delivered, before)] else []) @
            (if resolution = Resolve_Cancel then [(G_before_point_of_no_return, before)] else [])))
         \<lparr>ai_expectedVersion := Some (stl_version settlement),
          ai_companions := ops_companions resolution c (stl_id settlement),
          ai_statusEventPayload := [(''exception_code'', JStr (exception_code_string (sx_code opened))),
            (''resolution'', JStr (resolution_name resolution)), (''resolved_by'', JStr (pr_id actor))],
          ai_reason := Some (oc_reason ctx)\<rparr>)"

definition close_exception ::
    "tenant_scope \<Rightarrow> operator_context \<Rightarrow> settlement_row \<Rightarrow> exception_row \<Rightarrow> exception_resolution \<Rightarrow> compensated \<Rightarrow>
     transition_outcome \<Rightarrow> ops_resolved ptx" where
  "close_exception scope ctx settlement opened resolution c out =
     chain (look (\<lambda>s. db_now (pd_core s))) (\<lambda>now.
     chain (update_exceptions (\<lambda>x. sx_id x = sx_id opened) (\<lambda>x. x\<lparr>sx_resolvedAt := Some now,
       sx_resolvedBy := Some (pr_id (op_principal (oc_operator ctx))), sx_resolutionReason := Some (oc_reason ctx)\<rparr>)) (\<lambda>_.
     chain (core (write_audit scope
       \<lparr>au_actor = op_principal (oc_operator ctx), au_action = ''ops.exception_'' @ resolution_name resolution,
        au_subjectType = ''settlement'', au_subjectId = stl_id settlement,
        au_before = JObj [(''status'', JStr (status_name (stl_status settlement))),
          (''exceptionCode'', JStr (exception_code_string (sx_code opened)))],
        au_after = JObj [(''status'', json_opt (\<lambda>t. JStr (status_name t)) (out_to out)),
          (''compensation'', JStr (compensated_name c))],
        au_reason = Some (oc_reason ctx)\<rparr>)) (\<lambda>_.
     chain (writeOperatorRecord scope ctx Kind_write (Some (''settlement'', stl_id settlement))) (\<lambda>_.
     give \<lparr>or_resolution = resolution, or_exceptionId = sx_id opened, or_from = out_from out, or_to = out_to out,
           or_compensation = c\<rparr>))))"

definition compensate_for ::
    "tenant_scope \<Rightarrow> operator_context \<Rightarrow> exception_resolution \<Rightarrow> string \<Rightarrow> (compensation_refusal, compensated) result ptx" where
  "compensate_for scope ctx resolution i =
     (if resolution = Resolve_Resume then give (Inr Nothing_Owed)
      else core (compensateCancellation scope i (op_principal (oc_operator ctx))))"

definition resolve_open ::
    "tenant_scope \<Rightarrow> operator_context \<Rightarrow> settlement_row \<Rightarrow> exception_row \<Rightarrow> exception_resolution \<Rightarrow> (ops_refusal, ops_resolved) result ptx" where
  "resolve_open scope ctx settlement opened resolution =
     chain (compensate_for scope ctx resolution (stl_id settlement)) (\<lambda>compensated.
     case compensated of
       Inl e \<Rightarrow> give (Inl (Compensation_Failed e))
     | Inr c \<Rightarrow>
         chain (core (applyTransition scope (ops_transition ctx settlement opened resolution c))) (\<lambda>outcome.
         case outcome of
           Inl e \<Rightarrow> give (Inl (Ops_Transition_Refused e))
         | Inr out \<Rightarrow> chain (close_exception scope ctx settlement opened resolution c out) (\<lambda>x. give (Inr x))))"

definition resolve_exception_work ::
    "tenant_scope \<Rightarrow> operator_context \<Rightarrow> string \<Rightarrow> exception_resolution \<Rightarrow> (ops_refusal, ops_resolved) result ptx" where
  "resolve_exception_work scope ctx i resolution =
     chain (look (\<lambda>s. (getSettlement i s, openExceptionFor i s))) (\<lambda>(found, opened).
     case found of
       None \<Rightarrow> give (Inl Ops_Settlement_Not_Found)
     | Some settlement \<Rightarrow>
         (case opened of
            None \<Rightarrow> give (Inl No_Open_Exception)
          | Some x \<Rightarrow>
              if resolution = Resolve_Fail \<and> stl_pointOfNoReturnAt settlement \<noteq> None then give (Inl Value_May_Have_Been_Delivered)
              else if resolution = Resolve_Cancel \<and> stl_pointOfNoReturnAt settlement \<noteq> None then give (Inl Ops_Past_Point_Of_No_Return)
              else resolve_open scope ctx settlement x resolution))"

definition resolveExceptionAsOperator ::
    "tenant_scope \<Rightarrow> int \<Rightarrow> int \<Rightarrow> operator_context \<Rightarrow> string \<Rightarrow> exception_resolution \<Rightarrow> payout_db \<Rightarrow>
     (operator_refusal, (exn, (ops_refusal, ops_resolved) result) result) result \<times> payout_db" where
  "resolveExceptionAsOperator scope now clock ctx i resolution =
     as_operator ctx Cap_ops_exception_resolve scope now clock (resolve_exception_work scope ctx i resolution)"

section \<open>Facilities and repayments\<close>

datatype facility_change_refusal =
    Change_Facility_Not_Found | Change_Facility_Closed | Change_Currency_Mismatch | Below_Committed money | No_Change

record limit_changed =
  lc_previous :: money
  lc_next :: money
  lc_available :: money

definition find_facility :: "string \<Rightarrow> payout_db \<Rightarrow> facility_row option" where
  "find_facility i s =
     (case find_visible db_facilities fac_scope (\<lambda>f. fac_id f = i) (pd_core s) of [] \<Rightarrow> None | f # _ \<Rightarrow> Some f)"

text \<open>The write an operator makes to a facility, with its audit and its record.\<close>

definition change_facility ::
    "tenant_scope \<Rightarrow> operator_context \<Rightarrow> string \<Rightarrow> (facility_row \<Rightarrow> facility_row) \<Rightarrow> string \<Rightarrow> json \<Rightarrow> json \<Rightarrow> unit ptx" where
  "change_facility scope ctx i patch action before after =
     chain (look (\<lambda>s. db_now (pd_core s))) (\<lambda>now.
     chain (core (update_facilities (\<lambda>f. fac_id f = i) (\<lambda>f. (patch f)\<lparr>fac_version := fac_version f + 1, fac_updatedAt := now\<rparr>))) (\<lambda>_.
     chain (core (write_audit scope
       \<lparr>au_actor = op_principal (oc_operator ctx), au_action = action, au_subjectType = ''facility'', au_subjectId = i,
        au_before = before, au_after = after, au_reason = Some (oc_reason ctx)\<rparr>)) (\<lambda>_.
     chain (writeOperatorRecord scope ctx Kind_write (Some (''facility'', i))) (\<lambda>_.
     give ()))))"

definition limit_json :: "int \<Rightarrow> currency_code \<Rightarrow> json" where
  "limit_json minor c = JObj [(''limit_minor'', JStr (string_of_int minor)), (''currency'', JStr (code_string c))]"

definition set_limit_work ::
    "tenant_scope \<Rightarrow> operator_context \<Rightarrow> string \<Rightarrow> money \<Rightarrow> (facility_change_refusal, limit_changed) result ptx" where
  "set_limit_work scope ctx i limit =
     chain (look (find_facility i)) (\<lambda>found.
     case found of
       None \<Rightarrow> give (Inl Change_Facility_Not_Found)
     | Some facility \<Rightarrow>
         (let committed = fac_drawnMinor facility + fac_reservedMinor facility; c = fac_currency facility
          in if fac_status facility = F_CLOSED then give (Inl Change_Facility_Closed)
             else if c \<noteq> currency limit then give (Inl Change_Currency_Mismatch)
             else if minorUnits limit < committed then give (Inl (Below_Committed (money c committed)))
             else chain (change_facility scope ctx i (\<lambda>f. f\<lparr>fac_limitMinor := minorUnits limit\<rparr>) ''ops.facility_limit_changed''
                 (limit_json (fac_limitMinor facility) c) (limit_json (minorUnits limit) c)) (\<lambda>_.
               give (Inr \<lparr>lc_previous = money c (fac_limitMinor facility), lc_next = limit,
                 lc_available = money c (minorUnits limit - committed)\<rparr>))))"

definition setFacilityLimit ::
    "tenant_scope \<Rightarrow> int \<Rightarrow> int \<Rightarrow> operator_context \<Rightarrow> string \<Rightarrow> money \<Rightarrow> payout_db \<Rightarrow>
     (operator_refusal, (exn, (facility_change_refusal, limit_changed) result) result) result \<times> payout_db" where
  "setFacilityLimit scope now clock ctx i limit =
     as_operator ctx Cap_ops_liquidity_manage scope now clock (set_limit_work scope ctx i limit)"

definition facility_status_string :: "facility_status \<Rightarrow> string" where
  "facility_status_string s = (case s of F_ACTIVE \<Rightarrow> ''ACTIVE'' | F_SUSPENDED \<Rightarrow> ''SUSPENDED'' | F_CLOSED \<Rightarrow> ''CLOSED'')"

text \<open>\<open>suspend\<close> is the status asked for: \<open>SUSPENDED\<close>, or \<open>ACTIVE\<close> again.\<close>

definition set_status_work ::
    "tenant_scope \<Rightarrow> operator_context \<Rightarrow> string \<Rightarrow> bool \<Rightarrow> (facility_change_refusal, facility_status \<times> facility_status) result ptx" where
  "set_status_work scope ctx i suspend =
     chain (look (find_facility i)) (\<lambda>found.
     case found of
       None \<Rightarrow> give (Inl Change_Facility_Not_Found)
     | Some facility \<Rightarrow>
         (let to = (if suspend then F_SUSPENDED else F_ACTIVE)
          in if fac_status facility = F_CLOSED then give (Inl Change_Facility_Closed)
             else if fac_status facility = to then give (Inl No_Change)
             else chain (change_facility scope ctx i (\<lambda>f. f\<lparr>fac_status := to\<rparr>)
                 (if suspend then ''ops.facility_suspended'' else ''ops.facility_reactivated'')
                 (JObj [(''status'', JStr (facility_status_string (fac_status facility)))])
                 (JObj [(''status'', JStr (facility_status_string to))])) (\<lambda>_.
               give (Inr (fac_status facility, to)))))"

definition setFacilityStatus ::
    "tenant_scope \<Rightarrow> int \<Rightarrow> int \<Rightarrow> operator_context \<Rightarrow> string \<Rightarrow> bool \<Rightarrow> payout_db \<Rightarrow>
     (operator_refusal, (exn, (facility_change_refusal, facility_status \<times> facility_status) result) result) result \<times> payout_db" where
  "setFacilityStatus scope now clock ctx i suspend =
     as_operator ctx Cap_ops_liquidity_manage scope now clock (set_status_work scope ctx i suspend)"

definition advance_work ::
    "tenant_scope \<Rightarrow> operator_context \<Rightarrow> string \<Rightarrow> repayment_trigger \<Rightarrow> string option \<Rightarrow> (repayment_failure, repayment_status) result ptx" where
  "advance_work scope ctx repaymentId t providerReference =
     chain (core (advanceRepayment scope
       \<lparr>av_repaymentId = repaymentId, av_trigger = t, av_actor = op_principal (oc_operator ctx),
        av_providerReference = providerReference, av_reason = Some (oc_reason ctx)\<rparr>)) (\<lambda>advanced.
     case advanced of
       Inl e \<Rightarrow> give (Inl e)
     | Inr r \<Rightarrow>
         chain (core (write_audit scope
           \<lparr>au_actor = op_principal (oc_operator ctx), au_action = ''ops.repayment_advanced'', au_subjectType = ''repayment'',
            au_subjectId = repaymentId, au_before = JNull, au_after = JObj [(''trigger'', JStr (trigger_string t))],
            au_reason = Some (oc_reason ctx)\<rparr>)) (\<lambda>_.
         chain (writeOperatorRecord scope ctx Kind_write (Some (''repayment'', repaymentId))) (\<lambda>_.
         give (Inr (rp_status r)))))"

definition advanceRepaymentAsOperator ::
    "tenant_scope \<Rightarrow> int \<Rightarrow> int \<Rightarrow> operator_context \<Rightarrow> string \<Rightarrow> repayment_trigger \<Rightarrow> string option \<Rightarrow> payout_db \<Rightarrow>
     (operator_refusal, (exn, (repayment_failure, repayment_status) result) result) result \<times> payout_db" where
  "advanceRepaymentAsOperator scope now clock ctx repaymentId t providerReference =
     as_operator ctx Cap_ops_liquidity_manage scope now clock (advance_work scope ctx repaymentId t providerReference)"

end
