(* ===== verification/Ops_Properties.thy ===== *)
theory Ops_Properties
  imports Ops_Service Payout_Properties
begin

text \<open>
  The properties of Internal Operations: every write an operator makes carries who made it and why, what a resolution may
  do to a settlement, and the exceptions no operator can resolve.
\<close>

section \<open>Attribution\<close>

text \<open>The contract of an operator's work: an action that is done leaves exactly one record of itself, a refusal leaves none.\<close>

locale recorded_work =
  fixes work :: "('e, 'a) result ptx" and scope :: tenant_scope and ctx :: operator_context
  assumes refused: "work s = Inr (Inl e, s') \<Longrightarrow> pd_operatorActions s' = pd_operatorActions s"
    and performed: "work s = Inr (Inr x, s') \<Longrightarrow>
      \<exists>i now subject. pd_operatorActions s' = pd_operatorActions s @ [action_row scope ctx Kind_write subject i now]"
begin

definition attributed :: "payout_db \<Rightarrow> payout_db \<Rightarrow> bool" where
  "attributed s s' \<longleftrightarrow> (\<exists>i now subject. pd_operatorActions s' = pd_operatorActions s @ [action_row scope ctx Kind_write subject i now])"

lemma transaction_recorded:
  assumes "with_tenant_payout scope now clock work s = (r, s')"
  shows "case r of Inr (Inr _) \<Rightarrow> attributed s s' | _ \<Rightarrow> pd_operatorActions s' = pd_operatorActions s"
  using assms performed refused
  by (force simp: with_tenant_payout_def Let_def attributed_def split: sum.splits prod.splits if_splits)

lemma as_operator_recorded:
  assumes "as_operator ctx capability scope now clock work s = (r, s')"
  shows "case r of Inr (Inr (Inr _)) \<Rightarrow> capability \<in> set (op_capabilities (oc_operator ctx)) \<and> validateReason (Some (oc_reason ctx)) = None \<and> attributed s s'
    | _ \<Rightarrow> pd_operatorActions s' = pd_operatorActions s"
proof (cases "requireCapability ctx capability")
  case None
  with assms obtain q where q: "with_tenant_payout scope now clock work s = (q, s')" "r = Inr q"
    by (auto simp: as_operator_def split: prod.splits)
  have "capability \<in> set (op_capabilities (oc_operator ctx)) \<and> validateReason (Some (oc_reason ctx)) = None"
    using None by (auto simp: requireCapability_def split: if_splits)
  with transaction_recorded [OF q(1)] show ?thesis by (auto simp: q(2) split: sum.splits)
qed (use assms in \<open>auto simp: as_operator_def\<close>)

end

text \<open>Operations of the work that record nothing.\<close>

definition records_nothing :: "'a ptx \<Rightarrow> bool" where
  "records_nothing m \<longleftrightarrow> (\<forall>s x s'. m s = Inr (x, s') \<longrightarrow> pd_operatorActions s' = pd_operatorActions s)"

lemma core_records_nothing: "core m s = Inr (x, s') \<Longrightarrow> pd_operatorActions s' = pd_operatorActions s"
  by (auto simp: core_Inr)

lemma exceptions_record_nothing: "update_exceptions p f s = Inr (x, s') \<Longrightarrow> pd_operatorActions s' = pd_operatorActions s"
  by (auto simp: update_exceptions_def bind_result_Inr)

lemma inserted_action: "insert_operator_action a s = Inr (u, s') \<Longrightarrow> pd_operatorActions s' = pd_operatorActions s @ [a]"
  by (auto simp: insert_operator_action_def split: option.splits if_splits)

lemma writeOperatorRecord_effect:
  "writeOperatorRecord scope ctx kind subject s = Inr (u, s') \<Longrightarrow>
   \<exists>i now. pd_operatorActions s' = pd_operatorActions s @ [action_row scope ctx kind subject i now]"
  unfolding writeOperatorRecord_def chain_Inr by (fastforce dest!: core_records_nothing inserted_action)

lemma resolve_exception_refused:
  "resolve_exception_work scope ctx i resolution s = Inr (Inl e, s') \<Longrightarrow> pd_operatorActions s' = pd_operatorActions s"
  by (auto simp: resolve_exception_work_def resolve_open_def compensate_for_def chain_Inr split_sum_ex
      split: option.splits if_splits dest!: core_records_nothing)

lemma close_exception_effect:
  "close_exception scope ctx settlement opened resolution c out s = Inr (d, s') \<Longrightarrow>
   or_from d = out_from out \<and> or_to d = out_to out \<and>
   (\<exists>j now subject. pd_operatorActions s' = pd_operatorActions s @ [action_row scope ctx Kind_write subject j now])"
  by (fastforce simp: close_exception_def chain_Inr dest!: core_records_nothing exceptions_record_nothing dest: writeOperatorRecord_effect)

lemma resolve_exception_steps:
  assumes "resolve_exception_work scope ctx i resolution s = Inr (Inr d, s')"
  obtains settlement opened c s1 out s2 where "getSettlement i s = Some settlement" "openExceptionFor i s = Some opened"
    "resolution = Resolve_Fail \<or> resolution = Resolve_Cancel \<longrightarrow> stl_pointOfNoReturnAt settlement = None"
    "compensate_for scope ctx resolution (stl_id settlement) s = Inr (Inr c, s1)"
    "core (applyTransition scope (ops_transition ctx settlement opened resolution c)) s1 = Inr (Inr out, s2)"
    "close_exception scope ctx settlement opened resolution c out s2 = Inr (d, s')"
  using assms
  by (fastforce simp: resolve_exception_work_def resolve_open_def chain_Inr split_sum_ex split: option.splits if_splits)

interpretation resolving: recorded_work "resolve_exception_work scope ctx i resolution" scope ctx for scope ctx i resolution
proof
  fix s x s'
  assume "resolve_exception_work scope ctx i resolution s = Inr (Inr x, s')"
  then obtain settlement opened c s1 out s2 where
      c: "compensate_for scope ctx resolution (stl_id settlement) s = Inr (Inr c, s1)"
    and t: "core (applyTransition scope (ops_transition ctx settlement opened resolution c)) s1 = Inr (Inr out, s2)"
    and d: "close_exception scope ctx settlement opened resolution c out s2 = Inr (x, s')"
    by (rule resolve_exception_steps)
  have "pd_operatorActions s2 = pd_operatorActions s"
    using c core_records_nothing [OF t] by (auto simp: compensate_for_def split: if_splits dest!: core_records_nothing)
  with close_exception_effect [OF d] show "\<exists>j now subject. pd_operatorActions s' = pd_operatorActions s @ [action_row scope ctx Kind_write subject j now]"
    by simp
qed (rule resolve_exception_refused)

lemma change_facility_effect:
  "change_facility scope ctx i patch action b a s = Inr (u, s') \<Longrightarrow>
   \<exists>j now subject. pd_operatorActions s' = pd_operatorActions s @ [action_row scope ctx Kind_write subject j now]"
  by (fastforce simp: change_facility_def chain_Inr dest!: core_records_nothing dest: writeOperatorRecord_effect)

interpretation limiting: recorded_work "set_limit_work scope ctx i limit" scope ctx for scope ctx i limit
  by unfold_locales
    (auto simp: set_limit_work_def chain_Inr Let_def split: option.splits if_splits dest: change_facility_effect)

interpretation suspending: recorded_work "set_status_work scope ctx i suspend" scope ctx for scope ctx i suspend
  by unfold_locales
    (auto simp: set_status_work_def chain_Inr Let_def split: option.splits if_splits dest: change_facility_effect)

interpretation advancing: recorded_work "advance_work scope ctx i t reference" scope ctx for scope ctx i t reference
proof
  fix s x s'
  assume "advance_work scope ctx i t reference s = Inr (Inr x, s')"
  then show "\<exists>j now subject. pd_operatorActions s' = pd_operatorActions s @ [action_row scope ctx Kind_write subject j now]"
    by (fastforce simp: advance_work_def chain_Inr split_sum_ex dest!: core_records_nothing dest: writeOperatorRecord_effect)
next
  fix s e s'
  assume "advance_work scope ctx i t reference s = Inr (Inl e, s')"
  then show "pd_operatorActions s' = pd_operatorActions s"
    by (auto simp: advance_work_def chain_Inr split_sum_ex dest!: core_records_nothing)
qed

section \<open>What a resolution may do\<close>

lemma resolving_row:
  assumes "evaluateTransition (transition_request_of (ops_transition ctx settlement opened resolution c) current) = Inr ok"
  shows "stl_status current = EXCEPTION \<and> ok_to ok = (case resolution of Resolve_Resume \<Rightarrow> stl_exceptionEnteredFrom current
    | Resolve_Fail \<Rightarrow> Some FAILED | Resolve_Cancel \<Rightarrow> Some CANCELLED)"
  using assms
  by (cases resolution)
    (auto simp: evaluateTransition_Inr row_defs row_accepts_def transition_request_of_def ops_transition_def plain_input_def Let_def resolution_trigger_def)

lemma applied_on_first:
  assumes "applyTransition scope input db = Inr (Inr out, db')"
  obtains current cs ok where "find_visible db_settlements stl_scope (\<lambda>r. stl_id r = ai_settlementId input) db = current # cs"
    "evaluateTransition (transition_request_of input current) = Inr ok" "out_from out = stl_status current" "out_to out = ok_to ok"
proof -
  from assms obtain current cs ok where rows: "find_visible db_settlements stl_scope (\<lambda>r. stl_id r = ai_settlementId input) db = current # cs"
    and d: "decide input current = Inr ok" and c: "carry_out scope input current ok db = Inr (out, db')"
    by (auto simp: applyTransition_def Let_def bind_tx_Inr split: if_splits list.splits sum.splits)
  from c have "out_from out = stl_status current" "out_to out = ok_to ok" by (auto simp: carry_out_def bind_tx_Inr)
  with rows decide_Inr(1) [OF d] show ?thesis by (rule that)
qed

text \<open>
  C10. An operator decides whether, never where: a resolution that is done was made by an operator who may resolve exceptions,
  with a reason, and left one record naming both; the settlement was in \<open>EXCEPTION\<close>; it resumes where the exception
  was entered from, and it ends failed or cancelled only if its payout was never dispatched.
\<close>

theorem operator_resolution_is_bounded:
  assumes "resolveExceptionAsOperator scope now clock ctx i resolution s = (Inr (Inr (Inr d)), s')"
  shows "Cap_ops_exception_resolve \<in> set (op_capabilities (oc_operator ctx)) \<and> validateReason (Some (oc_reason ctx)) = None \<and>
    (\<exists>a. pd_operatorActions s' = pd_operatorActions s @ [a] \<and> oa_operatorId a = op_operatorId (oc_operator ctx) \<and>
       oa_reason a = oc_reason ctx \<and> oa_scope a = scope) \<and> or_from d = EXCEPTION \<and>
    (\<exists>r\<in>set (db_settlements (pd_core s)). stl_id r = i \<and>
       (case resolution of Resolve_Resume \<Rightarrow> or_to d = stl_exceptionEnteredFrom r
        | Resolve_Fail \<Rightarrow> or_to d = Some FAILED \<and> stl_pointOfNoReturnAt r = None
        | Resolve_Cancel \<Rightarrow> or_to d = Some CANCELLED \<and> stl_pointOfNoReturnAt r = None))"
proof -
  let ?s = "s\<lparr>pd_core := begin_tenant scope now clock (pd_core s)\<rparr>"
  from assms have "with_tenant_payout scope now clock (resolve_exception_work scope ctx i resolution) s = (Inr (Inr d), s')"
    by (auto simp: resolveExceptionAsOperator_def as_operator_def split: option.splits prod.splits)
  then have work: "resolve_exception_work scope ctx i resolution ?s = Inr (Inr d, s')"
    by (auto simp: with_tenant_payout_def Let_def split: sum.splits prod.splits if_splits)
  then obtain settlement opened c s1 out s2 where found: "getSettlement i ?s = Some settlement"
    and safe: "resolution = Resolve_Fail \<or> resolution = Resolve_Cancel \<longrightarrow> stl_pointOfNoReturnAt settlement = None"
    and c: "compensate_for scope ctx resolution (stl_id settlement) ?s = Inr (Inr c, s1)"
    and t: "core (applyTransition scope (ops_transition ctx settlement opened resolution c)) s1 = Inr (Inr out, s2)"
    and x: "close_exception scope ctx settlement opened resolution c out s2 = Inr (d, s')"
    by (rule resolve_exception_steps)
  from getSettlement_visible [OF found] have r: "settlement \<in> set (db_settlements (pd_core s))" "stl_id settlement = i"
    by (simp_all add: begin_tenant_def)
  from t obtain d2 where "applyTransition scope (ops_transition ctx settlement opened resolution c) (pd_core s1) = Inr (Inr out, d2)"
    by (auto simp: core_Inr)
  then obtain current cs ok where current: "find_visible db_settlements stl_scope (\<lambda>r. stl_id r = ai_settlementId (ops_transition ctx settlement opened resolution c)) (pd_core s1) = current # cs"
    and ok: "evaluateTransition (transition_request_of (ops_transition ctx settlement opened resolution c) current) = Inr ok"
    and out: "out_from out = stl_status current" "out_to out = ok_to ok"
    by (rule applied_on_first)
  have "current = settlement" if "resolution = Resolve_Resume"
    using that c current found r(2) by (auto simp: compensate_for_def getSettlement_def ops_transition_def plain_input_def Let_def)
  with resolving_row [OF ok] out close_exception_effect [OF x] safe r
  have "or_from d = EXCEPTION \<and> (\<exists>r\<in>set (db_settlements (pd_core s)). stl_id r = i \<and>
       (case resolution of Resolve_Resume \<Rightarrow> or_to d = stl_exceptionEnteredFrom r
        | Resolve_Fail \<Rightarrow> or_to d = Some FAILED \<and> stl_pointOfNoReturnAt r = None
        | Resolve_Cancel \<Rightarrow> or_to d = Some CANCELLED \<and> stl_pointOfNoReturnAt r = None))"
    by (cases resolution) (auto intro!: bexI [of _ settlement])
  moreover from resolving.as_operator_recorded [OF assms [unfolded resolveExceptionAsOperator_def]]
  have "Cap_ops_exception_resolve \<in> set (op_capabilities (oc_operator ctx)) \<and> validateReason (Some (oc_reason ctx)) = None \<and>
    (\<exists>a. pd_operatorActions s' = pd_operatorActions s @ [a] \<and> oa_operatorId a = op_operatorId (oc_operator ctx) \<and>
       oa_reason a = oc_reason ctx \<and> oa_scope a = scope)"
    by (auto simp: resolving.attributed_def action_row_def)
  ultimately show ?thesis by blast
qed

definition sample_context :: operator_context where
  "sample_context =
     \<lparr>oc_operator = \<lparr>op_operatorId = ''iop_1'', op_sessionId = ''ise_1'', op_principal = \<lparr>pr_type = ''operator'', pr_id = ''iop_1''\<rparr>,
        op_capabilities = [Cap_ops_read, Cap_ops_exception_resolve], op_email = ''a@b.c''\<rparr>,
      oc_action = ''ops.exception_resolved'', oc_reason = ''provider confirmed'', oc_requestId = None, oc_ip = None, oc_userAgent = None\<rparr>"

definition excepted_db :: payout_db where
  "excepted_db = funded_db
     \<lparr>pd_core := empty_db\<lparr>db_settlements := [funded_row\<lparr>stl_status := EXCEPTION,
        stl_customerStatus := customerStatusColumn EXCEPTION (Some PAYOUT_STATUS_UNKNOWN),
        stl_exceptionEnteredFrom := Some PAYOUT_SUBMITTED, stl_openExceptionCode := Some PAYOUT_STATUS_UNKNOWN,
        stl_pointOfNoReturnAt := Some 1000, stl_version := 9\<rparr>]\<rparr>,
      pd_exceptions := [\<lparr>sx_id = ''exc_1'', sx_scope = sample_scope, sx_settlementId = ''stl_1'', sx_code = PAYOUT_STATUS_UNKNOWN,
        sx_enteredFrom = PAYOUT_SUBMITTED, sx_openedAt = 1500, sx_resolvedAt = None, sx_resolvedBy = None, sx_resolutionReason = None\<rparr>]\<rparr>"

theorem operator_resolution_is_bounded_witness:
  "\<exists>d s'. resolveExceptionAsOperator sample_scope 2000 2001 sample_context ''stl_1'' Resolve_Resume excepted_db = (Inr (Inr (Inr d)), s') \<and>
     or_to d = Some PAYOUT_SUBMITTED \<and> (\<exists>a. pd_operatorActions s' = [a] \<and> oa_reason a = ''provider confirmed'')"
proof -
  let ?run = "resolveExceptionAsOperator sample_scope 2000 2001 sample_context ''stl_1'' Resolve_Resume excepted_db"
  have "(case fst ?run of Inr (Inr (Inr d)) \<Rightarrow> or_to d = Some PAYOUT_SUBMITTED | _ \<Rightarrow> False)" by code_simp
  then obtain d where d: "fst ?run = Inr (Inr (Inr d))" "or_to d = Some PAYOUT_SUBMITTED" by (simp split: sum.splits)
  then have run: "?run = (Inr (Inr (Inr d)), snd ?run)" by (metis prod.collapse)
  have "pd_operatorActions excepted_db = []" "oc_reason sample_context = ''provider confirmed''"
    by (simp_all add: excepted_db_def funded_db_def sample_context_def)
  with operator_resolution_is_bounded [OF run] obtain a where "pd_operatorActions (snd ?run) = [a]" "oa_reason a = ''provider confirmed''" by auto
  with d(2) run show ?thesis by (intro exI [of _ d] exI [of _ "snd ?run"]) simp
qed

section \<open>Exceptions nobody filed\<close>

definition none_open :: "string \<Rightarrow> payout_db \<Rightarrow> bool" where
  "none_open i s \<longleftrightarrow> (\<forall>x\<in>set (pd_exceptions s). sx_settlementId x = i \<longrightarrow> sx_resolvedAt x \<noteq> None)"

definition opens_none :: "string \<Rightarrow> 'a ptx \<Rightarrow> bool" where
  "opens_none i m \<longleftrightarrow> (\<forall>s x s'. m s = Inr (x, s') \<longrightarrow> none_open i s \<longrightarrow> none_open i s')"

named_theorems unopened

lemma unopened_give [unopened]: "opens_none i (give x)"
  by (simp add: opens_none_def)

lemma unopened_look [unopened]: "opens_none i (look f)"
  by (simp add: opens_none_def)

lemma unopened_chain [unopened]: "opens_none i m \<Longrightarrow> (\<And>x. opens_none i (f x)) \<Longrightarrow> opens_none i (chain m f)"
  unfolding opens_none_def chain_Inr by blast

lemma unopened_raise [unopened]: "opens_none i (\<lambda>s. Inl e)"
  by (simp add: opens_none_def)

lemma unopened_core [unopened]: "opens_none i (core m)"
  by (auto simp: opens_none_def core_Inr none_open_def)

lemma unopened_if [unopened]: "opens_none i m \<Longrightarrow> opens_none i n \<Longrightarrow> opens_none i (if b then m else n)"
  by simp

lemma unopened_attempts [unopened]: "opens_none i (update_attempts p f)" "opens_none i (insert_attempt a)"
  by (auto simp: opens_none_def none_open_def update_attempts_def insert_attempt_def bind_result_Inr split: option.splits if_splits)

lemma unopened_update [unopened]:
  assumes "\<And>x. sx_settlementId (f x) = sx_settlementId x \<and> sx_resolvedAt (f x) \<noteq> None"
  shows "opens_none i (update_exceptions p f)"
proof -
  have closed: "\<exists>y. sx_resolvedAt (f x) = Some y" and same: "sx_settlementId (f x) = sx_settlementId x" for x
    using assms [of x] by auto
  have "\<forall>x\<in>set rows'. sx_settlementId x = i \<longrightarrow> sx_resolvedAt x \<noteq> None"
    if "update_rows q (guarded (\<lambda>_ new. Inr new) v f) rows = Inr rows'" "\<forall>x\<in>set rows. sx_settlementId x = i \<longrightarrow> sx_resolvedAt x \<noteq> None"
    for q v rows rows'
    using that by (induction rows arbitrary: rows') (auto simp: bind_result_Inr guarded_Inr closed same split: if_splits)
  then show ?thesis by (auto simp: opens_none_def none_open_def update_exceptions_def bind_result_Inr)
qed

definition opens_exception :: "payout_operation \<Rightarrow> bool" where
  "opens_exception op = (case op of Op_open _ _ _ _ _ \<Rightarrow> True | _ \<Rightarrow> False)"

lemma unopened_outcome [unopened]: "opens_none i (applyPayoutOutcome scope x)"
  unfolding applyPayoutOutcome_def apply_credit_def apply_rejection_def apply_acceptance_def apply_return_def move_settlement_def
  by (auto intro!: unopened split: option.split prod.split provider_outcome.split)

lemma unopened_services [unopened]:
  "opens_none i (sweepPayoutSla scope j actor)" "opens_none i (retryPayout scope y)" "opens_none i (dispatchPayout scope z)"
  "opens_none i (record_acknowledgement a k)" "opens_none i (record_timeout scope actor a key)"
  "opens_none i (requestCancellation scope j actor may reason)" "opens_none i (honourCancellation scope j actor c)"
  "opens_none i (run_transition scope t)"
  unfolding sweepPayoutSla_def retryPayout_def dispatchPayout_def cross_boundary_def record_acknowledgement_def record_timeout_def
    requestCancellation_def honourCancellation_def run_transition_def move_settlement_def Let_def
  by (auto intro!: unopened split: option.split sum.split prod.split)

lemma unopened_operation [unopened]: "\<not> opens_exception op \<Longrightarrow> opens_none i (run_payout_operation scope op)"
  by (cases op)
    (auto simp: opens_exception_def ignoring_def cancelSettlement_def resolveException_def record_resolution_def Let_def
      intro!: unopened split: option.split sum.split)

lemma unopened_operations: "list_all (\<lambda>op. \<not> opens_exception op) ops \<Longrightarrow> opens_none i (run_payout_operations scope ops)"
  by (induction ops) (auto intro!: unopened)

text \<open>A transaction of the services, none of which calls \<open>openException\<close>.\<close>

inductive service_transaction :: "payout_db \<Rightarrow> payout_db \<Rightarrow> bool" where
  served: "list_all (\<lambda>op. \<not> opens_exception op) ops \<Longrightarrow>
     service_transaction s (snd (with_tenant_payout scope now clock (run_payout_operations scope ops) s))"

inductive_cases service_transactionE: "service_transaction s s'"

lemma service_opens_none:
  assumes "service_transaction s s'" "none_open i s"
  shows "none_open i s'"
  using assms(1)
proof (rule service_transactionE)
  fix ops scope now clock
  assume ops: "list_all (\<lambda>op. \<not> opens_exception op) ops"
    and s': "s' = snd (with_tenant_payout scope now clock (run_payout_operations scope ops) s)"
  let ?s = "s\<lparr>pd_core := begin_tenant scope now clock (pd_core s)\<rparr>"
  have "none_open i ?s" using assms(2) by (simp add: none_open_def)
  with unopened_operations [OF ops, of i scope] have "run_payout_operations scope ops ?s = Inr (u, t) \<Longrightarrow> none_open i t" for u t
    unfolding opens_none_def by blast
  with assms(2) show ?thesis
    by (auto simp: s' with_tenant_payout_def none_open_def Let_def split: sum.splits)
qed

text \<open>
  C11. The exceptions of the payouts cannot be resolved: an outcome, a sweep, any transition takes a settlement into
  \<open>EXCEPTION\<close> without filing the exception, only \<open>openException\<close> files one and no service calls it. So
  after any sequence of transactions of the services there is no settlement whose exception an operator
  can resolve, whoever asks and with whatever reason.
\<close>

theorem unfiled_exceptions_stay:
  assumes "service_transaction\<^sup>*\<^sup>* s0 s" "pd_exceptions s0 = []"
  shows "fst (resolveExceptionAsOperator scope now clock ctx i resolution s) \<noteq> Inr (Inr (Inr d))"
proof
  assume "fst (resolveExceptionAsOperator scope now clock ctx i resolution s) = Inr (Inr (Inr d))"
  then obtain s' where work: "resolve_exception_work scope ctx i resolution (s\<lparr>pd_core := begin_tenant scope now clock (pd_core s)\<rparr>) = Inr (Inr d, s')"
    by (auto simp: resolveExceptionAsOperator_def as_operator_def with_tenant_payout_def Let_def split: option.splits prod.splits sum.splits if_splits)
  have "none_open i s0" using assms(2) by (simp add: none_open_def)
  with assms(1) have "none_open i s" by (induction rule: rtranclp_induct) (auto intro: service_opens_none)
  then have "openExceptionFor i (s\<lparr>pd_core := begin_tenant scope now clock (pd_core s)\<rparr>) = None"
    by (auto simp: openExceptionFor_def find_None_iff none_open_def)
  with work show False by (auto elim: resolve_exception_steps)
qed

definition rejected_db :: payout_db where
  "rejected_db = snd (with_tenant_payout sample_scope 2000 2001 (run_payout_operations sample_scope [Op_outcome (sample_outcome O_rejected)]) submitted_db)"

theorem unfiled_exceptions_stay_witness:
  "map stl_status (db_settlements (pd_core rejected_db)) = [EXCEPTION] \<and>
   (\<forall>d. fst (resolveExceptionAsOperator sample_scope 3000 3001 sample_context ''stl_1'' Resolve_Resume rejected_db) \<noteq> Inr (Inr (Inr d)))"
proof -
  have "map stl_status (db_settlements (pd_core rejected_db)) = [EXCEPTION]" by code_simp
  moreover have step: "service_transaction submitted_db rejected_db"
    unfolding rejected_db_def by (rule served) (simp add: opens_exception_def)
  have "pd_exceptions submitted_db = []" by (simp add: submitted_db_def funded_db_def)
  from unfiled_exceptions_stay [OF r_into_rtranclp [of service_transaction, OF step] this]
  have "fst (resolveExceptionAsOperator sample_scope 3000 3001 sample_context ''stl_1'' Resolve_Resume rejected_db) \<noteq> Inr (Inr (Inr d))" for d .
  ultimately show ?thesis by blast
qed

end
