(* ===== verification/Payout_Webhook.thy ===== *)
theory Payout_Webhook
  imports Payout_Safety Webhooks
begin

text \<open>
  Inbound webhooks of the payout provider (\<open>packages/app/src/payout-webhook.service.ts\<close>): verified, filed whatever
  the verdict, deduplicated, interpreted and proposed to the machine. The provider's verifier, the resolver of
  settlements, the sink for returns, \<open>JSON.parse\<close> and \<open>Date.parse\<close> are parameters.
\<close>

section \<open>The port\<close>

datatype invalid_reason = Bad_Signature | Stale_Timestamp | Future_Timestamp | Malformed

datatype signature_verdict =
    Valid_Signature string string "(string \<times> json) list"
  | Invalid_Signature invalid_reason

definition invalid_reason_string :: "invalid_reason \<Rightarrow> string" where
  "invalid_reason_string r =
     (case r of Bad_Signature \<Rightarrow> ''bad_signature'' | Stale_Timestamp \<Rightarrow> ''stale_timestamp''
      | Future_Timestamp \<Rightarrow> ''future_timestamp'' | Malformed \<Rightarrow> ''malformed'')"

section \<open>Answers\<close>

datatype webhook_alarm = Unmapped_Provider_Code | Untrusted_Event

record ingested =
  ig_providerEventId :: string
  ig_duplicate :: bool
  ig_applied :: bool
  ig_outcome :: "provider_outcome option"
  ig_alarm :: "webhook_alarm option"

datatype webhook_refusal = Webhook_Malformed

record return_sink_input =
  rs_settlementId :: string
  rs_providerEventId :: string
  rs_rawCode :: string
  rs_reasonCode :: return_reason
  rs_mapped :: bool
  rs_payload :: "(string \<times> json) list"
  rs_amountMinor :: "int option"
  rs_providerReturnReference :: "string option"
  rs_occurredAt :: "int option"

record ingest_input =
  in_raw :: string
  in_headers :: "(string \<times> string) list"
  in_actor :: principal
  in_resolveSettlementId :: "json \<Rightarrow> string option"
  in_onReturn :: "(return_sink_input \<Rightarrow> unit ptx) option"

text \<open>What surrounds the ingestion: the provider and the two parsers of the platform.\<close>

record webhook_edge =
  we_providerId :: string
  we_verifySignature :: "string \<Rightarrow> (string \<times> string) list \<Rightarrow> signature_verdict"
  we_mapping :: provider_mapping_table
  we_parse :: "string \<Rightarrow> json option"
  we_parseDate :: "string \<Rightarrow> int option"

section \<open>Reading a body\<close>

definition EVENT_TYPE_OUTCOMES :: "(string \<times> provider_outcome) list" where
  "EVENT_TYPE_OUTCOMES =
     [(''payout.accepted'', O_accepted), (''payout.credited'', O_credited), (''payout.rejected'', O_rejected),
      (''payout.failed'', O_rejected), (''payout.returned'', O_returned)]"

definition outcomeForEventType :: "string \<Rightarrow> provider_outcome" where
  "outcomeForEventType eventType = (case map_of EVENT_TYPE_OUTCOMES eventType of None \<Rightarrow> O_unknown | Some x \<Rightarrow> x)"

definition safeParse :: "webhook_edge \<Rightarrow> string \<Rightarrow> json" where
  "safeParse edge raw =
     (case we_parse edge raw of Some (JObj fs) \<Rightarrow> JObj fs | Some (JArr xs) \<Rightarrow> JArr xs | _ \<Rightarrow> JObj [])"

definition property :: "json \<Rightarrow> string \<Rightarrow> json option" where
  "property j k = (case j of JObj fs \<Rightarrow> map_of fs k | _ \<Rightarrow> None)"

definition text_of :: "json option \<Rightarrow> string option" where
  "text_of j = (case j of Some (JStr s) \<Rightarrow> Some s | _ \<Rightarrow> None)"

definition filled_text :: "json option \<Rightarrow> string option" where
  "filled_text j = (case text_of j of Some [] \<Rightarrow> None | x \<Rightarrow> x)"

definition readProviderEventId :: "webhook_edge \<Rightarrow> string \<Rightarrow> string option" where
  "readProviderEventId edge raw = filled_text (property (safeParse edge raw) ''id'')"

definition readEventType :: "webhook_edge \<Rightarrow> string \<Rightarrow> string option" where
  "readEventType edge raw = filled_text (property (safeParse edge raw) ''type'')"

definition digits_value :: "string \<Rightarrow> int" where
  "digits_value s = foldl (\<lambda>n c. 10 * n + int (digit_val c)) 0 s"

definition readMinorUnits :: "json option \<Rightarrow> int option" where
  "readMinorUnits j =
     (case j of
        Some (JStr s) \<Rightarrow> if s \<noteq> [] \<and> list_all is_digit s \<and> digits_value s > 0 then Some (digits_value s) else None
      | Some (JNum n) \<Rightarrow> if \<bar>n\<bar> \<le> 2 ^ 53 - 1 \<and> n > 0 then Some n else None
      | _ \<Rightarrow> None)"

text \<open>\<open>String(value)\<close> of a JSON value; the elements of an array are joined, an absent one is empty.\<close>

fun js_text :: "json \<Rightarrow> string" where
  "js_text JNull = ''null''"
| "js_text (JBool b) = (if b then ''true'' else ''false'')"
| "js_text (JNum n) = string_of_int n"
| "js_text (JStr s) = s"
| "js_text (JArr xs) = join_with '','' (map (\<lambda>x. if x = JNull then [] else js_text x) xs)"
| "js_text (JObj _) = ''[object Object]''"

definition first_present :: "json option list \<Rightarrow> json option" where
  "first_present js = (case filter (\<lambda>j. j \<noteq> None \<and> j \<noteq> Some JNull) js of [] \<Rightarrow> None | j # _ \<Rightarrow> j)"

definition rawCodeOf :: "(string \<times> json) list \<Rightarrow> string \<Rightarrow> string" where
  "rawCodeOf payload eventType =
     (case first_present [map_of payload ''code'', map_of payload ''status''] of None \<Rightarrow> eventType | Some j \<Rightarrow> js_text j)"

section \<open>Filing\<close>

definition webhook_audit :: "ingest_input \<Rightarrow> string \<Rightarrow> string \<Rightarrow> string \<Rightarrow> json \<Rightarrow> string \<Rightarrow> audit_entry" where
  "webhook_audit input action subjectType subjectId after reason =
     \<lparr>au_actor = in_actor input, au_action = action, au_subjectType = subjectType, au_subjectId = subjectId,
      au_before = JNull, au_after = after, au_reason = Some reason\<rparr>"

definition filed_event :: "tenant_scope \<Rightarrow> webhook_edge \<Rightarrow> string \<Rightarrow> string \<Rightarrow> string \<Rightarrow> json \<Rightarrow> bool \<Rightarrow> string option \<Rightarrow> int \<Rightarrow> provider_event_row" where
  "filed_event scope edge i providerEventId eventType payload valid settlementId now =
     \<lparr>pe_id = i, pe_scope = scope, pe_providerId = we_providerId edge, pe_providerEventId = providerEventId,
      pe_eventType = eventType, pe_payload = payload, pe_signatureValid = valid, pe_receivedAt = now,
      pe_interpretedAt = None, pe_interpretation = None, pe_subjectId = settlementId, pe_unmappedCode = None\<rparr>"

definition mark_interpreted :: "string \<Rightarrow> string \<Rightarrow> unit ptx" where
  "mark_interpreted i interpretation =
     chain (look (\<lambda>s. db_clock (pd_core s))) (\<lambda>now.
     update_provider_events (\<lambda>e. pe_id e = i) (\<lambda>e. e\<lparr>pe_interpretedAt := Some now, pe_interpretation := Some interpretation\<rparr>))"

definition seen_before :: "webhook_edge \<Rightarrow> string \<Rightarrow> payout_db \<Rightarrow> bool" where
  "seen_before edge providerEventId s =
     list_ex (\<lambda>e. pe_scope e = bound_scope s \<and> pe_providerId e = we_providerId edge \<and> pe_providerEventId e = providerEventId) (pd_events s)"

section \<open>Applying\<close>

definition provider_outcome_string :: "provider_outcome \<Rightarrow> string" where
  "provider_outcome_string x =
     (case x of O_accepted \<Rightarrow> ''accepted'' | O_credited \<Rightarrow> ''credited'' | O_rejected \<Rightarrow> ''rejected''
      | O_returned \<Rightarrow> ''returned'' | O_unknown \<Rightarrow> ''unknown'')"

definition transition_failure_string :: "transition_failure \<Rightarrow> string" where
  "transition_failure_string f =
     (case f of
        Settlement_Not_Found \<Rightarrow> ''settlement_not_found'' | Protected_Field _ \<Rightarrow> ''protected_field''
      | Refused_Invalid_Transition _ _ \<Rightarrow> ''invalid_transition'' | Refused_Guard_Failed _ _ \<Rightarrow> ''guard_failed''
      | Refused_Guard_Unanswered _ _ \<Rightarrow> ''guard_unanswered'' | Refused_Resume_Target_Unknown _ \<Rightarrow> ''resume_target_unknown''
      | Stale_Version _ _ \<Rightarrow> ''stale_version'' | Illegal_Companion _ \<Rightarrow> ''illegal_companion'')"

definition payout_failure_string :: "payout_failure \<Rightarrow> string" where
  "payout_failure_string f =
     (case f of
        Attempt_Not_Found \<Rightarrow> ''attempt_not_found''
      | Attempt_Not_Awaiting_Submission _ \<Rightarrow> ''attempt_not_awaiting_submission''
      | Destination_Version_Not_Found \<Rightarrow> ''destination_version_not_found''
      | Provider_Timeout _ \<Rightarrow> ''provider_timeout''
      | Untrusted_Evidence \<Rightarrow> ''untrusted_evidence''
      | Utr_Missing_Or_Malformed _ \<Rightarrow> ''utr_missing_or_malformed''
      | Invalid_Attempt_Transition _ \<Rightarrow> ''invalid_attempt_transition''
      | Return_Requires_Credit _ \<Rightarrow> ''return_requires_credit''
      | Unknown_Outcome_Is_Not_Applied \<Rightarrow> ''unknown_outcome_is_not_applied''
      | Transition_Refused t \<Rightarrow> transition_failure_string t
      | Attempt_Not_In_Flight _ \<Rightarrow> ''attempt_not_in_flight''
      | Sla_Not_Elapsed _ \<Rightarrow> ''sla_not_elapsed''
      | Pull_Failed _ \<Rightarrow> ''pull_failed''
      | Still_In_Flight _ \<Rightarrow> ''still_in_flight''
      | Retry_Requires_Authoritative_Rejection _ \<Rightarrow> ''retry_requires_authoritative_rejection'')"

definition applied_interpretation :: "provider_outcome \<Rightarrow> payout_result \<Rightarrow> string" where
  "applied_interpretation x r =
     (case r of
        Inl f \<Rightarrow> ''refused:'' @ payout_failure_string f
      | Inr d \<Rightarrow> ''applied:'' @ provider_outcome_string x @ (if do_idempotent d then '':idempotent'' else []))"

text \<open>The parts of an interpretation the ingestion reads.\<close>

definition interpreted_outcome :: "code_interpretation \<Rightarrow> provider_outcome" where
  "interpreted_outcome i = (case i of Mapped x _ _ _ \<Rightarrow> x | Unmapped x _ _ _ \<Rightarrow> x)"

definition interpreted_exception :: "code_interpretation \<Rightarrow> exception_code option" where
  "interpreted_exception i = (case i of Mapped _ c _ _ \<Rightarrow> c | Unmapped _ c _ _ \<Rightarrow> Some c)"

definition interpreted_version :: "code_interpretation \<Rightarrow> string" where
  "interpreted_version i = (case i of Mapped _ _ _ v \<Rightarrow> v | Unmapped _ _ v _ \<Rightarrow> v)"

definition interpreted_alarm :: "code_interpretation \<Rightarrow> webhook_alarm option" where
  "interpreted_alarm i = (case i of Mapped _ _ _ _ \<Rightarrow> None | Unmapped _ _ _ _ \<Rightarrow> Some Unmapped_Provider_Code)"

definition alarm_unmapped ::
    "tenant_scope \<Rightarrow> ingest_input \<Rightarrow> string \<Rightarrow> string \<Rightarrow> code_interpretation \<Rightarrow> unit ptx" where
  "alarm_unmapped scope input i settlementId interpretation =
     (case interpretation of
        Mapped _ _ _ _ \<Rightarrow> give ()
      | Unmapped x c v raw \<Rightarrow>
          chain (update_provider_events (\<lambda>e. pe_id e = i) (\<lambda>e. e\<lparr>pe_unmappedCode := Some raw,
            pe_interpretation := Some (''unmapped:'' @ provider_outcome_string x)\<rparr>)) (\<lambda>_.
          core (write_audit scope (webhook_audit input ''payout.unmapped_provider_code'' ''settlement'' settlementId
            (JObj [(''raw_code'', JStr raw), (''mapping_version'', JStr v), (''routed_to'', JStr (exception_code_string c))])
            ''provider vocabulary not present in the mapping table; routed to the safe default and alarmed (INV-43)''))))"

definition proposed_outcome ::
    "ingest_input \<Rightarrow> string \<Rightarrow> (string \<times> json) list \<Rightarrow> string \<Rightarrow> code_interpretation \<Rightarrow> outcome_input" where
  "proposed_outcome input settlementId payload rawCode interpretation =
     \<lparr>oi_settlementId = settlementId, oi_outcome = interpreted_outcome interpretation, oi_actor = in_actor input,
      oi_trusted = True, oi_utr = text_of (map_of payload ''utr''), oi_rawCode = Some rawCode,
      oi_exceptionCode = interpreted_exception interpretation,
      oi_providerReference = text_of (map_of payload ''reference''),
      oi_mappingVersion = Some (interpreted_version interpretation),
      oi_creditedMinor = readMinorUnits (map_of payload ''credited_minor'')\<rparr>"

definition return_for_sink ::
    "webhook_edge \<Rightarrow> string \<Rightarrow> string \<Rightarrow> (string \<times> json) list \<Rightarrow> string \<Rightarrow> code_interpretation \<Rightarrow> return_sink_input" where
  "return_for_sink edge settlementId providerEventId payload rawCode interpretation =
     \<lparr>rs_settlementId = settlementId, rs_providerEventId = providerEventId, rs_rawCode = rawCode,
      rs_reasonCode = returnReasonOf interpretation, rs_mapped = (interpreted_alarm interpretation = None),
      rs_payload = payload, rs_amountMinor = readMinorUnits (map_of payload ''amount_minor''),
      rs_providerReturnReference = text_of (map_of payload ''return_id''),
      rs_occurredAt = (case text_of (map_of payload ''occurred_at'') of None \<Rightarrow> None | Some t \<Rightarrow> we_parseDate edge t)\<rparr>"

definition tell_sink :: "ingest_input \<Rightarrow> provider_outcome \<Rightarrow> payout_result \<Rightarrow> return_sink_input \<Rightarrow> unit ptx" where
  "tell_sink input x applied r =
     (case in_onReturn input of
        Some sink \<Rightarrow> if x = O_returned \<and> \<not> isl applied then sink r else give ()
      | None \<Rightarrow> give ())"

definition apply_event ::
    "tenant_scope \<Rightarrow> webhook_edge \<Rightarrow> ingest_input \<Rightarrow> string \<Rightarrow> string \<Rightarrow> string \<Rightarrow>
     (string \<times> json) list \<Rightarrow> string \<Rightarrow> ingested ptx" where
  "apply_event scope edge input i providerEventId eventType payload settlementId =
     (let rawCode = rawCodeOf payload eventType;
          interpretation = interpretProviderCode (we_mapping edge) rawCode (outcomeForEventType eventType);
          x = interpreted_outcome interpretation;
          answer = \<lparr>ig_providerEventId = providerEventId, ig_duplicate = False, ig_applied = False, ig_outcome = Some x,
            ig_alarm = interpreted_alarm interpretation\<rparr>
      in chain (alarm_unmapped scope input i settlementId interpretation) (\<lambda>_.
         if x = O_unknown
         then chain (mark_interpreted i ''unknown_outcome_not_applied'') (\<lambda>_. give answer)
         else
           chain (applyPayoutOutcome scope (proposed_outcome input settlementId payload rawCode interpretation)) (\<lambda>applied.
           chain (mark_interpreted i (applied_interpretation x applied)) (\<lambda>_.
           chain (tell_sink input x applied (return_for_sink edge settlementId providerEventId payload rawCode interpretation)) (\<lambda>_.
           give (answer\<lparr>ig_applied := (case applied of Inl _ \<Rightarrow> False | Inr d \<Rightarrow> \<not> do_idempotent d)\<rparr>))))))"

section \<open>Ingesting\<close>

definition after_filing ::
    "tenant_scope \<Rightarrow> webhook_edge \<Rightarrow> ingest_input \<Rightarrow> string \<Rightarrow> string \<Rightarrow> string option \<Rightarrow>
     signature_verdict \<Rightarrow> ingested ptx" where
  "after_filing scope edge input i providerEventId settlementId judgement =
     (let answer = \<lparr>ig_providerEventId = providerEventId, ig_duplicate = False, ig_applied = False, ig_outcome = None, ig_alarm = None\<rparr>
      in case judgement of
        Invalid_Signature r \<Rightarrow>
          chain (mark_interpreted i (''untrusted:'' @ invalid_reason_string r)) (\<lambda>_.
          chain (core (write_audit scope (webhook_audit input ''payout.webhook_untrusted'' ''provider_event'' i
            (JObj [(''provider_event_id'', JStr providerEventId), (''reason'', JStr (invalid_reason_string r))])
            (''signature verification failed: '' @ invalid_reason_string r)))) (\<lambda>_.
          give (answer\<lparr>ig_alarm := Some Untrusted_Event\<rparr>)))
      | Valid_Signature _ eventType payload \<Rightarrow>
          (case settlementId of
             Some (c # cs) \<Rightarrow> apply_event scope edge input i providerEventId eventType payload (c # cs)
           | _ \<Rightarrow> chain (mark_interpreted i ''no_subject'') (\<lambda>_. give answer)))"

text \<open>The key an event is filed under; an unverified body is read for it, and gets a fresh one if it names none.\<close>

definition event_key :: "webhook_edge \<Rightarrow> ingest_input \<Rightarrow> signature_verdict \<Rightarrow> string ptx" where
  "event_key edge input judgement =
     (case judgement of
        Valid_Signature providerEventId _ _ \<Rightarrow> give providerEventId
      | Invalid_Signature _ \<Rightarrow>
          (case readProviderEventId edge (in_raw input) of
             Some k \<Rightarrow> give k
           | None \<Rightarrow> chain (core (new_id K_providerEvent)) (\<lambda>i. give (''unverified_'' @ i))))"

definition event_type_of :: "webhook_edge \<Rightarrow> ingest_input \<Rightarrow> signature_verdict \<Rightarrow> string" where
  "event_type_of edge input judgement =
     (case judgement of
        Valid_Signature _ eventType _ \<Rightarrow> eventType
      | Invalid_Signature _ \<Rightarrow> (case readEventType edge (in_raw input) of None \<Rightarrow> ''unknown'' | Some t \<Rightarrow> t))"

definition payload_of :: "webhook_edge \<Rightarrow> ingest_input \<Rightarrow> signature_verdict \<Rightarrow> json" where
  "payload_of edge input judgement =
     (case judgement of Valid_Signature _ _ payload \<Rightarrow> JObj payload | Invalid_Signature _ \<Rightarrow> safeParse edge (in_raw input))"

definition file_and_apply ::
    "tenant_scope \<Rightarrow> webhook_edge \<Rightarrow> ingest_input \<Rightarrow> signature_verdict \<Rightarrow> string \<Rightarrow> ingested ptx" where
  "file_and_apply scope edge input judgement k =
     (let payload = payload_of edge input judgement; settlementId = in_resolveSettlementId input payload
      in chain (core (new_id K_providerEvent)) (\<lambda>i.
         chain (look (\<lambda>s. db_now (pd_core s))) (\<lambda>now.
         chain (insert_provider_event (filed_event scope edge i k (event_type_of edge input judgement) payload
           (case judgement of Valid_Signature _ _ _ \<Rightarrow> True | Invalid_Signature _ \<Rightarrow> False) settlementId now)) (\<lambda>_.
         after_filing scope edge input i k settlementId judgement))))"

definition ingestPayoutWebhook ::
    "tenant_scope \<Rightarrow> webhook_edge \<Rightarrow> ingest_input \<Rightarrow> (webhook_refusal, ingested) result ptx" where
  "ingestPayoutWebhook scope edge input =
     (let judgement = we_verifySignature edge (in_raw input) (in_headers input) in
      if judgement = Invalid_Signature Malformed
      then chain (core (write_audit scope
          \<lparr>au_actor = in_actor input, au_action = ''payout.webhook_malformed'', au_subjectType = ''provider_event'',
           au_subjectId = ''unparseable'', au_before = JNull, au_after = JNull,
           au_reason = Some ''body could not be parsed or carried no provider event id''\<rparr>)) (\<lambda>_.
        give (Inl Webhook_Malformed))
      else
        chain (event_key edge input judgement) (\<lambda>k.
        chain (look (seen_before edge k)) (\<lambda>seen.
        if seen then give (Inr \<lparr>ig_providerEventId = k, ig_duplicate = True, ig_applied = False, ig_outcome = None, ig_alarm = None\<rparr>)
        else chain (file_and_apply scope edge input judgement k) (\<lambda>x. give (Inr x)))))"

end
