(* ===== verification/Inbound_Properties.thy ===== *)
theory Inbound_Properties
  imports Payout_Webhook Payout_Properties
begin

text \<open>
  The properties of inbound webhooks: an event is handled once, what an unverified one can do - and what it can
  prevent - and that the invariant of the payouts survives every delivery.
\<close>

section \<open>Filed events stay filed\<close>

definition event_slots :: "payout_db \<Rightarrow> (tenant_scope \<times> string \<times> string) set" where
  "event_slots s = (\<lambda>e. (pe_scope e, pe_providerId e, pe_providerEventId e)) ` set (pd_events s)"

definition keeps_filed :: "'a ptx \<Rightarrow> bool" where
  "keeps_filed m \<longleftrightarrow> (\<forall>s x s'. m s = Inr (x, s') \<longrightarrow> event_slots s \<subseteq> event_slots s')"

named_theorems filed

lemma keeps_filedD: "keeps_filed m \<Longrightarrow> m s = Inr (x, s') \<Longrightarrow> event_slots s \<subseteq> event_slots s'"
  by (auto simp: keeps_filed_def)

lemma filed_give [filed]: "keeps_filed (give x)"
  by (simp add: keeps_filed_def)

lemma filed_look [filed]: "keeps_filed (look f)"
  by (simp add: keeps_filed_def)

lemma filed_chain [filed]: "keeps_filed m \<Longrightarrow> (\<And>x. keeps_filed (f x)) \<Longrightarrow> keeps_filed (chain m f)"
  unfolding keeps_filed_def chain_Inr by blast

lemma filed_core [filed]: "keeps_filed (core m)"
  by (auto simp: keeps_filed_def core_Inr event_slots_def)

lemma filed_update_attempts [filed]: "keeps_filed (update_attempts p patch)"
  by (auto simp: keeps_filed_def event_slots_def dest!: updated_attempts)

lemma filed_if [filed]: "keeps_filed m \<Longrightarrow> keeps_filed n \<Longrightarrow> keeps_filed (if b then m else n)"
  by simp

lemma filed_insert [filed]: "keeps_filed (insert_provider_event e)"
  by (auto simp: keeps_filed_def insert_provider_event_def event_slots_def split: option.splits if_splits)

lemma updated_event_rows:
  assumes "update_rows (\<lambda>e. pe_scope e = bound_scope s \<and> p e) (guarded protect_provider_event (provider_event_violation s) patch) rows = Inr rows'"
  shows "map (\<lambda>e. (pe_scope e, pe_providerId e, pe_providerEventId e)) rows' = map (\<lambda>e. (pe_scope e, pe_providerId e, pe_providerEventId e)) rows"
  using assms
proof (induction rows arbitrary: rows')
  case (Cons e rows)
  then obtain f fs where f: "rows' = f # fs" "map (\<lambda>e. (pe_scope e, pe_providerId e, pe_providerEventId e)) fs = map (\<lambda>e. (pe_scope e, pe_providerId e, pe_providerEventId e)) rows"
    and new: "(if pe_scope e = bound_scope s \<and> p e then guarded protect_provider_event (provider_event_violation s) patch e else Inr e) = Inr f"
    by (auto simp: bind_result_Inr)
  have "pe_scope f = pe_scope e \<and> pe_providerId f = pe_providerId e \<and> pe_providerEventId f = pe_providerEventId e"
  proof (cases "pe_scope e = bound_scope s \<and> p e")
    case True
    with new have "protect_provider_event e (patch e) = Inr f" "provider_event_violation s f = None" by (simp_all add: guarded_Inr)
    moreover from this(2) have "pe_scope f = bound_scope s" by (simp add: provider_event_violation_def)
    ultimately show ?thesis using True by (auto simp: protect_provider_event_def)
  next
    case False
    with new have "f = e" by auto
    then show ?thesis by simp
  qed
  with f show ?case by simp
qed simp

lemma filed_update [filed]: "keeps_filed (update_provider_events p patch)"
  unfolding keeps_filed_def event_slots_def
  by (auto simp: update_provider_events_def bind_result_Inr simp flip: set_map dest!: updated_event_rows)

lemma filed_outcome [filed]: "keeps_filed (applyPayoutOutcome scope i)"
proof -
  have "keeps_filed (apply_credit scope i a now e)" "keeps_filed (apply_rejection scope i a now e)"
    "keeps_filed (apply_acceptance i a)" "keeps_filed (apply_return i a now)" for a now e
    unfolding apply_credit_def apply_rejection_def apply_acceptance_def apply_return_def move_settlement_def
    by (intro filed)+
  then show ?thesis
    unfolding applyPayoutOutcome_def by (auto intro!: filed split: option.split prod.split provider_outcome.split)
qed

lemma filed_mark [filed]: "keeps_filed (mark_interpreted i x)"
  unfolding mark_interpreted_def by (intro filed)

text \<open>The sink for returns removes no event.\<close>

definition sink_files :: "ingest_input \<Rightarrow> bool" where
  "sink_files input \<longleftrightarrow> (\<forall>sink r. in_onReturn input = Some sink \<longrightarrow> keeps_filed (sink r))"

lemma filed_after:
  assumes "sink_files input"
  shows "keeps_filed (after_filing scope edge input i k settlementId v)"
proof -
  have "keeps_filed (tell_sink input x r z)" for x r z
    using assms unfolding tell_sink_def sink_files_def by (auto intro!: filed split: option.split)
  moreover have "keeps_filed (alarm_unmapped scope input i j z)" for j z
    unfolding alarm_unmapped_def by (auto intro!: filed split: code_interpretation.split)
  ultimately show ?thesis
    unfolding after_filing_def apply_event_def Let_def
    by (auto intro!: filed split: signature_verdict.split option.split list.split)
qed

lemma event_key_state: "event_key edge input v s = Inr (k, s') \<Longrightarrow> pd_events s' = pd_events s \<and> bound_scope s' = bound_scope s"
  by (auto simp: event_key_def chain_Inr core_Inr new_id_def bound_scope_def split: signature_verdict.splits option.splits)

lemma seen_before_slot: "seen_before edge k s \<longleftrightarrow> (bound_scope s, we_providerId edge, k) \<in> event_slots s"
  by (force simp: seen_before_def event_slots_def list_ex_iff image_iff)

text \<open>After any delivery that is not refused as malformed, an event is filed under the key it answers with.\<close>

lemma ingested_is_filed:
  assumes run: "ingestPayoutWebhook scope edge input s = Inr (Inr x, s')"
    and sink: "sink_files input"
  shows "(bound_scope s, we_providerId edge, ig_providerEventId x) \<in> event_slots s'"
proof -
  let ?v = "we_verifySignature edge (in_raw input) (in_headers input)"
  from run obtain k s1 where k: "event_key edge input ?v s = Inr (k, s1)"
    and rest: "if seen_before edge k s1 then s' = s1 \<and> ig_providerEventId x = k else file_and_apply scope edge input ?v k s1 = Inr (x, s')"
    by (fastforce simp: ingestPayoutWebhook_def Let_def chain_Inr split: if_splits)
  note same = event_key_state [OF k]
  show ?thesis
  proof (cases "seen_before edge k s1")
    case True
    with rest same show ?thesis by (simp add: seen_before_slot)
  next
    case False
    with rest obtain i d now e s2 settlementId where i: "new_id K_providerEvent (pd_core s1) = Inr (i, d)"
      and e: "insert_provider_event e (s1\<lparr>pd_core := d\<rparr>) = Inr ((), s2)" "pe_providerId e = we_providerId edge" "pe_providerEventId e = k"
      and after: "after_filing scope edge input i k settlementId ?v s2 = Inr (x, s')"
      by (fastforce simp: file_and_apply_def Let_def chain_Inr core_Inr filed_event_def)
    have "(bound_scope s, we_providerId edge, k) \<in> event_slots s2"
      using e same i by (auto simp: insert_provider_event_def provider_event_violation_def event_slots_def bound_scope_def new_id_def split: option.splits if_splits)
    moreover have "event_slots s2 \<subseteq> event_slots s'" using keeps_filedD [OF filed_after [OF sink] after] .
    moreover have "ig_providerEventId x = k"
      using after by (auto simp: after_filing_def apply_event_def Let_def chain_Inr split: signature_verdict.splits option.splits list.splits if_splits)
    ultimately show ?thesis by blast
  qed
qed

section \<open>Properties\<close>

text \<open>
  C8. A delivery is handled once. Whatever the answer to it was - applied, refused, unmapped, or that the signature is not
  to be trusted - every later delivery that verifies and names the same event is a recorded no-op: it answers
  \<open>duplicate\<close> and leaves the database as it is. An unverified body is filed under the event id it claims, so this
  holds as well when the first delivery was a forgery: the genuine event is then never applied.
\<close>

theorem delivered_once:
  assumes "ingestPayoutWebhook scope edge input s = Inr (Inr x, s')" "sink_files input"
    and "event_slots s' \<subseteq> event_slots t" "bound_scope t = bound_scope s"
    and "we_verifySignature edge (in_raw again) (in_headers again) = Valid_Signature (ig_providerEventId x) eventType payload"
  shows "\<exists>y. ingestPayoutWebhook scope' edge again t = Inr (Inr y, t) \<and> ig_duplicate y \<and> \<not> ig_applied y"
proof -
  have "seen_before edge (ig_providerEventId x) t"
    using ingested_is_filed [OF assms(1,2)] assms(3,4) by (auto simp: seen_before_slot)
  with assms(5) show ?thesis
    by (simp add: ingestPayoutWebhook_def event_key_def chain_def give_def look_def)
qed

definition sample_edge :: webhook_edge where
  "sample_edge =
     \<lparr>we_providerId = ''mock'',
      we_verifySignature = (\<lambda>raw headers. if headers = [(''signature'', ''good'')]
        then Valid_Signature ''evt_1'' ''payout.credited'' [(''id'', JStr ''evt_1''), (''utr'', JStr ''UTR000000001'')]
        else Invalid_Signature Bad_Signature),
      we_mapping = \<lparr>mt_providerId = ''mock'', mt_version = ''1'', mt_source = Sandbox_Fixture, mt_codes = []\<rparr>,
      we_parse = (\<lambda>_. Some (JObj [(''id'', JStr ''evt_1'')])), we_parseDate = (\<lambda>_. None)\<rparr>"

definition sample_delivery :: "string \<Rightarrow> ingest_input" where
  "sample_delivery signature =
     \<lparr>in_raw = ''{}'', in_headers = [(''signature'', signature)], in_actor = sample_actor,
      in_resolveSettlementId = (\<lambda>_. Some ''stl_1''), in_onReturn = None\<rparr>"

theorem delivered_once_witness:
  "\<exists>x s' y. ingestPayoutWebhook sample_scope sample_edge (sample_delivery ''forged'') submitted_db = Inr (Inr x, s') \<and>
     ig_alarm x = Some Untrusted_Event \<and> map pa_status (pd_attempts s') = [P_SUBMITTED] \<and>
     ingestPayoutWebhook sample_scope sample_edge (sample_delivery ''good'') s' = Inr (Inr y, s') \<and> ig_duplicate y \<and> \<not> ig_applied y"
proof -
  let ?run = "ingestPayoutWebhook sample_scope sample_edge (sample_delivery ''forged'') submitted_db"
  have "(case ?run of Inr (Inr x, s') \<Rightarrow> ig_alarm x = Some Untrusted_Event \<and> ig_providerEventId x = ''evt_1'' \<and>
      map pa_status (pd_attempts s') = [P_SUBMITTED] \<and> bound_scope s' = sample_scope | _ \<Rightarrow> False)"
    by code_simp
  then obtain x s' where run: "?run = Inr (Inr x, s')" and facts: "ig_alarm x = Some Untrusted_Event"
      "ig_providerEventId x = ''evt_1''" "map pa_status (pd_attempts s') = [P_SUBMITTED]" "bound_scope s' = sample_scope"
    by (auto split: sum.splits prod.splits) (metis sum.exhaust)
  have scope: "bound_scope s' = bound_scope submitted_db" using facts(4) by (simp add: bound_scope_def submitted_db_def empty_db_def)
  have sink: "sink_files (sample_delivery ''forged'')" by (simp add: sink_files_def sample_delivery_def)
  have "we_verifySignature sample_edge (in_raw (sample_delivery ''good'')) (in_headers (sample_delivery ''good'')) =
      Valid_Signature (ig_providerEventId x) ''payout.credited'' [(''id'', JStr ''evt_1''), (''utr'', JStr ''UTR000000001'')]"
    by (simp add: sample_edge_def sample_delivery_def facts)
  from delivered_once [OF run sink subset_refl scope this, of sample_scope] obtain y where
      "ingestPayoutWebhook sample_scope sample_edge (sample_delivery ''good'') s' = Inr (Inr y, s')" "ig_duplicate y" "\<not> ig_applied y"
    by blast
  with run facts show ?thesis by (intro exI [of _ x] exI [of _ s'] exI [of _ y]) simp
qed

text \<open>
  C9. Untrusted evidence never moves money: a delivery whose signature, timestamp or body is refused by the verifier
  leaves every settlement, attempt and exception as it was, whatever it says.
\<close>

theorem untrusted_moves_nothing:
  assumes "we_verifySignature edge (in_raw input) (in_headers input) = Invalid_Signature r"
    and "ingestPayoutWebhook scope edge input s = Inr (x, s')"
  shows "pd_attempts s' = pd_attempts s \<and> pd_exceptions s' = pd_exceptions s \<and>
    db_settlements (pd_core s') = db_settlements (pd_core s) \<and> (case x of Inl _ \<Rightarrow> True | Inr y \<Rightarrow> \<not> ig_applied y)"
proof -
  have upd: "pd_attempts t' = pd_attempts t \<and> pd_exceptions t' = pd_exceptions t \<and> pd_core t' = pd_core t"
    if "update_provider_events p f t = Inr (u, t')" for p f t u t'
    using that by (auto simp: update_provider_events_def bind_result_Inr)
  have ins: "pd_attempts t' = pd_attempts t \<and> pd_exceptions t' = pd_exceptions t \<and> pd_core t' = pd_core t"
    if "insert_provider_event e t = Inr (u, t')" for e t u t'
    using that by (auto simp: insert_provider_event_def split: option.splits if_splits)
  have aud: "db_settlements d' = db_settlements d" if "write_audit scope a d = Inr (u, d')" for a d u d'
    using same_audit that by (auto simp: same_settlements_def)
  have new: "db_settlements d' = db_settlements d" if "new_id k d = Inr (u, d')" for k d u d'
    using same_new_id that by (auto simp: same_settlements_def)
  from assms show ?thesis
    by (auto simp: ingestPayoutWebhook_def file_and_apply_def after_filing_def event_key_def mark_interpreted_def Let_def
        chain_Inr core_Inr split: if_splits option.splits dest!: upd ins aud new)
qed

theorem untrusted_moves_nothing_witness:
  "\<exists>x s'. ingestPayoutWebhook sample_scope sample_edge (sample_delivery ''forged'') submitted_db = Inr (x, s') \<and>
     pd_attempts s' = pd_attempts submitted_db"
proof -
  have "\<not> isl (ingestPayoutWebhook sample_scope sample_edge (sample_delivery ''forged'') submitted_db)" by code_simp
  then obtain x s' where run: "ingestPayoutWebhook sample_scope sample_edge (sample_delivery ''forged'') submitted_db = Inr (x, s')"
    by (metis isl_def sum.exhaust surj_pair)
  have "we_verifySignature sample_edge (in_raw (sample_delivery ''forged'')) (in_headers (sample_delivery ''forged'')) = Invalid_Signature Bad_Signature"
    by (simp add: sample_edge_def sample_delivery_def)
  from untrusted_moves_nothing [OF this run] run show ?thesis by blast
qed

text \<open>The invariant of the payouts survives every delivery, if the sink for returns keeps it.\<close>

lemma maintains_ingest:
  assumes "\<And>sink r. in_onReturn input = Some sink \<Longrightarrow> maintains (sink r)"
  shows "maintains (ingestPayoutWebhook scope edge input)"
proof -
  have upd [maintained]: "maintains (update_provider_events p f)" "maintains (insert_provider_event e)" for p f e
    by (auto simp: maintains_def update_provider_events_def insert_provider_event_def bind_result_Inr payouts_ok_def split: option.splits if_splits)
  have mark: "maintains (mark_interpreted i z)" for i z
    unfolding mark_interpreted_def by (intro maintained upd)
  have sink: "maintains (tell_sink input z r y)" for z r y
    using assms unfolding tell_sink_def by (auto intro!: maintained split: option.split)
  have alarm: "maintains (alarm_unmapped scope input i j z)" for i j z
    unfolding alarm_unmapped_def by (auto intro!: maintained upd split: code_interpretation.split)
  have "maintains (after_filing scope edge input i k settlementId v)" for i k settlementId v
    unfolding after_filing_def apply_event_def Let_def
    by (auto intro!: maintained mark sink alarm split: signature_verdict.split option.split list.split)
  moreover have "maintains (event_key edge input v)" for v
    unfolding event_key_def by (auto intro!: maintained split: signature_verdict.split option.split)
  ultimately show ?thesis
    unfolding ingestPayoutWebhook_def file_and_apply_def Let_def by (auto intro!: maintained upd)
qed

end
