(* ===== verification/Spec2Isabelle.thy ===== *)
theory Spec2Isabelle
  imports Settlement_Machine Settlement_Outcomes Funding_Machines Payout_Attempt Quotes
    Reconciliation Settlement_Return Ids Fx Table_Discipline Liquidity_Properties
    Identity Webhooks Provider_Mapping Authorized_Terms Preflight
    Batches Receipt_Template Idempotency_Claims Rule_Set_Io Payout_Properties Funding_Properties
    Ops_Properties Inbound_Properties
begin

text \<open>
  A verification library of Settling, a platform that pays rupees in India out of stablecoin funding. The
  program is a TypeScript monorepo: \<open>packages/money\<close> and \<open>packages/ids\<close> are the base,
  \<open>packages/domain\<close> holds the pure rules (state machines as tables, pricing, preflight, reconciliation,
  the public API), \<open>packages/db\<close> the schema, the migrations and the tenant transaction, and
  \<open>packages/app\<close> the services that run the rules inside transactions. The applications under \<open>apps/\<close>
  are surfaces over the services.

  \<^bold>\<open>How the parts interact.\<close> A service opens a tenant transaction (\<open>withTenant\<close>), reads rows under a
  lock, asks a domain table whether a trigger is accepted, and writes the row, an event with its outbox
  entry and an audit row. The database checks what it is given: keys, ranges, row-level security, the
  triggers that protect ended rows and frozen columns, and, at commit, that every status change has its
  event and every ledger transfer balances. The liquidity service moves a facility's figures only together
  with ledger entries. The domain rules know nothing of the database.

  \<^bold>\<open>Conventions.\<close> \<open>bigint\<close> and integral numbers are \<open>int\<close>, a \<open>Date\<close> is its milliseconds, text is a list of
  8-bit characters (UTF-8; case mapping and white space are those of ASCII). A refusal or a \<open>throw\<close> is
  \<open>Inl\<close> of its reason, or \<open>None\<close> where the code's reason is prose; \<open>undefined\<close> is \<open>None\<close> where JSON values are read. Columns
  and messages that are prose for people and read by no code are left out. Constructors and record fields
  carry a prefix of their aggregate where the source reuses a name. Random bytes, SHA-256, HMAC and the
  clock are parameters.

  \<^bold>\<open>Base.\<close>
  \<^item> \<open>Settling_Prelude\<close>: results, decimal digits, padding, slices; the fact collections.
  \<^item> \<open>Lifecycle\<close>: the search every transition table is read by, with the locales \<open>trigger_table\<close> and
    \<open>lifecycle_table\<close>, interpreted by each machine. \<open>Idempotency\<close>: the locale \<open>attempt_key\<close> of the keys
    presented to providers.
  \<^item> \<open>Money\<close>, \<open>Fx\<close> (\<open>packages/money\<close>): exact amounts, their decimal and display forms, rates and the two
    conversions. Lemmas: parsing is exact, the display parses back, the conversions are adjoint, the
    funding charged is the least that covers the recipient.
  \<^item> \<open>Ids\<close> (\<open>packages/ids\<close>): prefixed identifiers. The loop of \<open>body\<close> redraws rejected bytes and has fuel,
    with the number of batches that is enough; the letters are uniform.

  \<^bold>\<open>Domain\<close> (\<open>packages/domain/src\<close>).
  \<^item> \<open>Settlement_Table\<close>, \<open>Settlement_Machine\<close>, \<open>Settlement_Outcomes\<close> (\<open>settlements/status.ts\<close>,
    \<open>transitions.ts\<close>, \<open>exceptions.ts\<close>, \<open>projection.ts\<close>, \<open>resolution.ts\<close>): the table T01-T30 and its
    evaluation; a transition is accepted exactly where the table says, terminal statuses absorb, no guard
    is ever taken as met by default.
  \<^item> \<open>Facility_Ledger\<close>, \<open>Funding_Machines\<close> (\<open>liquidity/\<close>): the double-entry ledger of a facility and the
    machines of reservations, drawdowns and repayments, whose states are related to ledger balances.
  \<^item> \<open>Payout_Attempt\<close> (\<open>settlements/payout-attempt.ts\<close>): the attempts of a payout as a step relation, and
    that no two of them can both pay. \<open>Provider_Mapping\<close> (\<open>payouts/mapping.ts\<close>): the vocabulary tables.
  \<^item> \<open>Quotes\<close> (\<open>quotes/\<close>): the machine of a quote, fees and pricing. \<open>Authorized_Terms\<close>
    (\<open>settlements/authorized-terms.ts\<close>): the frozen instruction, its canonical text and hash, and the reader
    of the stored object, which gives the instruction back.
  \<^item> \<open>Reconciliation\<close>, \<open>Settlement_Return\<close> (\<open>reconciliation/\<close>): comparison with zero tolerance, the eight
    conditions of finality, returned credits and their cap.
  \<^item> \<open>Preflight\<close> (\<open>preflight/rules.ts\<close>, \<open>requirement.ts\<close>): the rule language, its evaluation, the compiled
    policy and the validation of rule sets. \<open>Rule_Set_Io\<close> (\<open>preflight/rule-set-io.ts\<close>): their JSON form, which the
    reader gives back. \<open>Beneficiaries\<close> (\<open>beneficiaries/\<close>): payout details, their
    normal form, and name matching. \<open>Identity\<close> (\<open>identity/\<close>): capabilities, keys, sessions, separation of
    duties.
  \<^item> \<open>Strict_Json\<close> (\<open>api/json.ts\<close>): \<open>JSON.stringify\<close> and the strict reader. Its fuel is twice the length of the text
    plus two, which is enough for every text. \<open>Webhooks\<close> (\<open>webhooks/\<close>): delivery policy and signatures.
  \<^item> \<open>Batch_Csv\<close>, \<open>Batches\<close> (\<open>batches/\<close>): the reader of batch files with a verdict per row, the rendering of rows
    sent to the API, which the reader gives back, and the machine and counters that summarise the rows.
  \<^item> \<open>Artifacts\<close>, \<open>Receipt_Template\<close> (\<open>receipts/\<close>, \<open>api/fingerprint.ts\<close>): canonical serialisation, which
    identifies the document, the three documents and their hashes, request fingerprints, and the rendered
    page, whose markup no value can alter.
  \<^item> \<open>Public_Api\<close> (\<open>api/version.ts\<close>, \<open>errors.ts\<close>, \<open>rate-limit.ts\<close>): versions, the error envelope, the window of a
    rate limit. The locale \<open>rate_limited\<close> bounds what a counter grants over any sequence of requests.

  \<^bold>\<open>Database and services.\<close>
  \<^item> \<open>Json\<close>, \<open>Store\<close>, \<open>Store_Tables\<close> (\<open>packages/db\<close>, \<open>packages/app/src/events.ts\<close>): rows, the transaction monad,
    \<open>withTenant\<close>, and per table what the migrations enforce. The locale \<open>table\<close> is the contract of a
    table; each table interprets it.
  \<^item> \<open>Transition_Service\<close>, \<open>Transition_Properties\<close> (\<open>settlement-transition.service.ts\<close>): the only writer of a
    settlement's status.
  \<^item> \<open>Liquidity_Service\<close>, \<open>Liquidity_Effects\<close>, \<open>Liquidity_Properties\<close> (\<open>liquidity.service.ts\<close>): every
    operation, its effect, and the invariant of the figures.
  \<^item> \<open>Platform\<close>: the operations of both services in transactions that commit or roll back; the invariants
    hold in every reachable state. \<open>Table_Discipline\<close>: the locale \<open>discipline\<close>, for properties that every
    table operation respects, interpreted for tenant isolation and the append-only tables.
  \<^item> \<open>Idempotency_Claims\<close> (\<open>api/idempotency.ts\<close>): the claim of a key beside its operation; over any sequence of
    calls an operation is performed at most once per key, and a replay is the stored answer.
  \<^item> \<open>Payout_Tables\<close>, \<open>Payout_Service\<close> (\<open>payout.service.ts\<close>, \<open>payouts/provider.ts\<close>): the database with attempts,
    exceptions, provider events and operator actions beside the core tables; submission, outcomes, the
    sweep, the pull and the retry. The provider is a function from commands to answers. \<open>Settlement_Service\<close>
    (\<open>settlement.service.ts\<close>): cancellation, dispatch across the point of no return, exceptions.
  \<^item> \<open>Payout_Safety\<close>, \<open>Payout_Properties\<close>: the invariant of settlements and attempts over every sequence of
    transactions, by a lemma per operation (\<open>maintained\<close>); at most one attempt is alive, an outcome is applied
    once, and what a credit that comes too early leaves behind.
  \<^item> \<open>Settlement_Funding\<close>, \<open>Funding_Properties\<close> (\<open>settlement-liquidity.service.ts\<close>): the reservation leg in its two
    transactions, the drawdown, the compensation; money moves on exact evidence only.
  \<^item> \<open>Payout_Webhook\<close>, \<open>Inbound_Properties\<close> (\<open>payout-webhook.service.ts\<close>): the ingestion of a provider's delivery;
    an event is handled once, and untrusted evidence moves nothing.
  \<^item> \<open>Ops_Service\<close>, \<open>Ops_Properties\<close> (\<open>ops/access.service.ts\<close>, \<open>ops/exception.service.ts\<close>, \<open>ops/liquidity.service.ts\<close>): what
    operators do. The locale \<open>recorded_work\<close> is the contract of an operator's write, interpreted for the four
    of them.

  \<^bold>\<open>Not modelled, and why.\<close> Transactions are modelled one after another: the services take row locks, and
  what the code does about lost races beyond them is outside. Connections, queues, HTTP, storage and user
  interfaces are input and output. The provider adapters are sandbox fixtures. The remaining services
  (reconciliation and returns, preflight runs, quotes and authorization, batch import, receipt issue,
  beneficiaries, webhook delivery) and their tables are not modelled.
\<close>

end
